(* ===== verification/Go_Prelude.thy ===== *)
theory Go_Prelude
  imports Main "HOL-Library.Word" "HOL-Library.Char_ord" "HOL-Library.List_Lexorder"
    "HOL-Library.AList" "HOL-Library.Multiset"
begin

text \<open>
  Shared vocabulary of the development: Go errors as values, loops with early return, Go maps as
  association lists, the byte-level string functions of the Go library that the components call,
  decimal and hexadecimal parsing, and the wrap-around product of 64-bit durations.

  Go strings are byte sequences and \<^typ>\<open>char\<close> is a byte, so lengths, slices, comparison and
  search are the source's own. Case mapping (\<open>ToLower\<close>, \<open>EqualFold\<close>) is modelled on the ASCII
  letters and leaves every byte from 0x80 on alone; \<open>TrimSpace\<close> knows the UTF-8 encodings of the
  non-ASCII white space as well.
\<close>

named_theorems go_simps \<open>unfolding rules for the Go library functions of this theory\<close>
named_theorems loop_rules \<open>rules for loops with an early return\<close>
named_theorems map_rules \<open>lookup laws for association lists used as Go maps\<close>

section \<open>Errors\<close>

text \<open>
  An \<open>error\<close> value. \<open>Errorf f as\<close> is \<open>fmt.Errorf(f, as...)\<close> (or \<open>errors.New\<close>) with its message
  left unrendered: the literal format and the arguments. An argument passed for \<open>%w\<close> is \<open>AWrap\<close>
  and is seen by \<open>errors.Is\<close> and \<open>errors.As\<close>; one passed for \<open>%v\<close> is \<open>AErr\<close> and is not.
  \<open>CodedError\<close> is \<open>orchestrate.EvaluationError\<close> and \<open>environment.ProviderError\<close>.
\<close>

datatype go_error = Sentinel string | Errorf string "go_arg list" | CodedError string go_error
and go_arg = AStr string | AInt int | AErr go_error | AWrap go_error

type_synonym 'a result = "go_error + 'a"

fun errors_is :: "go_error \<Rightarrow> string \<Rightarrow> bool"
and args_is :: "go_arg list \<Rightarrow> string \<Rightarrow> bool" where
  "errors_is (Sentinel s) t = (s = t)"
| "errors_is (Errorf f as) t = args_is as t"
| "errors_is (CodedError c e) t = errors_is e t"
| "args_is [] t = False"
| "args_is (AWrap e # as) t = (errors_is e t \<or> args_is as t)"
| "args_is (AStr _ # as) t = args_is as t"
| "args_is (AInt _ # as) t = args_is as t"
| "args_is (AErr _ # as) t = args_is as t"

fun errors_as :: "go_error \<Rightarrow> (string \<times> go_error) option"
and args_as :: "go_arg list \<Rightarrow> (string \<times> go_error) option" where
  "errors_as (Sentinel s) = None"
| "errors_as (Errorf f as) = args_as as"
| "errors_as (CodedError c e) = Some (c, e)"
| "args_as [] = None"
| "args_as (AWrap e # as) = (case errors_as e of None \<Rightarrow> args_as as | Some ce \<Rightarrow> Some ce)"
| "args_as (AStr _ # as) = args_as as"
| "args_as (AInt _ # as) = args_as as"
| "args_as (AErr _ # as) = args_as as"

abbreviation ErrNotExist :: go_error where "ErrNotExist \<equiv> Sentinel ''os.ErrNotExist''"
abbreviation ErrExist :: go_error where "ErrExist \<equiv> Sentinel ''os.ErrExist''"
abbreviation DeadlineExceeded :: go_error where "DeadlineExceeded \<equiv> Sentinel ''context.DeadlineExceeded''"

text \<open>An \<open>error\<close> printed with \<open>%v\<close> that may be nil.\<close>

definition errArg :: "go_error option \<Rightarrow> go_arg" where
  "errArg err = (case err of None \<Rightarrow> AStr ''<nil>'' | Some e \<Rightarrow> AErr e)"

section \<open>Loops with an early return\<close>

text \<open>
  \<open>for _, x := range xs { if err := ...; err != nil { return err }; s = ... }\<close>: the loop state is
  threaded and the first error leaves the loop.
\<close>

fun foldE :: "('a \<Rightarrow> 's \<Rightarrow> 'e + 's) \<Rightarrow> 'a list \<Rightarrow> 's \<Rightarrow> 'e + 's" where
  "foldE f [] s = Inr s"
| "foldE f (x # xs) s = (case f x s of Inl e \<Rightarrow> Inl e | Inr s' \<Rightarrow> foldE f xs s')"

text \<open>A loop that only checks: the first failing element decides.\<close>

fun checkE :: "('a \<Rightarrow> 'e option) \<Rightarrow> 'a list \<Rightarrow> 'e option" where
  "checkE f [] = None"
| "checkE f (x # xs) = (case f x of Some e \<Rightarrow> Some e | None \<Rightarrow> checkE f xs)"

lemma foldE_append:
  "foldE f (xs @ ys) s = (case foldE f xs s of Inl e \<Rightarrow> Inl e | Inr s' \<Rightarrow> foldE f ys s')"
  by (induction xs arbitrary: s) (auto split: sum.splits)

text \<open>An invariant that mentions the elements already seen holds of the whole list at the end.\<close>

lemma foldE_seen [loop_rules]:
  assumes "foldE f xs s = Inr s'" and "I [] s"
    and "\<And>seen x t t'. x \<in> set xs \<Longrightarrow> set seen \<subseteq> set xs \<Longrightarrow> I seen t \<Longrightarrow> f x t = Inr t' \<Longrightarrow> I (seen @ [x]) t'"
  shows "I xs s'"
proof -
  have "I (seen @ ys) s'" if "set (seen @ ys) \<subseteq> set xs" "I seen t" "foldE f ys t = Inr s'" for seen ys t
    using that
  proof (induction ys arbitrary: seen t)
    case Nil
    then show ?case by simp
  next
    case (Cons y ys)
    then obtain t' where step: "f y t = Inr t'" and rest: "foldE f ys t' = Inr s'"
      by (auto split: sum.splits)
    with Cons.prems assms(3) have "I (seen @ [y]) t'" by simp
    with rest Cons.prems(1) Cons.IH [of "seen @ [y]" t'] show ?case by simp
  qed
  from this [of "[]" xs s] assms(1,2) show ?thesis by simp
qed

lemma foldE_invariant [loop_rules]:
  assumes "foldE f xs s = Inr s'" and "I s"
    and "\<And>x t t'. x \<in> set xs \<Longrightarrow> I t \<Longrightarrow> f x t = Inr t' \<Longrightarrow> I t'"
  shows "I s'"
  using foldE_seen [of f xs s s' "\<lambda>_. I"] assms by blast

lemma checkE_None_iff [simp]: "checkE f xs = None \<longleftrightarrow> (\<forall>x \<in> set xs. f x = None)"
  by (induction xs) (auto split: option.splits)

lemma checkE_SomeD: "checkE f xs = Some e \<Longrightarrow> \<exists>x \<in> set xs. f x = Some e"
  by (induction xs) (auto split: option.splits)

section \<open>Go maps\<close>

text \<open>
  A Go map that the program ranges over is an association list with distinct keys. The list order
  stands for the runtime's iteration order, which Go leaves open: theorems hold for every order.
\<close>

type_synonym ('k, 'v) gomap = "('k \<times> 'v) list"

definition go_map :: "('k, 'v) gomap \<Rightarrow> bool" where
  "go_map m = distinct (map fst m)"

lemma map_of_update [map_rules, simp]: "map_of (AList.update k v m) = (map_of m)(k \<mapsto> v)"
  by (rule update_conv')

lemma map_of_delete [map_rules, simp]: "map_of (AList.delete k m) = (map_of m)(k := None)"
  by (rule delete_conv')

lemma go_map_update [map_rules, intro]: "go_map m \<Longrightarrow> go_map (AList.update k v m)"
  by (simp add: go_map_def distinct_update)

lemma set_update_cases: "(q, w) \<in> set (AList.update k v m) \<Longrightarrow> q = k \<and> w = v \<or> (q, w) \<in> set m"
  by (induction m) (auto split: if_splits)

lemma go_map_delete [map_rules, intro]: "go_map m \<Longrightarrow> go_map (AList.delete k m)"
  by (simp add: go_map_def distinct_delete)

lemma go_map_filter [map_rules, intro]: "go_map m \<Longrightarrow> go_map (filter P m)"
  by (simp add: go_map_def distinct_map_filter)

lemma map_of_filter [map_rules]:
  "go_map m \<Longrightarrow> map_of (filter (\<lambda>(k, v). P k v) m) k =
     (case map_of m k of None \<Rightarrow> None | Some v \<Rightarrow> if P k v then Some v else None)"
  by (induction m) (auto simp: go_map_def map_of_eq_None_iff image_iff split: option.splits)

lemma go_map_mem_iff [map_rules]: "go_map m \<Longrightarrow> (k, v) \<in> set m \<longleftrightarrow> map_of m k = Some v"
  by (auto simp: go_map_def)

lemma find_map_None: "find P (map f xs) = None \<longleftrightarrow> (\<forall>x \<in> set xs. \<not> P (f x))"
  by (induction xs) auto

lemma distinct_map_sort_key [simp]: "distinct (map f (sort_key g xs)) = distinct (map f xs)"
  by (rule mset_eq_imp_distinct_iff) simp

section \<open>Strings\<close>

definition hasPrefix :: "string \<Rightarrow> string \<Rightarrow> bool" where
  "hasPrefix s p = (take (length p) s = p)"

definition hasSuffix :: "string \<Rightarrow> string \<Rightarrow> bool" where
  "hasSuffix s p = (length p \<le> length s \<and> drop (length s - length p) s = p)"

definition trimPrefix :: "string \<Rightarrow> string \<Rightarrow> string" where
  "trimPrefix s p = (if hasPrefix s p then drop (length p) s else s)"

fun contains :: "string \<Rightarrow> string \<Rightarrow> bool" where
  "contains [] p = (p = [])"
| "contains (c # s) p = (hasPrefix (c # s) p \<or> contains s p)"

text \<open>\<open>strings.Cut(s, sep)\<close> for a one-byte separator.\<close>

fun cut :: "string \<Rightarrow> char \<Rightarrow> (string \<times> string) option" where
  "cut [] sep = None"
| "cut (c # s) sep =
     (if c = sep then Some ([], s)
      else case cut s sep of None \<Rightarrow> None | Some (k, v) \<Rightarrow> Some (c # k, v))"

text \<open>\<open>strings.Split(s, sep)\<close> for a one-byte separator.\<close>

fun split_on :: "string \<Rightarrow> char \<Rightarrow> string list" where
  "split_on [] sep = [[]]"
| "split_on (c # s) sep =
     (if c = sep then [] # split_on s sep
      else case split_on s sep of [] \<Rightarrow> [[c]] | p # ps \<Rightarrow> (c # p) # ps)"

fun join :: "string list \<Rightarrow> string \<Rightarrow> string" where
  "join [] sep = []"
| "join [p] sep = p"
| "join (p # q # ps) sep = p @ sep @ join (q # ps) sep"

definition byte :: "char \<Rightarrow> nat" where "byte c = of_char c"

definition lower_char :: "char \<Rightarrow> char" where
  "lower_char c = (if 65 \<le> byte c \<and> byte c \<le> 90 then char_of (byte c + 32) else c)"

definition toLower :: "string \<Rightarrow> string" where
  "toLower s = map lower_char s"

definition equalFold :: "string \<Rightarrow> string \<Rightarrow> bool" where
  "equalFold s t = (toLower s = toLower t)"

text \<open>White space: the ASCII bytes and the UTF-8 encodings of \<open>unicode.IsSpace\<close>'s other runes.\<close>

definition ascii_space :: "char \<Rightarrow> bool" where
  "ascii_space c = (byte c \<in> {9, 10, 11, 12, 13, 32})"

definition wide_space :: "nat list \<Rightarrow> bool" where
  "wide_space bs =
     (bs = [0xC2, 0x85] \<or> bs = [0xC2, 0xA0] \<or> bs = [0xE1, 0x9A, 0x80] \<or> bs = [0xE2, 0x80, 0xA8] \<or>
      bs = [0xE2, 0x80, 0xA9] \<or> bs = [0xE2, 0x80, 0xAF] \<or> bs = [0xE2, 0x81, 0x9F] \<or>
      bs = [0xE3, 0x80, 0x80] \<or>
      (length bs = 3 \<and> take 2 bs = [0xE2, 0x80] \<and> 0x80 \<le> bs ! 2 \<and> bs ! 2 \<le> 0x8A))"

text \<open>The number of bytes of the white-space rune that \<open>s\<close> starts with, 0 when there is none.\<close>

definition space_len :: "string \<Rightarrow> nat" where
  "space_len s =
     (if s \<noteq> [] \<and> ascii_space (hd s) then 1
      else if wide_space (map byte (take 2 s)) then 2
      else if wide_space (map byte (take 3 s)) then 3 else 0)"

lemma space_len_le [simp]: "space_len s \<le> length s"
proof -
  have "length bs = 2 \<or> length bs = 3" if "wide_space bs" for bs
    using that by (auto simp: wide_space_def)
  from this [of "map byte (take 2 s)"] this [of "map byte (take 3 s)"] show ?thesis
    by (cases s) (auto simp: space_len_def min_def split: if_splits)
qed

function trimLeft :: "string \<Rightarrow> string" where
  "trimLeft s = (if space_len s = 0 then s else trimLeft (drop (space_len s) s))"
  by pat_completeness auto
termination
proof (relation "measure length")
  show "(drop (space_len s) s, s) \<in> measure length" if "space_len s \<noteq> 0" for s
    using that space_len_le [of s] by (simp del: space_len_le)
qed simp

definition space_len_end :: "string \<Rightarrow> nat" where
  "space_len_end s =
     (if s \<noteq> [] \<and> ascii_space (last s) then 1
      else if wide_space (map byte (drop (length s - 2) s)) then 2
      else if wide_space (map byte (drop (length s - 3) s)) then 3 else 0)"

function trimRight :: "string \<Rightarrow> string" where
  "trimRight s =
     (if space_len_end s = 0 \<or> s = [] then s else trimRight (take (length s - space_len_end s) s))"
  by pat_completeness auto
termination
  by (relation "measure length") auto

declare trimLeft.simps [simp del] trimRight.simps [simp del]

definition trimSpace :: "string \<Rightarrow> string" where
  "trimSpace s = trimRight (trimLeft s)"

lemma trimLeft_stops: "space_len (trimLeft s) = 0"
  by (induction s rule: trimLeft.induct) (metis trimLeft.simps)

lemma trimRight_stops: "space_len_end (trimRight s) = 0 \<or> trimRight s = []"
  by (induction s rule: trimRight.induct) (metis trimRight.simps)

lemma trimRight_prefix: "\<exists>k. trimRight s = take k s"
proof (induction s rule: trimRight.induct)
  case (1 s)
  show ?case
  proof (cases "space_len_end s = 0 \<or> s = []")
    case True
    then have "trimRight s = take (length s) s" by (subst trimRight.simps) simp
    then show ?thesis ..
  next
    case False
    with 1 obtain k where "trimRight (take (length s - space_len_end s) s) = take k (take (length s - space_len_end s) s)"
      by blast
    with False show ?thesis by (subst trimRight.simps) (auto simp: take_take)
  qed
qed

lemma space_len_take: "space_len s = 0 \<Longrightarrow> space_len (take k s) = 0"
proof -
  assume s: "space_len s = 0"
  have w: "\<not> wide_space bs" if "length bs \<le> 1" for bs using that by (auto simp: wide_space_def)
  have "k = 0 \<or> k = 1 \<or> k = 2 \<or> 3 \<le> k" by arith
  with s show ?thesis
    by (cases s) (auto simp: space_len_def take_Cons' min_def w split: if_splits)
qed

lemma trimSpace_idem [simp]: "trimSpace (trimSpace s) = trimSpace s"
proof -
  obtain k where k: "trimSpace s = take k (trimLeft s)"
    using trimRight_prefix [of "trimLeft s"] by (auto simp: trimSpace_def)
  have "trimLeft (trimSpace s) = trimSpace s"
    using space_len_take [OF trimLeft_stops [of s], of k] k by (subst trimLeft.simps) simp
  moreover have "trimRight (trimSpace s) = trimSpace s"
    using trimRight_stops [of "trimLeft s"] by (subst trimRight.simps) (auto simp: trimSpace_def)
  ultimately show ?thesis by (simp add: trimSpace_def [of "trimSpace s"])
qed

text \<open>A string of printable ASCII bytes other than the space has nothing to trim.\<close>

definition graphic :: "char \<Rightarrow> bool" where
  "graphic c = (33 \<le> byte c \<and> byte c \<le> 126)"

lemma wide_space_high: "wide_space bs \<Longrightarrow> 0xC2 \<le> hd bs \<and> bs \<noteq> []"
  by (cases bs) (auto simp: wide_space_def numeral_2_eq_2)

lemma trimSpace_graphic: "list_all graphic s \<Longrightarrow> trimSpace s = s"
proof -
  assume g: "list_all graphic s"
  then have low: "byte c < 0xC2" "\<not> ascii_space c" if "c \<in> set s" for c
    using that by (auto simp: list_all_iff graphic_def ascii_space_def)
  have not_wide: "\<not> wide_space (map byte t)" if "set t \<subseteq> set s" for t
    using wide_space_high [of "map byte t"] low(1) [of "hd t"] that by (cases t) auto
  have "space_len s = 0"
    using not_wide [of "take 2 s"] not_wide [of "take 3 s"] low(2) [of "hd s"]
    by (auto simp: space_len_def dest: in_set_takeD)
  moreover have "space_len_end s = 0"
    using not_wide [of "drop (length s - 2) s"] not_wide [of "drop (length s - 3) s"] low(2) [of "last s"]
    by (auto simp: space_len_end_def dest: in_set_dropD)
  ultimately show ?thesis by (simp add: trimSpace_def trimLeft.simps trimRight.simps)
qed

lemma cut_append: "sep \<notin> set k \<Longrightarrow> cut (k @ sep # v) sep = Some (k, v)"
  by (induction k) auto

lemma cut_None: "cut s sep = None \<longleftrightarrow> sep \<notin> set s"
  by (induction s) (auto split: option.splits)

lemma cut_SomeD: "cut s sep = Some (k, v) \<Longrightarrow> s = k @ sep # v \<and> sep \<notin> set k"
  by (induction s arbitrary: k) (auto split: option.splits if_splits)

text \<open>\<open>strings.Fields\<close>.\<close>

function fields_from :: "string \<Rightarrow> string \<Rightarrow> string list" where
  "fields_from acc [] = (if acc = [] then [] else [acc])"
| "fields_from acc (c # s) =
     (if space_len (c # s) = 0 then fields_from (acc @ [c]) s
      else (if acc = [] then [] else [acc]) @ fields_from [] (drop (space_len (c # s)) (c # s)))"
  by pat_completeness auto
termination
  by (relation "measure (length \<circ> snd)") auto

definition strings_Fields :: "string \<Rightarrow> string list" where
  "strings_Fields s = fields_from [] s"

definition trimSuffix :: "string \<Rightarrow> string \<Rightarrow> string" where
  "trimSuffix s p = (if hasSuffix s p then take (length s - length p) s else s)"

definition upper_char :: "char \<Rightarrow> char" where
  "upper_char c = (if 97 \<le> byte c \<and> byte c \<le> 122 then char_of (byte c - 32) else c)"

definition toUpper :: "string \<Rightarrow> string" where
  "toUpper s = map upper_char s"

section \<open>Numbers\<close>

definition is_digit :: "char \<Rightarrow> bool" where
  "is_digit c = (48 \<le> byte c \<and> byte c \<le> 57)"

fun digits_val :: "nat \<Rightarrow> string \<Rightarrow> nat option" where
  "digits_val a [] = Some a"
| "digits_val a (c # cs) = (if is_digit c then digits_val (10 * a + (byte c - 48)) cs else None)"

text \<open>\<open>strconv.Atoi\<close> on a 64-bit platform: an optional sign, decimal digits, range error beyond int64.\<close>

definition atoi :: "string \<Rightarrow> int option" where
  "atoi s =
     (let neg = (s \<noteq> [] \<and> hd s = CHR ''-'');
          ds = (if s \<noteq> [] \<and> (hd s = CHR ''-'' \<or> hd s = CHR ''+'') then tl s else s)
      in if ds = [] then None
         else case digits_val 0 ds of
           None \<Rightarrow> None
         | Some n \<Rightarrow> let v = (if neg then - int n else int n)
                     in if - (2 ^ 63) \<le> v \<and> v < 2 ^ 63 then Some v else None)"

lemma atoi_range: "atoi s = Some v \<Longrightarrow> - (2 ^ 63) \<le> v \<and> v < 2 ^ 63"
  by (auto simp: atoi_def Let_def split: option.splits if_splits)

definition is_hex :: "char \<Rightarrow> bool" where
  "is_hex c = (is_digit c \<or> 97 \<le> byte c \<and> byte c \<le> 102 \<or> 65 \<le> byte c \<and> byte c \<le> 70)"

definition hex_val :: "char \<Rightarrow> nat" where
  "hex_val c = (if is_digit c then byte c - 48 else if 97 \<le> byte c then byte c - 87 else byte c - 55)"

text \<open>\<open>hex.DecodeString\<close>: \<open>None\<close> on an odd length or a byte that is no hexadecimal digit.\<close>

fun hexDecode :: "string \<Rightarrow> nat list option" where
  "hexDecode [] = Some []"
| "hexDecode [c] = None"
| "hexDecode (c # d # s) =
     (if is_hex c \<and> is_hex d then map_option ((#) (16 * hex_val c + hex_val d)) (hexDecode s) else None)"

definition hex_digit :: "nat \<Rightarrow> char" where
  "hex_digit n = ''0123456789abcdef'' ! n"

text \<open>\<open>hex.EncodeToString\<close>.\<close>

fun hexEncode :: "nat list \<Rightarrow> string" where
  "hexEncode [] = []"
| "hexEncode (b # bs) = hex_digit (b div 16) # hex_digit (b mod 16) # hexEncode bs"

lemma hexDecode_Some_iff:
  "(\<exists>bs. hexDecode s = Some bs) \<longleftrightarrow> even (length s) \<and> (\<forall>c \<in> set s. is_hex c)"
  by (induction s rule: hexDecode.induct) auto

lemma hexDecode_length: "hexDecode s = Some bs \<Longrightarrow> length s = 2 * length bs"
  by (induction s arbitrary: bs rule: hexDecode.induct) (auto split: if_splits)

lemma hex_digit_all:
  "\<forall>n \<in> set [0..<16]. is_hex (hex_digit n) \<and> hex_val (hex_digit n) = n \<and> lower_char (hex_digit n) = hex_digit n"
  by code_simp

lemma hex_digit_props:
  assumes "n < 16"
  shows "is_hex (hex_digit n)" and "hex_val (hex_digit n) = n" and "lower_char (hex_digit n) = hex_digit n"
  using assms hex_digit_all by auto

lemma hex_roundtrip: "(\<forall>b \<in> set bs. b < 256) \<Longrightarrow> hexDecode (hexEncode bs) = Some bs"
  by (induction bs) (auto simp: hex_digit_props)

lemma length_hexEncode [simp]: "length (hexEncode bs) = 2 * length bs"
  by (induction bs) auto

text \<open>\<open>strconv.Itoa\<close> and \<open>%d\<close> of a number that is not negative.\<close>

fun decimal :: "nat \<Rightarrow> string" where
  "decimal n = (if n < 10 then [hex_digit n] else decimal (n div 10) @ [hex_digit (n mod 10)])"

declare decimal.simps [simp del]

text \<open>\<open>%d\<close> of an int.\<close>

definition itoa :: "int \<Rightarrow> string" where
  "itoa n = (if n < 0 then CHR ''-'' # decimal (nat (- n)) else decimal (nat n))"

lemma digits_val_append:
  "digits_val a (s @ t) = (case digits_val a s of None \<Rightarrow> None | Some b \<Rightarrow> digits_val b t)"
  by (induction a s rule: digits_val.induct) auto

lemma hex_digit_decimal: "n < 10 \<Longrightarrow> is_digit (hex_digit n) \<and> byte (hex_digit n) = 48 + n"
proof -
  have "\<forall>k \<in> set [0..<10]. is_digit (hex_digit k) \<and> byte (hex_digit k) = 48 + k" by code_simp
  then show "n < 10 \<Longrightarrow> is_digit (hex_digit n) \<and> byte (hex_digit n) = 48 + n" by simp
qed

lemma decimal_nonempty [simp]: "decimal n \<noteq> []"
  by (subst decimal.simps) simp

lemma decimal_digits: "list_all is_digit (decimal n)"
  by (induction n rule: decimal.induct) (subst decimal.simps, auto simp: hex_digit_decimal)

lemma digits_val_decimal [simp]: "digits_val 0 (decimal n) = Some n"
proof (induction n rule: decimal.induct)
  case (1 n)
  then show ?case
    by (subst decimal.simps) (auto simp: digits_val_append hex_digit_decimal)
qed

lemma decimal_inject: "decimal m = decimal n \<longleftrightarrow> m = n"
  by (metis digits_val_decimal option.inject)

section \<open>64-bit integers\<close>

text \<open>\<open>int64\<close> and \<open>time.Duration\<close> (nanoseconds): two's complement words, read by \<^const>\<open>sint\<close>.\<close>

type_synonym int64 = "64 word"
type_synonym duration = int64
type_synonym time = int \<comment> \<open>a \<open>time.Time\<close> as nanoseconds since the epoch\<close>

text \<open>\<open>time.Time{}\<close>, the first of January of the year 1, and \<open>IsZero\<close>.\<close>

definition zero_time :: time where "zero_time = - 62135596800 * 1000000000"

definition IsZero :: "time \<Rightarrow> bool" where "IsZero t \<longleftrightarrow> t = zero_time"

definition millisecond :: duration where "millisecond = 1000000"

text \<open>\<open>time.Duration(ms) * time.Millisecond\<close>: the product wraps modulo 2 ^ 64.\<close>

definition millis :: "int64 \<Rightarrow> duration" where "millis ms = ms * millisecond"

lemmas string_defs [go_simps] =
  hasPrefix_def hasSuffix_def trimPrefix_def toLower_def equalFold_def lower_char_def byte_def
  ascii_space_def wide_space_def space_len_def space_len_end_def trimSpace_def
  trimLeft.simps trimRight.simps is_digit_def is_hex_def hex_val_def atoi_def

lemma toLower_idem [simp]: "toLower (toLower s) = toLower s"
proof -
  have "lower_char (lower_char c) = lower_char c" for c
    by (auto simp: lower_char_def byte_def)
  then show ?thesis by (simp add: toLower_def)
qed

lemma length_toLower [simp]: "length (toLower s) = length s"
  by (simp add: toLower_def)

lemma equalFold_refl [simp]: "equalFold s s"
  by (simp add: equalFold_def)

lemma join_Cons: "ps \<noteq> [] \<Longrightarrow> join (p # ps) sep = p @ sep @ join ps sep"
  by (cases ps) auto

lemma hasPrefix_append [simp]: "hasPrefix (p @ s) p"
  by (simp add: hasPrefix_def)

lemma hasPrefixD: "hasPrefix s p \<Longrightarrow> s = p @ drop (length p) s"
  by (metis append_take_drop_id hasPrefix_def)

end
