(* ===== verification/Go_Path.thy ===== *)
theory Go_Path
  imports Go_Prelude
begin

text \<open>
  The functions of \<open>path/filepath\<close> that the program calls, on a Unix host: lexical cleaning, parent,
  base name and joining. Cleaning is written as the fold over slash-separated components that the
  library's buffer loop performs; the rules are those of its documentation.
\<close>

section \<open>Definitions\<close>

definition isAbs :: "string \<Rightarrow> bool" where
  "isAbs p = (p \<noteq> [] \<and> hd p = CHR ''/'')"

text \<open>One component: the output is kept in reverse.\<close>

definition clean_step :: "bool \<Rightarrow> string \<Rightarrow> string list \<Rightarrow> string list" where
  "clean_step rooted c out =
     (if c = [] \<or> c = ''.'' then out
      else if c = ''..''
      then case out of
          [] \<Rightarrow> if rooted then [] else [''..'']
        | t # rest \<Rightarrow> if \<not> rooted \<and> t = ''..'' then ''..'' # out else rest
      else c # out)"

definition clean_parts :: "bool \<Rightarrow> string \<Rightarrow> string list" where
  "clean_parts rooted p = rev (fold (clean_step rooted) (split_on p (CHR ''/'')) [])"

definition clean :: "string \<Rightarrow> string" where
  "clean p =
     (if p = [] then ''.''
      else if isAbs p then CHR ''/'' # join (clean_parts True p) ''/''
      else if clean_parts False p = [] then ''.''
      else join (clean_parts False p) ''/'')"

text \<open>Everything up to and including the last slash.\<close>

definition through_last_slash :: "string \<Rightarrow> string" where
  "through_last_slash p = rev (dropWhile (\<lambda>c. c \<noteq> CHR ''/'') (rev p))"

definition dir :: "string \<Rightarrow> string" where
  "dir p = clean (through_last_slash p)"

definition base :: "string \<Rightarrow> string" where
  "base p =
     (if p = [] then ''.''
      else let q = rev (dropWhile (\<lambda>c. c = CHR ''/'') (rev p)) in
        if q = [] then ''/'' else rev (takeWhile (\<lambda>c. c \<noteq> CHR ''/'') (rev q)))"

text \<open>\<open>filepath.Join\<close>: leading empty elements are skipped, the rest is joined and cleaned.\<close>

definition path_join :: "string list \<Rightarrow> string" where
  "path_join elems =
     (let es = dropWhile (\<lambda>e. e = []) elems in if es = [] then [] else clean (join es ''/''))"

section \<open>Splitting and joining\<close>

lemma split_on_nonempty [simp]: "split_on s sep \<noteq> []"
  by (induction s) (auto split: list.splits)

lemma split_on_no_sep: "p \<in> set (split_on s sep) \<Longrightarrow> sep \<notin> set p"
  by (induction s arbitrary: p) (auto split: list.splits if_splits)

lemma join_ConsC: "ps \<noteq> [] \<Longrightarrow> join (p # ps) [sep] = p @ sep # join ps [sep]"
  by (cases ps) auto

lemma join_split: "join (split_on s sep) [sep] = s"
proof (induction s)
  case (Cons c s)
  then show ?case by (cases "split_on s sep"; cases "tl (split_on s sep)") (auto simp: join_ConsC)
qed simp

lemma split_on_append: "sep \<notin> set p \<Longrightarrow> split_on (p @ sep # s) sep = p # split_on s sep"
  by (induction p) auto

lemma split_on_single: "sep \<notin> set p \<Longrightarrow> split_on p sep = [p]"
  by (induction p) auto

lemma split_join: "ps \<noteq> [] \<Longrightarrow> \<forall>p \<in> set ps. sep \<notin> set p \<Longrightarrow> split_on (join ps [sep]) sep = ps"
proof (induction ps)
  case (Cons p ps)
  then show ?case
    by (cases "ps = []") (auto simp: split_on_single join_ConsC split_on_append)
qed simp

section \<open>Clean paths\<close>

text \<open>A component that cleaning keeps in place.\<close>

definition proper :: "string \<Rightarrow> bool" where
  "proper c \<longleftrightarrow> c \<noteq> [] \<and> c \<noteq> ''.'' \<and> c \<noteq> ''..'' \<and> CHR ''/'' \<notin> set c"

definition abs_path :: "string list \<Rightarrow> string" where
  "abs_path cs = CHR ''/'' # join cs ''/''"

lemma clean_step_proper: "proper c \<Longrightarrow> clean_step rooted c out = c # out"
  by (simp add: clean_step_def proper_def)

lemma fold_clean_proper: "\<forall>c \<in> set cs. proper c \<Longrightarrow> fold (clean_step rooted) cs out = rev cs @ out"
  by (induction cs arbitrary: out) (auto simp: clean_step_proper)

lemma clean_step_rooted: "list_all proper out \<Longrightarrow> CHR ''/'' \<notin> set c \<Longrightarrow> list_all proper (clean_step True c out)"
  by (cases out) (simp_all add: clean_step_def proper_def)

lemma clean_parts_rooted: "\<forall>c \<in> set (clean_parts True p). proper c"
proof -
  have "list_all proper (fold (clean_step True) cs out)"
    if "\<forall>c \<in> set cs. CHR ''/'' \<notin> set c" "list_all proper out" for cs out
    using that by (induction cs arbitrary: out) (auto simp: clean_step_rooted)
  from this [of "split_on p (CHR ''/'')" "[]"] show ?thesis
    using split_on_no_sep [of _ p "CHR ''/''"] by (auto simp: clean_parts_def list_all_iff)
qed

lemma clean_parts_abs_path: "\<forall>c \<in> set cs. proper c \<Longrightarrow> clean_parts True (abs_path cs) = cs"
proof (cases "cs = []")
  case False
  assume p: "\<forall>c \<in> set cs. proper c"
  then have "split_on (abs_path cs) (CHR ''/'') = [] # cs"
    using False split_join [of cs "CHR ''/''"] by (simp add: abs_path_def proper_def)
  then show ?thesis using fold_clean_proper [OF p] by (simp add: clean_parts_def clean_step_def)
qed (simp add: clean_parts_def abs_path_def clean_step_def)

lemma clean_abs_path: "\<forall>c \<in> set cs. proper c \<Longrightarrow> clean (abs_path cs) = abs_path cs"
  using clean_parts_abs_path [of cs] by (simp add: clean_def isAbs_def abs_path_def)

lemma clean_rooted: "isAbs p \<Longrightarrow> \<exists>cs. (\<forall>c \<in> set cs. proper c) \<and> clean p = abs_path cs"
  using clean_parts_rooted [of p] by (auto simp: clean_def isAbs_def abs_path_def)

text \<open>An absolute path is clean exactly when it is a list of proper components.\<close>

lemma clean_fixed_iff: "isAbs p \<Longrightarrow> clean p = p \<longleftrightarrow> (\<exists>cs. (\<forall>c \<in> set cs. proper c) \<and> p = abs_path cs)"
  using clean_rooted clean_abs_path by metis

lemma clean_idem_abs: "isAbs p \<Longrightarrow> clean (clean p) = clean p"
  using clean_rooted clean_abs_path by metis

lemma dropWhile_rev_noslash: "CHR ''/'' \<notin> set c \<Longrightarrow> dropWhile (\<lambda>x. x \<noteq> CHR ''/'') (rev c @ CHR ''/'' # s) = CHR ''/'' # s"
  by (subst dropWhile_append2) auto

lemma join_snoc: "ps \<noteq> [] \<Longrightarrow> join (ps @ [p]) [sep] = join ps [sep] @ sep # p"
proof (induction ps)
  case (Cons q ps)
  then show ?case by (cases "ps = []") (auto simp: join_ConsC)
qed simp

lemma dir_abs_path:
  assumes "\<forall>c \<in> set (cs @ [c]). proper c"
  shows "dir (abs_path (cs @ [c])) = abs_path cs"
proof -
  have c: "CHR ''/'' \<notin> set c" using assms by (simp add: proper_def)
  have "through_last_slash (abs_path (cs @ [c])) = (if cs = [] then ''/'' else abs_path cs @ ''/'')"
    using dropWhile_rev_noslash [OF c]
    by (auto simp: through_last_slash_def abs_path_def join_snoc)
  moreover have "clean (abs_path cs @ ''/'') = abs_path cs" if "cs \<noteq> []"
  proof -
    have slash: "abs_path cs @ ''/'' = CHR ''/'' # join (cs @ [[]]) ''/''"
      using that by (simp add: abs_path_def join_snoc)
    have "split_on (join (cs @ [[]]) ''/'') (CHR ''/'') = cs @ [[]]"
      using assms by (intro split_join) (auto simp: proper_def)
    then have "split_on (abs_path cs @ ''/'') (CHR ''/'') = [] # cs @ [[]]" by (simp add: slash)
    then show ?thesis
      using assms by (simp add: clean_def isAbs_def abs_path_def clean_parts_def fold_clean_proper clean_step_def)
  qed
  moreover have "clean ''/'' = abs_path []" by code_simp
  ultimately show ?thesis by (auto simp: dir_def abs_path_def)
qed

lemma dir_root: "dir (abs_path []) = abs_path []"
  by code_simp

lemma dir_abs_path_butlast: "cs \<noteq> [] \<Longrightarrow> \<forall>c \<in> set cs. proper c \<Longrightarrow> dir (abs_path cs) = abs_path (butlast cs)"
  using dir_abs_path [of "butlast cs" "last cs"] by (simp del: append_butlast_last_id add: append_butlast_last_id)

lemma abs_path_inject:
  assumes "\<forall>c \<in> set cs. proper c" and "\<forall>c \<in> set ds. proper c" and "abs_path cs = abs_path ds"
  shows "cs = ds"
  using clean_parts_abs_path assms by metis

lemma join_abs_path:
  assumes "\<forall>c \<in> set cs. proper c" and "proper c"
  shows "path_join [abs_path cs, c] = abs_path (cs @ [c])"
proof -
  have ne: "abs_path cs \<noteq> []" by (simp add: abs_path_def)
  have "split_on (abs_path cs @ CHR ''/'' # c) (CHR ''/'') = (if cs = [] then [[], [], c] else [] # cs @ [c])"
  proof (cases "cs = []")
    case False
    then have "abs_path cs @ CHR ''/'' # c = CHR ''/'' # join (cs @ [c]) ''/''"
      by (simp add: abs_path_def join_snoc)
    moreover have "split_on (join (cs @ [c]) ''/'') (CHR ''/'') = cs @ [c]"
      using assms by (intro split_join) (auto simp: proper_def)
    ultimately show ?thesis using False by simp
  qed (use assms in \<open>simp add: abs_path_def split_on_single proper_def\<close>)
  then have "clean_parts True (abs_path cs @ CHR ''/'' # c) = cs @ [c]"
    using assms by (auto simp: clean_parts_def fold_clean_proper clean_step_proper clean_step_def [of _ "[]"])
  moreover have "clean (abs_path cs @ CHR ''/'' # c) = CHR ''/'' # join (clean_parts True (abs_path cs @ CHR ''/'' # c)) ''/''"
    by (simp add: clean_def isAbs_def abs_path_def)
  ultimately show ?thesis using ne by (simp add: path_join_def abs_path_def)
qed

end
