(* ===== verification/Error_Codes.thy ===== *)
theory Error_Codes
  imports Go_Prelude
begin

text \<open>
  The stable evaluation error codes and the process exit classes they map to
  (\<open>pkg/orchestrate/error_codes.go\<close>), and the coded error value \<open>EvaluationError\<close>.
\<close>

section \<open>Codes\<close>

definition CodeActionFailed :: string where "CodeActionFailed = ''action_failed''"
definition CodeActionTimeout :: string where "CodeActionTimeout = ''action_timeout''"
definition CodeAdapterUnconfigured :: string where "CodeAdapterUnconfigured = ''adapter_unconfigured''"
definition CodeAmbiguousJobOutput :: string where "CodeAmbiguousJobOutput = ''ambiguous_job_output''"
definition CodeCleanupFailed :: string where "CodeCleanupFailed = ''cleanup_failed''"
definition CodeEvaluationFailed :: string where "CodeEvaluationFailed = ''evaluation_failed''"
definition CodeFallbackRejected :: string where "CodeFallbackRejected = ''fallback_rejected''"
definition CodeGPUBindingRejected :: string where "CodeGPUBindingRejected = ''gpu_binding_rejected''"
definition CodeInspectionFailed :: string where "CodeInspectionFailed = ''inspection_failed''"
definition CodeInspectionMismatch :: string where "CodeInspectionMismatch = ''inspection_mismatch''"
definition CodeInvalidEngineToken :: string where "CodeInvalidEngineToken = ''invalid_engine_token''"
definition CodeInvalidLimits :: string where "CodeInvalidLimits = ''invalid_limits''"
definition CodeInvalidManifestDigest :: string where "CodeInvalidManifestDigest = ''invalid_manifest_digest''"
definition CodeInvalidOutputRoot :: string where "CodeInvalidOutputRoot = ''invalid_output_root''"
definition CodeInvalidPodmanPipe :: string where "CodeInvalidPodmanPipe = ''invalid_podman_pipe''"
definition CodeInvalidRequest :: string where "CodeInvalidRequest = ''invalid_request''"
definition CodeInvalidReservationPath :: string where "CodeInvalidReservationPath = ''invalid_reservation_path''"
definition CodeInventoryMismatch :: string where "CodeInventoryMismatch = ''inventory_mismatch''"
definition CodeInventoryUnavailable :: string where "CodeInventoryUnavailable = ''inventory_unavailable''"
definition CodeJobLockMismatch :: string where "CodeJobLockMismatch = ''job_lock_mismatch''"
definition CodeOutputLockFailed :: string where "CodeOutputLockFailed = ''output_lock_failed''"
definition CodeOutputRootCleanupFailed :: string where "CodeOutputRootCleanupFailed = ''output_root_cleanup_failed''"
definition CodeOutputRootCollision :: string where "CodeOutputRootCollision = ''output_root_collision''"
definition CodeOutputRootCreateFailed :: string where "CodeOutputRootCreateFailed = ''output_root_create_failed''"
definition CodeOutputRootSpaceFailed :: string where "CodeOutputRootSpaceFailed = ''output_root_space_failed''"
definition CodeOutputSnapshotFailed :: string where "CodeOutputSnapshotFailed = ''output_snapshot_failed''"
definition CodeOutputTruncated :: string where "CodeOutputTruncated = ''output_truncated''"
definition CodeProviderRejected :: string where "CodeProviderRejected = ''provider_rejected''"
definition CodeReservationFailed :: string where "CodeReservationFailed = ''reservation_failed''"
definition CodeToolkitAmbiguous :: string where "CodeToolkitAmbiguous = ''toolkit_ambiguous''"
definition CodeToolkitInspectionTO :: string where "CodeToolkitInspectionTO = ''toolkit_inspection_timeout''"
definition CodeToolkitNotFound :: string where "CodeToolkitNotFound = ''toolkit_not_found''"
definition CodeToolkitRejected :: string where "CodeToolkitRejected = ''toolkit_rejected''"
definition CodeToolkitVersionMismatch :: string where "CodeToolkitVersionMismatch = ''toolkit_version_mismatch''"

lemmas code_names [go_simps] =
  CodeActionFailed_def CodeActionTimeout_def CodeAdapterUnconfigured_def CodeAmbiguousJobOutput_def
  CodeCleanupFailed_def CodeEvaluationFailed_def CodeFallbackRejected_def
  CodeGPUBindingRejected_def CodeInspectionFailed_def CodeInspectionMismatch_def
  CodeInvalidEngineToken_def CodeInvalidLimits_def CodeInvalidManifestDigest_def
  CodeInvalidOutputRoot_def CodeInvalidPodmanPipe_def CodeInvalidRequest_def
  CodeInvalidReservationPath_def CodeInventoryMismatch_def CodeInventoryUnavailable_def
  CodeJobLockMismatch_def CodeOutputLockFailed_def CodeOutputRootCleanupFailed_def
  CodeOutputRootCollision_def CodeOutputRootCreateFailed_def CodeOutputRootSpaceFailed_def
  CodeOutputSnapshotFailed_def CodeOutputTruncated_def CodeProviderRejected_def
  CodeReservationFailed_def CodeToolkitAmbiguous_def CodeToolkitInspectionTO_def
  CodeToolkitNotFound_def CodeToolkitRejected_def CodeToolkitVersionMismatch_def

definition AllEvaluationErrorCodes :: "string list" where
  "AllEvaluationErrorCodes =
     [CodeActionFailed, CodeActionTimeout, CodeAdapterUnconfigured, CodeAmbiguousJobOutput,
      CodeCleanupFailed, CodeEvaluationFailed, CodeFallbackRejected, CodeGPUBindingRejected,
      CodeInspectionFailed, CodeInspectionMismatch, CodeInvalidEngineToken, CodeInvalidLimits,
      CodeInvalidManifestDigest, CodeInvalidOutputRoot, CodeInvalidPodmanPipe, CodeInvalidRequest,
      CodeInvalidReservationPath, CodeInventoryMismatch, CodeInventoryUnavailable, CodeJobLockMismatch,
      CodeOutputLockFailed, CodeOutputRootCleanupFailed, CodeOutputRootCollision, CodeOutputRootCreateFailed,
      CodeOutputRootSpaceFailed, CodeOutputSnapshotFailed, CodeOutputTruncated, CodeProviderRejected,
      CodeReservationFailed, CodeToolkitAmbiguous, CodeToolkitInspectionTO, CodeToolkitNotFound,
      CodeToolkitRejected, CodeToolkitVersionMismatch]"

definition ExitOK :: int where "ExitOK = 0"
definition ExitUsage :: int where "ExitUsage = 2"
definition ExitInvalidJSON :: int where "ExitInvalidJSON = 3"
definition ExitInvalidRequest :: int where "ExitInvalidRequest = 4"
definition ExitEncodeFailure :: int where "ExitEncodeFailure = 5"
definition ExitContention :: int where "ExitContention = 6"
definition ExitHostProbe :: int where "ExitHostProbe = 7"
definition ExitActionRuntime :: int where "ExitActionRuntime = 8"
definition ExitEvidence :: int where "ExitEvidence = 9"

lemmas exit_classes [go_simps] = ExitOK_def ExitUsage_def ExitInvalidJSON_def ExitInvalidRequest_def
  ExitEncodeFailure_def ExitContention_def ExitHostProbe_def ExitActionRuntime_def ExitEvidence_def

definition ProcessExitFor :: "string \<Rightarrow> int" where
  "ProcessExitFor code =
     (if code \<in> set [CodeInvalidRequest, CodeInvalidOutputRoot, CodeInvalidReservationPath,
           CodeInvalidLimits, CodeInvalidManifestDigest, CodeInvalidEngineToken,
           CodeInvalidPodmanPipe, CodeAdapterUnconfigured, CodeProviderRejected,
           CodeFallbackRejected, CodeGPUBindingRejected] then ExitInvalidRequest
      else if code \<in> set [CodeReservationFailed, CodeOutputLockFailed] then ExitContention
      else if code \<in> set [CodeInventoryUnavailable, CodeInventoryMismatch, CodeInspectionFailed,
           CodeInspectionMismatch, CodeToolkitRejected, CodeToolkitNotFound,
           CodeToolkitAmbiguous, CodeToolkitVersionMismatch, CodeToolkitInspectionTO] then ExitHostProbe
      else if code \<in> set [CodeActionFailed, CodeActionTimeout, CodeOutputTruncated] then ExitActionRuntime
      else if code \<in> set [CodeCleanupFailed, CodeOutputRootCleanupFailed, CodeAmbiguousJobOutput,
           CodeJobLockMismatch, CodeOutputSnapshotFailed, CodeOutputRootCreateFailed,
           CodeOutputRootCollision, CodeOutputRootSpaceFailed] then ExitEvidence
      else ExitInvalidRequest)"

text \<open>\<open>evaluationError(code, format, values...)\<close>.\<close>

definition evaluationError :: "string \<Rightarrow> string \<Rightarrow> go_arg list \<Rightarrow> go_error" where
  "evaluationError code format values = CodedError code (Errorf format values)"

lemma errors_as_evaluationError [simp]: "errors_as (evaluationError c f vs) = Some (c, Errorf f vs)"
  by (simp add: evaluationError_def)

section \<open>The documented contract\<close>

text \<open>
  The exit table of \<open>EVALUATION.md\<close>, by the names it uses: a prefix (written with a star there) or a
  full code, in the order contention, action runtime, host probe, evidence; everything else is a
  rejected request.
\<close>

definition documented_exit :: "string \<Rightarrow> int" where
  "documented_exit code =
     (if code = ''reservation_failed'' \<or> code = ''output_lock_failed'' then 6
      else if code = ''action_failed'' \<or> code = ''action_timeout'' \<or> code = ''output_truncated'' then 8
      else if hasPrefix code ''inventory_'' \<or> hasPrefix code ''toolkit_'' \<or> hasPrefix code ''inspection_'' then 7
      else if code = ''cleanup_failed'' \<or> code = ''job_lock_mismatch'' \<or> hasPrefix code ''output_root_'' \<or>
        code = ''ambiguous_job_output'' \<or> code = ''output_snapshot_failed'' then 9
      else 4)"

text \<open>
  The exit classes keep the documented contract: every code of the catalog exits with the class
  that the table of \<open>EVALUATION.md\<close> gives it, the catalog lists no code twice, and no code whatsoever is
  mapped to success, usage, JSON or encoding failures.
\<close>

lemma ProcessExitFor_documented:
  "(\<forall>code \<in> set AllEvaluationErrorCodes. ProcessExitFor code = documented_exit code) \<and>
   distinct AllEvaluationErrorCodes \<and>
   ProcessExitFor any \<in> {ExitInvalidRequest, ExitContention, ExitHostProbe, ExitActionRuntime, ExitEvidence}"
proof -
  have "\<forall>code \<in> set AllEvaluationErrorCodes. ProcessExitFor code = documented_exit code"
    and "distinct AllEvaluationErrorCodes"
    by code_simp+
  then show ?thesis by (simp add: ProcessExitFor_def)
qed

text \<open>Every code is in the catalog, and the empty string, which stands for no error, is not.\<close>

lemma catalog_members [simp]:
  "CodeActionFailed \<in> set AllEvaluationErrorCodes"
  "CodeActionTimeout \<in> set AllEvaluationErrorCodes"
  "CodeAdapterUnconfigured \<in> set AllEvaluationErrorCodes"
  "CodeAmbiguousJobOutput \<in> set AllEvaluationErrorCodes"
  "CodeCleanupFailed \<in> set AllEvaluationErrorCodes"
  "CodeEvaluationFailed \<in> set AllEvaluationErrorCodes"
  "CodeFallbackRejected \<in> set AllEvaluationErrorCodes"
  "CodeGPUBindingRejected \<in> set AllEvaluationErrorCodes"
  "CodeInspectionFailed \<in> set AllEvaluationErrorCodes"
  "CodeInspectionMismatch \<in> set AllEvaluationErrorCodes"
  "CodeInvalidEngineToken \<in> set AllEvaluationErrorCodes"
  "CodeInvalidLimits \<in> set AllEvaluationErrorCodes"
  "CodeInvalidManifestDigest \<in> set AllEvaluationErrorCodes"
  "CodeInvalidOutputRoot \<in> set AllEvaluationErrorCodes"
  "CodeInvalidPodmanPipe \<in> set AllEvaluationErrorCodes"
  "CodeInvalidRequest \<in> set AllEvaluationErrorCodes"
  "CodeInvalidReservationPath \<in> set AllEvaluationErrorCodes"
  "CodeInventoryMismatch \<in> set AllEvaluationErrorCodes"
  "CodeInventoryUnavailable \<in> set AllEvaluationErrorCodes"
  "CodeJobLockMismatch \<in> set AllEvaluationErrorCodes"
  "CodeOutputLockFailed \<in> set AllEvaluationErrorCodes"
  "CodeOutputRootCleanupFailed \<in> set AllEvaluationErrorCodes"
  "CodeOutputRootCollision \<in> set AllEvaluationErrorCodes"
  "CodeOutputRootCreateFailed \<in> set AllEvaluationErrorCodes"
  "CodeOutputRootSpaceFailed \<in> set AllEvaluationErrorCodes"
  "CodeOutputSnapshotFailed \<in> set AllEvaluationErrorCodes"
  "CodeOutputTruncated \<in> set AllEvaluationErrorCodes"
  "CodeProviderRejected \<in> set AllEvaluationErrorCodes"
  "CodeReservationFailed \<in> set AllEvaluationErrorCodes"
  "CodeToolkitAmbiguous \<in> set AllEvaluationErrorCodes"
  "CodeToolkitInspectionTO \<in> set AllEvaluationErrorCodes"
  "CodeToolkitNotFound \<in> set AllEvaluationErrorCodes"
  "CodeToolkitRejected \<in> set AllEvaluationErrorCodes"
  "CodeToolkitVersionMismatch \<in> set AllEvaluationErrorCodes"
  by (simp_all add: AllEvaluationErrorCodes_def)

lemma catalog_nonempty [simp]: "[] \<notin> set AllEvaluationErrorCodes"
  by code_simp

text \<open>An error whose code, if it carries one, is in the catalog.\<close>

definition code_ok :: "go_error \<Rightarrow> bool" where
  "code_ok e = (case errors_as e of None \<Rightarrow> True | Some (c, _) \<Rightarrow> c \<in> set AllEvaluationErrorCodes)"

lemma code_ok_evaluationError [simp]: "code_ok (evaluationError c f vs) \<longleftrightarrow> c \<in> set AllEvaluationErrorCodes"
  by (simp add: code_ok_def)

end
