(* ===== verification/Gpu_Contracts.thy ===== *)
theory Gpu_Contracts
  imports Go_Prelude "HOL-Library.Product_Lexorder"
begin

text \<open>
  The GPU contracts of \<open>pkg/gpu/contracts.go\<close>: canonical NVIDIA UUIDs, reconciliation of scoped
  inventories by UUID, CUDA compatibility gates, and the canonical form of a resource manifest.
\<close>

section \<open>Canonical UUIDs\<close>

type_synonym UUID = string

text \<open>
  The groups of \<open>nvidiaUUIDPattern\<close>: hexadecimal runs of fixed length separated by \<open>-\<close>, up to the
  end of the text (Go's \<open>$\<close> without the \<open>m\<close> flag).
\<close>

fun match_groups :: "nat list \<Rightarrow> string \<Rightarrow> string list option" where
  "match_groups [] s = None"
| "match_groups [n] s = (if length s = n \<and> list_all is_hex s then Some [s] else None)"
| "match_groups (n # m # ns) s =
     (if n < length s \<and> list_all is_hex (take n s) \<and> s ! n = CHR ''-''
      then map_option ((#) (take n s)) (match_groups (m # ns) (drop (Suc n) s)) else None)"

definition nvidiaUUIDPattern :: "string \<Rightarrow> string list option" where
  "nvidiaUUIDPattern s =
     (if hasPrefix s ''GPU-'' then match_groups [8, 4, 4, 4, 12] (drop 4 s) else None)"

definition ParseUUID :: "string \<Rightarrow> UUID result" where
  "ParseUUID value =
     (case nvidiaUUIDPattern value of
        None \<Rightarrow> Inl (Errorf ''invalid NVIDIA GPU UUID %q'' [AStr value])
      | Some groups \<Rightarrow> Inr (''GPU-'' @ toLower (join groups ''-'')))"

text \<open>\<open>UUID.Validate\<close>: \<open>None\<close> is a nil error.\<close>

definition uuid_Validate :: "UUID \<Rightarrow> go_error option" where
  "uuid_Validate u =
     (case ParseUUID u of
        Inl e \<Rightarrow> Some e
      | Inr canonical \<Rightarrow>
          if canonical \<noteq> u
          then Some (Errorf ''NVIDIA GPU UUID %q is not canonical (want %q)'' [AStr u, AStr canonical])
          else None)"

lemma match_groups_nonempty: "match_groups ns s = Some gs \<Longrightarrow> gs \<noteq> []"
  by (cases "(ns, s)" rule: match_groups.cases) (auto split: if_splits)

lemma match_groups_join: "match_groups ns s = Some gs \<Longrightarrow> join gs ''-'' = s"
proof (induction ns s arbitrary: gs rule: match_groups.induct)
  case (3 n m ns s)
  then obtain gs' where gs: "gs = take n s # gs'"
    and m: "match_groups (m # ns) (drop (Suc n) s) = Some gs'" and n: "n < length s" "s ! n = CHR ''-''"
    by (auto simp del: match_groups.simps(2) split: if_splits)
  with 3 have "join gs' ''-'' = drop (Suc n) s" by (auto split: if_splits)
  with gs match_groups_nonempty [OF m] have "join gs ''-'' = take n s @ s ! n # drop (Suc n) s"
    using n by (simp add: join_Cons)
  also have "\<dots> = s" using n(1) by (rule id_take_nth_drop [symmetric])
  finally show ?case .
qed (auto split: if_splits)

lemma is_hex_lower [simp]: "is_hex (lower_char c) = is_hex c"
  by (auto simp: is_hex_def is_digit_def lower_char_def byte_def)

lemma lower_char_dash [simp]: "lower_char c = CHR ''-'' \<longleftrightarrow> c = CHR ''-''"
proof (cases "65 \<le> byte c \<and> byte c \<le> 90")
  case True
  then have "byte (lower_char c) = byte c + 32" by (auto simp: lower_char_def byte_def)
  moreover have "byte (CHR ''-'') = 45" by (simp add: byte_def)
  ultimately have "lower_char c \<noteq> CHR ''-''" "c \<noteq> CHR ''-''" using True by auto
  then show ?thesis by simp
qed (auto simp: lower_char_def)

lemma match_groups_toLower:
  "match_groups ns (toLower s) = map_option (map toLower) (match_groups ns s)"
proof (induction ns s rule: match_groups.induct)
  case (3 n m ns s)
  have "toLower s ! n = CHR ''-'' \<longleftrightarrow> s ! n = CHR ''-''" if "n < length s"
    using that by (simp add: toLower_def)
  with 3 show ?case
    by (auto simp: toLower_def take_map drop_map list_all_iff option.map_comp comp_def
        intro!: option.map_cong0)
qed (auto simp: toLower_def list_all_iff)

declare match_groups.simps [simp del]

lemma ParseUUID_Inr_iff:
  "ParseUUID s = Inr u \<longleftrightarrow>
     nvidiaUUIDPattern s \<noteq> None \<and> u = ''GPU-'' @ toLower (drop 4 s)"
  by (auto simp: ParseUUID_def nvidiaUUIDPattern_def dest: match_groups_join split: option.splits if_splits)

lemma nvidiaUUIDPattern_canonical:
  "nvidiaUUIDPattern s \<noteq> None \<Longrightarrow> nvidiaUUIDPattern (''GPU-'' @ toLower (drop 4 s)) \<noteq> None"
  by (auto simp: nvidiaUUIDPattern_def match_groups_toLower hasPrefix_def split: if_splits)

lemma ParseUUID_canonical: "ParseUUID s = Inr u \<Longrightarrow> ParseUUID u = Inr u"
  using nvidiaUUIDPattern_canonical [of s] by (auto simp: ParseUUID_Inr_iff)

lemma uuid_Validate_None_iff: "uuid_Validate u = None \<longleftrightarrow> ParseUUID u = Inr u"
  by (auto simp: uuid_Validate_def split: sum.splits)

lemma uuid_Validate_ParseUUID: "ParseUUID s = Inr u \<Longrightarrow> uuid_Validate u = None"
  by (simp add: uuid_Validate_None_iff ParseUUID_canonical)

text \<open>
  C34. \<open>ParseUUID\<close> is a canonicalisation: what it returns passes \<open>Validate\<close> and parses to itself, two
  spellings that differ only in letter case after the \<open>GPU-\<close> prefix give the same identity, and
  \<open>Validate\<close> accepts exactly the fixed points.
\<close>

theorem ParseUUID_canonicalises:
  "(ParseUUID s = Inr u \<longrightarrow> uuid_Validate u = None \<and> ParseUUID u = Inr u) \<and>
   (ParseUUID s = Inr u \<and> ParseUUID t = Inr v \<and> equalFold (drop 4 s) (drop 4 t) \<longrightarrow> u = v) \<and>
   (uuid_Validate s = None \<longleftrightarrow> ParseUUID s = Inr s)"
  using uuid_Validate_ParseUUID ParseUUID_canonical
  by (auto simp: ParseUUID_Inr_iff equalFold_def uuid_Validate_None_iff)

theorem ParseUUID_canonicalises_witness:
  "ParseUUID ''GPU-8D337A84-43DE-158d-7526-7175288a6064'' = Inr ''GPU-8d337a84-43de-158d-7526-7175288a6064'' \<and>
   uuid_Validate ''GPU-8d337a84-43de-158d-7526-7175288a6064'' = None"
proof -
  have p: "ParseUUID ''GPU-8D337A84-43DE-158d-7526-7175288a6064'' =
      Inr ''GPU-8d337a84-43de-158d-7526-7175288a6064''"
    by code_simp
  then show ?thesis
    using ParseUUID_canonicalises
      [of "''GPU-8D337A84-43DE-158d-7526-7175288a6064''" "''GPU-8d337a84-43de-158d-7526-7175288a6064''"]
    by blast
qed

section \<open>Devices and scoped inventories\<close>

definition ScopeWindowsHost :: string where "ScopeWindowsHost = ''windows-host''"
definition ScopeWSLDistro :: string where "ScopeWSLDistro = ''wsl-distro''"
definition ScopeRuntime :: string where "ScopeRuntime = ''runtime''"

record Observation =
  obs_Scope :: string
  obs_ScopeID :: string
  obs_Index :: int

record Device =
  dev_UUID :: UUID
  dev_Name :: string
  dev_Architecture :: string
  dev_ComputeCapability :: string
  dev_DriverVersion :: string
  dev_DriverCUDACeiling :: string
  dev_Observations :: "Observation list"

record ScopedInventory =
  inv_Scope :: string
  inv_ScopeID :: string
  inv_DriverVersion :: string
  inv_DriverCUDACeiling :: string
  inv_Devices :: "Device list"

definition incompatibleNonEmpty :: "string \<Rightarrow> string \<Rightarrow> bool" where
  "incompatibleNonEmpty left right = (left \<noteq> [] \<and> right \<noteq> [] \<and> \<not> equalFold left right)"

fun firstNonEmpty :: "string list \<Rightarrow> string" where
  "firstNonEmpty [] = []"
| "firstNonEmpty (v # vs) = (if v \<noteq> [] then v else firstNonEmpty vs)"

definition fillDeviceFacts :: "Device \<Rightarrow> Device \<Rightarrow> ScopedInventory \<Rightarrow> Device" where
  "fillDeviceFacts target source inventory = target\<lparr>
     dev_Architecture :=
       (if dev_Architecture target = [] then dev_Architecture source else dev_Architecture target),
     dev_ComputeCapability :=
       (if dev_ComputeCapability target = [] then dev_ComputeCapability source
        else dev_ComputeCapability target),
     dev_DriverVersion :=
       (if dev_DriverVersion target = []
        then firstNonEmpty [dev_DriverVersion source, inv_DriverVersion inventory]
        else dev_DriverVersion target),
     dev_DriverCUDACeiling :=
       (if dev_DriverCUDACeiling target = []
        then firstNonEmpty [dev_DriverCUDACeiling source, inv_DriverCUDACeiling inventory]
        else dev_DriverCUDACeiling target)\<rparr>"

text \<open>The body of the inner loop of \<open>Reconcile\<close>: state is \<open>seen\<close> and \<open>merged\<close>.\<close>

definition reconcile_device ::
  "ScopedInventory \<Rightarrow> Device \<Rightarrow> UUID list \<times> (UUID, Device) gomap \<Rightarrow>
     (UUID list \<times> (UUID, Device) gomap) result" where
  "reconcile_device inventory candidate = (\<lambda>(seen, merged).
     let uuid = dev_UUID candidate in
     case uuid_Validate uuid of
       Some err \<Rightarrow> Inl err
     | None \<Rightarrow>
         if uuid \<in> set seen
         then Inl (Errorf ''duplicate GPU UUID %q in %s inventory'' [AStr uuid, AStr (inv_Scope inventory)])
         else case dev_Observations candidate of
           [observation] \<Rightarrow>
             if obs_Scope observation \<noteq> inv_Scope inventory \<or>
                obs_ScopeID observation \<noteq> inv_ScopeID inventory \<or> obs_Index observation < 0
             then Inl (Errorf ''GPU %q has invalid scope observation'' [AStr uuid])
             else
               (case map_of merged uuid of
                  Some current \<Rightarrow>
                    if dev_Name current \<noteq> dev_Name candidate \<or>
                       incompatibleNonEmpty (dev_ComputeCapability current) (dev_ComputeCapability candidate) \<or>
                       incompatibleNonEmpty (dev_Architecture current) (dev_Architecture candidate)
                    then Inl (Errorf ''conflicting inventory facts for GPU %q'' [AStr uuid])
                    else let current' = fillDeviceFacts current candidate inventory in
                      Inr (uuid # seen, AList.update uuid
                        (current'\<lparr>dev_Observations := dev_Observations current' @ [observation]\<rparr>) merged)
                | None \<Rightarrow>
                    let current' = fillDeviceFacts (candidate\<lparr>dev_Observations := []\<rparr>) candidate inventory in
                      Inr (uuid # seen, AList.update uuid
                        (current'\<lparr>dev_Observations := dev_Observations current' @ [observation]\<rparr>) merged))
         | _ \<Rightarrow> Inl (Errorf ''GPU %q in scoped inventory must have exactly one observation'' [AStr uuid]))"

definition valid_scope :: "string \<Rightarrow> bool" where
  "valid_scope scope = (scope = ScopeWindowsHost \<or> scope = ScopeWSLDistro \<or> scope = ScopeRuntime)"

definition reconcile_inventory ::
  "ScopedInventory \<Rightarrow> (UUID, Device) gomap \<Rightarrow> (UUID, Device) gomap result" where
  "reconcile_inventory inventory merged =
     (if \<not> valid_scope (inv_Scope inventory)
      then Inl (Errorf ''invalid inventory scope %q'' [AStr (inv_Scope inventory)])
      else case foldE (reconcile_device inventory) (inv_Devices inventory) ([], merged) of
        Inl err \<Rightarrow> Inl err
      | Inr (_, merged') \<Rightarrow> Inr merged')"

definition sort_observations :: "Device \<Rightarrow> Device" where
  "sort_observations device = device\<lparr>dev_Observations :=
     sort_key (\<lambda>ob. (obs_Scope ob, obs_ScopeID ob)) (dev_Observations device)\<rparr>"

definition Reconcile :: "ScopedInventory list \<Rightarrow> Device list result" where
  "Reconcile inventories =
     (case foldE reconcile_inventory inventories [] of
        Inl err \<Rightarrow> Inl err
      | Inr merged \<Rightarrow> Inr (sort_key dev_UUID (map (sort_observations \<circ> snd) merged)))"

text \<open>A device with the given facts, for concrete inputs.\<close>

definition sample_device :: "string \<Rightarrow> string \<Rightarrow> string \<Rightarrow> Device" where
  "sample_device architecture compute ceiling =
     \<lparr>dev_UUID = ''GPU-8d337a84-43de-158d-7526-7175288a6064'', dev_Name = ''NVIDIA'',
      dev_Architecture = architecture, dev_ComputeCapability = compute, dev_DriverVersion = [],
      dev_DriverCUDACeiling = ceiling, dev_Observations = []\<rparr>"

definition sample_inventory :: "string \<Rightarrow> string \<Rightarrow> Device list \<Rightarrow> ScopedInventory" where
  "sample_inventory scope scopeID devices =
     \<lparr>inv_Scope = scope, inv_ScopeID = scopeID, inv_DriverVersion = ''591.59'',
      inv_DriverCUDACeiling = ''13.1'',
      inv_Devices = map (\<lambda>d. d\<lparr>dev_Observations := [\<lparr>obs_Scope = scope, obs_ScopeID = scopeID, obs_Index = 0\<rparr>]\<rparr>) devices\<rparr>"

subsection \<open>What the merge loop keeps\<close>

text \<open>
  The observations recorded for a UUID after some candidates (with the inventory each came from)
  were merged, in order.
\<close>

definition observed :: "Device list \<Rightarrow> UUID \<Rightarrow> Observation list" where
  "observed candidates u = concat (map dev_Observations (filter (\<lambda>c. dev_UUID c = u) candidates))"

definition merged_ok :: "Device list \<Rightarrow> (UUID, Device) gomap \<Rightarrow> bool" where
  "merged_ok candidates merged \<longleftrightarrow>
     go_map merged \<and>
     (\<forall>u. map_of merged u = None \<longleftrightarrow> u \<notin> dev_UUID ` set candidates) \<and>
     (\<forall>u d. map_of merged u = Some d \<longrightarrow>
        dev_UUID d = u \<and> uuid_Validate u = None \<and> dev_Observations d = observed candidates u)"

lemma observed_snoc:
  "observed (cs @ [c]) u = observed cs u @ (if dev_UUID c = u then dev_Observations c else [])"
  by (simp add: observed_def)

lemma observed_Nil: "u \<notin> dev_UUID ` set cs \<Longrightarrow> observed cs u = []"
  by (induction cs) (auto simp: observed_def)

lemma fillDeviceFacts_keeps [simp]:
  "dev_UUID (fillDeviceFacts t s i) = dev_UUID t"
  "dev_Name (fillDeviceFacts t s i) = dev_Name t"
  "dev_Observations (fillDeviceFacts t s i) = dev_Observations t"
  by (simp_all add: fillDeviceFacts_def)

lemma reconcile_device_Inr:
  assumes "reconcile_device inventory c (seen, m) = Inr (seen', m')"
  obtains ob current where "uuid_Validate (dev_UUID c) = None" and "dev_Observations c = [ob]"
    and "seen' = dev_UUID c # seen" and "dev_UUID c \<notin> set seen" and "m' = AList.update (dev_UUID c) current m"
    and "dev_UUID current = dev_UUID c \<or> map_of m (dev_UUID c) \<noteq> None"
    and "\<And>d. map_of m (dev_UUID c) = Some d \<Longrightarrow> dev_UUID current = dev_UUID d \<and>
           dev_Observations current = dev_Observations d @ [ob] \<and> dev_Name c = dev_Name d"
    and "map_of m (dev_UUID c) = None \<Longrightarrow> dev_Observations current = [ob]"
  using assms
  by (auto simp: reconcile_device_def Let_def split: option.splits if_splits list.splits)

lemma reconcile_device_merged_ok:
  assumes "merged_ok cs m" and "reconcile_device inventory c (seen, m) = Inr (seen', m')"
  shows "merged_ok (cs @ [c]) m'"
  using assms(2)
proof (rule reconcile_device_Inr)
  fix ob current
  assume upd: "m' = AList.update (dev_UUID c) current m" and v: "uuid_Validate (dev_UUID c) = None"
    and ob: "dev_Observations c = [ob]"
    and id: "dev_UUID current = dev_UUID c \<or> map_of m (dev_UUID c) \<noteq> None"
    and old: "\<And>d. map_of m (dev_UUID c) = Some d \<Longrightarrow> dev_UUID current = dev_UUID d \<and>
           dev_Observations current = dev_Observations d @ [ob] \<and> dev_Name c = dev_Name d"
    and new: "map_of m (dev_UUID c) = None \<Longrightarrow> dev_Observations current = [ob]"
  have obs: "dev_UUID current = dev_UUID c \<and>
      dev_Observations current = observed (cs @ [c]) (dev_UUID c)"
    using assms(1) id old new ob
    by (cases "map_of m (dev_UUID c)") (auto simp: merged_ok_def observed_snoc observed_Nil)
  with assms(1) upd v show "merged_ok (cs @ [c]) m'"
    by (auto simp: merged_ok_def observed_snoc)
qed

lemma reconcile_inventory_merged_ok:
  assumes "merged_ok cs m" and "reconcile_inventory inventory m = Inr m'"
  shows "merged_ok (cs @ inv_Devices inventory) m'"
proof -
  obtain seen where "foldE (reconcile_device inventory) (inv_Devices inventory) ([], m) = Inr (seen, m')"
    using assms(2) by (auto simp: reconcile_inventory_def split: sum.splits if_splits)
  then have "(\<lambda>prior (_, t). merged_ok (cs @ prior) t) (inv_Devices inventory) (seen, m')"
    by (rule foldE_seen) (use assms(1) in \<open>auto dest: reconcile_device_merged_ok\<close>)
  then show ?thesis by simp
qed

lemma reconcile_merged_ok:
  assumes "foldE reconcile_inventory invs [] = Inr m"
  shows "merged_ok (concat (map inv_Devices invs)) m"
  using assms
  by (rule foldE_seen [where I = "\<lambda>prior. merged_ok (concat (map inv_Devices prior))"])
     (auto intro: reconcile_inventory_merged_ok, simp add: merged_ok_def go_map_def)

lemma Reconcile_Inr:
  assumes "Reconcile invs = Inr ds"
  obtains m where "merged_ok (concat (map inv_Devices invs)) m"
    and "ds = sort_key dev_UUID (map (sort_observations \<circ> snd) m)"
  using assms reconcile_merged_ok by (auto simp: Reconcile_def split: sum.splits)

lemma sort_observations_keeps [simp]:
  "dev_UUID (sort_observations d) = dev_UUID d"
  "mset (dev_Observations (sort_observations d)) = mset (dev_Observations d)"
  by (simp_all add: sort_observations_def)

lemma merged_ok_UUIDs: "merged_ok cs m \<Longrightarrow> map (dev_UUID \<circ> (sort_observations \<circ> snd)) m = map fst m"
  by (auto simp: merged_ok_def go_map_mem_iff)

lemma Reconcile_UUIDs:
  assumes "Reconcile invs = Inr ds"
  shows "dev_UUID ` set ds = (\<Union>i \<in> set invs. dev_UUID ` set (inv_Devices i))" and "distinct (map dev_UUID ds)"
proof -
  from assms obtain m where ok: "merged_ok (concat (map inv_Devices invs)) m"
    and ds: "ds = sort_key dev_UUID (map (sort_observations \<circ> snd) m)"
    by (rule Reconcile_Inr)
  have ids: "map dev_UUID (map (sort_observations \<circ> snd) m) = map fst m"
    using merged_ok_UUIDs [OF ok] by (simp only: map_map)
  have "distinct (map dev_UUID (map (sort_observations \<circ> snd) m))"
    unfolding ids using ok by (simp add: merged_ok_def go_map_def)
  then show "distinct (map dev_UUID ds)" by (simp only: ds distinct_map_sort_key)
  have "dev_UUID ` set ds = set (map dev_UUID (map (sort_observations \<circ> snd) m))"
    by (simp only: ds set_map set_sort)
  also have "\<dots> = fst ` set m" unfolding ids by simp
  finally show "dev_UUID ` set ds = (\<Union>i \<in> set invs. dev_UUID ` set (inv_Devices i))"
    using ok by (simp add: merged_ok_def map_of_eq_None_iff image_UN [symmetric] set_eq_iff [symmetric])
qed

text \<open>
  C30. A successful \<open>Reconcile\<close> merges by UUID and by nothing else: the result is strictly ordered by
  UUID, every UUID in it is canonical, the UUIDs are exactly those that some inventory reports (a
  device missing from a narrower scope is kept), and each device carries exactly the observations
  that the inventories reported for its UUID, sorted by scope.
\<close>

theorem Reconcile_merges_by_UUID:
  assumes "Reconcile invs = Inr ds"
  shows "sorted (map dev_UUID ds) \<and> distinct (map dev_UUID ds) \<and>
    dev_UUID ` set ds = (\<Union>i \<in> set invs. dev_UUID ` set (inv_Devices i)) \<and>
    (\<forall>d \<in> set ds. uuid_Validate (dev_UUID d) = None \<and>
       mset (dev_Observations d) = mset (observed (concat (map inv_Devices invs)) (dev_UUID d)) \<and>
       sorted (map (\<lambda>ob. (obs_Scope ob, obs_ScopeID ob)) (dev_Observations d)))"
proof -
  from assms obtain m where ok: "merged_ok (concat (map inv_Devices invs)) m"
    and ds: "ds = sort_key dev_UUID (map (sort_observations \<circ> snd) m)"
    by (rule Reconcile_Inr)
  have "uuid_Validate (dev_UUID d) = None \<and>
      mset (dev_Observations d) = mset (observed (concat (map inv_Devices invs)) (dev_UUID d)) \<and>
      sorted (map (\<lambda>ob. (obs_Scope ob, obs_ScopeID ob)) (dev_Observations d))" if "d \<in> set ds" for d
    using that ok by (auto simp: ds merged_ok_def go_map_mem_iff) (simp add: sort_observations_def)
  then show ?thesis using Reconcile_UUIDs [OF assms] by (simp add: ds)
qed

theorem Reconcile_merges_by_UUID_witness:
  "\<exists>ds. Reconcile [sample_inventory ScopeWSLDistro ''Ubuntu'' [sample_device [] ''8.6'' []],
                   sample_inventory ScopeWindowsHost [] [sample_device ''Ampere'' [] []]] = Inr ds \<and>
     distinct (map dev_UUID ds) \<and> dev_UUID ` set ds = {''GPU-8d337a84-43de-158d-7526-7175288a6064''} \<and>
     map dev_Architecture ds = [''Ampere'']"
proof -
  let ?invs = "[sample_inventory ScopeWSLDistro ''Ubuntu'' [sample_device [] ''8.6'' []],
                sample_inventory ScopeWindowsHost [] [sample_device ''Ampere'' [] []]]"
  let ?ds = "[(sample_device ''Ampere'' ''8.6'' ''13.1'')\<lparr>dev_DriverVersion := ''591.59'', dev_Observations :=
       [\<lparr>obs_Scope = ScopeWindowsHost, obs_ScopeID = [], obs_Index = 0\<rparr>,
        \<lparr>obs_Scope = ScopeWSLDistro, obs_ScopeID = ''Ubuntu'', obs_Index = 0\<rparr>]\<rparr>]"
  have r: "Reconcile ?invs = Inr ?ds" by code_simp
  with Reconcile_merges_by_UUID [OF r] show ?thesis
    by (intro exI [of _ ?ds] conjI) (simp_all add: sample_device_def)
qed

section \<open>Artifact compatibility\<close>

record ArtifactRequirements =
  art_CUDAToolkit :: string
  art_CompiledKernels :: bool

text \<open>\<open>strings.Split\<close> never returns an empty list, so \<open>len(parts) < 1\<close> cannot hold; it is kept.\<close>

definition parseMajorMinor :: "string \<Rightarrow> (int \<times> int) result" where
  "parseMajorMinor value =
     (let parts = split_on (trimSpace (trimPrefix (toLower value) ''cuda '')) (CHR ''.'');
          bad = Errorf ''invalid version %q'' [AStr value] in
      case parts of
        [] \<Rightarrow> Inl bad
      | p # rest \<Rightarrow>
          if p = [] then Inl bad
          else case atoi p of
            None \<Rightarrow> Inl bad
          | Some major \<Rightarrow>
              (case rest of
                 [] \<Rightarrow> Inr (major, 0)
               | q # _ \<Rightarrow> (case atoi q of None \<Rightarrow> Inl bad | Some minor \<Rightarrow> Inr (major, minor))))"

definition is_architecture :: "Device \<Rightarrow> string \<Rightarrow> int \<Rightarrow> bool" where
  "is_architecture device name major \<longleftrightarrow>
     contains (toLower (dev_Architecture device)) name \<or>
     (case parseMajorMinor (dev_ComputeCapability device) of Inl _ \<Rightarrow> False | Inr (m, _) \<Rightarrow> m = major)"

definition ValidateCompatibility :: "Device \<Rightarrow> ArtifactRequirements \<Rightarrow> go_error option" where
  "ValidateCompatibility device artifact =
     (if trimSpace (art_CUDAToolkit artifact) = []
      then if art_CompiledKernels artifact
           then Some (Errorf ''compiled-kernel artifact must declare CUDA toolkit'' [])
           else None
      else case parseMajorMinor (art_CUDAToolkit artifact) of
        Inl err \<Rightarrow>
          if art_CompiledKernels artifact
          then Some (Errorf ''compiled-kernel artifact must declare CUDA toolkit: %w'' [AWrap err])
          else Some (Errorf ''artifact CUDA toolkit is invalid: %w'' [AWrap err])
      | Inr (toolkitMajor, toolkitMinor) \<Rightarrow>
          let architecture = toLower (dev_Architecture device);
              computeErr = isl (parseMajorMinor (dev_ComputeCapability device));
              isPascal = is_architecture device ''pascal'' 6;
              isAmpere = is_architecture device ''ampere'' 8 in
          if toolkitMajor \<ge> 13 \<and> isPascal
          then Some (Errorf ''CUDA %s compiled kernels are incompatible with Pascal GPU %s''
                 [AStr (art_CUDAToolkit artifact), AStr (dev_UUID device)])
          else if toolkitMajor \<ge> 13 \<and> \<not> isAmpere \<and> architecture = [] \<and> computeErr
          then Some (Errorf ''cannot prove CUDA %s compatibility for GPU %s without architecture or compute capability''
                 [AStr (art_CUDAToolkit artifact), AStr (dev_UUID device)])
          else if dev_DriverCUDACeiling device \<noteq> []
          then (case parseMajorMinor (dev_DriverCUDACeiling device) of
                  Inl _ \<Rightarrow> None
                | Inr (ceilingMajor, ceilingMinor) \<Rightarrow>
                    if ceilingMajor < toolkitMajor \<or> ceilingMajor = toolkitMajor \<and> ceilingMinor < toolkitMinor
                    then Some (Errorf ''driver CUDA ceiling %s is below artifact toolkit %s for GPU %s''
                           [AStr (dev_DriverCUDACeiling device), AStr (art_CUDAToolkit artifact),
                            AStr (dev_UUID device)])
                    else None)
          else None)"

text \<open>
  The compatibility gate admits an artifact exactly when it declares no toolkit and no compiled
  kernels, or it declares a toolkit that parses, that is older than CUDA 13 unless the GPU is known and
  is not a Pascal one, and that does not exceed the driver's CUDA ceiling where one is reported. A
  ceiling that does not parse is no obstacle.
\<close>

lemma ValidateCompatibility_admits_iff:
  "ValidateCompatibility device artifact = None \<longleftrightarrow>
     (if trimSpace (art_CUDAToolkit artifact) = [] then \<not> art_CompiledKernels artifact
      else \<exists>toolkit. parseMajorMinor (art_CUDAToolkit artifact) = Inr toolkit \<and>
        (13 \<le> fst toolkit \<longrightarrow> \<not> is_architecture device ''pascal'' 6 \<and>
           (dev_Architecture device \<noteq> [] \<or> \<not> isl (parseMajorMinor (dev_ComputeCapability device)))) \<and>
        (\<forall>ceiling. dev_DriverCUDACeiling device \<noteq> [] \<longrightarrow>
           parseMajorMinor (dev_DriverCUDACeiling device) = Inr ceiling \<longrightarrow> toolkit \<le> ceiling))"
  by (auto simp: ValidateCompatibility_def Let_def is_architecture_def toLower_def less_eq_prod_def
      split: sum.splits if_splits prod.splits)

section \<open>Resource manifests\<close>

definition ResourceManifestVersion :: string where
  "ResourceManifestVersion = ''nanovms.io/resources/v1''"

record ResourceManifest =
  man_Version :: string
  man_GPUs :: "Device list"
  man_Artifact :: ArtifactRequirements

text \<open>The comparison of \<open>CanonicalJSON\<close> looks at all three fields of an observation.\<close>

definition canonical_observations :: "Device \<Rightarrow> Device" where
  "canonical_observations device = device\<lparr>dev_Observations :=
     sort_key (\<lambda>ob. (obs_Scope ob, obs_ScopeID ob, obs_Index ob)) (dev_Observations device)\<rparr>"

text \<open>The body of the loop over the sorted copy: state is \<open>seen\<close> and the devices already treated.\<close>

definition canonical_device :: "Device \<Rightarrow> UUID list \<times> Device list \<Rightarrow> (UUID list \<times> Device list) result" where
  "canonical_device device = (\<lambda>(seen, gpus).
     case uuid_Validate (dev_UUID device) of
       Some err \<Rightarrow> Inl err
     | None \<Rightarrow>
         if dev_UUID device \<in> set seen
         then Inl (Errorf ''duplicate GPU UUID %q in resource manifest'' [AStr (dev_UUID device)])
         else Inr (dev_UUID device # seen, gpus @ [canonical_observations device]))"

text \<open>\<open>marshal\<close> stands for \<open>json.Marshal\<close>.\<close>

definition CanonicalJSON :: "(ResourceManifest \<Rightarrow> string result) \<Rightarrow> ResourceManifest \<Rightarrow> string result" where
  "CanonicalJSON marshal manifest =
     (if man_Version manifest \<noteq> ResourceManifestVersion
      then Inl (Errorf ''unsupported resource manifest version %q'' [AStr (man_Version manifest)])
      else case foldE canonical_device (sort_key dev_UUID (man_GPUs manifest)) ([], []) of
        Inl err \<Rightarrow> Inl err
      | Inr (_, gpus) \<Rightarrow> marshal (manifest\<lparr>man_GPUs := gpus\<rparr>))"

text \<open>The error of the loop, a function of the UUIDs alone.\<close>

fun uuid_errors :: "UUID list \<Rightarrow> UUID list \<Rightarrow> go_error option" where
  "uuid_errors seen [] = None"
| "uuid_errors seen (u # us) =
     (case uuid_Validate u of
        Some err \<Rightarrow> Some err
      | None \<Rightarrow>
          if u \<in> set seen then Some (Errorf ''duplicate GPU UUID %q in resource manifest'' [AStr u])
          else uuid_errors (u # seen) us)"

lemma canonical_device_loop:
  "foldE canonical_device ds (seen, gpus) =
     (case uuid_errors seen (map dev_UUID ds) of
        Some err \<Rightarrow> Inl err
      | None \<Rightarrow> Inr (rev (map dev_UUID ds) @ seen, gpus @ map canonical_observations ds))"
  by (induction ds arbitrary: seen gpus) (auto simp: canonical_device_def split: option.splits)

lemma uuid_errors_distinct: "uuid_errors seen us = None \<Longrightarrow> distinct us \<and> set us \<inter> set seen = {}"
  by (induction seen us rule: uuid_errors.induct) (auto split: option.splits if_splits)

lemma uuid_errors_sorted: "map dev_UUID (sort_key dev_UUID ds) = sort (map dev_UUID ds)"
  by (rule properties_for_sort [symmetric]) simp_all

text \<open>Two descriptions of one device that differ at most in the order of the observations.\<close>

definition same_device :: "Device \<Rightarrow> Device \<Rightarrow> bool" where
  "same_device a b \<longleftrightarrow> mset (dev_Observations a) = mset (dev_Observations b) \<and>
     b = a\<lparr>dev_Observations := dev_Observations b\<rparr>"

lemma canonical_observations_same: "same_device a b \<Longrightarrow> canonical_observations a = canonical_observations b"
proof -
  assume s: "same_device a b"
  have "inj (\<lambda>ob :: Observation. (obs_Scope ob, obs_ScopeID ob, obs_Index ob))"
    by (rule injI) simp
  then have "sort_key (\<lambda>ob. (obs_Scope ob, obs_ScopeID ob, obs_Index ob)) (dev_Observations a) =
      sort_key (\<lambda>ob. (obs_Scope ob, obs_ScopeID ob, obs_Index ob)) (dev_Observations b)"
    using s by (intro sort_key_inj_key_eq) (auto simp: same_device_def inj_on_def)
  with s show ?thesis by (cases a, cases b) (simp add: canonical_observations_def same_device_def)
qed

lemma canonical_sorted_unique:
  assumes "mset (map canonical_observations ds) = mset (map canonical_observations es)"
    and "distinct (map dev_UUID ds)"
  shows "map canonical_observations (sort_key dev_UUID ds) = map canonical_observations (sort_key dev_UUID es)"
proof -
  have id: "dev_UUID (canonical_observations d) = dev_UUID d" for d
    by (simp add: canonical_observations_def)
  have commute: "map canonical_observations (sort_key dev_UUID xs) = sort_key dev_UUID (map canonical_observations xs)"
    if "distinct (map dev_UUID xs)" for xs
    using that by (intro sort_key_inj_key_eq [symmetric]) (auto simp: id comp_def distinct_map inj_on_def)
  have ids: "mset (map dev_UUID ds) = mset (map dev_UUID es)"
    using arg_cong [OF assms(1), of "image_mset dev_UUID"]
    by (simp add: image_mset.compositionality comp_def id)
  have "inj_on dev_UUID (set (map canonical_observations ds))"
    using assms(2) by (auto simp: id distinct_map inj_on_def)
  then have "sort_key dev_UUID (map canonical_observations ds) = sort_key dev_UUID (map canonical_observations es)"
    using assms(1) by (intro sort_key_inj_key_eq) simp_all
  moreover have "distinct (map dev_UUID es)"
    using assms(2) ids by (metis distinct_count_atmost_1 mset_eq_imp_distinct_iff)
  ultimately show ?thesis using assms(2) by (simp add: commute)
qed

text \<open>
  \<open>CanonicalJSON\<close> is canonical: manifests that list the same devices in another order, and the
  observations of a device in another order, give the same bytes or the same error, whatever
  \<open>json.Marshal\<close> does.
\<close>

lemma CanonicalJSON_order_insensitive:
  assumes "mset gpus = mset (man_GPUs m1)" and "list_all2 same_device gpus (man_GPUs m2)"
    and "man_Version m1 = man_Version m2" and "man_Artifact m1 = man_Artifact m2"
  shows "CanonicalJSON marshal m1 = CanonicalJSON marshal m2"
proof -
  have canon: "map canonical_observations gpus = map canonical_observations (man_GPUs m2)"
    using assms(2) by (induction rule: list_all2_induct) (auto simp: canonical_observations_same)
  then have m: "mset (map canonical_observations (man_GPUs m1)) = mset (map canonical_observations (man_GPUs m2))"
    using assms(1) by (metis mset_map)
  have ids: "mset (map dev_UUID (man_GPUs m1)) = mset (map dev_UUID (man_GPUs m2))"
    using arg_cong [OF m, of "image_mset dev_UUID"]
    by (simp add: image_mset.compositionality comp_def canonical_observations_def)
  then have s: "sort (map dev_UUID (man_GPUs m1)) = sort (map dev_UUID (man_GPUs m2))"
    by (metis properties_for_sort mset_sort sorted_sort)
  have "map canonical_observations (sort_key dev_UUID (man_GPUs m1)) =
      map canonical_observations (sort_key dev_UUID (man_GPUs m2))"
    if "uuid_errors [] (sort (map dev_UUID (man_GPUs m1))) = None"
    using canonical_sorted_unique [OF m] uuid_errors_distinct [OF that] by simp
  with s assms(3,4) show ?thesis
    by (cases m1, cases m2)
       (auto simp: CanonicalJSON_def canonical_device_loop uuid_errors_sorted split: option.splits)
qed

end
