(* ===== verification/Reservation.thy ===== *)
theory Reservation
  imports Gpu_Contracts
begin

text \<open>
  The file-backed GPU reservation store of \<open>pkg/gpu/reservation.go\<close>: the lock loop with its
  back-off, reading and writing the state file, \<open>Reserve\<close>, \<open>Release\<close> and \<open>Active\<close>. Every operation
  holds the lock file from before the read until after the write, so the operations of several
  processes take effect one after the other; \<open>lease_run\<close> is the relation of such histories, and the
  locale \<open>lease_store\<close> states what a caller may rely on and proves that outstanding leases never
  share a GPU.

  The contents of the state file are modelled by what \<open>json.Unmarshal\<close> makes of them: an error, or a
  state. \<open>json.Marshal\<close> of a state fails exactly when an expiry lies outside the years 0 to 9999.
  The outcomes of system calls are the fields of \<open>reservation_env\<close>, arbitrary for each operation;
  \<open>env_ReadFile\<close> is a failure to read other than the absence of the file.
\<close>

section \<open>Data\<close>

record ReservationStore =
  store_Path :: string

record ReservationLease =
  lease_Token :: string
  lease_Owner :: string
  lease_UUIDs :: "UUID list"
  lease_ExpiresAt :: time

record reservationRecord =
  rec_Token :: string
  rec_Owner :: string
  rec_ExpiresAt :: time

record reservationState =
  st_Version :: int
  st_Reservations :: "(UUID, reservationRecord) gomap option"

text \<open>\<open>None\<close>: no file; \<open>Some (Inl e)\<close>: bytes that do not decode; \<open>Some (Inr st)\<close>: bytes that decode to \<open>st\<close>.\<close>

type_synonym state_file = "reservationState result option"

record reservation_env =
  env_MkdirAll :: "go_error option"
  env_OpenFile :: "go_error option"
  env_tryLock :: "nat \<Rightarrow> bool result"
  env_wait :: "nat \<Rightarrow> int \<Rightarrow> go_error option"
  env_ReadFile :: "string option"
  env_randRead :: "nat list result"
  env_CreateTemp :: "go_error option"
  env_Chmod :: "go_error option"
  env_Write :: "go_error option"
  env_Sync :: "go_error option"
  env_Close :: "go_error option"
  env_replaceFile :: "go_error option"

definition BoundReservationPath :: "ReservationStore option \<Rightarrow> string" where
  "BoundReservationPath store = (case store of None \<Rightarrow> [] | Some s \<Rightarrow> store_Path s)"

section \<open>The lock\<close>

definition lock_delays :: "int list" where
  "lock_delays = map (\<lambda>ms. ms * 1000000) [1, 2, 5, 10, 20, 50]"

text \<open>The delay of \<open>waitForContendedReservationLock\<close>; \<open>env_wait\<close> is the outcome of its \<open>select\<close>.\<close>

definition contended_delay :: "nat \<Rightarrow> int" where
  "contended_delay attempt =
     (if attempt < length lock_delays then lock_delays ! attempt else last lock_delays)"

definition waitForContendedReservationLock :: "reservation_env \<Rightarrow> nat \<Rightarrow> go_error option" where
  "waitForContendedReservationLock env attempt = env_wait env attempt (contended_delay attempt)"

partial_function (option) lock_loop :: "reservation_env \<Rightarrow> nat \<Rightarrow> unit result option" where
  "lock_loop env attempt =
     (case env_tryLock env attempt of
        Inl e \<Rightarrow> Some (Inl (Errorf ''lock reservation store: %w'' [AWrap e]))
      | Inr acquired \<Rightarrow>
          if acquired then Some (Inr ())
          else case waitForContendedReservationLock env attempt of
            Some e \<Rightarrow> Some (Inl (Errorf ''lock reservation store: %w'' [AWrap e]))
          | None \<Rightarrow> lock_loop env (Suc attempt))"

declare lock_loop.simps [code]

definition store_lock :: "reservation_env \<Rightarrow> unit result option" where
  "store_lock env =
     (case env_MkdirAll env of
        Some e \<Rightarrow> Some (Inl (Errorf ''create reservation directory: %w'' [AWrap e]))
      | None \<Rightarrow>
          case env_OpenFile env of
            Some e \<Rightarrow> Some (Inl (Errorf ''open reservation lock: %w'' [AWrap e]))
          | None \<Rightarrow> lock_loop env 0)"

section \<open>The state file\<close>

definition readState :: "reservation_env \<Rightarrow> state_file \<Rightarrow> reservationState result" where
  "readState env file =
     (let (err, data) = (case env_ReadFile env of
          Some message \<Rightarrow> (Some (Errorf message []), None)
        | None \<Rightarrow> (case file of None \<Rightarrow> (Some ErrNotExist, None) | Some d \<Rightarrow> (None, Some d))) in
      case err of
        Some e \<Rightarrow>
          if errors_is e ''os.ErrNotExist'' then Inr \<lparr>st_Version = 1, st_Reservations = Some []\<rparr>
          else Inl (Errorf ''read reservation store: %w'' [AWrap e])
      | None \<Rightarrow>
          (case data of
             None \<Rightarrow> Inr \<lparr>st_Version = 1, st_Reservations = Some []\<rparr>
           | Some (Inl e) \<Rightarrow> Inl (Errorf ''decode reservation store: %w'' [AWrap e])
           | Some (Inr st) \<Rightarrow>
               if st_Version st \<noteq> 1 \<or> st_Reservations st = None
               then Inl (Errorf ''unsupported or malformed reservation store'' [])
               else Inr st))"

text \<open>\<open>time.Time.MarshalJSON\<close> accepts the years 0 to 9999.\<close>

definition json_time_ok :: "time \<Rightarrow> bool" where
  "json_time_ok t \<longleftrightarrow> - 62167219200 * 10 ^ 9 \<le> t \<and> t < 253402300800 * 10 ^ 9"

definition reservations :: "reservationState \<Rightarrow> (UUID, reservationRecord) gomap" where
  "reservations st = (case st_Reservations st of None \<Rightarrow> [] | Some m \<Rightarrow> m)"

text \<open>The file is changed by the final rename alone.\<close>

definition writeState :: "reservation_env \<Rightarrow> reservationState \<Rightarrow> state_file \<Rightarrow> go_error option \<times> state_file" where
  "writeState env st file =
     (if \<not> (\<forall>(_, r) \<in> set (reservations st). json_time_ok (rec_ExpiresAt r))
      then (Some (Errorf ''encode reservation store: %w'' [AWrap (Sentinel ''json.MarshalerError'')]), file)
      else case env_CreateTemp env of
        Some e \<Rightarrow> (Some (Errorf ''create reservation transaction: %w'' [AWrap e]), file)
      | None \<Rightarrow> (case env_Chmod env of
        Some e \<Rightarrow> (Some e, file)
      | None \<Rightarrow> (case env_Write env of
        Some e \<Rightarrow> (Some (Errorf ''write reservation transaction: %w'' [AWrap e]), file)
      | None \<Rightarrow> (case env_Sync env of
        Some e \<Rightarrow> (Some (Errorf ''sync reservation transaction: %w'' [AWrap e]), file)
      | None \<Rightarrow> (case env_Close env of
        Some e \<Rightarrow> (Some (Errorf ''close reservation transaction: %w'' [AWrap e]), file)
      | None \<Rightarrow> (case env_replaceFile env of
        Some e \<Rightarrow> (Some (Errorf ''commit reservation transaction: %w'' [AWrap e]), file)
      | None \<Rightarrow> (None, Some (Inr st))))))))"

definition removeExpired :: "(UUID, reservationRecord) gomap \<Rightarrow> time \<Rightarrow> (UUID, reservationRecord) gomap" where
  "removeExpired rs now = filter (\<lambda>(uuid, r). rec_ExpiresAt r > now) rs"

definition randomToken :: "reservation_env \<Rightarrow> string result" where
  "randomToken env =
     (case env_randRead env of
        Inl e \<Rightarrow> Inl (Errorf ''generate reservation ownership token: %w'' [AWrap e])
      | Inr bytes \<Rightarrow> Inr (hexEncode bytes))"

section \<open>Operations\<close>

text \<open>The loop over the sorted copy in \<open>Reserve\<close>; the first argument is \<open>canonical[i-1]\<close> for \<open>i > 0\<close>.\<close>

fun check_canonical :: "UUID option \<Rightarrow> UUID list \<Rightarrow> go_error option" where
  "check_canonical prev [] = None"
| "check_canonical prev (uuid # rest) =
     (case uuid_Validate uuid of
        Some err \<Rightarrow> Some err
      | None \<Rightarrow>
          if prev = Some uuid
          then Some (Errorf ''duplicate GPU UUID %q in reservation request'' [AStr uuid])
          else check_canonical (Some uuid) rest)"

definition store_missing :: "ReservationStore option \<Rightarrow> bool" where
  "store_missing store = (case store of None \<Rightarrow> True | Some s \<Rightarrow> store_Path s = [])"

definition reserved_error :: "(UUID, reservationRecord) gomap \<Rightarrow> UUID \<Rightarrow> go_error option" where
  "reserved_error rs uuid =
     (case map_of rs uuid of
        None \<Rightarrow> None
      | Some current \<Rightarrow> Some (Errorf ''GPU %s is reserved by %q until %s''
          [AStr uuid, AStr (rec_Owner current), AInt (rec_ExpiresAt current)]))"

definition Reserve ::
  "ReservationStore option \<Rightarrow> reservation_env \<Rightarrow> UUID list \<Rightarrow> string \<Rightarrow> int \<Rightarrow> time \<Rightarrow> state_file \<Rightarrow>
     (ReservationLease result \<times> state_file) option" where
  "Reserve store env uuids owner ttl now file =
     (if store_missing store then Some (Inl (Errorf ''reservation store path is required'' []), file)
      else if owner = [] \<or> ttl \<le> 0 \<or> uuids = []
      then Some (Inl (Errorf ''reservation owner, positive expiry, and at least one GPU are required'' []), file)
      else let canonical = sort uuids in
        case check_canonical None canonical of
          Some err \<Rightarrow> Some (Inl err, file)
        | None \<Rightarrow>
          (case store_lock env of
             None \<Rightarrow> None
           | Some (Inl err) \<Rightarrow> Some (Inl err, file)
           | Some (Inr _) \<Rightarrow>
             (case readState env file of
                Inl err \<Rightarrow> Some (Inl err, file)
              | Inr st \<Rightarrow>
                let live = removeExpired (reservations st) now in
                (case checkE (reserved_error live) canonical of
                   Some err \<Rightarrow> Some (Inl err, file)
                 | None \<Rightarrow>
                   (case randomToken env of
                      Inl err \<Rightarrow> Some (Inl err, file)
                    | Inr token \<Rightarrow>
                      let lease = \<lparr>lease_Token = token, lease_Owner = owner, lease_UUIDs = canonical,
                                   lease_ExpiresAt = now + ttl\<rparr>;
                          r = \<lparr>rec_Token = token, rec_Owner = owner, rec_ExpiresAt = now + ttl\<rparr>;
                          rs = fold (\<lambda>uuid. AList.update uuid r) canonical live in
                      (case writeState env (st\<lparr>st_Reservations := Some rs\<rparr>) file of
                         (Some err, file') \<Rightarrow> Some (Inl err, file')
                       | (None, file') \<Rightarrow> Some (Inr lease, file')))))))"

definition mismatch_error :: "ReservationLease \<Rightarrow> (UUID, reservationRecord) gomap \<Rightarrow> UUID \<Rightarrow> go_error option" where
  "mismatch_error lease rs uuid =
     (case map_of rs uuid of
        None \<Rightarrow> None
      | Some current \<Rightarrow>
          if rec_Token current \<noteq> lease_Token lease \<or> rec_Owner current \<noteq> lease_Owner lease
          then Some (Errorf ''reservation ownership mismatch for GPU %s'' [AStr uuid]) else None)"

definition Release ::
  "ReservationStore option \<Rightarrow> reservation_env \<Rightarrow> ReservationLease \<Rightarrow> time \<Rightarrow> state_file \<Rightarrow>
     (go_error option \<times> state_file) option" where
  "Release store env lease now file =
     (if store_missing store then Some (Some (Errorf ''reservation store path is required'' []), file)
      else if lease_Token lease = [] \<or> lease_Owner lease = [] \<or> lease_UUIDs lease = []
      then Some (Some (Errorf ''complete reservation lease is required'' []), file)
      else
        (case store_lock env of
           None \<Rightarrow> None
         | Some (Inl err) \<Rightarrow> Some (Some err, file)
         | Some (Inr _) \<Rightarrow>
           (case readState env file of
              Inl err \<Rightarrow> Some (Some err, file)
            | Inr st \<Rightarrow>
              let live = removeExpired (reservations st) now in
              (case checkE (mismatch_error lease live) (lease_UUIDs lease) of
                 Some err \<Rightarrow> Some (Some err, file)
               | None \<Rightarrow>
                 Some (writeState env
                   (st\<lparr>st_Reservations := Some (fold AList.delete (lease_UUIDs lease) live)\<rparr>) file)))))"

definition Active ::
  "ReservationStore option \<Rightarrow> reservation_env \<Rightarrow> time \<Rightarrow> state_file \<Rightarrow> ReservationLease list result option" where
  "Active store env now file =
     (if store_missing store then Some (Inl (Errorf ''reservation store path is required'' []))
      else
        (case store_lock env of
           None \<Rightarrow> None
         | Some (Inl err) \<Rightarrow> Some (Inl err)
         | Some (Inr _) \<Rightarrow>
           (case readState env file of
              Inl err \<Rightarrow> Some (Inl err)
            | Inr st \<Rightarrow>
              Some (Inr (sort_key (\<lambda>lease. hd (lease_UUIDs lease))
                (map (\<lambda>(uuid, r). \<lparr>lease_Token = rec_Token r, lease_Owner = rec_Owner r,
                         lease_UUIDs = [uuid], lease_ExpiresAt = rec_ExpiresAt r\<rparr>)
                   (removeExpired (reservations st) now)))))))"

section \<open>What the file says\<close>

text \<open>The reservation of a GPU that is in force at time \<open>t\<close>.\<close>

definition live_view :: "state_file \<Rightarrow> time \<Rightarrow> UUID \<Rightarrow> reservationRecord option" where
  "live_view file t u =
     (case file of
        Some (Inr st) \<Rightarrow>
          if st_Version st = 1
          then (case map_of (reservations st) u of
                  None \<Rightarrow> None
                | Some r \<Rightarrow> if t < rec_ExpiresAt r then Some r else None)
          else None
      | _ \<Rightarrow> None)"

definition file_ok :: "state_file \<Rightarrow> bool" where
  "file_ok file = (case file of Some (Inr st) \<Rightarrow> go_map (reservations st) | _ \<Rightarrow> True)"

lemma readState_Inr:
  assumes "readState env file = Inr st"
  shows "live_view file t u = (case map_of (reservations st) u of
           None \<Rightarrow> None | Some r \<Rightarrow> if t < rec_ExpiresAt r then Some r else None)"
    and "file_ok file \<Longrightarrow> go_map (reservations st)" and "st_Version st = 1"
  using assms
  by (auto simp: readState_def live_view_def file_ok_def reservations_def go_map_def Let_def
      split: option.splits sum.splits if_splits)

lemma map_of_removeExpired:
  "go_map rs \<Longrightarrow> map_of (removeExpired rs now) u =
     (case map_of rs u of None \<Rightarrow> None | Some r \<Rightarrow> if now < rec_ExpiresAt r then Some r else None)"
  unfolding removeExpired_def by (rule map_of_filter)

lemma removeExpired_live:
  assumes "readState env file = Inr st" and "file_ok file"
  shows "map_of (removeExpired (reservations st) now) = live_view file now"
    and "go_map (removeExpired (reservations st) now)"
proof -
  note read = readState_Inr [OF assms(1)]
  show "map_of (removeExpired (reservations st) now) = live_view file now"
    by (rule ext) (simp add: map_of_removeExpired [OF read(2) [OF assms(2)]] read(1))
  show "go_map (removeExpired (reservations st) now)"
    using read(2) [OF assms(2)] by (auto simp: removeExpired_def)
qed

lemma live_view_expires: "live_view file t u = Some r \<Longrightarrow> t < rec_ExpiresAt r"
  by (auto simp: live_view_def split: option.splits sum.splits if_splits)

lemma live_view_later:
  "t \<le> t' \<Longrightarrow> live_view file t' u =
     (case live_view file t u of None \<Rightarrow> None | Some r \<Rightarrow> if t' < rec_ExpiresAt r then Some r else None)"
  by (auto simp: live_view_def split: option.splits sum.splits)

lemma map_of_fold_update: "map_of (fold (\<lambda>u. AList.update u r) us m) x = (if x \<in> set us then Some r else map_of m x)"
  by (induction us arbitrary: m) auto

lemma go_map_fold_update: "go_map m \<Longrightarrow> go_map (fold (\<lambda>u. AList.update u r) us m)"
  by (induction us arbitrary: m) auto

lemma map_of_fold_delete: "map_of (fold AList.delete us m) x = (if x \<in> set us then None else map_of m x)"
  by (induction us arbitrary: m) auto

lemma go_map_fold_delete: "go_map m \<Longrightarrow> go_map (fold AList.delete us m)"
  by (induction us arbitrary: m) auto

lemma writeState_cases:
  assumes "writeState env st file = (err, file')"
  shows "err \<noteq> None \<and> file' = file \<or> err = None \<and> file' = Some (Inr st)"
  using assms by (auto simp: writeState_def split: option.splits if_splits)

lemma live_view_written:
  assumes "st_Version st = 1"
  shows "live_view (Some (Inr (st\<lparr>st_Reservations := Some rs\<rparr>))) t u =
    (case map_of rs u of None \<Rightarrow> None | Some r \<Rightarrow> if t < rec_ExpiresAt r then Some r else None)"
    and "file_ok (Some (Inr (st\<lparr>st_Reservations := Some rs\<rparr>))) = go_map rs"
  using assms by (simp_all add: live_view_def file_ok_def reservations_def)

lemma check_canonical_distinct:
  assumes "sorted us" and "check_canonical prev us = None" and "\<forall>p. prev = Some p \<longrightarrow> (\<forall>u \<in> set us. p \<le> u)"
  shows "distinct us \<and> (\<forall>u \<in> set us. uuid_Validate u = None \<and> prev \<noteq> Some u)"
  using assms
proof (induction prev us rule: check_canonical.induct)
  case (2 prev u rest)
  then have v: "uuid_Validate u = None" "prev \<noteq> Some u" "check_canonical (Some u) rest = None"
    by (auto split: option.splits if_splits)
  with 2 have "distinct rest" and "\<forall>x \<in> set rest. uuid_Validate x = None \<and> x \<noteq> u" by auto
  moreover have "prev \<noteq> Some x" if "x \<in> set rest" for x
  proof
    assume "prev = Some x"
    with 2 that have "x \<le> u" "u \<le> x" by auto
    with v(2) \<open>prev = Some x\<close> show False by simp
  qed
  ultimately show ?case using v by auto
qed simp

section \<open>Each operation on every outcome\<close>

text \<open>What a successful \<open>Reserve\<close> did.\<close>

lemma Reserve_Inr:
  assumes "Reserve store env uuids owner ttl now file = Some (Inr lease, file')" and "file_ok file"
  shows "file_ok file'" and "0 < ttl" and "owner \<noteq> []"
    and "lease_UUIDs lease = sort uuids" and "distinct uuids" and "\<forall>u \<in> set uuids. uuid_Validate u = None"
    and "lease_Owner lease = owner" and "lease_ExpiresAt lease = now + ttl"
    and "\<forall>u \<in> set uuids. live_view file now u = None"
    and "now \<le> t \<Longrightarrow> live_view file' t u =
      (if u \<in> set uuids
       then if t < now + ttl
            then Some \<lparr>rec_Token = lease_Token lease, rec_Owner = owner, rec_ExpiresAt = now + ttl\<rparr>
            else None
       else live_view file t u)"
proof -
  let ?r = "\<lambda>token. \<lparr>rec_Token = token, rec_Owner = owner, rec_ExpiresAt = now + ttl\<rparr>"
  obtain st token rs where read: "readState env file = Inr st"
    and canon: "check_canonical None (sort uuids) = None"
    and free: "checkE (reserved_error (removeExpired (reservations st) now)) (sort uuids) = None"
    and lease: "lease = \<lparr>lease_Token = token, lease_Owner = owner, lease_UUIDs = sort uuids, lease_ExpiresAt = now + ttl\<rparr>"
    and rs: "rs = fold (\<lambda>u. AList.update u (?r token)) (sort uuids) (removeExpired (reservations st) now)"
    and written: "writeState env (st\<lparr>st_Reservations := Some rs\<rparr>) file = (None, file')"
    and args: "0 < ttl" "owner \<noteq> []"
    using assms(1)
    by (auto simp: Reserve_def Let_def split: if_splits option.splits sum.splits prod.splits)
  note live = removeExpired_live [OF read assms(2), of now]
  have file': "file' = Some (Inr (st\<lparr>st_Reservations := Some rs\<rparr>))"
    using writeState_cases [OF written] by simp
  note view = live_view_written [OF readState_Inr(3) [OF read], of rs, folded file']
  show "file_ok file'" using view(2) go_map_fold_update [OF live(2)] by (simp add: rs)
  show "0 < ttl" "owner \<noteq> []" by (rule args)+
  show "lease_UUIDs lease = sort uuids" "lease_Owner lease = owner" "lease_ExpiresAt lease = now + ttl"
    by (simp_all add: lease)
  show "distinct uuids" "\<forall>u \<in> set uuids. uuid_Validate u = None"
    using check_canonical_distinct [OF sorted_sort canon] by simp_all
  show "\<forall>u \<in> set uuids. live_view file now u = None"
    using free live(1) by (auto simp: reserved_error_def split: option.splits)
  show "live_view file' t u = (if u \<in> set uuids then if t < now + ttl
      then Some \<lparr>rec_Token = lease_Token lease, rec_Owner = owner, rec_ExpiresAt = now + ttl\<rparr>
      else None else live_view file t u)" if "now \<le> t"
    using live_view_later [OF that, of "file" u]
    by (simp add: view(1) rs map_of_fold_update live(1) lease)
qed

lemma Reserve_Inl: "Reserve store env uuids owner ttl now file = Some (Inl e, file') \<Longrightarrow> file' = file"
  by (auto simp: Reserve_def Let_def dest: writeState_cases
      split: if_splits option.splits sum.splits prod.splits)

lemma Release_None:
  assumes "Release store env lease now file = Some (None, file')" and "file_ok file"
  shows "file_ok file'"
    and "u \<in> set (lease_UUIDs lease) \<Longrightarrow> live_view file now u = Some r \<Longrightarrow>
           rec_Token r = lease_Token lease \<and> rec_Owner r = lease_Owner lease"
    and "now \<le> t \<Longrightarrow> live_view file' t u = (if u \<in> set (lease_UUIDs lease) then None else live_view file t u)"
proof -
  obtain st rs where read: "readState env file = Inr st"
    and own: "checkE (mismatch_error lease (removeExpired (reservations st) now)) (lease_UUIDs lease) = None"
    and rs: "rs = fold AList.delete (lease_UUIDs lease) (removeExpired (reservations st) now)"
    and written: "writeState env (st\<lparr>st_Reservations := Some rs\<rparr>) file = (None, file')"
    using assms(1) by (auto simp: Release_def Let_def split: if_splits option.splits sum.splits)
  note live = removeExpired_live [OF read assms(2), of now]
  have file': "file' = Some (Inr (st\<lparr>st_Reservations := Some rs\<rparr>))"
    using writeState_cases [OF written] by simp
  note view = live_view_written [OF readState_Inr(3) [OF read], of rs, folded file']
  show "file_ok file'" using view(2) go_map_fold_delete [OF live(2)] by (simp add: rs)
  show "rec_Token r = lease_Token lease \<and> rec_Owner r = lease_Owner lease"
    if "u \<in> set (lease_UUIDs lease)" "live_view file now u = Some r"
    using own that live(1) by (fastforce simp: mismatch_error_def split: if_splits)
  show "live_view file' t u = (if u \<in> set (lease_UUIDs lease) then None else live_view file t u)" if "now \<le> t"
    using live_view_later [OF that, of "file" u]
    by (simp add: view(1) rs map_of_fold_delete live(1))
qed

lemma Release_Some: "Release store env lease now file = Some (Some e, file') \<Longrightarrow> file' = file"
  by (auto simp: Release_def Let_def dest: writeState_cases
      split: if_splits option.splits sum.splits prod.splits)

section \<open>Histories of leases\<close>

text \<open>
  A history of operations by any number of processes on a store, with the clock and the leases that
  were granted and not given back. A release hands back every lease with its token and owner. The
  clock that the operations read never runs backwards.
\<close>

type_synonym ('env, 's) reserve_op =
  "'env \<Rightarrow> UUID list \<Rightarrow> string \<Rightarrow> int \<Rightarrow> time \<Rightarrow> 's \<Rightarrow> (ReservationLease result \<times> 's) option"

type_synonym ('env, 's) release_op =
  "'env \<Rightarrow> ReservationLease \<Rightarrow> time \<Rightarrow> 's \<Rightarrow> (go_error option \<times> 's) option"

definition same_lease :: "ReservationLease \<Rightarrow> ReservationLease \<Rightarrow> bool" where
  "same_lease a b \<longleftrightarrow> lease_Token a = lease_Token b \<and> lease_Owner a = lease_Owner b"

inductive lease_run ::
  "('env, 's) reserve_op \<Rightarrow> ('env, 's) release_op \<Rightarrow> 's \<Rightarrow> 's \<Rightarrow> time \<Rightarrow> ReservationLease list \<Rightarrow> bool"
  for reserve release s0 where
  start: "lease_run reserve release s0 s0 t []"
| wait: "lease_run reserve release s0 s t held \<Longrightarrow> t \<le> now \<Longrightarrow> lease_run reserve release s0 s now held"
| granted: "lease_run reserve release s0 s now held \<Longrightarrow>
    reserve env uuids owner ttl now s = Some (Inr lease, s') \<Longrightarrow>
    lease_run reserve release s0 s' now (lease # held)"
| refused: "lease_run reserve release s0 s now held \<Longrightarrow>
    reserve env uuids owner ttl now s = Some (Inl err, s') \<Longrightarrow> lease_run reserve release s0 s' now held"
| released: "lease_run reserve release s0 s now held \<Longrightarrow> release env lease now s = Some (None, s') \<Longrightarrow>
    lease_run reserve release s0 s' now (filter (\<lambda>l. \<not> same_lease l lease) held)"
| not_released: "lease_run reserve release s0 s now held \<Longrightarrow> release env lease now s = Some (Some err, s') \<Longrightarrow>
    lease_run reserve release s0 s' now held"

definition lease_record :: "ReservationLease \<Rightarrow> reservationRecord" where
  "lease_record l = \<lparr>rec_Token = lease_Token l, rec_Owner = lease_Owner l, rec_ExpiresAt = lease_ExpiresAt l\<rparr>"

text \<open>Leases in force share no GPU.\<close>

definition exclusive :: "time \<Rightarrow> ReservationLease list \<Rightarrow> bool" where
  "exclusive t held \<longleftrightarrow>
     sorted_wrt (\<lambda>a b. t < lease_ExpiresAt a \<longrightarrow> t < lease_ExpiresAt b \<longrightarrow>
       set (lease_UUIDs a) \<inter> set (lease_UUIDs b) = {}) held"

text \<open>
  What a caller of a reservation store relies on: \<open>view s t u\<close> is the reservation of GPU \<open>u\<close> that is
  in force at time \<open>t\<close>.
\<close>

locale lease_store =
  fixes view :: "'s \<Rightarrow> time \<Rightarrow> UUID \<Rightarrow> reservationRecord option"
    and ok :: "'s \<Rightarrow> bool"
    and reserve :: "('env, 's) reserve_op"
    and release :: "('env, 's) release_op"
  assumes view_expiry: "t \<le> t' \<Longrightarrow> view s t' u =
      (case view s t u of None \<Rightarrow> None | Some r \<Rightarrow> if t' < rec_ExpiresAt r then Some r else None)"
    and reserve_granted: "ok s \<Longrightarrow> reserve env uuids owner ttl now s = Some (Inr lease, s') \<Longrightarrow>
      ok s' \<and> set (lease_UUIDs lease) = set uuids \<and>
      (\<forall>u \<in> set uuids. view s now u = None) \<and>
      (\<forall>u. view s' now u = (if u \<in> set uuids \<and> now < lease_ExpiresAt lease then Some (lease_record lease) else view s now u))"
    and reserve_refused: "reserve env uuids owner ttl now s = Some (Inl err, s') \<Longrightarrow> s' = s"
    and release_done: "ok s \<Longrightarrow> release env lease now s = Some (None, s') \<Longrightarrow>
      ok s' \<and>
      (\<forall>u \<in> set (lease_UUIDs lease). \<forall>r. view s now u = Some r \<longrightarrow>
         rec_Token r = lease_Token lease \<and> rec_Owner r = lease_Owner lease) \<and>
      (\<forall>u. view s' now u = (if u \<in> set (lease_UUIDs lease) then None else view s now u))"
    and release_refused: "release env lease now s = Some (Some err, s') \<Longrightarrow> s' = s"
begin

text \<open>The store records every lease that is out and in force.\<close>

definition backed :: "'s \<Rightarrow> time \<Rightarrow> ReservationLease list \<Rightarrow> bool" where
  "backed s t held \<longleftrightarrow> (\<forall>l \<in> set held. t < lease_ExpiresAt l \<longrightarrow>
     (\<forall>u \<in> set (lease_UUIDs l). view s t u = Some (lease_record l)))"

lemma backed_later: "backed s t held \<Longrightarrow> t \<le> t' \<Longrightarrow> backed s t' held"
  using view_expiry [of t t' s] by (fastforce simp: backed_def lease_record_def)

lemma exclusive_later: "exclusive t held \<Longrightarrow> t \<le> t' \<Longrightarrow> exclusive t' held"
  unfolding exclusive_def by (erule sorted_wrt_mono_rel [rotated]) auto

lemma granted_step:
  assumes "ok s" and "backed s now held" and "exclusive now held"
    and "reserve env uuids owner ttl now s = Some (Inr lease, s')"
  shows "backed s' now (lease # held)" and "exclusive now (lease # held)"
proof -
  note g = reserve_granted [OF assms(1,4)]
  have free: "u \<notin> set uuids" if "l \<in> set held" "now < lease_ExpiresAt l" "u \<in> set (lease_UUIDs l)" for l u
    using that assms(2) g unfolding backed_def by fastforce
  show "backed s' now (lease # held)"
    using assms(2) g free unfolding backed_def by auto
  show "exclusive now (lease # held)"
    using assms(3) g free unfolding exclusive_def by auto
qed

lemma released_step:
  assumes "ok s" and "backed s now held" and "release env lease now s = Some (None, s')"
  shows "backed s' now (filter (\<lambda>l. \<not> same_lease l lease) held)"
proof -
  note r = release_done [OF assms(1,3)]
  have "u \<notin> set (lease_UUIDs lease)"
    if "l \<in> set held" "\<not> same_lease l lease" "now < lease_ExpiresAt l" "u \<in> set (lease_UUIDs l)" for l u
  proof
    assume "u \<in> set (lease_UUIDs lease)"
    moreover have "view s now u = Some (lease_record l)" using that assms(2) by (auto simp: backed_def)
    ultimately show False using r that(2) by (auto simp: same_lease_def lease_record_def)
  qed
  with assms(2) r show ?thesis by (auto simp: backed_def)
qed

lemma run_invariant:
  assumes "lease_run reserve release s0 s t held" and "ok s0"
  shows "ok s \<and> backed s t held \<and> exclusive t held"
  using assms
proof (induction rule: lease_run.induct)
  case (start t)
  then show ?case by (simp add: backed_def exclusive_def)
next
  case (wait s t held now)
  then show ?case using backed_later exclusive_later by blast
next
  case (granted s now held env uuids owner ttl lease s')
  then show ?case
    using granted_step [of s now held env uuids owner ttl lease s'] reserve_granted [of s env uuids owner ttl now lease s']
    by simp
next
  case (refused s now held env uuids owner ttl err s')
  then show ?case using reserve_refused by blast
next
  case (released s now held env lease s')
  then show ?case using released_step [of s now held env lease s'] release_done
    by (auto simp: exclusive_def sorted_wrt_filter)
next
  case (not_released s now held env lease err s')
  then show ?case using release_refused by blast
qed

end

interpretation file_store: lease_store live_view file_ok "Reserve store" "Release store" for store
proof
  show "live_view s t' u = (case live_view s t u of None \<Rightarrow> None
      | Some r \<Rightarrow> if t' < rec_ExpiresAt r then Some r else None)" if "t \<le> t'" for t t' s u
    using that by (rule live_view_later)
  show "file_ok s' \<and> set (lease_UUIDs lease) = set uuids \<and> (\<forall>u \<in> set uuids. live_view s now u = None) \<and>
      (\<forall>u. live_view s' now u = (if u \<in> set uuids \<and> now < lease_ExpiresAt lease
         then Some (lease_record lease) else live_view s now u))"
    if "file_ok s" "Reserve store env uuids owner ttl now s = Some (Inr lease, s')"
    for s env uuids owner ttl now lease s'
    using Reserve_Inr [OF that(2,1)] by (simp add: lease_record_def)
  show "file_ok s' \<and> (\<forall>u \<in> set (lease_UUIDs lease). \<forall>r. live_view s now u = Some r \<longrightarrow>
         rec_Token r = lease_Token lease \<and> rec_Owner r = lease_Owner lease) \<and>
      (\<forall>u. live_view s' now u = (if u \<in> set (lease_UUIDs lease) then None else live_view s now u))"
    if "file_ok s" "Release store env lease now s = Some (None, s')" for s env lease now s'
    using Release_None [OF that(2,1)] by blast
qed (rule Reserve_Inl Release_Some, assumption)+

section \<open>Properties\<close>

text \<open>An environment in which every system call succeeds and the random bytes are \<open>bytes\<close>.\<close>

definition quiet_env :: "nat list \<Rightarrow> reservation_env" where
  "quiet_env bytes =
     \<lparr>env_MkdirAll = None, env_OpenFile = None, env_tryLock = (\<lambda>attempt. Inr (attempt > 1)), env_wait = (\<lambda>_ _. None),
      env_ReadFile = None, env_randRead = Inr bytes, env_CreateTemp = None, env_Chmod = None, env_Write = None,
      env_Sync = None, env_Close = None, env_replaceFile = None\<rparr>"

definition sample_store :: "ReservationStore option" where
  "sample_store = Some \<lparr>store_Path = ''/run/gpu.json''\<rparr>"

definition gpu_a :: UUID where "gpu_a = ''GPU-8d337a84-43de-158d-7526-7175288a6064''"
definition gpu_b :: UUID where "gpu_b = ''GPU-00000000-0000-0000-0000-000000000001''"

definition sample_lease :: "string \<Rightarrow> UUID \<Rightarrow> time \<Rightarrow> ReservationLease" where
  "sample_lease token u expiry =
     \<lparr>lease_Token = token, lease_Owner = ''job'', lease_UUIDs = [u], lease_ExpiresAt = expiry\<rparr>"

definition sample_file :: "(UUID, reservationRecord) gomap \<Rightarrow> state_file" where
  "sample_file rs = Some (Inr \<lparr>st_Version = 1, st_Reservations = Some rs\<rparr>)"

lemma sample_reserve_a:
  "Reserve sample_store (quiet_env [10, 11]) [gpu_a] ''job'' 100 0 None =
     Some (Inr (sample_lease ''0a0b'' gpu_a 100), sample_file [(gpu_a, lease_record (sample_lease ''0a0b'' gpu_a 100))])"
  by code_simp

lemma sample_reserve_b:
  "Reserve sample_store (quiet_env [12]) [gpu_b] ''job'' 10 5
       (sample_file [(gpu_a, lease_record (sample_lease ''0a0b'' gpu_a 100))]) =
     Some (Inr (sample_lease ''0c'' gpu_b 15),
       sample_file [(gpu_a, lease_record (sample_lease ''0a0b'' gpu_a 100)),
                    (gpu_b, lease_record (sample_lease ''0c'' gpu_b 15))])"
  by code_simp

text \<open>
  C1. Mutual exclusion of GPU leases. In every history of reservations and releases by any number of
  processes, with any failing system calls in between, no two leases that are out and unexpired name
  the same GPU, and the store still records each of them for its holder.
\<close>

theorem leases_mutually_exclusive:
  assumes "lease_run (Reserve store) (Release store) file0 file t held" and "file_ok file0"
  shows "exclusive t held \<and>
    (\<forall>l \<in> set held. t < lease_ExpiresAt l \<longrightarrow>
       (\<forall>u \<in> set (lease_UUIDs l). live_view file t u = Some (lease_record l)))"
  using file_store.run_invariant [OF assms] by (simp add: file_store.backed_def)

theorem leases_mutually_exclusive_witness:
  "\<exists>file. lease_run (Reserve sample_store) (Release sample_store) None file 5
            [sample_lease ''0c'' gpu_b 15, sample_lease ''0a0b'' gpu_a 100] \<and>
     exclusive 5 [sample_lease ''0c'' gpu_b 15, sample_lease ''0a0b'' gpu_a 100] \<and>
     live_view file 5 gpu_a = Some (lease_record (sample_lease ''0a0b'' gpu_a 100))"
proof -
  let ?file = "sample_file [(gpu_a, lease_record (sample_lease ''0a0b'' gpu_a 100)),
                            (gpu_b, lease_record (sample_lease ''0c'' gpu_b 15))]"
  have run: "lease_run (Reserve sample_store) (Release sample_store) None ?file 5
      [sample_lease ''0c'' gpu_b 15, sample_lease ''0a0b'' gpu_a 100]"
    by (rule lease_run.granted [where reserve = "Reserve sample_store", OF _ sample_reserve_b], rule lease_run.wait [where t = 0],
        rule lease_run.granted [where reserve = "Reserve sample_store", OF _ sample_reserve_a], rule lease_run.start) simp
  have "file_ok None" by (simp add: file_ok_def)
  from leases_mutually_exclusive [OF run this] run show ?thesis
    by (intro exI [of _ ?file]) (simp add: sample_lease_def)
qed

text \<open>
  C11. \<open>Reserve\<close> is all or nothing. If it returns an error, the state file is untouched; if it returns a
  lease, every requested GPU was free, the lease names exactly the requested GPUs in sorted order with
  expiry \<open>now + ttl\<close>, from then on until that expiry each of them is reserved for the lease, and the
  reservations of all other GPUs are as before.
\<close>

theorem Reserve_all_or_nothing:
  assumes "Reserve store env uuids owner ttl now file = Some (outcome, file')" and "file_ok file" and "now \<le> t"
  shows "case outcome of
      Inl err \<Rightarrow> file' = file
    | Inr lease \<Rightarrow>
        lease_UUIDs lease = sort uuids \<and> distinct uuids \<and> (\<forall>u \<in> set uuids. uuid_Validate u = None) \<and>
        lease_ExpiresAt lease = now + ttl \<and> now < now + ttl \<and>
        (\<forall>u \<in> set uuids. live_view file now u = None) \<and>
        (\<forall>u. live_view file' t u =
           (if u \<in> set uuids then if t < now + ttl then Some (lease_record lease) else None else live_view file t u))"
proof (cases outcome)
  case (Inl err)
  with assms(1) Reserve_Inl show ?thesis by simp
next
  case (Inr lease)
  with assms(1) have "Reserve store env uuids owner ttl now file = Some (Inr lease, file')" by simp
  note r = Reserve_Inr [OF this assms(2)]
  from r(1-9) r(10) [OF assms(3)] Inr show ?thesis by (simp add: lease_record_def)
qed

theorem Reserve_all_or_nothing_witness:
  "\<exists>file. Reserve sample_store (quiet_env [10, 11]) [gpu_a] ''job'' 100 0 None =
       Some (Inr (sample_lease ''0a0b'' gpu_a 100), file) \<and>
     live_view file 99 gpu_a = Some (lease_record (sample_lease ''0a0b'' gpu_a 100)) \<and> live_view file 100 gpu_a = None"
  using sample_reserve_a Reserve_all_or_nothing [OF sample_reserve_a, of 99]
    Reserve_all_or_nothing [OF sample_reserve_a, of 100]
  by (intro exI [of _ "sample_file [(gpu_a, lease_record (sample_lease ''0a0b'' gpu_a 100))]"])
     (simp add: file_ok_def)

text \<open>
  C12. \<open>Release\<close> gives back only what the lease owns. If it returns an error, the file is untouched; if it
  succeeds, every GPU of the lease that was reserved at that time was reserved under the lease's own
  token and owner, none of them is reserved afterwards, and all other reservations are as before. So
  an expired lease can never free a GPU that another owner took over.
\<close>

theorem Release_only_own:
  assumes "Release store env lease now file = Some (outcome, file')" and "file_ok file" and "now \<le> t"
  shows "case outcome of
      Some err \<Rightarrow> file' = file
    | None \<Rightarrow>
        (\<forall>u \<in> set (lease_UUIDs lease). \<forall>r. live_view file now u = Some r \<longrightarrow>
           rec_Token r = lease_Token lease \<and> rec_Owner r = lease_Owner lease) \<and>
        (\<forall>u. live_view file' t u = (if u \<in> set (lease_UUIDs lease) then None else live_view file t u))"
proof (cases outcome)
  case None
  with assms(1) have "Release store env lease now file = Some (None, file')" by simp
  note r = Release_None [OF this assms(2)]
  from r(2) r(3) [OF assms(3)] None show ?thesis by simp
next
  case (Some err)
  with assms(1) Release_Some show ?thesis by simp
qed

theorem Release_only_own_witness:
  "let file = sample_file [(gpu_a, lease_record (sample_lease ''0a0b'' gpu_a 100))] in
   \<exists>file'. Release sample_store (quiet_env []) (sample_lease ''0a0b'' gpu_a 100) 6 file = Some (None, file') \<and>
     live_view file 6 gpu_a = Some (lease_record (sample_lease ''0a0b'' gpu_a 100)) \<and> live_view file' 7 gpu_a = None"
proof -
  let ?file = "sample_file [(gpu_a, lease_record (sample_lease ''0a0b'' gpu_a 100))]"
  have r: "Release sample_store (quiet_env []) (sample_lease ''0a0b'' gpu_a 100) 6 ?file = Some (None, sample_file [])"
    by code_simp
  have "file_ok ?file" "live_view ?file 6 gpu_a = Some (lease_record (sample_lease ''0a0b'' gpu_a 100))"
    by code_simp+
  with r Release_only_own [OF r, of 7] show ?thesis
    unfolding Let_def by (intro exI [of _ "sample_file []"]) (simp add: sample_lease_def)
qed

lemma record_eta: "\<lparr>rec_Token = rec_Token r, rec_Owner = rec_Owner r, rec_ExpiresAt = rec_ExpiresAt r\<rparr> = r"
  by simp

lemma Active_Inr:
  assumes "Active store env now file = Some (Inr leases)" and "file_ok file"
  obtains rs where "go_map rs" and "map_of rs = live_view file now"
    and "leases = sort_key (\<lambda>lease. hd (lease_UUIDs lease))
           (map (\<lambda>(uuid, r). \<lparr>lease_Token = rec_Token r, lease_Owner = rec_Owner r,
              lease_UUIDs = [uuid], lease_ExpiresAt = rec_ExpiresAt r\<rparr>) rs)"
proof -
  from assms(1) obtain st where read: "readState env file = Inr st"
    and "leases = sort_key (\<lambda>lease. hd (lease_UUIDs lease))
           (map (\<lambda>(uuid, r). \<lparr>lease_Token = rec_Token r, lease_Owner = rec_Owner r,
              lease_UUIDs = [uuid], lease_ExpiresAt = rec_ExpiresAt r\<rparr>) (removeExpired (reservations st) now))"
    by (auto simp: Active_def split: if_splits option.splits sum.splits)
  with removeExpired_live [OF read assms(2)] that show thesis by blast
qed

text \<open>
  \<open>Active\<close> reports the reservations in force and nothing else: its result is strictly ordered by
  GPU, and a lease for one GPU is in it exactly when the file reserves that GPU with this token, owner and expiry
  beyond the present.
\<close>

lemma Active_reports_live:
  assumes "Active store env now file = Some (Inr leases)" and "file_ok file"
  shows "sorted (map (\<lambda>l. hd (lease_UUIDs l)) leases) \<and> distinct (map (\<lambda>l. hd (lease_UUIDs l)) leases) \<and>
    (\<forall>lease. lease \<in> set leases \<longleftrightarrow>
       (\<exists>u. lease_UUIDs lease = [u] \<and> live_view file now u = Some (lease_record lease)))"
proof -
  let ?f = "\<lambda>(uuid, r). \<lparr>lease_Token = rec_Token r, lease_Owner = rec_Owner r,
              lease_UUIDs = [uuid], lease_ExpiresAt = rec_ExpiresAt r\<rparr> :: ReservationLease"
  from assms obtain rs where rs: "go_map rs" "map_of rs = live_view file now"
    and leases: "leases = sort_key (\<lambda>lease. hd (lease_UUIDs lease)) (map ?f rs)"
    by (rule Active_Inr)
  have "map (\<lambda>l. hd (lease_UUIDs l)) (map ?f rs) = map fst rs" by auto
  then have "distinct (map (\<lambda>l. hd (lease_UUIDs l)) (map ?f rs))"
    using rs(1) by (simp only: go_map_def)
  then have "distinct (map (\<lambda>l. hd (lease_UUIDs l)) leases)"
    by (simp only: leases distinct_map_sort_key)
  moreover have "lease \<in> set leases \<longleftrightarrow> (\<exists>u. lease_UUIDs lease = [u] \<and> live_view file now u = Some (lease_record lease))"
    for lease
  proof -
    have "lease \<in> ?f ` set rs \<longleftrightarrow> (\<exists>u. lease_UUIDs lease = [u] \<and> (u, lease_record lease) \<in> set rs)"
      by (cases lease) (auto simp: lease_record_def record_eta image_iff intro: bexI [rotated])
    then show ?thesis by (simp add: leases go_map_mem_iff [OF rs(1)] rs(2))
  qed
  ultimately show ?thesis by (simp add: leases)
qed

lemma lock_loop_finds:
  "lock_loop env attempt = Some r \<Longrightarrow>
     \<exists>n \<ge> attempt. env_tryLock env n \<noteq> Inr False \<or> waitForContendedReservationLock env n \<noteq> None"
proof (erule lock_loop.raw_induct [rotated])
  fix rec env attempt and y :: "unit result"
  assume ih: "\<And>env attempt (y :: unit result). rec env attempt = Some y \<Longrightarrow>
      \<exists>n \<ge> attempt. env_tryLock env n \<noteq> Inr False \<or> waitForContendedReservationLock env n \<noteq> None"
    and y: "(case env_tryLock env attempt of
        Inl e \<Rightarrow> Some (Inl (Errorf ''lock reservation store: %w'' [AWrap e]))
      | Inr acquired \<Rightarrow>
          if acquired then Some (Inr ())
          else case waitForContendedReservationLock env attempt of
            Some e \<Rightarrow> Some (Inl (Errorf ''lock reservation store: %w'' [AWrap e]))
          | None \<Rightarrow> rec env (Suc attempt)) = Some y"
  show "\<exists>n \<ge> attempt. env_tryLock env n \<noteq> Inr False \<or> waitForContendedReservationLock env n \<noteq> None"
  proof (cases "env_tryLock env attempt = Inr False \<and> waitForContendedReservationLock env attempt = None")
    case True
    with y have "rec env (Suc attempt) = Some y" by simp
    from ih [OF this] show ?thesis using Suc_leD by blast
  qed auto
qed

lemma lock_loop_stops:
  assumes "env_tryLock env n \<noteq> Inr False \<or> waitForContendedReservationLock env n \<noteq> None" and "attempt \<le> n"
  shows "lock_loop env attempt \<noteq> None"
  using assms(2)
proof (induction "n - attempt" arbitrary: attempt)
  case 0
  with assms(1) show ?case by (auto simp: lock_loop.simps [of env attempt] split: sum.splits option.splits)
next
  case (Suc k)
  then have "lock_loop env (Suc attempt) \<noteq> None" by simp
  then show ?case by (auto simp: lock_loop.simps [of env attempt] split: sum.splits option.splits)
qed

text \<open>
  C35. The lock loop ends exactly when some attempt gets the lock or fails, or the context is done during
  some wait; it waits at least one and at most fifty milliseconds between attempts.
\<close>

theorem lock_loop_returns_iff:
  "((\<exists>r. lock_loop env 0 = Some r) \<longleftrightarrow>
     (\<exists>n. env_tryLock env n \<noteq> Inr False \<or> waitForContendedReservationLock env n \<noteq> None)) \<and>
   1000000 \<le> contended_delay n \<and> contended_delay n \<le> 50000000"
proof -
  have "\<forall>d \<in> set lock_delays. 1000000 \<le> d \<and> d \<le> 50000000" by (simp add: lock_delays_def)
  moreover have "contended_delay n \<in> set lock_delays"
    by (auto simp: contended_delay_def) (simp add: lock_delays_def)
  ultimately have "1000000 \<le> contended_delay n \<and> contended_delay n \<le> 50000000" by blast
  then show ?thesis using lock_loop_finds [of env 0] lock_loop_stops [of env _ 0] by blast
qed

theorem lock_loop_returns_iff_witness: "\<exists>r. lock_loop (quiet_env []) 0 = Some r"
proof -
  have "env_tryLock (quiet_env []) 2 = Inr True" by (simp add: quiet_env_def)
  then show ?thesis using lock_loop_returns_iff [of "quiet_env []"] by (metis Inr_inject)
qed

end
