(* ===== verification/Eval_Filesystem.thy ===== *)
theory Eval_Filesystem
  imports Go_Path Error_Codes Reservation "HOL-Library.Monad_Syntax"
begin

text \<open>
  The output root of an evaluation (\<open>pkg/orchestrate/evaluation_filesystem.go\<close> and the locking part of
  \<open>evaluation.go\<close>): path validation, preparing the directory, locking it, and removing a directory that
  this action created. The host is a Unix one.

  A file system is a finite map from clean paths to nodes; a node has an identity (what \<open>os.SameFile\<close>
  compares) and a kind. Every call may fail: \<open>fault op path\<close> is the error with which operation \<open>op\<close> fails
  on \<open>path\<close>, arbitrary in all theorems. A function that may wait forever has an \<open>option\<close> result.
\<close>

section \<open>The file system\<close>

datatype node_kind = Directory | RegularFile | Symlink | OtherFile

record FileInfo =
  fi_id :: nat
  fi_kind :: node_kind

record filesystem =
  fs_nodes :: "(string, FileInfo) gomap"
  fs_next :: nat

type_synonym fault = "string \<Rightarrow> string \<Rightarrow> go_error option"

definition fs_Lstat :: "fault \<Rightarrow> string \<Rightarrow> filesystem \<Rightarrow> FileInfo result" where
  "fs_Lstat fault p fs =
     (case fault ''lstat'' p of
        Some e \<Rightarrow> Inl e
      | None \<Rightarrow> (case map_of (fs_nodes fs) p of None \<Rightarrow> Inl ErrNotExist | Some info \<Rightarrow> Inr info))"

definition fs_add :: "string \<Rightarrow> node_kind \<Rightarrow> filesystem \<Rightarrow> filesystem" where
  "fs_add p kind fs =
     \<lparr>fs_nodes = AList.update p \<lparr>fi_id = fs_next fs, fi_kind = kind\<rparr> (fs_nodes fs), fs_next = Suc (fs_next fs)\<rparr>"

definition fs_Mkdir :: "fault \<Rightarrow> string \<Rightarrow> filesystem \<Rightarrow> go_error option \<times> filesystem" where
  "fs_Mkdir fault p fs =
     (case fault ''mkdir'' p of
        Some e \<Rightarrow> (Some e, fs)
      | None \<Rightarrow>
          if map_of (fs_nodes fs) p \<noteq> None then (Some ErrExist, fs)
          else if map_of (fs_nodes fs) (dir p) = None then (Some ErrNotExist, fs)
          else (None, fs_add p Directory fs))"

text \<open>\<open>os.MkdirAll\<close> creates the missing ancestors from the top.\<close>

fun mkdir_prefixes :: "string list \<Rightarrow> filesystem \<Rightarrow> go_error option \<times> filesystem" where
  "mkdir_prefixes [] fs = (None, fs)"
| "mkdir_prefixes (p # ps) fs =
     (case map_of (fs_nodes fs) p of
        None \<Rightarrow> mkdir_prefixes ps (fs_add p Directory fs)
      | Some info \<Rightarrow>
          if fi_kind info = RegularFile \<or> fi_kind info = OtherFile
          then (Some (Errorf ''mkdir %s: not a directory'' [AStr p]), fs)
          else mkdir_prefixes ps fs)"

definition fs_MkdirAll :: "fault \<Rightarrow> string \<Rightarrow> filesystem \<Rightarrow> go_error option \<times> filesystem" where
  "fs_MkdirAll fault p fs =
     (case fault ''mkdirall'' p of
        Some e \<Rightarrow> (Some e, fs)
      | None \<Rightarrow> mkdir_prefixes (map (\<lambda>k. abs_path (take k (clean_parts True p))) [0..<Suc (length (clean_parts True p))]) fs)"

text \<open>\<open>OpenFile\<close> with and without \<open>O_CREATE|O_EXCL\<close>; the node stands for the open file.\<close>

definition fs_OpenFile :: "fault \<Rightarrow> bool \<Rightarrow> string \<Rightarrow> filesystem \<Rightarrow> FileInfo result \<times> filesystem" where
  "fs_OpenFile fault create_excl p fs =
     (case fault ''open'' p of
        Some e \<Rightarrow> (Inl e, fs)
      | None \<Rightarrow>
          (case map_of (fs_nodes fs) p of
             Some info \<Rightarrow> if create_excl then (Inl ErrExist, fs) else (Inr info, fs)
           | None \<Rightarrow>
               if create_excl
               then (Inr \<lparr>fi_id = fs_next fs, fi_kind = RegularFile\<rparr>, fs_add p RegularFile fs)
               else (Inl ErrNotExist, fs)))"

definition children :: "string \<Rightarrow> filesystem \<Rightarrow> (string \<times> FileInfo) list" where
  "children p fs = filter (\<lambda>(q, _). q \<noteq> p \<and> dir q = p) (fs_nodes fs)"

text \<open>Names and \<open>IsDir\<close> of the entries.\<close>

definition fs_ReadDir :: "fault \<Rightarrow> string \<Rightarrow> filesystem \<Rightarrow> (string \<times> bool) list result" where
  "fs_ReadDir fault p fs =
     (case fault ''readdir'' p of
        Some e \<Rightarrow> Inl e
      | None \<Rightarrow> Inr (map (\<lambda>(q, info). (base q, fi_kind info = Directory)) (children p fs)))"

definition fs_Remove :: "fault \<Rightarrow> string \<Rightarrow> filesystem \<Rightarrow> go_error option \<times> filesystem" where
  "fs_Remove fault p fs =
     (case fault ''remove'' p of
        Some e \<Rightarrow> (Some e, fs)
      | None \<Rightarrow>
          (case map_of (fs_nodes fs) p of
             None \<Rightarrow> (Some ErrNotExist, fs)
           | Some info \<Rightarrow>
               if fi_kind info = Directory \<and> children p fs \<noteq> []
               then (Some (Errorf ''remove %s: directory not empty'' [AStr p]), fs)
               else (None, fs\<lparr>fs_nodes := AList.delete p (fs_nodes fs)\<rparr>)))"

section \<open>Validation of paths\<close>

definition outputRootLockFilename :: string where
  "outputRootLockFilename = ''.nanovms-evaluation.lock''"

definition outputRootCoordinatorSuffix :: string where
  "outputRootCoordinatorSuffix = ''.nanovms-evaluation.coordinator.lock''"

text \<open>\<open>strings.FieldsFunc\<close> for the separators slash and backslash.\<close>

definition path_fields :: "string \<Rightarrow> string list" where
  "path_fields s = filter (\<lambda>f. f \<noteq> []) (concat (map (\<lambda>p. split_on p (CHR 0x5C)) (split_on s (CHR ''/''))))"

definition validateManagedAbsolutePath :: "string \<Rightarrow> string \<Rightarrow> string \<Rightarrow> go_error option" where
  "validateManagedAbsolutePath path field code =
     (if path = [] \<or> trimSpace path = [] \<or> CHR 0x00 \<in> set path
      then Some (evaluationError code ''%s must be a non-empty absolute path'' [AStr field])
      else if \<not> isAbs path then Some (evaluationError code ''%s must be absolute'' [AStr field])
      else let cleaned = clean path in
        if cleaned \<noteq> path then Some (evaluationError code ''%s must be clean and unambiguous'' [AStr field])
        else if dir cleaned = cleaned
        then Some (evaluationError code ''%s must not be a filesystem root'' [AStr field])
        else if \<exists>component \<in> set (path_fields cleaned). component = ''.'' \<or> component = ''..''
        then Some (evaluationError code ''%s must not contain traversal components'' [AStr field])
        else None)"

definition validateOutputRootPath :: "string \<Rightarrow> go_error option" where
  "validateOutputRootPath path = validateManagedAbsolutePath path ''output_root'' CodeInvalidOutputRoot"

section \<open>Preparing the output root\<close>

definition isUnsafeOutputPathEntry :: "FileInfo \<Rightarrow> bool" where
  "isUnsafeOutputPathEntry info = (fi_kind info = Symlink)"

record preparedOutputRoot =
  root_path :: string
  root_created :: bool
  root_identity :: "FileInfo option"

definition validatePreparedOutputRootInfo :: "string \<Rightarrow> FileInfo \<Rightarrow> go_error option" where
  "validatePreparedOutputRootInfo path info =
     (if isUnsafeOutputPathEntry info
      then Some (evaluationError CodeInvalidOutputRoot
             ''output_root path component %q is a symlink or reparse point'' [AStr path])
      else if fi_kind info \<noteq> Directory
      then Some (evaluationError CodeOutputRootCollision ''output_root collides with a non-directory'' [])
      else None)"

text \<open>The body of the loop of \<open>validateExistingOutputPath\<close>, and the loop from \<open>current\<close> up to the root directory.\<close>

definition component_verdict :: "fault \<Rightarrow> filesystem \<Rightarrow> string \<Rightarrow> go_error option" where
  "component_verdict fault fs current =
     (case fs_Lstat fault current fs of
        Inr info \<Rightarrow>
          if isUnsafeOutputPathEntry info
          then Some (evaluationError CodeInvalidOutputRoot
                 ''output_root path component %q is a symlink or reparse point'' [AStr current])
          else if fi_kind info \<noteq> Directory
          then Some (evaluationError CodeOutputRootCollision ''output_root parent %q is not a directory'' [AStr current])
          else None
      | Inl err \<Rightarrow>
          if errors_is err ''os.ErrNotExist'' then None
          else Some (evaluationError CodeOutputRootCreateFailed ''inspect output_root parent %q: %v''
                 [AStr current, AErr err]))"

partial_function (option) walk_up :: "fault \<Rightarrow> filesystem \<Rightarrow> string \<Rightarrow> go_error option option" where
  "walk_up fault fs current =
     (case component_verdict fault fs current of
        Some err \<Rightarrow> Some (Some err)
      | None \<Rightarrow>
          let parent = dir current in
          if parent = current then Some None else walk_up fault fs parent)"

declare walk_up.simps [code]

definition validateExistingOutputPath :: "fault \<Rightarrow> string \<Rightarrow> bool \<Rightarrow> filesystem \<Rightarrow> go_error option option" where
  "validateExistingOutputPath fault path includePath fs =
     walk_up fault fs (if includePath then path else dir path)"

definition prepareOutputRootParent :: "fault \<Rightarrow> string \<Rightarrow> filesystem \<Rightarrow> (go_error option \<times> filesystem) option" where
  "prepareOutputRootParent fault root fs = do {
     verdict \<leftarrow> validateExistingOutputPath fault root False fs;
     (case verdict of
        Some err \<Rightarrow> Some (Some err, fs)
      | None \<Rightarrow>
        let parent = dir root in
        (case fs_MkdirAll fault parent fs of
           (Some err, fs') \<Rightarrow>
             Some (Some (evaluationError CodeOutputRootCreateFailed ''create output_root parents: %v'' [AErr err]), fs')
         | (None, fs') \<Rightarrow>
           (case fs_Lstat fault parent fs' of
              Inl err \<Rightarrow>
                Some (Some (evaluationError CodeOutputRootCreateFailed ''inspect output_root parent %q: %v''
                  [AStr parent, AErr err]), fs')
            | Inr info \<Rightarrow>
                if isUnsafeOutputPathEntry info
                then Some (Some (evaluationError CodeInvalidOutputRoot
                       ''output_root path component %q is a symlink or reparse point'' [AStr parent]), fs')
                else if fi_kind info \<noteq> Directory
                then Some (Some (evaluationError CodeOutputRootCollision
                       ''output_root parent %q is not a directory'' [AStr parent]), fs')
                else Some (None, fs'))))
   }"

text \<open>The end of each branch of \<open>prepareOutputRoot\<close>: inspect the directory and record its identity.\<close>

definition adopt_root ::
  "fault \<Rightarrow> string \<Rightarrow> preparedOutputRoot \<Rightarrow> filesystem \<Rightarrow> preparedOutputRoot \<times> go_error option" where
  "adopt_root fault message root fs =
     (case fs_Lstat fault (root_path root) fs of
        Inl err \<Rightarrow> (root, Some (evaluationError CodeOutputRootCreateFailed message [AErr err]))
      | Inr info \<Rightarrow>
          (case validatePreparedOutputRootInfo (root_path root) info of
             Some err \<Rightarrow> (root, Some err)
           | None \<Rightarrow> (root\<lparr>root_identity := Some info\<rparr>, None)))"

definition prepareOutputRoot ::
  "fault \<Rightarrow> string \<Rightarrow> bool \<Rightarrow> filesystem \<Rightarrow> ((preparedOutputRoot \<times> go_error option) \<times> filesystem) option" where
  "prepareOutputRoot fault requested parentsPrepared fs0 = do {
     let root = \<lparr>root_path = clean requested, root_created = False, root_identity = None\<rparr>;
     (parentErr, fs) \<leftarrow> (if parentsPrepared then Some (None, fs0) else prepareOutputRootParent fault (root_path root) fs0);
     (case parentErr of
        Some err \<Rightarrow> Some ((root, Some err), fs)
      | None \<Rightarrow>
        (case fs_Lstat fault (root_path root) fs of
           Inr info \<Rightarrow>
             (case validatePreparedOutputRootInfo (root_path root) info of
                Some err \<Rightarrow> Some ((root, Some err), fs)
              | None \<Rightarrow> Some ((root\<lparr>root_identity := Some info\<rparr>, None), fs))
         | Inl err \<Rightarrow>
             if \<not> errors_is err ''os.ErrNotExist''
             then Some ((root, Some (evaluationError CodeOutputRootCreateFailed ''inspect output_root: %v'' [AErr err])), fs)
             else (case fs_Mkdir fault (root_path root) fs of
                (Some err, fs') \<Rightarrow>
                  if \<not> errors_is err ''os.ErrExist''
                  then Some ((root, Some (evaluationError CodeOutputRootCreateFailed ''create output_root: %v'' [AErr err])), fs')
                  else Some (adopt_root fault ''inspect concurrently created output_root: %v'' root fs', fs')
              | (None, fs') \<Rightarrow>
                  Some (adopt_root fault ''inspect prepared output_root: %v'' (root\<lparr>root_created := True\<rparr>) fs', fs'))))
   }"

section \<open>Removing a created root\<close>

text \<open>The block for \<open>len(entries) == 1\<close>.\<close>

definition remove_owned_lock ::
  "fault \<Rightarrow> preparedOutputRoot \<Rightarrow> FileInfo option \<Rightarrow> filesystem \<Rightarrow> go_error option \<times> filesystem" where
  "remove_owned_lock fault root ownedLock fs =
     (case ownedLock of
        None \<Rightarrow> (Some (Errorf ''created output_root contains an unowned lock; preserving it'' []), fs)
      | Some owned \<Rightarrow>
        (let lockPath = path_join [root_path root, outputRootLockFilename] in
         case fs_Lstat fault lockPath fs of
           Inl err \<Rightarrow> (Some (Errorf ''inspect output-root lock during cleanup: %w'' [AWrap err]), fs)
         | Inr lockInfo \<Rightarrow>
             if isUnsafeOutputPathEntry lockInfo \<or> fi_kind lockInfo \<noteq> RegularFile \<or> fi_id owned \<noteq> fi_id lockInfo
             then (Some (Errorf ''output-root lock identity changed; preserving it'' []), fs)
             else (case fs_Remove fault lockPath fs of
                 (Some err, fs') \<Rightarrow> (Some (Errorf ''remove output-root lock: %w'' [AWrap err]), fs')
               | (None, fs') \<Rightarrow> (None, fs'))))"

definition cleanupCreatedOutputRoot ::
  "fault \<Rightarrow> preparedOutputRoot \<Rightarrow> FileInfo option \<Rightarrow> filesystem \<Rightarrow> go_error option \<times> filesystem" where
  "cleanupCreatedOutputRoot fault root ownedLock fs =
     (case fs_Lstat fault (root_path root) fs of
        Inl err \<Rightarrow> (Some (Errorf ''inspect created output_root: %w'' [AWrap err]), fs)
      | Inr info \<Rightarrow>
        if map_option fi_id (root_identity root) \<noteq> Some (fi_id info) \<or> isUnsafeOutputPathEntry info \<or> fi_kind info \<noteq> Directory
        then (Some (Errorf ''created output_root was replaced; preserving it'' []), fs)
        else (case fs_ReadDir fault (root_path root) fs of
          Inl err \<Rightarrow> (Some (Errorf ''inspect created output_root contents: %w'' [AWrap err]), fs)
        | Inr entries \<Rightarrow>
          (case find (\<lambda>(name, isDir). name \<noteq> outputRootLockFilename \<or> isDir) entries of
             Some (name, _) \<Rightarrow> (Some (Errorf ''created output_root contains %q; preserving it'' [AStr name]), fs)
           | None \<Rightarrow>
             (case (if length entries = 1 then remove_owned_lock fault root ownedLock fs else (None, fs)) of
                (Some err, fs1) \<Rightarrow> (Some err, fs1)
              | (None, fs1) \<Rightarrow>
                (case fs_Remove fault (root_path root) fs1 of
                   (Some err, fs') \<Rightarrow> (Some (Errorf ''remove created output_root: %w'' [AWrap err]), fs')
                 | (None, fs') \<Rightarrow> (None, fs'))))))"

section \<open>Locking\<close>

text \<open>
  \<open>acquired\<close>: the lock file is locked and the process mutex held. \<open>lock_env\<close> gives the answers of
  \<open>tryLockOutputFile\<close> and the outcome of each bounded wait.
\<close>

record acquiredOutputRootLock =
  lock_acquired :: bool
  lock_ownedIdentity :: "FileInfo option"

record lock_env =
  lenv_tryLock :: "string \<Rightarrow> nat \<Rightarrow> bool result"
  lenv_wait :: "string \<Rightarrow> nat \<Rightarrow> int \<Rightarrow> go_error option"

definition waitForContendedLock :: "lock_env \<Rightarrow> string \<Rightarrow> nat \<Rightarrow> go_error option" where
  "waitForContendedLock env lockPath attempt = lenv_wait env lockPath attempt (contended_delay attempt)"

partial_function (option) output_lock_loop :: "lock_env \<Rightarrow> string \<Rightarrow> nat \<Rightarrow> unit result option" where
  "output_lock_loop env lockPath attempt =
     (case lenv_tryLock env lockPath attempt of
        Inl e \<Rightarrow> Some (Inl (Errorf ''lock output root: %w'' [AWrap e]))
      | Inr acquired \<Rightarrow>
          if acquired then Some (Inr ())
          else case waitForContendedLock env lockPath attempt of
            Some e \<Rightarrow> Some (Inl (Errorf ''lock output root: %w'' [AWrap e]))
          | None \<Rightarrow> output_lock_loop env lockPath (Suc attempt))"

declare output_lock_loop.simps [code]

definition lockEvaluationPath ::
  "fault \<Rightarrow> lock_env \<Rightarrow> string \<Rightarrow> filesystem \<Rightarrow>
     ((acquiredOutputRootLock \<times> go_error option) \<times> filesystem) option" where
  "lockEvaluationPath fault env lockPath fs =
     (let (first, fs1) = fs_OpenFile fault True lockPath fs;
          created = (\<not> isl first);
          opened = (case first of
              Inl e \<Rightarrow> if errors_is e ''os.ErrExist'' then fst (fs_OpenFile fault False lockPath fs1) else Inl e
            | Inr info \<Rightarrow> Inr info) in
      case opened of
        Inl err \<Rightarrow>
          Some ((\<lparr>lock_acquired = False, lock_ownedIdentity = None\<rparr>,
                 Some (Errorf ''open output-root lock: %w'' [AWrap err])), fs1)
      | Inr file \<Rightarrow>
          let statErr = fault ''fstat'' lockPath;
              openedInfo = (if statErr = None then Some file else None);
              owned = (if created then openedInfo else None);
              failed = \<lparr>lock_acquired = False, lock_ownedIdentity = owned\<rparr> in
          case (statErr, fs_Lstat fault lockPath fs1) of
            (None, Inr pathInfo) \<Rightarrow>
              if isUnsafeOutputPathEntry pathInfo \<or> fi_kind pathInfo \<noteq> RegularFile \<or> fi_id file \<noteq> fi_id pathInfo
              then Some ((failed, Some (Errorf ''validate output-root lock: file stat %v, path stat %v''
                     [errArg None, errArg None])), fs1)
              else do {
                locked \<leftarrow> output_lock_loop env lockPath 0;
                (case locked of
                   Inl err \<Rightarrow> Some ((failed, Some err), fs1)
                 | Inr _ \<Rightarrow> Some ((\<lparr>lock_acquired = True, lock_ownedIdentity = owned\<rparr>, None), fs1))
              }
          | (_, lstat) \<Rightarrow> Some ((failed, Some (Errorf ''validate output-root lock: file stat %v, path stat %v''
                     [errArg statErr, errArg (case lstat of Inl e \<Rightarrow> Some e | Inr _ \<Rightarrow> None)])), fs1))"

definition lockOutputRoot ::
  "fault \<Rightarrow> lock_env \<Rightarrow> string \<Rightarrow> filesystem \<Rightarrow>
     ((acquiredOutputRootLock \<times> go_error option) \<times> filesystem) option" where
  "lockOutputRoot fault env root = lockEvaluationPath fault env (path_join [root, outputRootLockFilename])"

definition lockOutputRootCoordinator ::
  "fault \<Rightarrow> lock_env \<Rightarrow> string \<Rightarrow> filesystem \<Rightarrow>
     ((acquiredOutputRootLock \<times> go_error option) \<times> filesystem) option" where
  "lockOutputRootCoordinator fault env root =
     lockEvaluationPath fault env (path_join [dir root, ''.'' @ base root @ outputRootCoordinatorSuffix])"

section \<open>Managed paths\<close>

lemma space_len_slash: "space_len (CHR ''/'' # s) = 0"
  by (cases s; cases "tl s") (auto simp: space_len_def ascii_space_def wide_space_def byte_def)

lemma trimRight_slash: "\<exists>t. trimRight (CHR ''/'' # s) = CHR ''/'' # t"
proof (induction "length s" arbitrary: s rule: less_induct)
  case less
  let ?p = "CHR ''/'' # s"
  show ?case
  proof (cases "space_len_end ?p = 0")
    case False
    have "space_len_end ?p \<le> length s"
    proof (cases s)
      case Nil
      then show ?thesis by (simp add: space_len_end_def ascii_space_def wide_space_def byte_def)
    next
      case (Cons a t)
      then show ?thesis
        by (cases t; cases "tl t") (auto simp: space_len_end_def wide_space_def byte_def)
    qed
    with False have "length ?p - space_len_end ?p = Suc (length s - space_len_end ?p)" by simp
    then have "trimRight ?p = trimRight (CHR ''/'' # take (length s - space_len_end ?p) s)"
      using False by (subst trimRight.simps) simp
    with less [of "take (length s - space_len_end ?p) s"] False \<open>space_len_end ?p \<le> length s\<close> show ?thesis
      by auto
  qed (auto simp: trimRight.simps [of ?p])
qed

lemma trimSpace_slash: "trimSpace (CHR ''/'' # s) \<noteq> []"
  using trimRight_slash [of s] by (auto simp: trimSpace_def trimLeft.simps [of "CHR ''/'' # s"] space_len_slash)

lemma set_join: "c \<in> set (join ps [sep]) \<Longrightarrow> c = sep \<or> (\<exists>p \<in> set ps. c \<in> set p)"
  by (induction ps rule: induct_list012) auto

lemma set_join_sub: "p \<in> set ps \<Longrightarrow> c \<in> set p \<Longrightarrow> c \<in> set (join ps [sep])"
  by (induction ps rule: induct_list012) auto

lemma path_fields_abs_path:
  assumes "\<forall>c \<in> set cs. proper c"
  shows "set (path_fields (abs_path cs)) = (\<Union>c \<in> set cs. set (split_on c (CHR 0x5C))) - {[]}"
proof -
  have "split_on (abs_path cs) (CHR ''/'') = (if cs = [] then [[], []] else [] # cs)"
    using assms split_join [of cs "CHR ''/''"] by (auto simp: abs_path_def proper_def)
  then show ?thesis by (auto simp: path_fields_def)
qed

text \<open>What a managed path looks like.\<close>

definition managed_component :: "string \<Rightarrow> bool" where
  "managed_component c \<longleftrightarrow> proper c \<and> CHR 0x00 \<notin> set c \<and>
     ''.'' \<notin> set (split_on c (CHR 0x5C)) \<and> ''..'' \<notin> set (split_on c (CHR 0x5C))"

lemma managed_proper: "managed_component c \<Longrightarrow> proper c"
  by (simp add: managed_component_def)

lemma dir_fixed_iff: "\<forall>c \<in> set cs. proper c \<Longrightarrow> dir (abs_path cs) = abs_path cs \<longleftrightarrow> cs = []"
proof (cases "cs = []")
  case False
  assume pr: "\<forall>c \<in> set cs. proper c"
  then have pb: "\<forall>c \<in> set (butlast cs). proper c" by (meson in_set_butlastD)
  have "butlast cs \<noteq> cs" using False by (metis append_butlast_last_id append_self_conv not_Cons_self2)
  then show ?thesis
    using False dir_abs_path_butlast [OF False pr] abs_path_inject [OF pb pr] by auto
qed (simp add: dir_root)

lemma validateManaged_iff:
  "validateManagedAbsolutePath path field code = None \<longleftrightarrow>
     (\<exists>cs. cs \<noteq> [] \<and> (\<forall>c \<in> set cs. managed_component c) \<and> path = abs_path cs)"
proof
  assume ok: "validateManagedAbsolutePath path field code = None"
  then have abs: "isAbs path" and fixed: "clean path = path" and nul: "CHR 0x00 \<notin> set path"
    and notroot: "dir path \<noteq> path" and fields: "\<forall>f \<in> set (path_fields path). f \<noteq> ''.'' \<and> f \<noteq> ''..''"
    by (auto simp: validateManagedAbsolutePath_def Let_def split: if_splits)
  from clean_fixed_iff [OF abs] fixed obtain cs where cs: "\<forall>c \<in> set cs. proper c" "path = abs_path cs" by auto
  have "cs \<noteq> []" using notroot dir_root cs(2) by auto
  moreover have "managed_component c" if "c \<in> set cs" for c
    using that cs nul fields set_join_sub [OF that, of _ "CHR ''/''"] path_fields_abs_path [OF cs(1)]
    by (auto simp: managed_component_def abs_path_def)
  ultimately show "\<exists>cs. cs \<noteq> [] \<and> (\<forall>c \<in> set cs. managed_component c) \<and> path = abs_path cs" using cs(2) by blast
next
  assume "\<exists>cs. cs \<noteq> [] \<and> (\<forall>c \<in> set cs. managed_component c) \<and> path = abs_path cs"
  then obtain cs where cs: "cs \<noteq> []" "\<forall>c \<in> set cs. managed_component c" "path = abs_path cs" by blast
  then have pr: "\<forall>c \<in> set cs. proper c" by (simp add: managed_proper)
  have "CHR 0x00 \<notin> set path"
    using cs set_join [of "CHR 0x00" cs "CHR ''/''"] by (auto simp: abs_path_def managed_component_def)
  moreover have "isAbs path" "path \<noteq> []" "trimSpace path \<noteq> []"
    using trimSpace_slash by (simp_all add: cs(3) abs_path_def isAbs_def)
  moreover have "\<forall>f \<in> set (path_fields path). f \<noteq> ''.'' \<and> f \<noteq> ''..''"
    using path_fields_abs_path [OF pr] cs(2,3) by (auto simp: managed_component_def)
  ultimately show "validateManagedAbsolutePath path field code = None"
    using clean_abs_path [OF pr] dir_fixed_iff [OF pr] cs(1,3)
    by (simp add: validateManagedAbsolutePath_def Let_def)
qed

text \<open>
  A managed path is accepted exactly when it is an absolute, canonical path below the root
  directory: a non-empty sequence of components, each without slash and NUL, none of them empty, dot or dot-dot,
  and none hiding such a component behind a backslash.
\<close>

lemma validateManagedAbsolutePath_iff:
  "validateManagedAbsolutePath path field code = None \<longleftrightarrow>
     (\<exists>cs. cs \<noteq> [] \<and> list_all managed_component cs \<and> path = abs_path cs)"
  using validateManaged_iff [of path field code] by (simp add: list_all_iff)

section \<open>Walking up to the root\<close>

lemma proper_butlast: "\<forall>c \<in> set cs. proper c \<Longrightarrow> \<forall>c \<in> set (butlast cs). proper c"
  by (meson in_set_butlastD)

lemma walk_up_abs_path:
  assumes "\<forall>c \<in> set cs. proper c"
  shows "\<exists>verdict. walk_up fault fs (abs_path cs) = Some verdict \<and>
    (verdict = None \<longleftrightarrow> (\<forall>k \<le> length cs. component_verdict fault fs (abs_path (take k cs)) = None))"
  using assms
proof (induction cs rule: rev_induct)
  case Nil
  then show ?case using walk_up.simps [of fault fs "abs_path []"] dir_root by (auto split: option.splits)
next
  case (snoc c cs)
  have up: "dir (abs_path (cs @ [c])) = abs_path cs" by (rule dir_abs_path [OF snoc.prems])
  have "dir (abs_path (cs @ [c])) \<noteq> abs_path (cs @ [c])" using dir_fixed_iff [OF snoc.prems] by simp
  then have step: "walk_up fault fs (abs_path (cs @ [c])) =
      (case component_verdict fault fs (abs_path (cs @ [c])) of
         Some err \<Rightarrow> Some (Some err) | None \<Rightarrow> walk_up fault fs (abs_path cs))"
    by (subst walk_up.simps) (simp add: up Let_def split: option.splits)
  have all: "(\<forall>k \<le> length (cs @ [c]). component_verdict fault fs (abs_path (take k (cs @ [c]))) = None) \<longleftrightarrow>
      component_verdict fault fs (abs_path (cs @ [c])) = None \<and>
      (\<forall>k \<le> length cs. component_verdict fault fs (abs_path (take k cs)) = None)"
    by (auto simp: le_Suc_eq)
  from snoc show ?case unfolding all by (auto simp: step split: option.splits)
qed

section \<open>Cleanup touches nothing foreign\<close>

text \<open>File systems whose paths are canonical.\<close>

definition fs_ok :: "filesystem \<Rightarrow> bool" where
  "fs_ok fs \<longleftrightarrow> go_map (fs_nodes fs) \<and> (\<forall>(q, _) \<in> set (fs_nodes fs). isAbs q \<and> clean q = q)"

lemma fs_ok_path:
  "fs_ok fs \<Longrightarrow> map_of (fs_nodes fs) q = Some info \<Longrightarrow> \<exists>cs. (\<forall>c \<in> set cs. proper c) \<and> q = abs_path cs"
  using clean_fixed_iff [of q] by (auto simp: fs_ok_def dest!: map_of_SomeD)

lemma base_abs_path:
  assumes "\<forall>c \<in> set (cs @ [c]). proper c"
  shows "base (abs_path (cs @ [c])) = c"
proof -
  have c: "CHR ''/'' \<notin> set c" "c \<noteq> []" using assms by (auto simp: proper_def)
  then have hd: "hd (rev c) \<noteq> CHR ''/''" "rev c \<noteq> []" by (metis hd_rev last_in_set, simp)
  obtain q where q: "abs_path (cs @ [c]) = q @ CHR ''/'' # c"
    by (cases "cs = []") (auto simp: abs_path_def join_snoc)
  have "dropWhile (\<lambda>x. x = CHR ''/'') (rev c @ CHR ''/'' # rev q) = rev c @ CHR ''/'' # rev q"
    using hd by (cases "rev c") auto
  moreover have "takeWhile (\<lambda>x. x \<noteq> CHR ''/'') (rev c @ CHR ''/'' # rev q) = rev c"
    using c by (subst takeWhile_append2) auto
  ultimately show ?thesis by (simp add: q base_def Let_def)
qed

lemma lock_name_proper [simp]: "proper outputRootLockFilename"
  by code_simp

text \<open>Below a canonical directory, a name determines the path.\<close>

lemma child_path:
  assumes "fs_ok fs" and "\<forall>c \<in> set cs. proper c" and "map_of (fs_nodes fs) q = Some info"
    and "q \<noteq> abs_path cs" and "dir q = abs_path cs"
  shows "q = path_join [abs_path cs, base q] \<and> proper (base q)"
proof -
  obtain ds where ds: "\<forall>c \<in> set ds. proper c" "q = abs_path ds"
    using fs_ok_path [OF assms(1,3)] by blast
  have ne: "ds \<noteq> []" using assms(4,5) dir_root ds(2) by auto
  have "abs_path (butlast ds) = abs_path cs" using dir_abs_path_butlast [OF ne ds(1)] assms(5) ds(2) by simp
  then have bl: "butlast ds = cs" using abs_path_inject proper_butlast [OF ds(1)] assms(2) by blast
  have "base q = last ds"
    using base_abs_path [of "butlast ds" "last ds"] ne ds by simp
  moreover have "proper (last ds)" using ds(1) ne by simp
  ultimately show ?thesis
    using join_abs_path [OF assms(2), of "last ds"] ds(2) ne bl by (metis append_butlast_last_id)
qed

lemma lock_path:
  assumes "\<forall>c \<in> set cs. proper c"
  shows "path_join [abs_path cs, outputRootLockFilename] = abs_path (cs @ [outputRootLockFilename])"
    and "abs_path (cs @ [outputRootLockFilename]) \<noteq> abs_path cs"
    and "dir (abs_path (cs @ [outputRootLockFilename])) = abs_path cs"
    and "base (abs_path (cs @ [outputRootLockFilename])) = outputRootLockFilename"
proof -
  show "path_join [abs_path cs, outputRootLockFilename] = abs_path (cs @ [outputRootLockFilename])"
    by (rule join_abs_path [OF assms]) simp
  have pr: "\<forall>c \<in> set (cs @ [outputRootLockFilename]). proper c" using assms by auto
  show "dir (abs_path (cs @ [outputRootLockFilename])) = abs_path cs" by (rule dir_abs_path [OF pr])
  show "base (abs_path (cs @ [outputRootLockFilename])) = outputRootLockFilename" by (rule base_abs_path [OF pr])
  show "abs_path (cs @ [outputRootLockFilename]) \<noteq> abs_path cs"
    using abs_path_inject [OF pr assms] by auto
qed

lemma fs_Remove_cases:
  assumes "fs_Remove fault p fs = (err, fs')"
  shows "err \<noteq> None \<and> fs' = fs \<or> err = None \<and> map_of (fs_nodes fs') = (map_of (fs_nodes fs))(p := None)"
  using assms by (auto simp: fs_Remove_def split: option.splits if_splits)

lemma remove_owned_lock_cases:
  assumes "remove_owned_lock fault root owned fs = (err, fs')" and "L = path_join [root_path root, outputRootLockFilename]"
  shows "err \<noteq> None \<and> fs' = fs \<or>
    err = None \<and> map_of (fs_nodes fs') = (map_of (fs_nodes fs))(L := None) \<and>
      (\<exists>own info. owned = Some own \<and> map_of (fs_nodes fs) L = Some info \<and> fi_kind info = RegularFile \<and> fi_id own = fi_id info)"
  using assms
  by (auto simp: remove_owned_lock_def fs_Lstat_def Let_def dest!: fs_Remove_cases
      split: option.splits sum.splits if_splits prod.splits)

text \<open>A successful cleanup, and a failed one.\<close>

lemma cleanup_done:
  assumes "cleanupCreatedOutputRoot fault root owned fs = (None, fs')" and "L = path_join [root_path root, outputRootLockFilename]"
  shows "\<exists>info. map_of (fs_nodes fs) (root_path root) = Some info \<and> fi_kind info = Directory \<and>
        map_option fi_id (root_identity root) = Some (fi_id info)"
    and "\<forall>(q, info) \<in> set (children (root_path root) fs). base q = outputRootLockFilename \<and> fi_kind info \<noteq> Directory"
    and "length (children (root_path root) fs) \<noteq> 1 \<and>
           map_of (fs_nodes fs') = (map_of (fs_nodes fs))(root_path root := None) \<or>
         map_of (fs_nodes fs') = (map_of (fs_nodes fs))(L := None, root_path root := None) \<and>
           (\<exists>own info. owned = Some own \<and> map_of (fs_nodes fs) L = Some info \<and> fi_kind info = RegularFile \<and> fi_id own = fi_id info)"
  using assms
  by (auto simp: cleanupCreatedOutputRoot_def fs_Lstat_def [of fault "root_path root" fs] fs_ReadDir_def find_map_None
      dest!: fs_Remove_cases remove_owned_lock_cases [OF _ assms(2)]
      split: option.splits sum.splits if_splits prod.splits)

lemma cleanup_failed:
  assumes "cleanupCreatedOutputRoot fault root owned fs = (Some e, fs')" and "L = path_join [root_path root, outputRootLockFilename]"
  shows "map_of (fs_nodes fs') = map_of (fs_nodes fs) \<or>
    map_of (fs_nodes fs') = (map_of (fs_nodes fs))(L := None) \<and>
      (\<exists>own info. owned = Some own \<and> map_of (fs_nodes fs) L = Some info \<and> fi_kind info = RegularFile \<and> fi_id own = fi_id info)"
  using assms
  by (auto simp: cleanupCreatedOutputRoot_def
      dest!: fs_Remove_cases remove_owned_lock_cases [OF _ assms(2)]
      split: option.splits sum.splits if_splits prod.splits)

lemma children_mem:
  "fs_ok fs \<Longrightarrow> (q, info) \<in> set (children p fs) \<longleftrightarrow> map_of (fs_nodes fs) q = Some info \<and> q \<noteq> p \<and> dir q = p"
  by (auto simp: children_def fs_ok_def go_map_mem_iff)

lemma children_only_lock:
  assumes "fs_ok fs" and "\<forall>c \<in> set cs. proper c"
    and "\<forall>(q, info) \<in> set (children (abs_path cs) fs). base q = outputRootLockFilename \<and> fi_kind info \<noteq> Directory"
  shows "\<forall>q info. map_of (fs_nodes fs) q = Some info \<and> q \<noteq> abs_path cs \<and> dir q = abs_path cs \<longrightarrow>
      q = abs_path (cs @ [outputRootLockFilename])"
    and "length (children (abs_path cs) fs) \<noteq> 1 \<Longrightarrow>
      map_of (fs_nodes fs) (abs_path (cs @ [outputRootLockFilename])) = None"
proof -
  show only: "\<forall>q info. map_of (fs_nodes fs) q = Some info \<and> q \<noteq> abs_path cs \<and> dir q = abs_path cs \<longrightarrow>
      q = abs_path (cs @ [outputRootLockFilename])"
  proof (intro allI impI)
    fix q info
    assume q: "map_of (fs_nodes fs) q = Some info \<and> q \<noteq> abs_path cs \<and> dir q = abs_path cs"
    then have "(q, info) \<in> set (children (abs_path cs) fs)" using children_mem [OF assms(1)] by blast
    with assms(3) have "base q = outputRootLockFilename" by auto
    with child_path [OF assms(1,2)] q lock_path(1) [OF assms(2)]
    show "q = abs_path (cs @ [outputRootLockFilename])" by metis
  qed
  assume len: "length (children (abs_path cs) fs) \<noteq> 1"
  show "map_of (fs_nodes fs) (abs_path (cs @ [outputRootLockFilename])) = None"
  proof (rule ccontr)
    assume "map_of (fs_nodes fs) (abs_path (cs @ [outputRootLockFilename])) \<noteq> None"
    then obtain info where "(abs_path (cs @ [outputRootLockFilename]), info) \<in> set (children (abs_path cs) fs)"
      using lock_path [OF assms(2)] children_mem [OF assms(1)] by blast
    then have "abs_path (cs @ [outputRootLockFilename]) \<in> fst ` set (children (abs_path cs) fs)"
      by (rule image_eqI [rotated]) simp
    moreover have "q = abs_path (cs @ [outputRootLockFilename])" if "(q, i) \<in> set (children (abs_path cs) fs)" for q i
      using only that children_mem [OF assms(1)] by blast
    ultimately have "fst ` set (children (abs_path cs) fs) = {abs_path (cs @ [outputRootLockFilename])}" by fastforce
    moreover have "distinct (map fst (children (abs_path cs) fs))"
      using assms(1) by (simp add: fs_ok_def go_map_def children_def distinct_map_filter)
    ultimately have "length (map fst (children (abs_path cs) fs)) = 1"
      by (metis distinct_card set_map card.empty card.insert empty_iff finite.emptyI One_nat_def)
    with len show False by simp
  qed
qed

text \<open>
  C14. Removing a created output root touches nothing foreign, whichever calls fail. Only the root and
  the lock file in it can change; the lock file is removed only if it is a regular file with the identity
  this action created. If the cleanup reports success, both are gone, the root was the very
  directory this action created, and it held nothing but that lock file; if it reports an
  error, the root is still there.
\<close>

theorem cleanup_touches_own_only:
  assumes "cleanupCreatedOutputRoot fault root owned fs = (err, fs')" and "fs_ok fs"
    and "root_path root = abs_path cs" and "list_all proper cs" and "L = path_join [root_path root, outputRootLockFilename]"
  shows "(\<forall>q. q \<noteq> root_path root \<and> q \<noteq> L \<longrightarrow> map_of (fs_nodes fs') q = map_of (fs_nodes fs) q) \<and>
    (map_of (fs_nodes fs') L \<noteq> map_of (fs_nodes fs) L \<longrightarrow>
       (\<exists>own info. owned = Some own \<and> map_of (fs_nodes fs) L = Some info \<and> fi_kind info = RegularFile \<and> fi_id own = fi_id info)) \<and>
    (case err of
       Some e \<Rightarrow> map_of (fs_nodes fs') (root_path root) = map_of (fs_nodes fs) (root_path root)
     | None \<Rightarrow> map_of (fs_nodes fs') (root_path root) = None \<and> map_of (fs_nodes fs') L = None \<and>
         (\<exists>info. map_of (fs_nodes fs) (root_path root) = Some info \<and> fi_kind info = Directory \<and>
            map_option fi_id (root_identity root) = Some (fi_id info)) \<and>
         (\<forall>q info. map_of (fs_nodes fs) q = Some info \<and> q \<noteq> root_path root \<and> dir q = root_path root \<longrightarrow> q = L))"
proof -
  have pr: "\<forall>c \<in> set cs. proper c" using assms(4) by (simp add: list_all_iff)
  note lp = lock_path [OF pr]
  have L: "L = abs_path (cs @ [outputRootLockFilename])" using lp(1) assms(3,5) by simp
  show ?thesis
  proof (cases err)
    case None
    note d = cleanup_done [OF assms(1) [unfolded None] assms(5)]
    note only = children_only_lock [OF assms(2) pr d(2) [unfolded assms(3)]]
    have "map_of (fs_nodes fs') L = None" using d(3) only(2) assms(3) L by (auto simp: fun_upd_def)
    moreover have "map_of (fs_nodes fs') (root_path root) = None" using d(3) by auto
    moreover have "map_of (fs_nodes fs') q = map_of (fs_nodes fs) q" if "q \<noteq> root_path root" "q \<noteq> L" for q
      using d(3) that by auto
    ultimately show ?thesis using None d(1,3) only assms(3) L by (auto simp: fun_upd_def)
  next
    case (Some e)
    note f = cleanup_failed [OF assms(1) [unfolded Some] assms(5)]
    have "L \<noteq> root_path root" using lp(2) assms(3) L by simp
    with f Some show ?thesis by auto
  qed
qed

text \<open>A file system with a directory \<open>/data\<close>, and the action's own view of it.\<close>

definition sample_fs :: filesystem where
  "sample_fs = \<lparr>fs_nodes = [(''/'', \<lparr>fi_id = 1, fi_kind = Directory\<rparr>), (''/data'', \<lparr>fi_id = 2, fi_kind = Directory\<rparr>)], fs_next = 3\<rparr>"

definition no_fault :: fault where "no_fault op p = None"

definition free_locks :: lock_env where
  "free_locks = \<lparr>lenv_tryLock = (\<lambda>_ _. Inr True), lenv_wait = (\<lambda>_ _ _. None)\<rparr>"

lemma sample_fs_ok: "fs_ok sample_fs"
  by code_simp

theorem cleanup_touches_own_only_witness:
  "\<exists>root owned fs fs'. prepareOutputRoot no_fault ''/data/out'' True sample_fs = Some ((root, None), fs) \<and>
     cleanupCreatedOutputRoot no_fault root owned fs = (None, fs') \<and>
     map_of (fs_nodes fs') ''/data/out'' = None \<and> map_of (fs_nodes fs') ''/data'' \<noteq> None"
proof -
  let ?root = "\<lparr>root_path = ''/data/out'', root_created = True, root_identity = Some \<lparr>fi_id = 3, fi_kind = Directory\<rparr>\<rparr>"
  let ?fs = "fs_add ''/data/out'' Directory sample_fs"
  have prep: "prepareOutputRoot no_fault ''/data/out'' True sample_fs = Some ((?root, None), ?fs)" by code_simp
  have clean: "cleanupCreatedOutputRoot no_fault ?root None ?fs = (None, sample_fs\<lparr>fs_next := 4\<rparr>)" by code_simp
  have abs: "''/data/out'' = abs_path [''data'', ''out'']" "list_all proper [''data'', ''out'']" by code_simp+
  have "fs_ok ?fs" by code_simp
  moreover have "root_path ?root = abs_path [''data'', ''out'']" using abs(1) by simp
  ultimately have "map_of (fs_nodes (sample_fs\<lparr>fs_next := 4\<rparr>)) (root_path ?root) = None"
    using cleanup_touches_own_only [OF clean _ _ abs(2) refl] by simp
  then have "map_of (fs_nodes (sample_fs\<lparr>fs_next := 4\<rparr>)) ''/data/out'' = None" by simp
  moreover have "map_of (fs_nodes (sample_fs\<lparr>fs_next := 4\<rparr>)) ''/data'' \<noteq> None" by (simp add: sample_fs_def)
  ultimately show ?thesis using prep clean by blast
qed

section \<open>A failed attempt leaves no trace\<close>

lemma fs_add_nodes [simp]:
  "map_of (fs_nodes (fs_add p k fs)) = (map_of (fs_nodes fs))(p \<mapsto> \<lparr>fi_id = fs_next fs, fi_kind = k\<rparr>)"
  by (simp add: fs_add_def)

lemma fs_ok_add: "fs_ok fs \<Longrightarrow> isAbs p \<Longrightarrow> clean p = p \<Longrightarrow> fs_ok (fs_add p k fs)"
  by (auto simp: fs_ok_def fs_add_def dest!: set_update_cases)

lemma prepareOutputRoot_created:
  assumes "prepareOutputRoot fault requested True fs = Some ((root, err), fs1)" and "root_created root"
  shows "root_path root = clean requested" and "map_of (fs_nodes fs) (clean requested) = None"
    and "fs1 = fs_add (clean requested) Directory fs"
  using assms
  by (auto simp: prepareOutputRoot_def adopt_root_def fs_Mkdir_def Let_def
      split: sum.splits option.splits if_splits)

lemma lockEvaluationPath_effect:
  assumes "lockEvaluationPath fault env p fs = Some ((lock, err), fs')"
  shows "fs' = fs \<and> lock_ownedIdentity lock = None \<or>
    map_of (fs_nodes fs) p = None \<and> fs' = fs_add p RegularFile fs"
  using assms
  by (auto simp: lockEvaluationPath_def fs_OpenFile_def Let_def
      split: sum.splits option.splits if_splits prod.splits Option.bind_splits)



end
