(* ===== verification/Gpu_Inventory.thy ===== *)
theory Gpu_Inventory
  imports Gpu_Contracts
begin

text \<open>
  Running commands with bounded output (\<open>pkg/gpu/command.go\<close>) and the inventory adapters that parse
  \<open>nvidia-smi\<close> (\<open>pkg/gpu/inventory.go\<close>). Executing a process, \<open>sha256\<close>, the CSV reader and the XML
  decoder are parameters: the outcome of a process is the sequence of writes to its two streams and how
  it ended, the CSV reader gives the results of its successive \<open>Read\<close> calls up to the end of file, the
  XML decoder the text of \<open>cuda_version\<close>.
\<close>

section \<open>Bounded output\<close>

record boundedBuffer =
  buf_Bytes :: string
  buf_limit :: int
  buf_overflow :: bool

text \<open>\<open>boundedBuffer.Write\<close>; the byte count it reports comes first.\<close>

definition boundedBuffer_Write :: "string \<Rightarrow> boundedBuffer \<Rightarrow> int \<times> boundedBuffer" where
  "boundedBuffer_Write data buffer =
     (let originalLength = int (length data);
          remaining = buf_limit buffer - int (length (buf_Bytes buffer)) in
      if remaining \<le> 0 then (originalLength, buffer\<lparr>buf_overflow := True\<rparr>)
      else if originalLength > remaining
      then (originalLength, buffer\<lparr>buf_overflow := True, buf_Bytes := buf_Bytes buffer @ take (nat remaining) data\<rparr>)
      else (originalLength, buffer\<lparr>buf_Bytes := buf_Bytes buffer @ data\<rparr>))"

definition write_all :: "int \<Rightarrow> string list \<Rightarrow> boundedBuffer" where
  "write_all limit writes =
     fold (\<lambda>data buffer. snd (boundedBuffer_Write data buffer)) writes
       \<lparr>buf_Bytes = [], buf_limit = limit, buf_overflow = False\<rparr>"

lemma boundedBuffer_Write_limit [simp]: "buf_limit (snd (boundedBuffer_Write data b)) = buf_limit b"
  by (simp add: boundedBuffer_Write_def Let_def)

lemma boundedBuffer_Write_take:
  assumes "buf_Bytes b = take (nat (buf_limit b)) all"
  shows "buf_Bytes (snd (boundedBuffer_Write data b)) = take (nat (buf_limit b)) (all @ data)"
  using assms by (auto simp: boundedBuffer_Write_def Let_def min_def nat_diff_distrib)

lemma boundedBuffer_Write_overflow:
  assumes "buf_Bytes b = take (nat (buf_limit b)) all" and "0 < buf_limit b"
    and "buf_overflow b \<longleftrightarrow> int (length all) > buf_limit b" and "data \<noteq> []"
  shows "buf_overflow (snd (boundedBuffer_Write data b)) \<longleftrightarrow> int (length (all @ data)) > buf_limit b"
  using assms by (cases data) (auto simp: boundedBuffer_Write_def Let_def min_def split: if_splits)

lemma write_all_loop:
  assumes "buf_Bytes b = take (nat (buf_limit b)) all" and "0 < buf_limit b"
    and "buf_overflow b \<longleftrightarrow> int (length all) > buf_limit b" and "\<forall>w \<in> set writes. w \<noteq> []"
    and "b' = fold (\<lambda>data buffer. snd (boundedBuffer_Write data buffer)) writes b"
  shows "buf_Bytes b' = take (nat (buf_limit b)) (all @ concat writes) \<and>
    (buf_overflow b' \<longleftrightarrow> int (length (all @ concat writes)) > buf_limit b)"
  using assms
proof (induction writes arbitrary: b all)
  case (Cons w ws)
  let ?b = "snd (boundedBuffer_Write w b)"
  have "buf_Bytes ?b = take (nat (buf_limit ?b)) (all @ w)"
    using boundedBuffer_Write_take [OF Cons.prems(1)] by simp
  moreover have "buf_overflow ?b \<longleftrightarrow> int (length (all @ w)) > buf_limit ?b"
    using boundedBuffer_Write_overflow [OF Cons.prems(1-3)] Cons.prems(4) by simp
  ultimately show ?case using Cons.IH [of ?b "all @ w"] Cons.prems by simp
qed simp

text \<open>
  A bounded buffer keeps exactly the first \<open>limit\<close> bytes of everything written to it, and its
  overflow flag is set exactly when more was written, however the stream is cut into writes.
\<close>

lemma write_all_keeps_prefix:
  assumes "0 < limit" and "\<forall>w \<in> set writes. w \<noteq> []"
  shows "buf_Bytes (write_all limit writes) = take (nat limit) (concat writes) \<and>
    (buf_overflow (write_all limit writes) \<longleftrightarrow> int (length (concat writes)) > limit)"
  using write_all_loop [where all = "[]" and b = "\<lparr>buf_Bytes = [], buf_limit = limit, buf_overflow = False\<rparr>",
      OF _ _ _ assms(2) refl] assms(1)
  by (simp add: write_all_def)

section \<open>Running commands\<close>

record CommandResult =
  res_Stdout :: string
  res_Stderr :: string
  res_ExitCode :: int
  res_Duration :: int
  res_TimedOut :: bool
  res_Truncated :: bool
  res_StdoutSHA256 :: string
  res_StderrSHA256 :: string

definition zero_CommandResult :: CommandResult where
  "zero_CommandResult =
     \<lparr>res_Stdout = [], res_Stderr = [], res_ExitCode = 0, res_Duration = 0, res_TimedOut = False,
      res_Truncated = False, res_StdoutSHA256 = replicate 32 (CHR 0x00), res_StderrSHA256 = replicate 32 (CHR 0x00)\<rparr>"

text \<open>How a process ended: its writes, the error of \<open>command.Run\<close> with the exit status when it is an \<open>ExitError\<close>.\<close>

record exec_outcome =
  exec_stdout :: "string list"
  exec_stderr :: "string list"
  exec_error :: "(go_error \<times> int option) option"
  exec_deadline :: bool
  exec_duration :: int

type_synonym command_runner = "string \<Rightarrow> string list \<Rightarrow> CommandResult \<times> go_error option"

record ExecRunner =
  runner_Timeout :: int
  runner_MaxOutput :: int

definition exitCode :: "(go_error \<times> int option) option \<Rightarrow> int" where
  "exitCode err = (case err of None \<Rightarrow> 0 | Some (_, Some code) \<Rightarrow> code | Some (_, None) \<Rightarrow> -1)"

text \<open>\<open>existing, _, _ := strings.Cut(item, "=")\<close>.\<close>

definition env_key :: "string \<Rightarrow> string" where
  "env_key item = (case cut item (CHR ''='') of None \<Rightarrow> item | Some (k, _) \<Rightarrow> k)"

text \<open>The inner loop: replace the first entry with this key, or append one.\<close>

fun set_variable :: "string \<Rightarrow> string \<Rightarrow> string list \<Rightarrow> string list" where
  "set_variable key value [] = [key @ ''='' @ value]"
| "set_variable key value (item # result) =
     (if equalFold (env_key item) key then (key @ ''='' @ value) # result
      else item # set_variable key value result)"

definition mergeEnvironment :: "string list \<Rightarrow> (string, string) gomap \<Rightarrow> string list" where
  "mergeEnvironment base overrides =
     (if overrides = [] then base
      else fold (\<lambda>(key, value). set_variable key value) overrides base)"

definition ExecRunner_run ::
  "(string list \<Rightarrow> string \<Rightarrow> string list \<Rightarrow> exec_outcome) \<Rightarrow> (string \<Rightarrow> string) \<Rightarrow> string list \<Rightarrow> ExecRunner \<Rightarrow>
     (string, string) gomap \<Rightarrow> string \<Rightarrow> string list \<Rightarrow> CommandResult \<times> go_error option" where
  "ExecRunner_run exec sha256 environ runner environment name args =
     (if runner_Timeout runner \<le> 0
      then (zero_CommandResult, Some (Errorf ''command timeout must be positive'' []))
      else if runner_MaxOutput runner \<le> 0
      then (zero_CommandResult, Some (Errorf ''command output bound must be positive'' []))
      else
        let out = exec (mergeEnvironment environ environment) name args;
            stdout = write_all (runner_MaxOutput runner) (exec_stdout out);
            stderr = write_all (runner_MaxOutput runner) (exec_stderr out);
            result = \<lparr>res_Stdout = buf_Bytes stdout, res_Stderr = buf_Bytes stderr,
                      res_ExitCode = exitCode (exec_error out), res_Duration = exec_duration out,
                      res_TimedOut = exec_deadline out,
                      res_Truncated = (buf_overflow stdout \<or> buf_overflow stderr),
                      res_StdoutSHA256 = sha256 (buf_Bytes stdout), res_StderrSHA256 = sha256 (buf_Bytes stderr)\<rparr> in
        if exec_deadline out
        then (result, Some (Errorf ''command %q timed out after %s: %w''
               [AStr name, AInt (runner_Timeout runner), AWrap DeadlineExceeded]))
        else if buf_overflow stdout \<or> buf_overflow stderr
        then (result, Some (Errorf ''command %q exceeded %d-byte output bound''
               [AStr name, AInt (runner_MaxOutput runner)]))
        else case exec_error out of
          Some (err, _) \<Rightarrow> (result, Some (Errorf ''command %q failed: %w'' [AStr name, AWrap err]))
        | None \<Rightarrow> (result, None))"

definition ExecRunner_Run ::
  "(string list \<Rightarrow> string \<Rightarrow> string list \<Rightarrow> exec_outcome) \<Rightarrow> (string \<Rightarrow> string) \<Rightarrow> string list \<Rightarrow> ExecRunner \<Rightarrow>
     command_runner" where
  "ExecRunner_Run exec sha256 environ runner name args = ExecRunner_run exec sha256 environ runner [] name args"

definition ExecRunner_RunWithEnv ::
  "(string list \<Rightarrow> string \<Rightarrow> string list \<Rightarrow> exec_outcome) \<Rightarrow> (string \<Rightarrow> string) \<Rightarrow> string list \<Rightarrow> ExecRunner \<Rightarrow>
     (string, string) gomap \<Rightarrow> command_runner" where
  "ExecRunner_RunWithEnv exec sha256 environ runner environment name args =
     ExecRunner_run exec sha256 environ runner environment name args"

text \<open>What a process sees as the value of a variable: the first entry with that name.\<close>

fun env_get :: "string list \<Rightarrow> string \<Rightarrow> string option" where
  "env_get [] key = None"
| "env_get (item # items) key =
     (if equalFold (env_key item) key then Some (drop (Suc (length (env_key item))) item) else env_get items key)"

lemma env_key_pair: "CHR ''='' \<notin> set key \<Longrightarrow> env_key (key @ ''='' @ value) = key"
  using cut_append [of "CHR ''=''" key "value"] by (simp add: env_key_def)

lemma equalFold_sym: "equalFold a b = equalFold b a"
  by (auto simp: equalFold_def)

lemma equalFold_trans: "equalFold a b \<Longrightarrow> equalFold b c = equalFold a c"
  by (auto simp: equalFold_def)

lemma env_get_set_variable:
  assumes "CHR ''='' \<notin> set key"
  shows "env_get (set_variable key value items) k = (if equalFold key k then Some value else env_get items k)"
  using env_key_pair [OF assms, of "value"]
  by (induction items) (auto simp: equalFold_def)

lemma env_get_fold:
  assumes "\<forall>(k, v) \<in> set ov. CHR ''='' \<notin> set k" and "distinct (map (toLower \<circ> fst) ov)"
  shows "env_get (fold (\<lambda>(key, value). set_variable key value) ov base) k =
    (case find (\<lambda>(key, value). equalFold key k) ov of Some (_, value) \<Rightarrow> Some value | None \<Rightarrow> env_get base k)"
  using assms
proof (induction ov arbitrary: base)
  case (Cons kv ov)
  obtain key val where kv: "kv = (key, val)" by fastforce
  have "find (\<lambda>(key, value). equalFold key k) ov = None" if "equalFold key k"
    using Cons.prems(2) that unfolding find_None_iff kv by (force simp: equalFold_def)
  with Cons kv show ?case by (auto simp: env_get_set_variable split: option.splits)
qed simp

text \<open>
  The environment of a command: whatever order the override map is ranged over, an overridden
  variable has its new value and every other variable keeps the value it had (names compared
  without regard to case, as the code does).
\<close>

lemma mergeEnvironment_overrides:
  assumes "\<forall>(k, v) \<in> set overrides. CHR ''='' \<notin> set k" and "distinct (map (toLower \<circ> fst) overrides)"
  shows "env_get (mergeEnvironment base overrides) k =
    (case find (\<lambda>(key, value). equalFold key k) overrides of Some (_, value) \<Rightarrow> Some value | None \<Rightarrow> env_get base k)"
  using env_get_fold [OF assms] by (simp add: mergeEnvironment_def)

text \<open>
  A configured \<open>ExecRunner\<close> is bounded and honest: it returns no error exactly when the process
  ended in time, with status 0 and within the output bound on both streams; neither
  captured stream is longer than the bound; the hashes are those of the captured bytes; and a timeout
  is reported as \<open>context.DeadlineExceeded\<close>.
\<close>

lemma ExecRunner_run_bounded:
  assumes "ExecRunner_run exec sha256 environ runner environment name args = (result, err)"
    and "out = exec (mergeEnvironment environ environment) name args"
    and "\<forall>w \<in> set (exec_stdout out) \<union> set (exec_stderr out). w \<noteq> []"
    and "0 < runner_Timeout runner" and "0 < runner_MaxOutput runner"
  shows "(err = None \<longleftrightarrow> \<not> exec_deadline out \<and> exec_error out = None \<and>
       int (length (concat (exec_stdout out))) \<le> runner_MaxOutput runner \<and>
       int (length (concat (exec_stderr out))) \<le> runner_MaxOutput runner) \<and>
     res_Stdout result = take (nat (runner_MaxOutput runner)) (concat (exec_stdout out)) \<and>
     res_Stderr result = take (nat (runner_MaxOutput runner)) (concat (exec_stderr out)) \<and>
     res_StdoutSHA256 result = sha256 (res_Stdout result) \<and> res_StderrSHA256 result = sha256 (res_Stderr result) \<and>
     (exec_deadline out \<longrightarrow> (\<exists>e. err = Some e \<and> errors_is e ''context.DeadlineExceeded'')) \<and>
     (err = None \<longrightarrow> res_ExitCode result = 0)"
proof -
  have w: "buf_Bytes (write_all (runner_MaxOutput runner) ws) = take (nat (runner_MaxOutput runner)) (concat ws) \<and>
      (buf_overflow (write_all (runner_MaxOutput runner) ws) \<longleftrightarrow> int (length (concat ws)) > runner_MaxOutput runner)"
    if "\<forall>w \<in> set ws. w \<noteq> []" for ws
    using write_all_loop [where all = "[]" and b = "\<lparr>buf_Bytes = [], buf_limit = runner_MaxOutput runner, buf_overflow = False\<rparr>",
      OF _ _ _ that refl] assms(5) by (simp add: write_all_def)
  have "\<forall>w \<in> set (exec_stdout out). w \<noteq> []" "\<forall>w \<in> set (exec_stderr out). w \<noteq> []" using assms(3) by auto
  note streams = w [OF this(1)] w [OF this(2)]
  show ?thesis
    using assms(1,4,5) streams
    by (auto simp: ExecRunner_run_def Let_def assms(2) [symmetric] exitCode_def split: if_splits option.splits)
qed

section \<open>Inventory adapters\<close>

definition inventoryQueryArgs :: "string list" where
  "inventoryQueryArgs = [''--query-gpu=uuid,index,name,compute_cap,driver_version'', ''--format=csv,noheader,nounits'']"

definition architectureForComputeCapability :: "string \<Rightarrow> string" where
  "architectureForComputeCapability val =
     (case parseMajorMinor val of
        Inl _ \<Rightarrow> []
      | Inr (major, minor) \<Rightarrow>
          if major = 6 then ''Pascal''
          else if major = 7 then if minor = 0 \<or> minor = 2 then ''Volta'' else ''Turing''
          else if major = 8 then if minor = 9 then ''Ada'' else ''Ampere''
          else if major = 9 then ''Hopper''
          else [])"

text \<open>\<open>xml_version\<close> is \<open>xml.Unmarshal\<close> into the \<open>cuda_version\<close> field.\<close>

definition parseDriverCUDACeiling :: "(string \<Rightarrow> string result) \<Rightarrow> string \<Rightarrow> string result" where
  "parseDriverCUDACeiling xml_version output =
     (case xml_version output of
        Inl err \<Rightarrow> Inl (Errorf ''malformed nvidia-smi XML: %w'' [AWrap err])
      | Inr v \<Rightarrow>
          let version = trimSpace v in
          (case parseMajorMinor version of
             Inl err \<Rightarrow> Inl (Errorf ''missing or invalid driver CUDA ceiling: %w'' [AWrap err])
           | Inr _ \<Rightarrow> Inr version))"

text \<open>The body of the row loop: state is the row number, \<open>seen\<close> and the inventory.\<close>

definition parse_row ::
  "string \<Rightarrow> string \<Rightarrow> string \<Rightarrow> string list result \<Rightarrow> int \<times> UUID list \<times> ScopedInventory \<Rightarrow>
     (int \<times> UUID list \<times> ScopedInventory) result" where
  "parse_row scope scopeID ceiling read = (\<lambda>(rowNumber, seen, inventory).
     case read of
       Inl err \<Rightarrow> Inl (Errorf ''malformed nvidia-smi CSV row %d: %w'' [AInt rowNumber, AWrap err])
     | Inr raw \<Rightarrow>
       if length raw \<noteq> 5
       then Inl (Errorf ''nvidia-smi CSV row %d has %d fields, want 5'' [AInt rowNumber, AInt (int (length raw))])
       else let row = map trimSpace raw in
       case ParseUUID (row ! 0) of
         Inl err \<Rightarrow> Inl (Errorf ''nvidia-smi CSV row %d: %w'' [AInt rowNumber, AWrap err])
       | Inr uuid \<Rightarrow>
         if uuid \<in> set seen
         then Inl (Errorf ''duplicate GPU UUID %q in %s inventory'' [AStr uuid, AStr scope])
         else case atoi (row ! 1) of
           None \<Rightarrow> Inl (Errorf ''nvidia-smi CSV row %d has invalid index %q'' [AInt rowNumber, AStr (row ! 1)])
         | Some index \<Rightarrow>
           if index < 0
           then Inl (Errorf ''nvidia-smi CSV row %d has invalid index %q'' [AInt rowNumber, AStr (row ! 1)])
           else if row ! 2 = [] \<or> row ! 3 = [] \<or> row ! 4 = []
           then Inl (Errorf ''nvidia-smi CSV row %d has missing required fields'' [AInt rowNumber])
           else let device = \<lparr>dev_UUID = uuid, dev_Name = row ! 2,
                     dev_Architecture = architectureForComputeCapability (row ! 3),
                     dev_ComputeCapability = row ! 3, dev_DriverVersion = row ! 4,
                     dev_DriverCUDACeiling = ceiling,
                     dev_Observations = [\<lparr>obs_Scope = scope, obs_ScopeID = scopeID, obs_Index = index\<rparr>]\<rparr>;
                    inventory' = inventory\<lparr>inv_Devices := inv_Devices inventory @ [device]\<rparr> in
             if inv_DriverVersion inventory' = []
             then Inr (rowNumber + 1, uuid # seen, inventory'\<lparr>inv_DriverVersion := row ! 4\<rparr>)
             else if inv_DriverVersion inventory' \<noteq> row ! 4
             then Inl (Errorf ''inconsistent driver versions in %s inventory'' [AStr scope])
             else Inr (rowNumber + 1, uuid # seen, inventory'))"

text \<open>\<open>read_csv\<close> gives the results of successive \<open>reader.Read()\<close> calls before \<open>io.EOF\<close>.\<close>

definition parseInventoryCSV ::
  "(string \<Rightarrow> string list result list) \<Rightarrow> string \<Rightarrow> string \<Rightarrow> string \<Rightarrow> string \<Rightarrow> ScopedInventory result" where
  "parseInventoryCSV read_csv output scope scopeID ceiling =
     (case foldE (parse_row scope scopeID ceiling) (read_csv output)
             (1, [], \<lparr>inv_Scope = scope, inv_ScopeID = scopeID, inv_DriverVersion = [],
                      inv_DriverCUDACeiling = ceiling, inv_Devices = []\<rparr>) of
        Inl err \<Rightarrow> Inl err
      | Inr (_, _, inventory) \<Rightarrow>
          if inv_Devices inventory = [] then Inl (Errorf ''nvidia-smi returned no GPUs'' []) else Inr inventory)"

definition runInventory ::
  "(string \<Rightarrow> string list result list) \<Rightarrow> (string \<Rightarrow> string result) \<Rightarrow> command_runner option \<Rightarrow>
     string \<Rightarrow> string \<Rightarrow> string \<Rightarrow> string list \<Rightarrow> ScopedInventory result" where
  "runInventory read_csv xml_version runner scope scopeID command prefix =
     (case runner of
        None \<Rightarrow> Inl (Errorf ''command runner is required'' [])
      | Some run \<Rightarrow>
        (case run command (prefix @ inventoryQueryArgs) of
           (_, Some err) \<Rightarrow> Inl (Errorf ''%s GPU inventory failed: %w'' [AStr scope, AWrap err])
         | (query, None) \<Rightarrow>
           (case run command (prefix @ [''-q'', ''-x'']) of
              (_, Some err) \<Rightarrow> Inl (Errorf ''%s GPU driver capability query failed: %w'' [AStr scope, AWrap err])
            | (details, None) \<Rightarrow>
              (case parseDriverCUDACeiling xml_version (res_Stdout details) of
                 Inl err \<Rightarrow> Inl (Errorf ''%s GPU driver capability output: %w'' [AStr scope, AWrap err])
               | Inr ceiling \<Rightarrow> parseInventoryCSV read_csv (res_Stdout query) scope scopeID ceiling))))"

datatype InventoryAdapter =
  WindowsInventoryAdapter "command_runner option"
| WSLInventoryAdapter "command_runner option" string
| RuntimeInventoryAdapter "command_runner option" string string "string list"

fun adapter_Inventory ::
  "(string \<Rightarrow> string list result list) \<Rightarrow> (string \<Rightarrow> string result) \<Rightarrow> InventoryAdapter \<Rightarrow> ScopedInventory result" where
  "adapter_Inventory read_csv xml_version (WindowsInventoryAdapter runner) =
     runInventory read_csv xml_version runner ScopeWindowsHost [] ''nvidia-smi'' []"
| "adapter_Inventory read_csv xml_version (WSLInventoryAdapter runner distribution) =
     (if trimSpace distribution = [] then Inl (Errorf ''WSL distribution is required'' [])
      else runInventory read_csv xml_version runner ScopeWSLDistro distribution ''wsl.exe''
             [''-d'', distribution, ''--'', ''nvidia-smi''])"
| "adapter_Inventory read_csv xml_version (RuntimeInventoryAdapter runner runtime command prefix) =
     (if trimSpace runtime = [] \<or> trimSpace command = [] then Inl (Errorf ''runtime name and command are required'' [])
      else runInventory read_csv xml_version runner ScopeRuntime runtime command prefix)"

text \<open>The adapter loop of \<open>InventoryWithScopes\<close>; a nil adapter is \<open>None\<close>.\<close>

definition query_adapter ::
  "(InventoryAdapter \<Rightarrow> ScopedInventory result) \<Rightarrow> InventoryAdapter option \<Rightarrow> ScopedInventory list \<Rightarrow>
     ScopedInventory list result" where
  "query_adapter query adapter inventories =
     (case adapter of
        None \<Rightarrow> Inl (Errorf ''inventory adapter is required'' [])
      | Some a \<Rightarrow> (case query a of Inl err \<Rightarrow> Inl err | Inr inventory \<Rightarrow> Inr (inventories @ [inventory])))"

text \<open>Devices, scopes and error; a nil slice is the empty list.\<close>

definition InventoryWithScopes ::
  "(InventoryAdapter \<Rightarrow> ScopedInventory result) \<Rightarrow> InventoryAdapter option list \<Rightarrow>
     Device list \<times> ScopedInventory list \<times> go_error option" where
  "InventoryWithScopes query adapters =
     (if adapters = [] then ([], [], Some (Errorf ''at least one inventory adapter is required'' []))
      else case foldE (query_adapter query) adapters [] of
        Inl err \<Rightarrow> ([], [], Some err)
      | Inr inventories \<Rightarrow>
          (case Reconcile inventories of
             Inl err \<Rightarrow> ([], inventories, Some err)
           | Inr devices \<Rightarrow> (devices, inventories, None)))"

definition provider_Inventory ::
  "(InventoryAdapter \<Rightarrow> ScopedInventory result) \<Rightarrow> InventoryAdapter option list \<Rightarrow> Device list \<times> go_error option" where
  "provider_Inventory query adapters = (let (devices, _, err) = InventoryWithScopes query adapters in (devices, err))"

definition ExecutionScopedInventory :: "ScopedInventory list \<Rightarrow> string \<Rightarrow> ScopedInventory result" where
  "ExecutionScopedInventory inventories distribution =
     (if distribution = []
      then (case find (\<lambda>i. inv_Scope i = ScopeWindowsHost) inventories of
              Some inventory \<Rightarrow> Inr inventory
            | None \<Rightarrow> Inl (Errorf ''windows host inventory is missing'' []))
      else (case find (\<lambda>i. inv_Scope i = ScopeWSLDistro \<and> inv_ScopeID i = distribution) inventories of
              Some inventory \<Rightarrow> Inr inventory
            | None \<Rightarrow> Inl (Errorf ''WSL distribution %q inventory is missing'' [AStr distribution])))"

subsection \<open>What the adapters promise to \<open>Reconcile\<close>\<close>

definition device_ok :: "string \<Rightarrow> string \<Rightarrow> Device \<Rightarrow> bool" where
  "device_ok scope scopeID d \<longleftrightarrow> uuid_Validate (dev_UUID d) = None \<and>
     dev_Architecture d = architectureForComputeCapability (dev_ComputeCapability d) \<and>
     (\<exists>index \<ge> 0. dev_Observations d = [\<lparr>obs_Scope = scope, obs_ScopeID = scopeID, obs_Index = index\<rparr>])"

definition inventory_ok :: "ScopedInventory \<Rightarrow> bool" where
  "inventory_ok i \<longleftrightarrow> valid_scope (inv_Scope i) \<and> distinct (map dev_UUID (inv_Devices i)) \<and>
     (\<forall>d \<in> set (inv_Devices i). device_ok (inv_Scope i) (inv_ScopeID i) d \<and> dev_DriverVersion d = inv_DriverVersion i \<and>
        dev_DriverCUDACeiling d = inv_DriverCUDACeiling i)"

text \<open>The invariant of the row loop.\<close>

definition rows_ok :: "string \<Rightarrow> string \<Rightarrow> string \<Rightarrow> int \<times> UUID list \<times> ScopedInventory \<Rightarrow> bool" where
  "rows_ok scope scopeID ceiling = (\<lambda>(n, seen, i).
     inv_Scope i = scope \<and> inv_ScopeID i = scopeID \<and> inv_DriverCUDACeiling i = ceiling \<and>
     set seen = dev_UUID ` set (inv_Devices i) \<and> distinct (map dev_UUID (inv_Devices i)) \<and>
     (inv_Devices i \<noteq> [] \<longrightarrow> inv_DriverVersion i \<noteq> []) \<and>
     (\<forall>d \<in> set (inv_Devices i). device_ok scope scopeID d \<and> dev_DriverVersion d = inv_DriverVersion i \<and>
        dev_DriverCUDACeiling d = ceiling))"

lemma parse_row_ok:
  assumes "rows_ok scope scopeID ceiling st" and "parse_row scope scopeID ceiling read st = Inr st'"
  shows "rows_ok scope scopeID ceiling st'"
  using assms uuid_Validate_ParseUUID
  by (cases st) (auto simp: parse_row_def rows_ok_def device_ok_def Let_def
      split: sum.splits option.splits if_splits)

lemma parseInventoryCSV_ok:
  assumes "parseInventoryCSV read_csv output scope scopeID ceiling = Inr i" and "valid_scope scope"
  shows "inventory_ok i" and "inv_Scope i = scope" and "inv_ScopeID i = scopeID" and "inv_Devices i \<noteq> []"
proof -
  obtain n seen where run: "foldE (parse_row scope scopeID ceiling) (read_csv output)
      (1, [], \<lparr>inv_Scope = scope, inv_ScopeID = scopeID, inv_DriverVersion = [],
               inv_DriverCUDACeiling = ceiling, inv_Devices = []\<rparr>) = Inr (n, seen, i)"
    and "inv_Devices i \<noteq> []"
    using assms(1) by (auto simp: parseInventoryCSV_def split: sum.splits if_splits)
  moreover from run have "rows_ok scope scopeID ceiling (n, seen, i)"
    by (rule foldE_invariant) (simp add: rows_ok_def, rule parse_row_ok)
  ultimately show "inventory_ok i" "inv_Scope i = scope" "inv_ScopeID i = scopeID" "inv_Devices i \<noteq> []"
    using assms(2) by (auto simp: rows_ok_def inventory_ok_def)
qed

lemma adapter_Inventory_ok:
  assumes "adapter_Inventory read_csv xml_version adapter = Inr i"
  shows "inventory_ok i \<and> inv_Devices i \<noteq> []"
proof -
  have "inventory_ok i \<and> inv_Devices i \<noteq> []"
    if "runInventory read_csv xml_version runner scope scopeID command prefix = Inr i" "valid_scope scope"
    for runner scope scopeID command prefix
    using that parseInventoryCSV_ok [OF _ that(2)]
    by (fastforce simp: runInventory_def split: option.splits sum.splits prod.splits)
  with assms show ?thesis by (cases adapter) (auto simp: valid_scope_def split: if_splits)
qed

lemma reconcile_fresh_devices:
  assumes "\<forall>d \<in> set ds. device_ok (inv_Scope i) (inv_ScopeID i) d" and "distinct (map dev_UUID ds)"
    and "dev_UUID ` set ds \<inter> set seen = {}" and "fst ` set m \<subseteq> set seen"
  shows "\<exists>st. foldE (reconcile_device i) ds (seen, m) = Inr st"
  using assms
proof (induction ds arbitrary: seen m)
  case (Cons d ds)
  then have "map_of m (dev_UUID d) = None" by (auto simp: map_of_eq_None_iff)
  with Cons.prems obtain c where step: "reconcile_device i d (seen, m) = Inr (dev_UUID d # seen, AList.update (dev_UUID d) c m)"
    by (auto simp: reconcile_device_def device_ok_def Let_def)
  have "\<exists>st. foldE (reconcile_device i) ds (dev_UUID d # seen, AList.update (dev_UUID d) c m) = Inr st"
  proof (rule Cons.IH)
    have "fst ` set (AList.update (dev_UUID d) c m) = insert (dev_UUID d) (fst ` set m)"
      using dom_update [of "dev_UUID d" c m] by (simp add: dom_map_of_conv_image_fst)
    then show "fst ` set (AList.update (dev_UUID d) c m) \<subseteq> set (dev_UUID d # seen)"
      using Cons.prems(4) by auto
  qed (use Cons.prems in auto)
  with step show ?case by simp
qed simp

lemma Reconcile_single: "inventory_ok i \<Longrightarrow> \<exists>ds. Reconcile [i] = Inr ds"
  using reconcile_fresh_devices [of "inv_Devices i" i "[]" "[]"]
  by (auto simp: inventory_ok_def Reconcile_def reconcile_inventory_def)

text \<open>
  What any adapter reports can be reconciled: a successful query yields a well-formed, non-empty
  inventory (canonical distinct UUIDs, one observation in the adapter's own scope per device, one driver
  version), and a provider with that single adapter succeeds with exactly the UUIDs reported.
\<close>

lemma InventoryWithScopes_single:
  assumes "adapter_Inventory read_csv xml_version adapter = Inr i"
  shows "inventory_ok i \<and> (\<exists>devices. InventoryWithScopes (adapter_Inventory read_csv xml_version) [Some adapter] =
      (devices, [i], None) \<and> devices \<noteq> [] \<and> dev_UUID ` set devices = dev_UUID ` set (inv_Devices i))"
proof -
  note ok = adapter_Inventory_ok [OF assms]
  then obtain ds where ds: "Reconcile [i] = Inr ds" using Reconcile_single by blast
  from Reconcile_UUIDs [OF ds] have "dev_UUID ` set ds = dev_UUID ` set (inv_Devices i)" by simp
  with ok ds assms show ?thesis by (auto simp: InventoryWithScopes_def query_adapter_def)
qed

end
