(* ===== verification/Backend_Runtime.thy ===== *)
theory Backend_Runtime
  imports Go_Prelude
begin

text \<open>
  The registry of local execution backends (\<open>pkg/runtime/backend.go\<close>) and the discovery and selection
  of an available one (\<open>pkg/runtime/probe.go\<close>). \<open>exec.LookPath\<close> and the bounded \<open>--version\<close> run are
  parameters.
\<close>

section \<open>Backends\<close>

type_synonym BackendID = string
type_synonym PlanTarget = string

definition PlanTargetDocker :: PlanTarget where "PlanTargetDocker = ''docker''"
definition PlanTargetNanoVMS :: PlanTarget where "PlanTargetNanoVMS = ''nanovms''"
definition BackendNanoVMS :: BackendID where "BackendNanoVMS = ''nanovms''"
definition BackendPodman :: BackendID where "BackendPodman = ''podman''"
definition BackendAppleContainers :: BackendID where "BackendAppleContainers = ''apple-containers''"
definition BackendWSLContainers :: BackendID where "BackendWSLContainers = ''wsl-containers''"

lemmas backend_names [go_simps] = PlanTargetDocker_def PlanTargetNanoVMS_def BackendNanoVMS_def BackendPodman_def
  BackendAppleContainers_def BackendWSLContainers_def

record BackendMetadata =
  backend_ID :: BackendID
  backend_Tier :: int
  backend_Lifecycle :: bool

definition zero_BackendMetadata :: BackendMetadata where
  "zero_BackendMetadata = \<lparr>backend_ID = [], backend_Tier = 0, backend_Lifecycle = False\<rparr>"

text \<open>A nil registry is \<open>None\<close>.\<close>

type_synonym BackendRegistry = "(BackendID, BackendMetadata) gomap option"

definition NewBackendRegistry :: BackendRegistry where
  "NewBackendRegistry = Some
     [(BackendNanoVMS, \<lparr>backend_ID = BackendNanoVMS, backend_Tier = 3, backend_Lifecycle = True\<rparr>),
      (BackendPodman, \<lparr>backend_ID = BackendPodman, backend_Tier = 2, backend_Lifecycle = True\<rparr>),
      (BackendAppleContainers, \<lparr>backend_ID = BackendAppleContainers, backend_Tier = 2, backend_Lifecycle = True\<rparr>),
      (BackendWSLContainers, \<lparr>backend_ID = BackendWSLContainers, backend_Tier = 2, backend_Lifecycle = True\<rparr>)]"

definition registry_Resolve :: "BackendRegistry \<Rightarrow> BackendID \<Rightarrow> BackendMetadata result" where
  "registry_Resolve r ident =
     (case r of
        None \<Rightarrow> Inl (Errorf ''backend registry is nil'' [])
      | Some backends \<Rightarrow>
          (case map_of backends ident of
             None \<Rightarrow> Inl (Errorf ''unsupported execution backend %q'' [AStr ident])
           | Some metadata \<Rightarrow> Inr metadata))"

definition registry_All :: "BackendRegistry \<Rightarrow> BackendMetadata list" where
  "registry_All r = (case r of None \<Rightarrow> [] | Some backends \<Rightarrow> sort_key backend_ID (map snd backends))"

definition ParseBackend :: "string \<Rightarrow> BackendID result" where
  "ParseBackend val =
     (if val = BackendNanoVMS \<or> val = BackendPodman \<or> val = BackendAppleContainers \<or> val = BackendWSLContainers
      then Inr val else Inl (Errorf ''unsupported execution backend %q'' [AStr val]))"

definition Supports :: "BackendID \<Rightarrow> PlanTarget \<Rightarrow> bool" where
  "Supports b target =
     (if b = BackendNanoVMS then target = PlanTargetNanoVMS
      else (b = BackendPodman \<or> b = BackendAppleContainers \<or> b = BackendWSLContainers) \<and> target = PlanTargetDocker)"

section \<open>Probing\<close>

record Availability =
  avail_Backend :: BackendID
  avail_Available :: bool
  avail_Reason :: string
  avail_Version :: string

definition zero_Availability :: Availability where
  "zero_Availability = \<lparr>avail_Backend = [], avail_Available = False, avail_Reason = [], avail_Version = []\<rparr>"

type_synonym Probe = "BackendID \<Rightarrow> Availability"

record BinaryProbe =
  probe_Commands :: "BackendID \<rightharpoonup> string"
  probe_Candidates :: "BackendID \<rightharpoonup> string list"

definition probe_candidates :: "BinaryProbe \<Rightarrow> BackendID \<Rightarrow> string list" where
  "probe_candidates p backend =
     (case probe_Commands p backend of
        Some command \<Rightarrow>
          if command \<noteq> [] then [command]
          else (case probe_Candidates p backend of Some cs \<Rightarrow> cs | None \<Rightarrow> [])
      | None \<Rightarrow> (case probe_Candidates p backend of Some cs \<Rightarrow> cs | None \<Rightarrow> []))"

definition DefaultBinaryProbe :: BinaryProbe where
  "DefaultBinaryProbe =
     \<lparr>probe_Commands = [BackendPodman \<mapsto> ''podman'', BackendAppleContainers \<mapsto> ''container''],
      probe_Candidates = [BackendWSLContainers \<mapsto> [''container.exe'', ''wslc.exe'']]\<rparr>"

text \<open>The first command that \<open>exec.LookPath\<close> finds; the empty path when there is none.\<close>

fun first_found :: "(string \<Rightarrow> string option) \<Rightarrow> string list \<Rightarrow> string" where
  "first_found lookPath [] = []"
| "first_found lookPath (command # commands) =
     (case lookPath command of Some found \<Rightarrow> found | None \<Rightarrow> first_found lookPath commands)"

text \<open>\<open>run_version path\<close> is the version run: its output or error, and whether its context ran out.\<close>

definition BinaryProbe_Probe ::
  "(string \<Rightarrow> string option) \<Rightarrow> (string \<Rightarrow> string result \<times> bool) \<Rightarrow> BinaryProbe \<Rightarrow> Probe" where
  "BinaryProbe_Probe lookPath run_version p backend =
     (let commands = probe_candidates p backend in
      if commands = [] then zero_Availability\<lparr>avail_Backend := backend, avail_Reason := ''no local probe configured''\<rparr>
      else let path = first_found lookPath commands in
      if path = [] then zero_Availability\<lparr>avail_Backend := backend, avail_Reason := ''executable unavailable''\<rparr>
      else case run_version path of
        (Inl err, ctx_done) \<Rightarrow>
          if ctx_done
          then \<lparr>avail_Backend = backend, avail_Available = False, avail_Reason = ''probe timed out'', avail_Version = ''unknown''\<rparr>
          else \<lparr>avail_Backend = backend, avail_Available = True, avail_Reason = ''executable found'', avail_Version = ''unknown''\<rparr>
      | (Inr out, _) \<Rightarrow>
          \<lparr>avail_Backend = backend, avail_Available = True, avail_Reason = ''executable found'', avail_Version = trimSpace out\<rparr>)"

definition Discover :: "BackendRegistry \<Rightarrow> Probe option \<Rightarrow> Availability list" where
  "Discover registry probe =
     (case (registry, probe) of
        (Some _, Some f) \<Rightarrow> sort_key avail_Backend (map (\<lambda>metadata. f (backend_ID metadata)) (registry_All registry))
      | _ \<Rightarrow> [])"

text \<open>The loop of \<open>Select\<close> over the candidates, with its \<open>seen\<close> set.\<close>

fun select_loop ::
  "BackendRegistry \<Rightarrow> (BackendID \<rightharpoonup> Availability) \<Rightarrow> PlanTarget \<Rightarrow> BackendID list \<Rightarrow> BackendID list \<Rightarrow>
     (BackendMetadata \<times> Availability) option" where
  "select_loop registry available target seen [] = None"
| "select_loop registry available target seen (ident # tries) =
     (if ident \<in> set seen then select_loop registry available target seen tries
      else case registry_Resolve registry ident of
        Inl err \<Rightarrow> select_loop registry available target (ident # seen) tries
      | Inr metadata \<Rightarrow>
          if \<not> Supports ident target then select_loop registry available target (ident # seen) tries
          else let observation = (case available ident of Some a \<Rightarrow> a | None \<Rightarrow> zero_Availability) in
            if avail_Available observation then Some (metadata, observation)
            else select_loop registry available target (ident # seen) tries)"

definition Select ::
  "BackendRegistry \<Rightarrow> Probe option \<Rightarrow> PlanTarget \<Rightarrow> BackendID list \<Rightarrow> (BackendMetadata \<times> Availability) result" where
  "Select registry probe target preferred =
     (if registry = None \<or> probe = None then Inl (Errorf ''runtime registry and probe are required'' [])
      else let available = fold (\<lambda>a m. m(avail_Backend a \<mapsto> a)) (Discover registry probe) Map.empty;
               tries = preferred @ map backend_ID (registry_All registry) in
        case select_loop registry available target [] tries of
          Some found \<Rightarrow> Inr found
        | None \<Rightarrow> Inl (Errorf ''no available backend supports target %q'' [AStr target]))"

section \<open>Selection is a search\<close>

text \<open>Whether a backend can be chosen, and with which result.\<close>

definition usable ::
  "BackendRegistry \<Rightarrow> (BackendID \<rightharpoonup> Availability) \<Rightarrow> PlanTarget \<Rightarrow> BackendID \<Rightarrow> bool" where
  "usable registry available target ident \<longleftrightarrow>
     (\<exists>metadata. registry_Resolve registry ident = Inr metadata) \<and> Supports ident target \<and>
     (\<exists>a. available ident = Some a \<and> avail_Available a)"

lemma select_loop_find:
  assumes "\<forall>ident \<in> set seen. \<not> usable registry available target ident"
  shows "select_loop registry available target seen tries =
    map_option (\<lambda>ident. (projr (registry_Resolve registry ident), the (available ident)))
      (find (usable registry available target) tries)"
  using assms
  by (induction registry available target seen tries rule: select_loop.induct)
     (auto simp: usable_def zero_Availability_def Let_def split: sum.splits option.splits)

text \<open>A probe reports on the backend it was asked about.\<close>

definition probe_answers :: "Probe \<Rightarrow> bool" where
  "probe_answers f \<longleftrightarrow> (\<forall>b. avail_Backend (f b) = b)"

lemma BinaryProbe_answers: "probe_answers (BinaryProbe_Probe lookPath run_version p)"
  by (auto simp: probe_answers_def BinaryProbe_Probe_def Let_def split: prod.splits sum.splits)

lemma fold_available:
  "fold (\<lambda>a m. m(avail_Backend a \<mapsto> a)) as m b =
     (case find (\<lambda>a. avail_Backend a = b) (rev as) of Some a \<Rightarrow> Some a | None \<Rightarrow> m b)"
  by (induction as arbitrary: m rule: rev_induct) auto

text \<open>The metadata of a registry is filed under its own identifier.\<close>

definition registry_ok :: "BackendRegistry \<Rightarrow> bool" where
  "registry_ok r = (case r of None \<Rightarrow> True | Some m \<Rightarrow> go_map m \<and> (\<forall>(ident, md) \<in> set m. backend_ID md = ident))"

lemma registry_ok_NewBackendRegistry: "registry_ok NewBackendRegistry"
  by code_simp

lemma registry_All_IDs:
  "registry_ok (Some m) \<Longrightarrow> set (map backend_ID (registry_All (Some m))) = fst ` set m"
  by (force simp: registry_ok_def registry_All_def)

lemma Discover_available:
  assumes "registry_ok (Some m)" and "probe_answers f"
  shows "fold (\<lambda>a mm. mm(avail_Backend a \<mapsto> a)) (Discover (Some m) (Some f)) Map.empty b =
    (if b \<in> fst ` set m then Some (f b) else None)"
proof -
  have d: "set (Discover (Some m) (Some f)) = f ` fst ` set m"
    using registry_All_IDs [OF assms(1)] by (simp add: Discover_def image_image [symmetric])
  show ?thesis
  proof (cases "find (\<lambda>a. avail_Backend a = b) (rev (Discover (Some m) (Some f)))")
    case None
    then have "b \<notin> fst ` set m"
      using d assms(2) unfolding find_None_iff by (auto simp: probe_answers_def)
    with None show ?thesis by (simp add: fold_available)
  next
    case (Some a)
    then have "a \<in> set (Discover (Some m) (Some f))" "avail_Backend a = b"
      unfolding find_Some_iff by (auto simp: rev_nth)
    then have "a = f b \<and> b \<in> fst ` set m" using d assms(2) by (auto simp: probe_answers_def)
    with Some show ?thesis by (simp add: fold_available)
  qed
qed



end
