(* ===== verification/Evaluation_Data.thy ===== *)
theory Evaluation_Data
  imports Error_Codes Gpu_Inventory Backend_Runtime Go_Path
begin

text \<open>
  The wire types of the evaluation action (\<open>pkg/orchestrate/evaluation.go\<close>): request, GPU binding,
  inspection, lifecycle evidence, provenance and result. A pointer is an \<open>option\<close>.
\<close>

definition EvaluationActionVersion :: string where "EvaluationActionVersion = ''nanovms.io/evaluation-action/v1''"
definition ExternalEngineDocker :: string where "ExternalEngineDocker = ''docker''"
definition EffectiveEnginePodman :: string where "EffectiveEnginePodman = ''podman''"
definition ExecutionPlaneNanoVMS :: string where "ExecutionPlaneNanoVMS = ''nanovms''"
definition JobLockFilename :: string where "JobLockFilename = ''lock.json''"

text \<open>Durations in nanoseconds.\<close>

definition MaxEvaluationTimeout :: int64 where "MaxEvaluationTimeout = 24 * 3600 * 1000000000"
definition MaxEvaluationOutput :: int where "MaxEvaluationOutput = 16 * 2 ^ 20"
definition EvaluationReservationSkew :: int64 where "EvaluationReservationSkew = 60 * 1000000000"

record EvaluationGPUBinding =
  bind_UUID :: UUID
  bind_CUDAToolkit :: string
  bind_CDIDevice :: string

record EvaluationRequest =
  req_Version :: string
  req_Backend :: BackendID
  req_FallbackBackends :: "BackendID list"
  req_ManifestSHA256 :: string
  req_Executable :: string
  req_Argv :: "string list"
  req_Environment :: "(string, string) gomap"
  req_ExternalEngineToken :: string
  req_PodmanPipe :: string
  req_WSLDistribution :: string
  req_OutputRoot :: string
  req_ReservationPath :: string
  req_LockInvocation :: "string list"
  req_ResourceManifest :: ResourceManifest
  req_GPUBindings :: "EvaluationGPUBinding list"
  req_TimeoutMillis :: int64
  req_MaxOutputBytes :: int

record EvaluationInspection =
  insp_Provider :: BackendID
  insp_PodmanPipe :: string
  insp_Toolkit :: string
  insp_ToolkitRoot :: string
  insp_ToolkitExecutable :: string
  insp_Devices :: "Device list"
  insp_CDIDevices :: "UUID \<rightharpoonup> string"

record EvaluationLifecycle =
  life_ExitCode :: int
  life_DurationMS :: int
  life_TimedOut :: bool
  life_Truncated :: bool
  life_Stdout :: string
  life_Stderr :: string
  life_StdoutSHA256 :: string
  life_StderrSHA256 :: string

record EvaluationProvenance =
  prov_ManifestSHA256 :: string
  prov_EffectiveEngine :: string
  prov_ResolvedProvider :: BackendID
  prov_ExecutionPlane :: string
  prov_PodmanPipe :: string
  prov_GPUUUIDs :: "UUID list"
  prov_JobDirectory :: string
  prov_CandidateJobDirectories :: "string list"
  prov_OutputRoot :: string
  prov_OutputLockPath :: string
  prov_CoordinatorLockPath :: string
  prov_ReservationPath :: string
  prov_ReservationToken :: string
  prov_ReservationExpiresAt :: "time option"
  prov_LockInvocation :: "string list"
  prov_CommandSHA256 :: string
  prov_OutputRootCreated :: bool
  prov_OutputRootAvailableBytes :: "nat option"
  prov_OutputRootCleanup :: string
  prov_ToolkitRoot :: string
  prov_ToolkitExecutable :: string
  prov_ToolkitVersion :: string

record EvaluationResult =
  er_Version :: string
  er_Success :: bool
  er_ErrorCode :: string
  er_ErrorMessage :: "go_error option"
  er_Lifecycle :: EvaluationLifecycle
  er_Provenance :: EvaluationProvenance
  er_Released :: bool

text \<open>The CUDA toolkit and the kernel flag of a request's artifact.\<close>

abbreviation req_Artifact :: "EvaluationRequest \<Rightarrow> ArtifactRequirements" where
  "req_Artifact request \<equiv> man_Artifact (req_ResourceManifest request)"

end
