(* ===== verification/Toolkit_Inspector.thy ===== *)
theory Toolkit_Inspector
  imports Evaluation_Data
begin

text \<open>
  The read-only host inspection of \<open>pkg/orchestrate/evaluation_inspector.go\<close>: discovering the CUDA
  toolkit by precedence, Podman and CDI probes. The command runner, the host environment, the WSL toolkit
  provider and the JSON decoder are parameters; the host is a Unix one, where \<open>path\<close> and \<open>filepath\<close> agree.
\<close>

section \<open>Library functions\<close>

definition is_word_char :: "char \<Rightarrow> bool" where
  "is_word_char c = (is_digit c \<or> c = CHR ''_'' \<or> 65 \<le> byte c \<and> byte c \<le> 90 \<or> 97 \<le> byte c \<and> byte c \<le> 122)"

definition regexp_space :: "char \<Rightarrow> bool" where
  "regexp_space c = (byte c \<in> {9, 10, 12, 13, 32})"

definition strip_fold :: "string \<Rightarrow> string \<Rightarrow> string option" where
  "strip_fold p s = (if equalFold (take (length p) s) p then Some (drop (length p) s) else None)"

text \<open>\<open>(?i)release\<close>; folding also admits the long s, bytes 0xC5 0xBF.\<close>

definition strip_release :: "string \<Rightarrow> string option" where
  "strip_release s =
     (case strip_fold ''relea'' s of
        None \<Rightarrow> None
      | Some r \<Rightarrow>
          if r \<noteq> [] \<and> lower_char (hd r) = CHR ''s'' then strip_fold ''e'' (tl r)
          else if map byte (take 2 r) = [0xC5, 0xBF] then strip_fold ''e'' (drop 2 r)
          else None)"

text \<open>The pattern after its leading word boundary: the captured version.\<close>

definition match_release :: "string \<Rightarrow> string option" where
  "match_release s =
     (case strip_release s of
        None \<Rightarrow> None
      | Some r \<Rightarrow>
          let t = dropWhile regexp_space r;
              major = takeWhile is_digit t;
              rest = dropWhile is_digit t;
              minor = takeWhile is_digit (tl rest);
              final = dropWhile is_digit (tl rest) in
          if t \<noteq> r \<and> major \<noteq> [] \<and> rest \<noteq> [] \<and> hd rest = CHR ''.'' \<and> minor \<noteq> [] \<and>
             (final = [] \<or> \<not> is_word_char (hd final))
          then Some (major @ ''.'' @ minor) else None)"

text \<open>\<open>nvccReleasePattern.FindSubmatch\<close>: the leftmost match; the flag says that the previous byte is a word byte.\<close>

fun find_release :: "bool \<Rightarrow> string \<Rightarrow> string option" where
  "find_release prev [] = None"
| "find_release prev (c # s) =
     (case (if prev then None else match_release (c # s)) of
        Some v \<Rightarrow> Some v
      | None \<Rightarrow> find_release (is_word_char c) s)"

definition nvccReleasePattern :: "string \<Rightarrow> string option" where
  "nvccReleasePattern s = find_release False s"

section \<open>The inspector\<close>

text \<open>A runner may support environment overrides.\<close>

record inspection_runner =
  ir_Run :: command_runner
  ir_RunWithEnv :: "((string, string) gomap \<Rightarrow> command_runner) option"

record HostEvaluationInspector =
  hei_Runner :: "inspection_runner option"
  hei_ToolkitRoot :: string
  hei_LookupEnv :: "string \<Rightarrow> string option"
  hei_ProgramFilesRoots :: "string list"
  hei_WSLToolkitProvider :: "(string \<Rightarrow> string \<Rightarrow> string list result) option"

definition defaultWSLToolkitProvider :: "string \<Rightarrow> string \<Rightarrow> string list result" where
  "defaultWSLToolkitProvider distribution version = Inr [''/usr/local/cuda-'' @ version]"

record resolvedToolkit =
  tk_Root :: string
  tk_Executable :: string
  tk_Version :: string

record toolkitCandidateGroup =
  grp_roots :: "string list"
  grp_authoritative :: bool

definition inspector_runWithEnv ::
  "inspection_runner \<Rightarrow> string \<Rightarrow> (string, string) gomap \<Rightarrow> string \<Rightarrow> string list \<Rightarrow> CommandResult \<times> go_error option" where
  "inspector_runWithEnv runner distribution environment executable arguments =
     (let (command, args) =
        (if distribution \<noteq> [] then (''wsl.exe'', [''-d'', distribution, ''--'', executable] @ arguments)
         else (executable, arguments)) in
      if environment = [] then ir_Run runner command args
      else case ir_RunWithEnv runner of
        None \<Rightarrow> (zero_CommandResult, Some (Errorf ''inspection command runner must support environment overrides'' []))
      | Some run \<Rightarrow> run environment command args)"

definition inspector_run ::
  "inspection_runner \<Rightarrow> string \<Rightarrow> string \<Rightarrow> string list \<Rightarrow> CommandResult \<times> go_error option" where
  "inspector_run runner distribution executable arguments =
     inspector_runWithEnv runner distribution [] executable arguments"

text \<open>The loop of \<open>uniqueNonempty\<close>; on Unix the key is the trimmed value.\<close>

fun unique_from :: "string list \<Rightarrow> string list \<Rightarrow> string list" where
  "unique_from seen [] = []"
| "unique_from seen (v # vs) =
     (let t = trimSpace v in
      if t = [] \<or> t \<in> set seen then unique_from seen vs else t # unique_from (t # seen) vs)"

definition uniqueNonempty :: "string list \<Rightarrow> string list" where
  "uniqueNonempty values = unique_from [] values"

text \<open>Candidate, observed version, availability.\<close>

definition inspectToolkitCandidate ::
  "inspection_runner \<Rightarrow> string \<Rightarrow> string \<Rightarrow> (resolvedToolkit \<times> string \<times> bool) result" where
  "inspectToolkitCandidate runner distribution root =
     (let absolute = isAbs root;
          hostDistribution = (if distribution \<noteq> [] \<and> absolute then [] else distribution) in
      if \<not> absolute then Inr (\<lparr>tk_Root = root, tk_Executable = [], tk_Version = []\<rparr>, [], False)
      else
        let executable = (if hostDistribution \<noteq> [] then path_join [root, ''bin'', ''nvcc'']
                          else path_join [root, ''bin'', ''nvcc.exe'']);
            candidate = \<lparr>tk_Root = root, tk_Executable = executable, tk_Version = []\<rparr>;
            (result, err) = inspector_run runner hostDistribution executable [''--version''] in
        if res_TimedOut result \<or> (case err of None \<Rightarrow> False | Some e \<Rightarrow> errors_is e ''context.DeadlineExceeded'')
        then Inl (evaluationError CodeToolkitInspectionTO ''CUDA toolkit inspection timed out for %q'' [AStr executable])
        else if err \<noteq> None \<or> res_ExitCode result \<noteq> 0 then Inr (candidate, [], False)
        else case nvccReleasePattern (res_Stdout result @ res_Stderr result) of
          None \<Rightarrow> Inr (candidate, ''unknown'', True)
        | Some v \<Rightarrow> Inr (candidate, v, True))"

text \<open>\<open>requestEnv\<close> and \<open>environmentValue\<close> of \<open>toolkitCandidateGroups\<close>.\<close>

definition requestEnv :: "(string, string) gomap \<Rightarrow> string \<Rightarrow> string result" where
  "requestEnv environment key =
     (let keys = sort (map fst (filter (\<lambda>(candidate, val). equalFold candidate key \<and> trimSpace val \<noteq> []) environment));
          lookup = (\<lambda>k. case map_of environment k of None \<Rightarrow> [] | Some v \<Rightarrow> trimSpace v) in
      case keys of
        [] \<Rightarrow> Inr []
      | k # ks \<Rightarrow>
          if \<exists>candidate \<in> set ks. lookup candidate \<noteq> lookup k
          then Inl (evaluationError CodeToolkitAmbiguous
                 ''environment contains conflicting case-insensitive values for %s'' [AStr key])
          else Inr (lookup k))"

definition environmentValue ::
  "(string \<Rightarrow> string option) \<Rightarrow> (string, string) gomap \<Rightarrow> string \<Rightarrow> bool \<Rightarrow> string result" where
  "environmentValue lookup environment key allowHost =
     (case requestEnv environment key of
        Inl err \<Rightarrow> Inl err
      | Inr val \<Rightarrow>
          if val \<noteq> [] then Inr val
          else if \<not> allowHost then Inr []
          else Inr (trimSpace (case lookup key of None \<Rightarrow> [] | Some v \<Rightarrow> v)))"

definition version_variable :: "string \<Rightarrow> string" where
  "version_variable version =
     ''CUDA_PATH_V'' @ map (\<lambda>c. if c = CHR ''.'' \<or> c = CHR ''-'' then CHR ''_'' else c) version"

text \<open>
  The program directories of the last group on the host itself. Copying an empty slice gives a nil
  one, so an empty \<open>ProgramFilesRoots\<close> counts as unset.
\<close>

definition program_roots :: "HostEvaluationInspector \<Rightarrow> (string, string) gomap \<Rightarrow> string list result" where
  "program_roots inspector environment =
     (if hei_ProgramFilesRoots inspector \<noteq> [] then Inr (hei_ProgramFilesRoots inspector)
      else
          foldE (\<lambda>key roots.
              case environmentValue (hei_LookupEnv inspector) environment key True of
                Inl err \<Rightarrow> Inl err
              | Inr val \<Rightarrow> Inr (if val \<noteq> [] then roots @ [val] else roots))
            [''ProgramFiles'', ''ProgramW6432''] [])"

definition toolkitCandidateGroups ::
  "HostEvaluationInspector \<Rightarrow> EvaluationRequest \<Rightarrow> string \<Rightarrow> toolkitCandidateGroup list result" where
  "toolkitCandidateGroups inspector request version =
     (let distribution = req_WSLDistribution request;
          env = environmentValue (hei_LookupEnv inspector) (req_Environment request);
          configured = (if trimSpace (hei_ToolkitRoot inspector) = []
            then env ''NANOVMS_CUDA_TOOLKIT_ROOT'' (distribution = []) else Inr (trimSpace (hei_ToolkitRoot inspector))) in
      case configured of
        Inl err \<Rightarrow> Inl err
      | Inr configuredRoot \<Rightarrow>
      (case env (version_variable version) (distribution = []) of
        Inl err \<Rightarrow> Inl err
      | Inr versionRoot \<Rightarrow>
      (case env ''CUDA_PATH'' (distribution = []) of
        Inl err \<Rightarrow> Inl err
      | Inr cudaPath \<Rightarrow>
        let groups = [\<lparr>grp_roots = [configuredRoot], grp_authoritative = True\<rparr>,
                      \<lparr>grp_roots = [versionRoot], grp_authoritative = True\<rparr>,
                      \<lparr>grp_roots = [cudaPath], grp_authoritative = False\<rparr>] in
        if distribution \<noteq> []
        then let provider = (case hei_WSLToolkitProvider inspector of None \<Rightarrow> defaultWSLToolkitProvider | Some p \<Rightarrow> p) in
          (case provider distribution version of
             Inl err \<Rightarrow>
               if errors_is err ''context.DeadlineExceeded''
               then Inl (evaluationError CodeToolkitInspectionTO
                      ''CUDA toolkit discovery timed out in WSL distribution %q'' [AStr distribution])
               else Inl (evaluationError CodeToolkitNotFound
                      ''discover CUDA toolkit in WSL distribution %q: %v'' [AStr distribution, AErr err])
           | Inr roots \<Rightarrow> Inr (groups @ [\<lparr>grp_roots = roots, grp_authoritative = False\<rparr>]))
        else
          (case program_roots inspector (req_Environment request) of
             Inl err \<Rightarrow> Inl err
           | Inr roots \<Rightarrow>
               Inr (groups @ [\<lparr>grp_roots = map (\<lambda>root. path_join [root, ''NVIDIA GPU Computing Toolkit'', ''CUDA'', ''v'' @ version]) roots,
                 grp_authoritative = False\<rparr>])))))"

text \<open>The loop over one group's roots: state is \<open>mismatches\<close>, \<open>matches\<close> and \<open>groupUnavailable\<close>.\<close>

definition inspect_root ::
  "(string \<Rightarrow> (resolvedToolkit \<times> string \<times> bool) result) \<Rightarrow> string \<Rightarrow> string \<Rightarrow>
     string list \<times> resolvedToolkit list \<times> bool \<Rightarrow> (string list \<times> resolvedToolkit list \<times> bool) result" where
  "inspect_root inspect requested root = (\<lambda>(mismatches, matches, unavailable).
     case inspect root of
       Inl err \<Rightarrow> Inl err
     | Inr (candidate, reported, available) \<Rightarrow>
         if \<not> available then Inr (mismatches, matches, True)
         else if reported \<noteq> requested
         then Inr (mismatches @ [tk_Executable candidate @ '' reported '' @ reported], matches, unavailable)
         else Inr (mismatches, matches @ [candidate\<lparr>tk_Version := reported\<rparr>], unavailable))"

text \<open>The loop over the groups; \<open>mismatches\<close> accumulates across groups.\<close>

fun resolve_groups ::
  "(string \<Rightarrow> (resolvedToolkit \<times> string \<times> bool) result) \<Rightarrow> string \<Rightarrow> string list \<Rightarrow>
     toolkitCandidateGroup list \<Rightarrow> resolvedToolkit result" where
  "resolve_groups inspect requested mismatches [] =
     (if mismatches \<noteq> []
      then Inl (evaluationError CodeToolkitVersionMismatch ''no CUDA toolkit matched requested %s: %s''
             [AStr requested, AStr (join mismatches ''; '')])
      else Inl (evaluationError CodeToolkitNotFound ''CUDA toolkit %s was not found'' [AStr requested]))"
| "resolve_groups inspect requested mismatches (grp # groups) =
     (let roots = uniqueNonempty (grp_roots grp) in
      if roots = [] then resolve_groups inspect requested mismatches groups
      else case foldE (inspect_root inspect requested) roots (mismatches, [], False) of
        Inl err \<Rightarrow> Inl err
      | Inr (mismatches', matches, unavailable) \<Rightarrow>
          if length matches > 1
          then Inl (evaluationError CodeToolkitAmbiguous ''multiple CUDA %s installations found: %s''
                 [AStr requested, AStr (join (sort (map tk_Root matches)) '', '')])
          else if length matches = 1 then Inr (hd matches)
          else if grp_authoritative grp \<and> mismatches' \<noteq> []
          then Inl (evaluationError CodeToolkitVersionMismatch
                 ''configured CUDA toolkit does not match requested %s: %s'' [AStr requested, AStr (join mismatches' ''; '')])
          else if grp_authoritative grp \<and> unavailable
          then Inl (evaluationError CodeToolkitNotFound
                 ''configured CUDA %s toolkit has no executable nvcc'' [AStr requested])
          else resolve_groups inspect requested mismatches' groups)"

definition resolveToolkit ::
  "HostEvaluationInspector \<Rightarrow> inspection_runner \<Rightarrow> EvaluationRequest \<Rightarrow> resolvedToolkit result" where
  "resolveToolkit inspector runner request =
     (let requested = trimSpace (art_CUDAToolkit (req_Artifact request)) in
      if requested = []
      then Inl (evaluationError CodeToolkitNotFound ''requested CUDA toolkit version is empty'' [])
      else case toolkitCandidateGroups inspector request requested of
        Inl err \<Rightarrow> Inl err
      | Inr groups \<Rightarrow>
          resolve_groups (inspectToolkitCandidate runner (req_WSLDistribution request)) requested [] groups)"

definition expand_field :: "string \<Rightarrow> (UUID \<rightharpoonup> string) \<Rightarrow> (UUID \<rightharpoonup> string)" where
  "expand_field field devices =
     (if \<not> hasPrefix field ''nvidia.com/gpu='' then devices
      else let suffix = trimPrefix field ''nvidia.com/gpu='' in
        if suffix = ''all'' then devices
        else case ParseUUID suffix of
          Inl _ \<Rightarrow> devices
        | Inr uuid \<Rightarrow> devices(uuid \<mapsto> ''nvidia.com/gpu='' @ uuid))"

definition expand_device :: "Device \<Rightarrow> (UUID \<rightharpoonup> string) \<Rightarrow> (UUID \<rightharpoonup> string)" where
  "expand_device device m =
     (if uuid_Validate (dev_UUID device) \<noteq> None \<or> m (dev_UUID device) \<noteq> None then m
      else m(dev_UUID device \<mapsto> ''nvidia.com/gpu='' @ dev_UUID device))"

definition expandCDIDevices :: "string \<Rightarrow> ScopedInventory \<Rightarrow> (UUID \<rightharpoonup> string)" where
  "expandCDIDevices stdout inventory =
     (let devices = fold expand_field (strings_Fields stdout) Map.empty in
      if contains stdout ''nvidia.com/gpu=all''
      then fold expand_device (inv_Devices inventory) devices
      else devices)"

definition validateExecutionInventoryScope :: "ScopedInventory \<Rightarrow> string \<Rightarrow> go_error option" where
  "validateExecutionInventoryScope inventory distribution =
     (if distribution = []
      then if inv_Scope inventory \<noteq> ScopeWindowsHost
           then Some (Errorf ''execution inventory scope %q does not match native host execution'' [AStr (inv_Scope inventory)])
           else None
      else if inv_Scope inventory \<noteq> ScopeWSLDistro \<or> inv_ScopeID inventory \<noteq> distribution
      then Some (Errorf ''execution inventory scope %q/%q does not match WSL distribution %q''
             [AStr (inv_Scope inventory), AStr (inv_ScopeID inventory), AStr distribution])
      else None)"

text \<open>
  \<open>json_object\<close> decodes into \<open>map[string]any\<close> and gives the number of its keys; \<open>adapter\<close> queries an
  inventory adapter.
\<close>

definition inspect_inventory ::
  "(InventoryAdapter \<Rightarrow> ScopedInventory result) \<Rightarrow> inspection_runner \<Rightarrow> string \<Rightarrow> ScopedInventory option \<Rightarrow>
     ScopedInventory result" where
  "inspect_inventory adapter runner distribution executionInventory =
     (case executionInventory of
        Some inventory \<Rightarrow>
          (case validateExecutionInventoryScope inventory distribution of
             Some err \<Rightarrow> Inl err
           | None \<Rightarrow> Inr inventory)
      | None \<Rightarrow>
          if distribution = [] then adapter (WindowsInventoryAdapter (Some (ir_Run runner)))
          else adapter (WSLInventoryAdapter (Some (ir_Run runner)) distribution))"

definition InspectWithInventory ::
  "(string \<Rightarrow> nat result) \<Rightarrow> (InventoryAdapter \<Rightarrow> ScopedInventory result) \<Rightarrow> HostEvaluationInspector \<Rightarrow>
     EvaluationRequest \<Rightarrow> ScopedInventory option \<Rightarrow> EvaluationInspection result" where
  "InspectWithInventory json_object adapter inspector request executionInventory =
     (case hei_Runner inspector of
        None \<Rightarrow> Inl (Errorf ''inspection command runner is required'' [])
      | Some runner \<Rightarrow>
        (let pipe = trimSpace (req_PodmanPipe request);
             distribution = req_WSLDistribution request in
         if pipe = [] then Inl (Errorf ''podman pipe is required for inspection'' [])
         else case inspector_runWithEnv runner distribution [(''DOCKER_HOST'', pipe)] ''podman'' [''info'', ''--format'', ''json''] of
           (_, Some err) \<Rightarrow> Inl (Errorf ''podman inspection failed: %w'' [AWrap err])
         | (info, None) \<Rightarrow>
           if res_ExitCode info \<noteq> 0
           then Inl (Errorf ''podman inspection failed: podman info exited %d'' [AInt (res_ExitCode info)])
           else if (case json_object (res_Stdout info) of Inl _ \<Rightarrow> True | Inr n \<Rightarrow> n = 0)
           then Inl (Errorf ''podman inspection returned malformed JSON'' [])
           else case inspect_inventory adapter runner distribution executionInventory of
             Inl err \<Rightarrow> Inl err
           | Inr inventory \<Rightarrow>
             (case (if art_CompiledKernels (req_Artifact request)
                    then Inr \<lparr>tk_Root = [], tk_Executable = [], tk_Version = trimSpace (art_CUDAToolkit (req_Artifact request))\<rparr>
                    else resolveToolkit inspector runner request) of
                Inl err \<Rightarrow> Inl err
              | Inr toolkit \<Rightarrow>
                (case inspector_runWithEnv runner distribution [(''DOCKER_HOST'', pipe)] ''nvidia-ctk'' [''cdi'', ''list''] of
                   (_, Some err) \<Rightarrow> Inl (Errorf ''CDI inspection failed: %w'' [AWrap err])
                 | (cdiList, None) \<Rightarrow>
                   Inr \<lparr>insp_Provider = BackendPodman, insp_PodmanPipe = req_PodmanPipe request,
                        insp_Toolkit = tk_Version toolkit, insp_ToolkitRoot = tk_Root toolkit,
                        insp_ToolkitExecutable = tk_Executable toolkit, insp_Devices = inv_Devices inventory,
                        insp_CDIDevices = expandCDIDevices (res_Stdout cdiList) inventory\<rparr>))))"

section \<open>What discovery guarantees\<close>

lemma inspect_root_loop:
  assumes "foldE (inspect_root inspect requested) roots (ms, [], False) = Inr (ms', matches, unavailable)"
  shows "matches = concat (map (\<lambda>root. case inspect root of
      Inr (c, v, True) \<Rightarrow> if v = requested then [c\<lparr>tk_Version := v\<rparr>] else [] | _ \<Rightarrow> []) roots)"
proof -
  let ?f = "\<lambda>root. case inspect root of Inr (c, v, True) \<Rightarrow> if v = requested then [c\<lparr>tk_Version := v\<rparr>] else [] | _ \<Rightarrow> []"
  from assms have "(\<lambda>prior (_, matches, _). matches = concat (map ?f prior)) roots (ms', matches, unavailable)"
    by (rule foldE_seen) (auto simp: inspect_root_def split: sum.splits if_splits bool.splits)
  then show ?thesis by simp
qed

lemma concat_single:
  "concat (map f xs) = [y] \<Longrightarrow> \<exists>x \<in> set xs. f x = [y] \<and> (distinct xs \<longrightarrow> (\<forall>x' \<in> set xs. f x' \<noteq> [] \<longrightarrow> x' = x))"
proof (induction xs)
  case (Cons a xs)
  show ?case
  proof (cases "f a")
    case Nil
    with Cons show ?thesis by (auto dest!: Cons.IH)
  next
    case (Cons b bs)
    with Cons.prems have "f a = [y]" "\<forall>x \<in> set xs. f x = []" by auto
    then show ?thesis by auto
  qed
qed simp

lemma unique_from_distinct: "distinct (unique_from seen vs) \<and> set (unique_from seen vs) \<inter> set seen = {}"
  by (induction seen vs rule: unique_from.induct) (auto simp: Let_def)

lemma resolve_groups_Inr:
  assumes "resolve_groups inspect requested ms groups = Inr t"
  shows "\<exists>grp \<in> set groups. \<exists>root c. root \<in> set (uniqueNonempty (grp_roots grp)) \<and> inspect root = Inr (c, requested, True) \<and>
    t = c\<lparr>tk_Version := requested\<rparr> \<and>
    (\<forall>r \<in> set (uniqueNonempty (grp_roots grp)). r \<noteq> root \<longrightarrow> (\<forall>c'. inspect r \<noteq> Inr (c', requested, True)))"
  using assms
proof (induction inspect requested ms groups rule: resolve_groups.induct)
  case (2 inspect requested ms grp groups)
  let ?roots = "uniqueNonempty (grp_roots grp)"
  show ?case
  proof (cases "?roots = []")
    case True
    with 2 show ?thesis by (auto simp: Let_def)
  next
    case False
    with 2(3) obtain ms' matches unavailable
      where loop: "foldE (inspect_root inspect requested) ?roots (ms, [], False) = Inr (ms', matches, unavailable)"
      by (auto simp: Let_def split: sum.splits)
    show ?thesis
    proof (cases "length matches = 1")
      case True
      then have t: "matches = [t]" using 2(3) loop False by (cases matches) (auto simp: Let_def)
      from concat_single [OF inspect_root_loop [OF loop, unfolded t, symmetric]]
      obtain root where root: "root \<in> set ?roots"
        and fr: "(case inspect root of Inr (c, v, True) \<Rightarrow> if v = requested then [c\<lparr>tk_Version := v\<rparr>] else [] | _ \<Rightarrow> []) = [t]"
        and only: "\<forall>x' \<in> set ?roots. (case inspect x' of Inr (c, v, True) \<Rightarrow> if v = requested then [c\<lparr>tk_Version := v\<rparr>] else [] | _ \<Rightarrow> []) \<noteq> [] \<longrightarrow> x' = root"
        using unique_from_distinct [of "[]" "grp_roots grp"] by (auto simp: uniqueNonempty_def)
      from fr obtain c where "inspect root = Inr (c, requested, True)" "t = c\<lparr>tk_Version := requested\<rparr>"
        by (auto split: sum.splits if_splits bool.splits)
      with root only show ?thesis by (intro bexI [of _ grp] exI [of _ root] exI [of _ c]) fastforce+
    next
      case no: False
      with 2(2) [OF refl False loop] 2(3) loop False show ?thesis
        by (auto simp: Let_def split: if_splits)
    qed
  qed
qed (auto split: if_splits)

text \<open>The release that a run of \<open>nvcc --version\<close> reports.\<close>

definition reported_release :: "CommandResult \<Rightarrow> string" where
  "reported_release result =
     (case nvccReleasePattern (res_Stdout result @ res_Stderr result) of Some v \<Rightarrow> v | None \<Rightarrow> ''unknown'')"

lemma inspectToolkitCandidate_available:
  assumes "inspectToolkitCandidate runner distribution root = Inr (c, v, True)"
  shows "isAbs root \<and> tk_Root c = root \<and>
    (\<exists>result. inspector_run runner [] (tk_Executable c) [''--version''] = (result, None) \<and>
       \<not> res_TimedOut result \<and> res_ExitCode result = 0 \<and> v = reported_release result)"
  using assms
  by (auto simp: inspectToolkitCandidate_def reported_release_def Let_def split: if_splits prod.splits option.splits)

lemma inspectToolkitCandidate_root:
  "inspectToolkitCandidate runner distribution root = Inr (c, v, a) \<Longrightarrow> tk_Root c = root"
  by (auto simp: inspectToolkitCandidate_def Let_def split: if_splits prod.splits option.splits)

text \<open>
  Toolkit discovery is sound: a resolved toolkit has the requested version, its root is an absolute
  path taken from one of the candidate groups, its \<open>nvcc\<close> ran successfully in time and reported
  exactly that release, and no other root of the same group reports it.
\<close>

lemma resolveToolkit_sound:
  assumes "resolveToolkit inspector runner request = Inr t"
    and "requested = trimSpace (art_CUDAToolkit (req_Artifact request))"
  shows "tk_Version t = requested \<and> isAbs (tk_Root t) \<and>
    (\<exists>groups grp. toolkitCandidateGroups inspector request requested = Inr groups \<and> grp \<in> set groups \<and>
       tk_Root t \<in> set (uniqueNonempty (grp_roots grp)) \<and>
       (\<forall>r \<in> set (uniqueNonempty (grp_roots grp)). r \<noteq> tk_Root t \<longrightarrow>
          (\<forall>c. inspectToolkitCandidate runner (req_WSLDistribution request) r \<noteq> Inr (c, requested, True)))) \<and>
    (\<exists>result. inspector_run runner [] (tk_Executable t) [''--version''] = (result, None) \<and>
       \<not> res_TimedOut result \<and> res_ExitCode result = 0 \<and> reported_release result = requested)"
proof -
  obtain groups where groups: "toolkitCandidateGroups inspector request requested = Inr groups"
    and run: "resolve_groups (inspectToolkitCandidate runner (req_WSLDistribution request)) requested [] groups = Inr t"
    using assms by (auto simp: resolveToolkit_def Let_def split: if_splits sum.splits)
  from resolve_groups_Inr [OF run] obtain grp root c where grp: "grp \<in> set groups"
    and root: "root \<in> set (uniqueNonempty (grp_roots grp))"
    and ins: "inspectToolkitCandidate runner (req_WSLDistribution request) root = Inr (c, requested, True)"
    and t: "t = c\<lparr>tk_Version := requested\<rparr>"
    and only: "\<forall>r \<in> set (uniqueNonempty (grp_roots grp)). r \<noteq> root \<longrightarrow>
      (\<forall>c'. inspectToolkitCandidate runner (req_WSLDistribution request) r \<noteq> Inr (c', requested, True))"
    by blast
  note av = inspectToolkitCandidate_available [OF ins]
  have "tk_Root t = root" "tk_Executable t = tk_Executable c" "tk_Version t = requested" using av t by simp_all
  with av groups grp root only show ?thesis by auto
qed

lemma resolve_groups_authoritative:
  assumes "resolve_groups inspect requested [] (\<lparr>grp_roots = [r], grp_authoritative = True\<rparr> # groups) = Inr t"
    and "trimSpace r = r" and "r \<noteq> []"
  shows "\<exists>c. inspect r = Inr (c, requested, True) \<and> t = c\<lparr>tk_Version := requested\<rparr>"
  using assms
  by (auto simp: Let_def uniqueNonempty_def inspect_root_def split: sum.splits if_splits)

text \<open>
  A configured toolkit root is authoritative: with a root configured in the inspector, discovery
  either returns that very root or fails; it never falls back to the environment or to a standard
  location.
\<close>

lemma resolveToolkit_configured:
  assumes "resolveToolkit inspector runner request = Inr t" and "trimSpace (hei_ToolkitRoot inspector) \<noteq> []"
  shows "tk_Root t = trimSpace (hei_ToolkitRoot inspector)"
proof -
  let ?r = "trimSpace (hei_ToolkitRoot inspector)"
  let ?requested = "trimSpace (art_CUDAToolkit (req_Artifact request))"
  obtain groups where run: "resolve_groups (inspectToolkitCandidate runner (req_WSLDistribution request)) ?requested []
      (\<lparr>grp_roots = [?r], grp_authoritative = True\<rparr> # groups) = Inr t"
    using assms
    by (auto simp: resolveToolkit_def toolkitCandidateGroups_def Let_def simp del: resolve_groups.simps
        split: if_splits sum.splits)
  from resolve_groups_authoritative [OF run _ assms(2)] show ?thesis
    by (auto dest: inspectToolkitCandidate_root)
qed

definition sample_request :: EvaluationRequest where
  "sample_request =
     \<lparr>req_Version = EvaluationActionVersion, req_Backend = BackendPodman, req_FallbackBackends = [],
      req_ManifestSHA256 = hexEncode (replicate 32 171), req_Executable = ''/usr/bin/harbor'', req_Argv = [''run''],
      req_Environment = [], req_ExternalEngineToken = ExternalEngineDocker,
      req_PodmanPipe = ''npipe:////./pipe/podman'', req_WSLDistribution = [], req_OutputRoot = ''/data/out'',
      req_ReservationPath = ''/run/gpu.json'', req_LockInvocation = [''harbor'', ''run''],
      req_ResourceManifest = \<lparr>man_Version = ResourceManifestVersion, man_GPUs = [sample_device ''Ampere'' ''8.6'' ''13.1''],
        man_Artifact = \<lparr>art_CUDAToolkit = ''12.8'', art_CompiledKernels = False\<rparr>\<rparr>,
      req_GPUBindings = [\<lparr>bind_UUID = ''GPU-8d337a84-43de-158d-7526-7175288a6064'', bind_CUDAToolkit = ''12.8'',
        bind_CDIDevice = ''nvidia.com/gpu=GPU-8d337a84-43de-158d-7526-7175288a6064''\<rparr>],
      req_TimeoutMillis = 1000, req_MaxOutputBytes = 4096\<rparr>"

definition sample_inspector :: HostEvaluationInspector where
  "sample_inspector =
     \<lparr>hei_Runner = None, hei_ToolkitRoot = '' /opt/cuda '', hei_LookupEnv = (\<lambda>_. None), hei_ProgramFilesRoots = [],
      hei_WSLToolkitProvider = None\<rparr>"

definition sample_runner :: inspection_runner where
  "sample_runner =
     \<lparr>ir_Run = (\<lambda>command args. (zero_CommandResult\<lparr>res_Stdout := ''Cuda compilation tools, Release 12.8, V12.8.61''\<rparr>, None)),
      ir_RunWithEnv = None\<rparr>"

lemma sample_resolution:
  "resolveToolkit sample_inspector sample_runner sample_request =
     Inr \<lparr>tk_Root = ''/opt/cuda'', tk_Executable = ''/opt/cuda/bin/nvcc.exe'', tk_Version = ''12.8''\<rparr>"
  by code_simp

definition cdi_ok :: "(UUID \<rightharpoonup> string) \<Rightarrow> bool" where
  "cdi_ok m \<longleftrightarrow> (\<forall>u d. m u = Some d \<longrightarrow> d = ''nvidia.com/gpu='' @ u \<and> uuid_Validate u = None)"

lemma cdi_ok_field: "cdi_ok m \<Longrightarrow> cdi_ok (expand_field f m)"
  using uuid_Validate_ParseUUID by (auto simp: cdi_ok_def expand_field_def Let_def split: sum.splits)

lemma cdi_ok_device: "cdi_ok m \<Longrightarrow> cdi_ok (expand_device d m)"
  by (auto simp: cdi_ok_def expand_device_def)

lemma expand_device_keeps: "m u \<noteq> None \<Longrightarrow> expand_device d m u \<noteq> None"
  by (simp add: expand_device_def)

lemma expand_device_own: "uuid_Validate (dev_UUID d) = None \<Longrightarrow> expand_device d m (dev_UUID d) \<noteq> None"
  by (simp add: expand_device_def)

lemma cdi_ok_fold: "cdi_ok m \<Longrightarrow> (\<And>x m. cdi_ok m \<Longrightarrow> cdi_ok (f x m)) \<Longrightarrow> cdi_ok (fold f xs m)"
  by (induction xs arbitrary: m) auto

lemma fold_expand_keeps: "m u \<noteq> None \<Longrightarrow> fold expand_device ds m u \<noteq> None"
proof (induction ds arbitrary: m)
  case (Cons a ds)
  from Cons.IH [of "expand_device a m"] expand_device_keeps [of m u a] Cons.prems show ?case by simp
qed simp

lemma fold_expand_own:
  "d \<in> set ds \<Longrightarrow> uuid_Validate (dev_UUID d) = None \<Longrightarrow> fold expand_device ds m (dev_UUID d) \<noteq> None"
proof (induction ds arbitrary: m)
  case (Cons a ds)
  then show ?case
    using fold_expand_keeps [of "expand_device a m" "dev_UUID d"] expand_device_own [of d m] by (cases "a = d") auto
qed simp

text \<open>
  The CDI map names devices canonically: every entry maps a canonical GPU UUID to
  \<open>nvidia.com/gpu=\<close> followed by that UUID, and when the listing advertises \<open>nvidia.com/gpu=all\<close> every
  inventoried device with a canonical UUID has an entry.
\<close>

lemma expandCDIDevices_canonical:
  "(\<forall>u d. expandCDIDevices stdout inventory u = Some d \<longrightarrow> d = ''nvidia.com/gpu='' @ u \<and> uuid_Validate u = None) \<and>
   (contains stdout ''nvidia.com/gpu=all'' \<longrightarrow>
      (\<forall>device \<in> set (inv_Devices inventory). uuid_Validate (dev_UUID device) = None \<longrightarrow>
         expandCDIDevices stdout inventory (dev_UUID device) = Some (''nvidia.com/gpu='' @ dev_UUID device)))"
proof -
  have ok: "cdi_ok (expandCDIDevices stdout inventory)"
    by (simp add: expandCDIDevices_def Let_def)
       (auto intro!: cdi_ok_fold cdi_ok_field cdi_ok_device simp: cdi_ok_def [of Map.empty])
  moreover have "expandCDIDevices stdout inventory (dev_UUID device) \<noteq> None"
    if "contains stdout ''nvidia.com/gpu=all''" "device \<in> set (inv_Devices inventory)" "uuid_Validate (dev_UUID device) = None"
    for device
    using that fold_expand_own [OF that(2,3)] by (simp add: expandCDIDevices_def Let_def)
  ultimately show ?thesis unfolding cdi_ok_def by blast
qed

end
