(* ===== verification/Evaluation_Checks.thy ===== *)
theory Evaluation_Checks
  imports Eval_Filesystem Toolkit_Inspector
begin

text \<open>
  The checks of the evaluation action (\<open>pkg/orchestrate/evaluation.go\<close>): request validation, inventory
  and inspection cross-checks, the evidence it records and the verification of the job directory. Limits
  are 64-bit durations that wrap. \<open>json.Marshal\<close>, \<open>sha256\<close>, \<open>ToValidUTF8\<close> and the reading of a job's
  lock file are parameters.
\<close>

section \<open>GPU bindings and inventory\<close>

definition validateInventoryScope :: "Device \<Rightarrow> string \<Rightarrow> go_error option" where
  "validateInventoryScope device distribution =
     (let hostVisible = (\<exists>ob \<in> set (dev_Observations device). obs_Scope ob = ScopeWindowsHost);
          executionVisible = (distribution = [] \<or>
            (\<exists>ob \<in> set (dev_Observations device). obs_Scope ob = ScopeWSLDistro \<and> obs_ScopeID ob = distribution)) in
      if \<not> hostVisible then Some (Errorf ''GPU %q is absent from Windows host inventory'' [AStr (dev_UUID device)])
      else if \<not> executionVisible
      then Some (Errorf ''GPU %q is absent from WSL distribution %q inventory'' [AStr (dev_UUID device), AStr distribution])
      else None)"

definition fact_error :: "UUID \<Rightarrow> string \<times> string \<times> string \<Rightarrow> go_error option" where
  "fact_error uuid = (\<lambda>(name, declared, actual).
     if trimSpace declared \<noteq> [] \<and> \<not> equalFold (trimSpace declared) (trimSpace actual)
     then Some (Errorf ''GPU %q declared %s %q does not match observed %q'' [AStr uuid, AStr name, AStr declared, AStr actual])
     else None)"

definition verifyDeclaredGPUFacts :: "Device \<Rightarrow> Device \<Rightarrow> go_error option" where
  "verifyDeclaredGPUFacts declared actual =
     checkE (fact_error (dev_UUID declared))
       [(''name'', dev_Name declared, dev_Name actual),
        (''architecture'', dev_Architecture declared, dev_Architecture actual),
        (''compute capability'', dev_ComputeCapability declared, dev_ComputeCapability actual),
        (''driver version'', dev_DriverVersion declared, dev_DriverVersion actual),
        (''driver CUDA ceiling'', dev_DriverCUDACeiling declared, dev_DriverCUDACeiling actual)]"

text \<open>The loop over the bindings: state is \<open>seen\<close>.\<close>

definition check_binding ::
  "UUID set \<Rightarrow> string \<Rightarrow> EvaluationGPUBinding \<Rightarrow> UUID list \<Rightarrow> UUID list result" where
  "check_binding manifestUUIDs toolkit binding seen =
     (let uuid = bind_UUID binding in
      case uuid_Validate uuid of
        Some err \<Rightarrow> Inl (evaluationError CodeGPUBindingRejected ''%v'' [AErr err])
      | None \<Rightarrow>
          if uuid \<in> set seen then Inl (evaluationError CodeGPUBindingRejected ''duplicate GPU binding %q'' [AStr uuid])
          else if uuid \<notin> manifestUUIDs
          then Inl (evaluationError CodeGPUBindingRejected ''GPU %q is absent from resource manifest'' [AStr uuid])
          else if bind_CUDAToolkit binding \<noteq> toolkit
          then Inl (evaluationError CodeToolkitRejected ''GPU %q toolkit does not match artifact toolkit'' [AStr uuid])
          else let expectedCDI = ''nvidia.com/gpu='' @ uuid in
            if bind_CDIDevice binding \<noteq> expectedCDI
            then Inl (evaluationError CodeGPUBindingRejected ''GPU %q CDI binding must be %q'' [AStr uuid, AStr expectedCDI])
            else Inr (uuid # seen))"

definition validateGPUBindings :: "(ResourceManifest \<Rightarrow> string result) \<Rightarrow> EvaluationRequest \<Rightarrow> go_error option" where
  "validateGPUBindings marshal request =
     (let manifest = req_ResourceManifest request; toolkit = art_CUDAToolkit (man_Artifact manifest) in
      if req_GPUBindings request = [] \<or> man_GPUs manifest = []
      then Some (evaluationError CodeGPUBindingRejected ''at least one GPU binding and manifest GPU are required'' [])
      else if trimSpace toolkit = []
      then Some (evaluationError CodeToolkitRejected ''artifact toolkit binding is required'' [])
      else case CanonicalJSON marshal manifest of
        Inl err \<Rightarrow> Some (evaluationError CodeGPUBindingRejected ''invalid resource manifest: %v'' [AErr err])
      | Inr _ \<Rightarrow>
          let manifestUUIDs = set (map dev_UUID (man_GPUs manifest)) in
          (case foldE (check_binding manifestUUIDs toolkit) (req_GPUBindings request) [] of
             Inl err \<Rightarrow> Some err
           | Inr seen \<Rightarrow>
               if length seen \<noteq> card manifestUUIDs
               then Some (evaluationError CodeGPUBindingRejected
                      ''GPU bindings and resource manifest must contain the same UUIDs'' [])
               else None))"

definition index_device :: "Device \<Rightarrow> (UUID \<rightharpoonup> Device) \<Rightarrow> (UUID \<rightharpoonup> Device) result" where
  "index_device device byUUID =
     (case uuid_Validate (dev_UUID device) of
        Some err \<Rightarrow> Inl (evaluationError CodeInventoryUnavailable ''inventory returned invalid UUID: %v'' [AErr err])
      | None \<Rightarrow>
          if byUUID (dev_UUID device) \<noteq> None
          then Inl (evaluationError CodeInventoryUnavailable ''inventory returned duplicate GPU UUID %q'' [AStr (dev_UUID device)])
          else Inr (byUUID(dev_UUID device \<mapsto> device)))"

definition check_declared :: "(UUID \<rightharpoonup> Device) \<Rightarrow> string \<Rightarrow> ArtifactRequirements \<Rightarrow> Device \<Rightarrow> go_error option" where
  "check_declared byUUID distribution artifact declared =
     (case byUUID (dev_UUID declared) of
        None \<Rightarrow> Some (evaluationError CodeInventoryMismatch ''GPU %q is absent from NanoVMS inventory'' [AStr (dev_UUID declared)])
      | Some actual \<Rightarrow>
        (case validateInventoryScope actual distribution of
           Some err \<Rightarrow> Some (evaluationError CodeInventoryMismatch ''%v'' [AErr err])
         | None \<Rightarrow>
         (case verifyDeclaredGPUFacts declared actual of
           Some err \<Rightarrow> Some (evaluationError CodeInventoryMismatch ''%v'' [AErr err])
         | None \<Rightarrow>
           if trimSpace (dev_Architecture actual) = [] \<or> trimSpace (dev_ComputeCapability actual) = []
           then Some (evaluationError CodeInventoryUnavailable
                  ''GPU %q inventory lacks authoritative architecture or compute capability'' [AStr (dev_UUID declared)])
           else case ValidateCompatibility actual artifact of
             Some err \<Rightarrow> Some (evaluationError CodeToolkitRejected ''%v'' [AErr err])
           | None \<Rightarrow> None)))"

text \<open>The inventory argument is what the provider returned; a provider without scopes returns none.\<close>

definition resolveInventory ::
  "Device list \<times> ScopedInventory list \<times> go_error option \<Rightarrow> EvaluationRequest \<Rightarrow>
     ((UUID \<rightharpoonup> Device) \<times> ScopedInventory option) result" where
  "resolveInventory provided request =
     (let (inventory, scoped, err) = provided in
      case err of
        Some e \<Rightarrow> Inl (evaluationError CodeInventoryUnavailable ''%v'' [AErr e])
      | None \<Rightarrow>
        (case foldE index_device inventory Map.empty of
           Inl e \<Rightarrow> Inl e
         | Inr byUUID \<Rightarrow>
           (case checkE (check_declared byUUID (req_WSLDistribution request) (req_Artifact request))
                   (man_GPUs (req_ResourceManifest request)) of
              Some e \<Rightarrow> Inl e
            | None \<Rightarrow>
              if scoped = [] then Inr (byUUID, None)
              else (case ExecutionScopedInventory scoped (req_WSLDistribution request) of
                  Inl e \<Rightarrow> Inl (evaluationError CodeInventoryUnavailable ''%v'' [AErr e])
                | Inr i \<Rightarrow> Inr (byUUID, Some i)))))"

definition index_inspected :: "Device \<Rightarrow> (UUID \<rightharpoonup> Device) \<Rightarrow> (UUID \<rightharpoonup> Device) result" where
  "index_inspected device devices =
     (case uuid_Validate (dev_UUID device) of
        Some err \<Rightarrow> Inl (evaluationError CodeInspectionMismatch ''inspection returned invalid UUID: %v'' [AErr err])
      | None \<Rightarrow> Inr (devices(dev_UUID device \<mapsto> device)))"

definition check_inspected ::
  "EvaluationInspection \<Rightarrow> (UUID \<rightharpoonup> Device) \<Rightarrow> (UUID \<rightharpoonup> Device) \<Rightarrow> EvaluationGPUBinding \<Rightarrow> go_error option" where
  "check_inspected inspection devices inventory binding =
     (case devices (bind_UUID binding) of
        None \<Rightarrow> Some (evaluationError CodeInspectionMismatch ''GPU %q is absent from inspection'' [AStr (bind_UUID binding)])
      | Some device \<Rightarrow>
          if inventory (dev_UUID device) = None
          then Some (evaluationError CodeInspectionMismatch ''GPU %q is absent from NanoVMS inventory'' [AStr (bind_UUID binding)])
          else if (case insp_CDIDevices inspection (bind_UUID binding) of None \<Rightarrow> [] | Some d \<Rightarrow> d) \<noteq> bind_CDIDevice binding
          then Some (evaluationError CodeInspectionMismatch ''CDI inspection mismatch for GPU %q'' [AStr (bind_UUID binding)])
          else None)"

definition validateInspection ::
  "EvaluationRequest \<Rightarrow> EvaluationInspection \<Rightarrow> (UUID \<rightharpoonup> Device) \<Rightarrow> go_error option" where
  "validateInspection request inspection inventory =
     (if insp_Provider inspection \<noteq> BackendPodman \<or> insp_PodmanPipe inspection \<noteq> req_PodmanPipe request
      then Some (evaluationError CodeInspectionMismatch ''inspected provider or Podman pipe does not match request'' [])
      else if insp_Toolkit inspection \<noteq> art_CUDAToolkit (req_Artifact request)
      then Some (evaluationError CodeToolkitRejected ''installed toolkit %q does not match requested toolkit %q''
             [AStr (insp_Toolkit inspection), AStr (art_CUDAToolkit (req_Artifact request))])
      else if \<not> art_CompiledKernels (req_Artifact request) \<and>
        (trimSpace (insp_ToolkitRoot inspection) = [] \<or> trimSpace (insp_ToolkitExecutable inspection) = [])
      then Some (evaluationError CodeToolkitNotFound ''compiler-required artifact lacks resolved toolkit root or executable'' [])
      else case foldE index_inspected (insp_Devices inspection) Map.empty of
        Inl err \<Rightarrow> Some err
      | Inr devices \<Rightarrow> checkE (check_inspected inspection devices inventory) (req_GPUBindings request))"

section \<open>The request\<close>

text \<open>
  The configured collaborators of an \<open>EvaluationAction\<close>: whether each is set, the registry, the TTL, and
  the path of a reservation store that names one.
\<close>

record EvaluationAction =
  act_Registry :: BackendRegistry
  act_configured :: bool
  act_BoundReservationPath :: "string option"
  act_ReservationTTL :: int64

text \<open>The limit checks of \<open>validate\<close>, in their order.\<close>

definition validate_limits :: "int64 \<Rightarrow> EvaluationRequest \<Rightarrow> go_error option" where
  "validate_limits ttl request =
     (let timeout = millis (req_TimeoutMillis request) in
      if sint (req_TimeoutMillis request) \<le> 0 \<or> sint timeout > sint MaxEvaluationTimeout
      then Some (evaluationError CodeInvalidLimits ''timeout_millis must be in (0,%d]'' [AInt 86400000])
      else if req_MaxOutputBytes request \<le> 0 \<or> req_MaxOutputBytes request > MaxEvaluationOutput
      then Some (evaluationError CodeInvalidLimits ''max_output_bytes must be in (0,%d]'' [AInt MaxEvaluationOutput])
      else
        let minimumTTL = timeout + EvaluationReservationSkew;
            minimumTTL' = (if sint minimumTTL > sint MaxEvaluationTimeout then MaxEvaluationTimeout else minimumTTL) in
        if sint ttl < sint minimumTTL' \<or> sint ttl > sint MaxEvaluationTimeout
        then Some (evaluationError CodeInvalidLimits
               ''reservation TTL must cover command timeout plus %s skew and not exceed %s''
               [AInt (sint EvaluationReservationSkew), AInt (sint MaxEvaluationTimeout)])
        else None)"

definition podman_pipe_prefix :: string where
  "podman_pipe_prefix = ''npipe:////./pipe/''"

definition validate :: "(ResourceManifest \<Rightarrow> string result) \<Rightarrow> EvaluationAction \<Rightarrow> EvaluationRequest \<Rightarrow> go_error option" where
  "validate marshal action request =
     (if act_Registry action = None \<or> \<not> act_configured action
      then Some (evaluationError CodeAdapterUnconfigured ''registry, inventory, inspector, runner, and reservations are required'' [])
      else case validateOutputRootPath (req_OutputRoot request) of
        Some err \<Rightarrow> Some err
      | None \<Rightarrow>
        (case registry_Resolve (act_Registry action) (req_Backend request) of
           Inl err \<Rightarrow> Some (evaluationError CodeProviderRejected ''%v'' [AErr err])
         | Inr metadata \<Rightarrow>
           if backend_ID metadata \<noteq> BackendPodman \<or> req_Backend request \<noteq> BackendPodman
           then Some (evaluationError CodeProviderRejected ''evaluation requires backend %q exactly'' [AStr BackendPodman])
           else if req_FallbackBackends request \<noteq> []
           then Some (evaluationError CodeFallbackRejected ''evaluation fallback is disabled'' [])
           else if req_Version request \<noteq> EvaluationActionVersion
           then Some (evaluationError CodeInvalidRequest ''unsupported evaluation action version %q'' [AStr (req_Version request)])
           else if (case hexDecode (req_ManifestSHA256 request) of None \<Rightarrow> True | Some digest \<Rightarrow> length digest \<noteq> 32)
           then Some (evaluationError CodeInvalidManifestDigest ''manifest_sha256 must contain exactly 64 hexadecimal characters'' [])
           else if trimSpace (req_Executable request) = [] \<or> CHR 0x00 \<in> set (req_Executable request)
           then Some (evaluationError CodeInvalidRequest ''executable is required'' [])
           else if req_ExternalEngineToken request \<noteq> ExternalEngineDocker
           then Some (evaluationError CodeInvalidEngineToken ''external_engine_token must remain %q'' [AStr ExternalEngineDocker])
           else if \<not> hasPrefix (req_PodmanPipe request) podman_pipe_prefix \<or>
             trimPrefix (req_PodmanPipe request) podman_pipe_prefix = []
           then Some (evaluationError CodeInvalidPodmanPipe ''a concrete Podman named pipe is required'' [])
           else case validateManagedAbsolutePath (req_ReservationPath request) ''reservation_path'' CodeInvalidReservationPath of
             Some err \<Rightarrow> Some err
           | None \<Rightarrow>
             if (case act_BoundReservationPath action of None \<Rightarrow> False
                 | Some bound \<Rightarrow> clean bound \<noteq> clean (req_ReservationPath request))
             then Some (evaluationError CodeInvalidReservationPath
                    ''reservation store path %q does not match request reservation_path''
                    [AStr (clean (the (act_BoundReservationPath action)))])
             else case validate_limits (act_ReservationTTL action) request of
               Some err \<Rightarrow> Some err
             | None \<Rightarrow>
               if req_LockInvocation request = []
               then Some (evaluationError CodeInvalidRequest ''lock_invocation is required'' [])
               else validateGPUBindings marshal request))"

section \<open>Evidence\<close>

definition requestedUUIDs :: "EvaluationGPUBinding list \<Rightarrow> UUID list" where
  "requestedUUIDs bindings = sort (map bind_UUID bindings)"

definition zero_lifecycle :: EvaluationLifecycle where
  "zero_lifecycle = \<lparr>life_ExitCode = -1, life_DurationMS = 0, life_TimedOut = False, life_Truncated = False,
     life_Stdout = [], life_Stderr = [], life_StdoutSHA256 = [], life_StderrSHA256 = []\<rparr>"

definition newEvaluationResult :: "EvaluationRequest \<Rightarrow> EvaluationResult" where
  "newEvaluationResult request =
     \<lparr>er_Version = EvaluationActionVersion, er_Success = False, er_ErrorCode = [], er_ErrorMessage = None,
      er_Lifecycle = zero_lifecycle,
      er_Provenance =
        \<lparr>prov_ManifestSHA256 = toLower (req_ManifestSHA256 request), prov_EffectiveEngine = EffectiveEnginePodman,
         prov_ResolvedProvider = BackendPodman, prov_ExecutionPlane = ExecutionPlaneNanoVMS,
         prov_PodmanPipe = req_PodmanPipe request, prov_GPUUUIDs = requestedUUIDs (req_GPUBindings request),
         prov_JobDirectory = [], prov_CandidateJobDirectories = [], prov_OutputRoot = [], prov_OutputLockPath = [],
         prov_CoordinatorLockPath = [], prov_ReservationPath = [], prov_ReservationToken = [],
         prov_ReservationExpiresAt = None, prov_LockInvocation = [], prov_CommandSHA256 = [],
         prov_OutputRootCreated = False, prov_OutputRootAvailableBytes = None, prov_OutputRootCleanup = [],
         prov_ToolkitRoot = [], prov_ToolkitExecutable = [],
         prov_ToolkitVersion = (if art_CompiledKernels (req_Artifact request)
           then trimSpace (art_CUDAToolkit (req_Artifact request)) else [])\<rparr>,
      er_Released = True\<rparr>"

abbreviation update_prov :: "(EvaluationProvenance \<Rightarrow> EvaluationProvenance) \<Rightarrow> EvaluationResult \<Rightarrow> EvaluationResult" where
  "update_prov f result \<equiv> result\<lparr>er_Provenance := f (er_Provenance result)\<rparr>"

definition attachRequestProvenance :: "EvaluationRequest \<Rightarrow> EvaluationResult \<Rightarrow> EvaluationResult" where
  "attachRequestProvenance request result =
     update_prov (\<lambda>p.
       let root = clean (req_OutputRoot request);
           p1 = p\<lparr>prov_OutputRoot := root\<rparr>;
           p2 = (if root \<noteq> [] \<and> root \<noteq> ''.''
             then p1\<lparr>prov_OutputLockPath := path_join [root, outputRootLockFilename],
                     prov_CoordinatorLockPath := path_join [dir root, ''.'' @ base root @ outputRootCoordinatorSuffix]\<rparr>
             else p1);
           p3 = (if trimSpace (req_ReservationPath request) \<noteq> []
             then p2\<lparr>prov_ReservationPath := clean (req_ReservationPath request)\<rparr> else p2) in
       if req_LockInvocation request \<noteq> [] then p3\<lparr>prov_LockInvocation := req_LockInvocation request\<rparr> else p3) result"

definition commandFingerprint :: "(string \<Rightarrow> nat list) \<Rightarrow> string \<Rightarrow> string list \<Rightarrow> string" where
  "commandFingerprint sha256 executable argv =
     hexEncode (sha256 (executable @ [CHR 0x00] @ concat (map (\<lambda>arg. arg @ [CHR 0x00]) argv)))"

definition milliseconds :: "int \<Rightarrow> int" where
  "milliseconds d = (if d < 0 then - ((- d) div 1000000) else d div 1000000)"

definition lifecycleFromCommand ::
  "(string \<Rightarrow> string) \<Rightarrow> (string \<Rightarrow> nat list) \<Rightarrow> CommandResult \<Rightarrow> EvaluationLifecycle" where
  "lifecycleFromCommand toValidUTF8 sha256 command =
     (let stdout = toValidUTF8 (res_Stdout command); stderr = toValidUTF8 (res_Stderr command) in
      \<lparr>life_ExitCode = res_ExitCode command, life_DurationMS = milliseconds (res_Duration command),
       life_TimedOut = res_TimedOut command, life_Truncated = res_Truncated command,
       life_Stdout = stdout, life_Stderr = stderr,
       life_StdoutSHA256 = hexEncode (sha256 stdout), life_StderrSHA256 = hexEncode (sha256 stderr)\<rparr>)"

definition failEvaluation :: "EvaluationResult \<Rightarrow> go_error \<Rightarrow> EvaluationResult \<times> go_error option" where
  "failEvaluation result err =
     ((case errors_as err of
         Some (code, inner) \<Rightarrow> result\<lparr>er_Success := False, er_ErrorCode := code, er_ErrorMessage := Some inner\<rparr>
       | None \<Rightarrow> result\<lparr>er_Success := False, er_ErrorCode := CodeEvaluationFailed, er_ErrorMessage := Some err\<rparr>),
      Some err)"

section \<open>The job directory\<close>

text \<open>Directory entries with their \<open>IsDir\<close> flags.\<close>

definition snapshotJobDirectories :: "(string \<times> bool) list result \<Rightarrow> string list result" where
  "snapshotJobDirectories entries =
     (case entries of Inl err \<Rightarrow> Inl err | Inr es \<Rightarrow> Inr (map fst (filter snd es)))"

text \<open>\<open>strings.Index\<close>.\<close>

fun indexOf :: "string \<Rightarrow> string \<Rightarrow> nat option" where
  "indexOf [] p = (if p = [] then Some 0 else None)"
| "indexOf (c # s) p = (if hasPrefix (c # s) p then Some 0 else map_option Suc (indexOf s p))"

definition envAssignment :: "string \<Rightarrow> (string \<times> string) option" where
  "envAssignment val =
     (case cut val (CHR ''='') of None \<Rightarrow> None | Some (key, rest) \<Rightarrow> if key = [] then None else Some (key, rest))"

definition redactedValueMatches :: "string \<Rightarrow> string \<Rightarrow> bool" where
  "redactedValueMatches expected actual =
     (case indexOf actual ''****'' of
        None \<Rightarrow> expected = actual
      | Some i \<Rightarrow> hasPrefix expected (take i actual) \<and> hasSuffix expected (drop (i + 4) actual))"

definition redactedAssignmentMatches :: "string \<Rightarrow> string \<Rightarrow> bool" where
  "redactedAssignmentMatches expected actual =
     (case (envAssignment expected, envAssignment actual) of
        (Some (expectedKey, expectedValue), Some (actualKey, actualValue)) \<Rightarrow>
          if expectedKey = actualKey then redactedValueMatches expectedValue actualValue else expected = actual
      | _ \<Rightarrow> expected = actual)"

definition lockInvocationArgMatch :: "string \<Rightarrow> string \<Rightarrow> bool \<Rightarrow> bool" where
  "lockInvocationArgMatch expected actual executable =
     (if executable then base expected = base actual
      else if contains actual ''****'' then redactedAssignmentMatches expected actual
      else expected = actual)"

definition lockInvocationsMatch :: "string list \<Rightarrow> string list \<Rightarrow> bool" where
  "lockInvocationsMatch expected actual =
     (length expected = length actual \<and>
      (\<forall>index < length expected. lockInvocationArgMatch (expected ! index) (actual ! index) (index = 0)))"

text \<open>
  Job directory, candidates and error. \<open>read_lock\<close> is the reading of a job's lock file: an error, or
  the outcome of decoding its invocation.
\<close>

definition validateNewJob ::
  "(string \<Rightarrow> string list result result) \<Rightarrow> EvaluationRequest \<Rightarrow> string list \<Rightarrow> string list \<Rightarrow>
     string \<times> string list \<times> go_error option" where
  "validateNewJob read_lock request before after =
     (let added = sort (filter (\<lambda>name. name \<notin> set before) after);
          candidates = map (\<lambda>name. path_join [req_OutputRoot request, name]) added in
      if length added \<noteq> 1
      then ([], candidates, Some (evaluationError CodeAmbiguousJobOutput
             ''expected exactly one new job directory, found %d'' [AInt (int (length added))]))
      else let jobDirectory = hd candidates in
        case read_lock (path_join [jobDirectory, JobLockFilename]) of
          Inl err \<Rightarrow> (jobDirectory, candidates, Some (evaluationError CodeJobLockMismatch ''read job lock: %v'' [AErr err]))
        | Inr (Inl err) \<Rightarrow> (jobDirectory, candidates, Some (evaluationError CodeJobLockMismatch ''decode job lock: %v'' [AErr err]))
        | Inr (Inr invocation) \<Rightarrow>
            if \<not> lockInvocationsMatch (req_LockInvocation request) invocation
            then (jobDirectory, candidates, Some (evaluationError CodeJobLockMismatch
                   ''job lock invocation does not match request'' []))
            else (jobDirectory, candidates, None))"

section \<open>What validation guarantees\<close>

lemma check_binding_Inr:
  "check_binding ids toolkit b seen = Inr seen' \<longleftrightarrow>
     uuid_Validate (bind_UUID b) = None \<and> bind_UUID b \<notin> set seen \<and> bind_UUID b \<in> ids \<and>
     bind_CUDAToolkit b = toolkit \<and> bind_CDIDevice b = ''nvidia.com/gpu='' @ bind_UUID b \<and> seen' = bind_UUID b # seen"
  by (auto simp: check_binding_def Let_def split: option.splits)

definition binding_ok :: "UUID set \<Rightarrow> string \<Rightarrow> EvaluationGPUBinding \<Rightarrow> bool" where
  "binding_ok ids toolkit b \<longleftrightarrow> uuid_Validate (bind_UUID b) = None \<and> bind_UUID b \<in> ids \<and>
     bind_CUDAToolkit b = toolkit \<and> bind_CDIDevice b = ''nvidia.com/gpu='' @ bind_UUID b"

lemma check_bindings_loop:
  assumes "foldE (check_binding ids toolkit) bs [] = Inr seen"
  shows "seen = rev (map bind_UUID bs) \<and> distinct (map bind_UUID bs) \<and> (\<forall>b \<in> set bs. binding_ok ids toolkit b)"
  using assms
  by (rule foldE_seen [where I = "\<lambda>prior seen. seen = rev (map bind_UUID prior) \<and> distinct (map bind_UUID prior) \<and>
        (\<forall>b \<in> set prior. binding_ok ids toolkit b)"])
     (auto simp: check_binding_Inr binding_ok_def)

lemma validateGPUBindings_None:
  assumes "validateGPUBindings marshal request = None"
    and "ids = set (map dev_UUID (man_GPUs (req_ResourceManifest request)))"
  shows "distinct (map bind_UUID (req_GPUBindings request)) \<and> set (map bind_UUID (req_GPUBindings request)) = ids \<and>
    (\<forall>b \<in> set (req_GPUBindings request). binding_ok ids (art_CUDAToolkit (req_Artifact request)) b) \<and>
    req_GPUBindings request \<noteq> []"
proof -
  obtain seen where loop: "foldE (check_binding ids (art_CUDAToolkit (req_Artifact request))) (req_GPUBindings request) [] = Inr seen"
    and len: "length seen = card ids" and ne: "req_GPUBindings request \<noteq> []"
    using assms by (auto simp: validateGPUBindings_def Let_def split: sum.splits if_splits)
  note l = check_bindings_loop [OF loop]
  have sub: "set (map bind_UUID (req_GPUBindings request)) \<subseteq> ids" using l by (auto simp: binding_ok_def)
  have "card (set (map bind_UUID (req_GPUBindings request))) = card ids"
    using l len distinct_card [of "map bind_UUID (req_GPUBindings request)"] by simp
  then have "set (map bind_UUID (req_GPUBindings request)) = ids"
    using card_subset_eq [OF _ sub] assms(2) by simp
  with l ne show ?thesis by simp
qed

lemma validateOutputRootPath_abs: "validateOutputRootPath p = None \<Longrightarrow> isAbs p"
  using validateManaged_iff [of p] by (auto simp: validateOutputRootPath_def abs_path_def isAbs_def)

lemma validate_None:
  assumes "validate marshal action request = None"
  shows "validateOutputRootPath (req_OutputRoot request) = None" and "req_Backend request = BackendPodman"
    and "req_FallbackBackends request = []" and "validate_limits (act_ReservationTTL action) request = None"
    and "validateGPUBindings marshal request = None"
    and "\<exists>digest. hexDecode (req_ManifestSHA256 request) = Some digest \<and> length digest = 32"
    and "validateManagedAbsolutePath (req_ReservationPath request) ''reservation_path'' CodeInvalidReservationPath = None"
    and "\<forall>bound. act_BoundReservationPath action = Some bound \<longrightarrow> clean bound = clean (req_ReservationPath request)"
  using assms by (auto simp: validate_def split: if_splits option.splits sum.splits)

text \<open>
  The host action boundary is closed: a request that passes validation names the Podman backend and
  no fallback, a canonical output root and a canonical reservation path (the bound store's own), a digest of 64
  hexadecimal digits, and GPU bindings that are distinct canonical UUIDs, exactly those of
  the resource manifest, each with the artifact's toolkit and its own CDI device name.
\<close>

lemma validate_closes_boundary:
  assumes "validate marshal action request = None"
  shows "req_Backend request = BackendPodman \<and> req_FallbackBackends request = [] \<and>
    (\<exists>cs. cs \<noteq> [] \<and> list_all managed_component cs \<and> req_OutputRoot request = abs_path cs) \<and>
    (\<exists>cs. cs \<noteq> [] \<and> list_all managed_component cs \<and> req_ReservationPath request = abs_path cs) \<and>
    (\<forall>bound. act_BoundReservationPath action = Some bound \<longrightarrow> clean bound = req_ReservationPath request) \<and>
    length (req_ManifestSHA256 request) = 64 \<and> (\<forall>c \<in> set (req_ManifestSHA256 request). is_hex c) \<and>
    distinct (map bind_UUID (req_GPUBindings request)) \<and>
    bind_UUID ` set (req_GPUBindings request) = dev_UUID ` set (man_GPUs (req_ResourceManifest request)) \<and>
    (\<forall>b \<in> set (req_GPUBindings request). uuid_Validate (bind_UUID b) = None \<and>
       bind_CUDAToolkit b = art_CUDAToolkit (req_Artifact request) \<and> bind_CDIDevice b = ''nvidia.com/gpu='' @ bind_UUID b)"
proof -
  note v = validate_None [OF assms]
  obtain rs where rs: "rs \<noteq> []" "\<forall>c \<in> set rs. managed_component c" "req_ReservationPath request = abs_path rs"
    using v(7) validateManaged_iff by blast
  then have "clean (req_ReservationPath request) = req_ReservationPath request"
    using clean_abs_path [of rs] managed_proper by simp
  moreover obtain comps where "comps \<noteq> []" "\<forall>c \<in> set comps. managed_component c" "req_OutputRoot request = abs_path comps"
    using v(1) validateManaged_iff unfolding validateOutputRootPath_def by blast
  moreover obtain digest where d: "hexDecode (req_ManifestSHA256 request) = Some digest" "length digest = 32"
    using v(6) by blast
  moreover have "length (req_ManifestSHA256 request) = 64" "\<forall>c \<in> set (req_ManifestSHA256 request). is_hex c"
    using hexDecode_length [OF d(1)] d hexDecode_Some_iff [of "req_ManifestSHA256 request"] by auto
  moreover note validateGPUBindings_None [OF v(5) refl]
  ultimately show ?thesis using v(2,3,8) rs by (auto simp: list_all_iff binding_ok_def)
qed

section \<open>Limits\<close>

lemma sint_mult_small:
  fixes a b :: int64
  assumes "- (2 ^ 63) \<le> sint a * sint b" and "sint a * sint b < 2 ^ 63"
  shows "sint (a * b) = sint a * sint b"
  using assms by (simp add: sint_word_ariths(3) signed_take_bit_int_eq_self)

lemma sint_add_small:
  fixes a b :: int64
  assumes "- (2 ^ 63) \<le> sint a + sint b" and "sint a + sint b < 2 ^ 63"
  shows "sint (a + b) = sint a + sint b"
  using assms by (simp add: sint_word_ariths(1) signed_take_bit_int_eq_self)

lemma limit_constants:
  "sint MaxEvaluationTimeout = 86400000000000" "sint EvaluationReservationSkew = 60000000000" "sint millisecond = 1000000"
  by code_simp+

text \<open>
  The limits, wherever the product of the timeout does not overflow: a request passes exactly when
  its timeout lies in (0, 24 h], its output bound in (0, 16 MiB], and the reservation TTL covers the
  timeout plus a minute, capped at 24 h, without exceeding 24 h.
\<close>

lemma validate_limits_iff:
  assumes "sint (req_TimeoutMillis request) \<le> 9223372036854" and "ms = sint (req_TimeoutMillis request)"
  shows "validate_limits ttl request = None \<longleftrightarrow>
    0 < ms \<and> ms \<le> 86400000 \<and> 0 < req_MaxOutputBytes request \<and> req_MaxOutputBytes request \<le> 16777216 \<and>
    min (ms * 1000000 + 60000000000) 86400000000000 \<le> sint ttl \<and> sint ttl \<le> 86400000000000"
proof (cases "0 < ms")
  case True
  have t: "sint (millis (req_TimeoutMillis request)) = ms * 1000000"
    using assms True unfolding millis_def by (subst sint_mult_small) (simp_all add: limit_constants)
  have m: "sint (millis (req_TimeoutMillis request) + EvaluationReservationSkew) = ms * 1000000 + 60000000000"
    if "ms \<le> 86400000"
    using that True by (subst sint_add_small) (simp_all add: limit_constants t)
  show ?thesis
    using True m assms(2)
    by (auto simp: validate_limits_def Let_def t limit_constants MaxEvaluationOutput_def min_def)
qed (use assms in \<open>auto simp: validate_limits_def Let_def\<close>)

definition sample_action :: EvaluationAction where
  "sample_action = \<lparr>act_Registry = NewBackendRegistry, act_configured = True,
     act_BoundReservationPath = Some ''/run/gpu.json'', act_ReservationTTL = 100000000000\<rparr>"

definition sample_marshal :: "ResourceManifest \<Rightarrow> string result" where
  "sample_marshal m = Inr (concat (map dev_UUID (man_GPUs m)))"

text \<open>
  The product wraps: a timeout of 2^63 - 1 milliseconds, far beyond the documented limit of
  86400000, becomes minus one millisecond and passes validation with a TTL of less than a minute.
\<close>

lemma timeout_product_wraps:
  "\<exists>request action. validate sample_marshal action request = None \<and>
     sint (req_TimeoutMillis request) = 9223372036854775807 \<and>
     sint (millis (req_TimeoutMillis request)) = -1000000 \<and> sint (act_ReservationTTL action) < 60000000000"
proof -
  let ?request = "sample_request\<lparr>req_TimeoutMillis := 9223372036854775807\<rparr>"
  let ?action = "sample_action\<lparr>act_ReservationTTL := 59999000000\<rparr>"
  have "validate sample_marshal ?action ?request = None" by code_simp
  moreover have "sint (req_TimeoutMillis ?request) = 9223372036854775807"
    "sint (millis (req_TimeoutMillis ?request)) = -1000000" "sint (act_ReservationTTL ?action) < 60000000000" by code_simp+
  ultimately show ?thesis by blast
qed

section \<open>Job evidence\<close>

lemma indexOf_split: "indexOf s p = Some i \<Longrightarrow> s = take i s @ p @ drop (i + length p) s \<and> i + length p \<le> length s"
proof (induction s p arbitrary: i rule: indexOf.induct)
  case (2 c s p)
  show ?case
  proof (cases "hasPrefix (c # s) p")
    case True
    with 2(2) have "i = 0" "take (length p) (c # s) = p" by (auto simp: hasPrefix_def)
    moreover from this have "length p \<le> length (c # s)" by (metis length_take min.absorb_iff2 nle_le)
    ultimately show ?thesis by (metis append_Nil append_take_drop_id plus_nat.add_0 take0)
  next
    case False
    with 2(2) obtain j where j: "i = Suc j" "indexOf s p = Some j" by auto
    from 2(1) [OF False j(2)] show ?thesis unfolding j(1) by simp
  qed
qed (auto split: if_splits)

lemma hasPrefix_refl_take: "hasPrefix s (take i s)"
  by (simp add: hasPrefix_def take_take min_def)

lemma hasSuffix_drop: "i \<le> length s \<Longrightarrow> hasSuffix s (drop i s)"
  by (simp add: hasSuffix_def)

lemma redactedValueMatches_refl: "redactedValueMatches v v"
  by (auto simp: redactedValueMatches_def hasPrefix_refl_take hasSuffix_drop dest!: indexOf_split split: option.splits)

lemma lockInvocationsMatch_iff:
  assumes "\<forall>a \<in> set (tl actual). \<not> contains a ''****''"
  shows "lockInvocationsMatch expected actual \<longleftrightarrow>
    (case (expected, actual) of
       ([], []) \<Rightarrow> True
     | (e # es, a # as) \<Rightarrow> base e = base a \<and> es = as
     | _ \<Rightarrow> False)"
proof (cases expected)
  case (Cons e es)
  show ?thesis
  proof (cases actual)
    case (Cons a as)
    have "(\<forall>index < Suc (length es). lockInvocationArgMatch ((e # es) ! index) ((a # as) ! index) (index = 0)) \<longleftrightarrow>
        base e = base a \<and> es = as" if len: "length es = length as"
    proof -
      have "lockInvocationArgMatch (es ! i) (as ! i) False \<longleftrightarrow> es ! i = as ! i" if "i < length es" for i
        using assms that len Cons by (simp add: lockInvocationArgMatch_def)
      then show ?thesis
        using len by (auto simp: All_less_Suc2 lockInvocationArgMatch_def [of e a] intro: nth_equalityI)
    qed
    then show ?thesis using \<open>expected = e # es\<close> Cons by (auto simp: lockInvocationsMatch_def)
  qed (simp add: lockInvocationsMatch_def \<open>expected = e # es\<close>)
qed (auto simp: lockInvocationsMatch_def split: list.splits)

text \<open>
  Lock verification: an invocation without redacted arguments is accepted exactly when it has the same
  program name (whatever its directory) and the same arguments; every invocation matches itself,
  redacted or not.
\<close>

lemma lockInvocations_verified:
  "((\<forall>a \<in> set (tl actual). \<not> contains a ''****'') \<longrightarrow>
     (lockInvocationsMatch expected actual \<longleftrightarrow>
        (case (expected, actual) of
           ([], []) \<Rightarrow> True
         | (e # es, a # as) \<Rightarrow> base e = base a \<and> es = as
         | _ \<Rightarrow> False))) \<and>
   lockInvocationsMatch expected expected"
proof -
  have "redactedAssignmentMatches a a" for a
    by (auto simp: redactedAssignmentMatches_def redactedValueMatches_refl split: option.splits)
  then have "lockInvocationsMatch expected expected" by (simp add: lockInvocationsMatch_def lockInvocationArgMatch_def)
  then show ?thesis using lockInvocationsMatch_iff by blast
qed

lemma validateNewJob_None:
  assumes "validateNewJob read_lock request before after = (job, candidates, None)" and "distinct after"
  shows "\<exists>name. set after - set before = {name} \<and> job = path_join [req_OutputRoot request, name] \<and> candidates = [job] \<and>
    (\<exists>invocation. read_lock (path_join [job, JobLockFilename]) = Inr (Inr invocation) \<and>
       lockInvocationsMatch (req_LockInvocation request) invocation)"
proof -
  let ?added = "sort (filter (\<lambda>name. name \<notin> set before) after)"
  have "length ?added = 1"
    using assms(1) by (auto simp: validateNewJob_def Let_def split: if_splits)
  then obtain name where name: "?added = [name]" by (metis One_nat_def length_0_conv length_Suc_conv)
  have "set after - set before = set ?added" by auto
  then show ?thesis
    using assms(1) name by (auto simp: validateNewJob_def Let_def split: if_splits sum.splits)
qed

end
