(* ===== verification/Evaluation.thy ===== *)
theory Evaluation
  imports Evaluation_Checks
begin

text \<open>
  \<open>EvaluationAction.Execute\<close> (\<open>pkg/orchestrate/evaluation.go\<close>): validate, prepare and lock the output
  root, resolve the inventory, reserve the GPUs, inspect, run, verify the output, and undo in the deferred
  functions, innermost first. The collaborators' answers are the fields of \<open>eval_env\<close>; the reservation
  store is any pair of operations on a state, the way the interface \<open>EvaluationReservations\<close> has it. The
  trace records the effects in order. \<open>None\<close> means that a lock is waited for without end.
\<close>

section \<open>Environment and state\<close>

datatype eval_event =
  Reserved ReservationLease
| Started string "string list"
| ReleaseTried bool
| RootCleanup bool
| OutputUnlocked
| CoordinatorUnlocked

record 'env eval_env =
  ee_fault :: fault
  ee_locks :: lock_env
  ee_AvailableSpace :: "string \<Rightarrow> nat result"
  ee_Inventory :: "Device list \<times> ScopedInventory list \<times> go_error option"
  ee_Inspect :: "EvaluationRequest \<Rightarrow> ScopedInventory option \<Rightarrow> EvaluationInspection result"
  ee_Run :: "(string, string) gomap \<Rightarrow> command_runner"
  ee_before :: "(string \<times> bool) list result"
  ee_after :: "(string \<times> bool) list result"
  ee_read_lock :: "string \<Rightarrow> string list result result"
  ee_reserve :: "'env \<times> time"
  ee_release :: "'env \<times> time"
  ee_marshal :: "ResourceManifest \<Rightarrow> string result"
  ee_sha256 :: "string \<Rightarrow> nat list"
  ee_utf8 :: "string \<Rightarrow> string"

record 's eval_world =
  ew_fs :: filesystem
  ew_store :: 's
  ew_trace :: "eval_event list"

definition log_event :: "eval_event \<Rightarrow> 's eval_world \<Rightarrow> 's eval_world" where
  "log_event e w = w\<lparr>ew_trace := ew_trace w @ [e]\<rparr>"

type_synonym outcome = "EvaluationResult \<times> go_error option"

section \<open>The stages, from the inside out\<close>

text \<open>The command line: direct, or through the WSL transport.\<close>

definition command_line :: "EvaluationRequest \<Rightarrow> string \<times> string list" where
  "command_line request =
     (if req_WSLDistribution request \<noteq> []
      then (''wsl.exe'', [''-d'', req_WSLDistribution request, ''--'', req_Executable request] @ req_Argv request)
      else (req_Executable request, req_Argv request))"

text \<open>After the command ran: attach the evidence, then decide. Command outcomes come before output errors.\<close>

definition judge_run ::
  "'env eval_env \<Rightarrow> EvaluationRequest \<Rightarrow> string list \<Rightarrow> CommandResult \<Rightarrow> go_error option \<Rightarrow> EvaluationResult \<Rightarrow> outcome" where
  "judge_run env request before commandResult runErr result0 =
     (let result1 = result0\<lparr>er_Lifecycle := lifecycleFromCommand (ee_utf8 env) (ee_sha256 env) commandResult\<rparr>;
          after = snapshotJobDirectories (ee_after env);
          (jobDirectory, candidates, outputErr) =
            (case after of Inl _ \<Rightarrow> ([], [], None) | Inr names \<Rightarrow> validateNewJob (ee_read_lock env) request before names);
          result = update_prov (\<lambda>p.
            let p1 = (if candidates \<noteq> [] then p\<lparr>prov_CandidateJobDirectories := candidates\<rparr> else p) in
            if jobDirectory \<noteq> [] then p1\<lparr>prov_JobDirectory := jobDirectory\<rparr> else p1) result1 in
      if res_TimedOut commandResult \<or> (case runErr of None \<Rightarrow> False | Some e \<Rightarrow> errors_is e ''context.DeadlineExceeded'')
      then failEvaluation result (evaluationError CodeActionTimeout ''evaluation command exceeded %dms''
             [AInt (sint (req_TimeoutMillis request))])
      else if res_Truncated commandResult
      then failEvaluation result (evaluationError CodeOutputTruncated ''evaluation command exceeded %d-byte output bound''
             [AInt (req_MaxOutputBytes request)])
      else if runErr \<noteq> None \<or> res_ExitCode commandResult \<noteq> 0
      then failEvaluation result (evaluationError CodeActionFailed ''evaluation command exited %d: %v''
             [AInt (res_ExitCode commandResult), errArg runErr])
      else case after of
        Inl snapshotErr \<Rightarrow> failEvaluation result (evaluationError CodeOutputSnapshotFailed
            ''snapshot output root after action: %v'' [AErr snapshotErr])
      | Inr _ \<Rightarrow>
          (case outputErr of
             Some err \<Rightarrow> failEvaluation result err
           | None \<Rightarrow> (result\<lparr>er_Success := True\<rparr>, None)))"

text \<open>From the first snapshot to the return; the flag is \<open>actionStarted\<close>.\<close>

definition run_leased ::
  "'env eval_env \<Rightarrow> EvaluationRequest \<Rightarrow> (UUID \<rightharpoonup> Device) \<Rightarrow> ScopedInventory option \<Rightarrow> EvaluationResult \<Rightarrow>
     's eval_world \<Rightarrow> outcome \<times> bool \<times> 's eval_world" where
  "run_leased env request devices executionInventory result w =
     (case snapshotJobDirectories (ee_before env) of
        Inl err \<Rightarrow> (failEvaluation result (evaluationError CodeOutputSnapshotFailed ''snapshot output root: %v'' [AErr err]), False, w)
      | Inr before \<Rightarrow>
        (case ee_Inspect env request executionInventory of
           Inl err \<Rightarrow>
             (if errors_as err \<noteq> None then failEvaluation result err
              else failEvaluation result (evaluationError CodeInspectionFailed ''%v'' [AErr err]), False, w)
         | Inr inspection \<Rightarrow>
           (let result1 = update_prov (\<lambda>p. p\<lparr>prov_ToolkitRoot := insp_ToolkitRoot inspection,
                  prov_ToolkitExecutable := insp_ToolkitExecutable inspection,
                  prov_ToolkitVersion := insp_Toolkit inspection\<rparr>) result in
            case validateInspection request inspection devices of
              Some err \<Rightarrow> (failEvaluation result1 err, False, w)
            | None \<Rightarrow>
              (let environment = AList.update ''DOCKER_HOST'' (req_PodmanPipe request) (req_Environment request);
                   (command, arguments) = command_line request;
                   result2 = update_prov (\<lambda>p. p\<lparr>prov_CommandSHA256 := commandFingerprint (ee_sha256 env) command arguments\<rparr>) result1;
                   (commandResult, runErr) = ee_Run env environment command arguments in
               (judge_run env request before commandResult runErr result2, True, log_event (Started command arguments) w)))))"

text \<open>The deferred release: what it does to the result and the error.\<close>

definition apply_release :: "go_error option \<Rightarrow> outcome \<Rightarrow> outcome" where
  "apply_release releaseErr = (\<lambda>(result, returnedErr).
     case releaseErr of
       None \<Rightarrow> (result\<lparr>er_Released := True\<rparr>, returnedErr)
     | Some e \<Rightarrow>
         let result1 = result\<lparr>er_Success := False, er_Released := False\<rparr> in
         if er_ErrorCode result1 = []
         then (result1\<lparr>er_ErrorCode := CodeCleanupFailed, er_ErrorMessage := Some e\<rparr>,
               Some (evaluationError CodeCleanupFailed ''release GPU reservation: %v'' [AErr e]))
         else let message = Errorf ''%s; cleanup_failed: release GPU reservation: %v''
                    [errArg (er_ErrorMessage result1), AErr e] in
           (result1\<lparr>er_ErrorMessage := Some message\<rparr>,
            Some (case returnedErr of
                Some prior \<Rightarrow> evaluationError (er_ErrorCode result1)
                  ''%v; cleanup_failed: release GPU reservation: %v'' [AErr prior, AErr e]
              | None \<Rightarrow> evaluationError (er_ErrorCode result1) ''%s'' [AErr message])))"

definition release_deferred ::
  "('env, 's) release_op \<Rightarrow> 'env eval_env \<Rightarrow> ReservationLease \<Rightarrow> outcome \<Rightarrow> 's eval_world \<Rightarrow> (outcome \<times> 's eval_world) option" where
  "release_deferred release env lease out w = do {
     (releaseErr, store') \<leftarrow> release (fst (ee_release env)) lease (snd (ee_release env)) (ew_store w);
     Some (apply_release releaseErr out, log_event (ReleaseTried (releaseErr = None)) (w\<lparr>ew_store := store'\<rparr>))
   }"

text \<open>From the inventory to the return, with the lease in between.\<close>

definition run_locked ::
  "('env, 's) reserve_op \<Rightarrow> ('env, 's) release_op \<Rightarrow> EvaluationAction \<Rightarrow> 'env eval_env \<Rightarrow> EvaluationRequest \<Rightarrow>
     EvaluationResult \<Rightarrow> 's eval_world \<Rightarrow> (outcome \<times> bool \<times> 's eval_world) option" where
  "run_locked reserve release action env request result w =
     (case resolveInventory (ee_Inventory env) request of
        Inl err \<Rightarrow> Some (failEvaluation result err, False, w)
      | Inr (devices, executionInventory) \<Rightarrow> do {
          (reserved, store') \<leftarrow> reserve (fst (ee_reserve env)) (requestedUUIDs (req_GPUBindings request))
            (req_ManifestSHA256 request) (sint (act_ReservationTTL action)) (snd (ee_reserve env)) (ew_store w);
          let w1 = w\<lparr>ew_store := store'\<rparr>;
          (case reserved of
             Inl err \<Rightarrow> Some (failEvaluation result (evaluationError CodeReservationFailed ''%v'' [AErr err]), False, w1)
           | Inr lease \<Rightarrow> do {
               let result1 = update_prov (\<lambda>p. p\<lparr>prov_ReservationToken := lease_Token lease, prov_ReservationExpiresAt :=
                     (if lease_ExpiresAt lease = zero_time then None else Some (lease_ExpiresAt lease))\<rparr>)
                   (result\<lparr>er_Released := False\<rparr>);
               let (out, started, w2) = run_leased env request devices executionInventory result1 (log_event (Reserved lease) w1);
               (out', w3) \<leftarrow> release_deferred release env lease out w2;
               Some (out', started, w3)
             })
        })"

text \<open>The deferred unlocking of the output root, with the cleanup of a root created for nothing.\<close>

definition unlock_output ::
  "'env eval_env \<Rightarrow> preparedOutputRoot \<Rightarrow> FileInfo option \<Rightarrow> bool \<Rightarrow> outcome \<Rightarrow> 's eval_world \<Rightarrow> outcome \<times> 's eval_world" where
  "unlock_output env root owned started out w =
     (let (result, returnedErr) = out; w1 = log_event OutputUnlocked w in
      case returnedErr of
        None \<Rightarrow> (out, w1)
      | Some err \<Rightarrow>
          if \<not> root_created root \<or> started then (out, w1)
          else (case cleanupCreatedOutputRoot (ee_fault env) root owned (ew_fs w1) of
              (Some cleanupErr, fs') \<Rightarrow>
                (failEvaluation (update_prov (\<lambda>p. p\<lparr>prov_OutputRootCleanup := ''preserved''\<rparr>) result)
                   (evaluationError CodeOutputRootCleanupFailed ''preserve output_root after %v: %v'' [AErr err, AErr cleanupErr]),
                 log_event (RootCleanup False) (w1\<lparr>ew_fs := fs'\<rparr>))
            | (None, fs') \<Rightarrow>
                ((update_prov (\<lambda>p. p\<lparr>prov_OutputRootCleanup := ''removed'', prov_OutputRootCreated := False\<rparr>) result, Some err),
                 log_event (RootCleanup True) (w1\<lparr>ew_fs := fs'\<rparr>))))"

definition failPreparedOutputRoot ::
  "'env eval_env \<Rightarrow> preparedOutputRoot \<Rightarrow> FileInfo option \<Rightarrow> EvaluationResult \<Rightarrow> go_error \<Rightarrow> 's eval_world \<Rightarrow>
     outcome \<times> 's eval_world" where
  "failPreparedOutputRoot env root owned result cause w =
     (let (failedResult, returnedErr) = failEvaluation result cause in
      if \<not> root_created root then ((failedResult, returnedErr), w)
      else case cleanupCreatedOutputRoot (ee_fault env) root owned (ew_fs w) of
        (Some cleanupErr, fs') \<Rightarrow>
          (failEvaluation (update_prov (\<lambda>p. p\<lparr>prov_OutputRootCleanup := ''preserved''\<rparr>) failedResult)
             (evaluationError CodeOutputRootCleanupFailed ''preserve output_root after %v: %v'' [AErr cause, AErr cleanupErr]),
           log_event (RootCleanup False) (w\<lparr>ew_fs := fs'\<rparr>))
      | (None, fs') \<Rightarrow>
          ((update_prov (\<lambda>p. p\<lparr>prov_OutputRootCleanup := ''removed'', prov_OutputRootCreated := False\<rparr>) failedResult, returnedErr),
           log_event (RootCleanup True) (w\<lparr>ew_fs := fs'\<rparr>)))"

text \<open>Everything under the coordinator lock.\<close>

definition run_coordinated ::
  "('env, 's) reserve_op \<Rightarrow> ('env, 's) release_op \<Rightarrow> EvaluationAction \<Rightarrow> 'env eval_env \<Rightarrow> EvaluationRequest \<Rightarrow>
     EvaluationResult \<Rightarrow> 's eval_world \<Rightarrow> (outcome \<times> 's eval_world) option" where
  "run_coordinated reserve release action env request result w = do {
     ((root, rootErr), fs1) \<leftarrow> prepareOutputRoot (ee_fault env) (req_OutputRoot request) True (ew_fs w);
     let w1 = w\<lparr>ew_fs := fs1\<rparr>;
     (case rootErr of
        Some err \<Rightarrow> Some (failEvaluation result err, w1)
      | None \<Rightarrow>
        let result1 = update_prov (\<lambda>p. p\<lparr>prov_OutputRootCreated := root_created root\<rparr>) result in
        (case ee_AvailableSpace env (root_path root) of
           Inl err \<Rightarrow> Some (failPreparedOutputRoot env root None result1
               (evaluationError CodeOutputRootSpaceFailed ''inspect output_root available space: %v'' [AErr err]) w1)
         | Inr availableBytes \<Rightarrow> do {
             let result2 = update_prov (\<lambda>p. p\<lparr>prov_OutputRootAvailableBytes := Some availableBytes\<rparr>) result1;
             ((lock, lockErr), fs2) \<leftarrow> lockOutputRoot (ee_fault env) (ee_locks env) (root_path root) (ew_fs w1);
             let w2 = w1\<lparr>ew_fs := fs2\<rparr>;
             (case lockErr of
                Some err \<Rightarrow> Some (failPreparedOutputRoot env root (lock_ownedIdentity lock) result2
                    (evaluationError CodeOutputLockFailed ''%v'' [AErr err]) w2)
              | None \<Rightarrow> do {
                  (out, started, w3) \<leftarrow> run_locked reserve release action env request result2 w2;
                  Some (unlock_output env root (lock_ownedIdentity lock) started out w3)
                })
           }))
   }"

definition Execute ::
  "('env, 's) reserve_op \<Rightarrow> ('env, 's) release_op \<Rightarrow> EvaluationAction \<Rightarrow> 'env eval_env \<Rightarrow> EvaluationRequest \<Rightarrow>
     's eval_world \<Rightarrow> (outcome \<times> 's eval_world) option" where
  "Execute reserve release action env request w =
     (let result = attachRequestProvenance request (newEvaluationResult request) in
      case validate (ee_marshal env) action request of
        Some err \<Rightarrow> Some (failEvaluation result err, w)
      | None \<Rightarrow> do {
          (parentErr, fs1) \<leftarrow> prepareOutputRootParent (ee_fault env) (req_OutputRoot request) (ew_fs w);
          let w1 = w\<lparr>ew_fs := fs1\<rparr>;
          (case parentErr of
             Some err \<Rightarrow> Some (failEvaluation result err, w1)
           | None \<Rightarrow> do {
               ((_, lockErr), fs2) \<leftarrow> lockOutputRootCoordinator (ee_fault env) (ee_locks env) (req_OutputRoot request) (ew_fs w1);
               let w2 = w1\<lparr>ew_fs := fs2\<rparr>;
               (case lockErr of
                  Some err \<Rightarrow> Some (failEvaluation result
                      (evaluationError CodeOutputLockFailed ''coordinate output_root lifecycle: %v'' [AErr err]), w2)
                | None \<Rightarrow> do {
                    (out, w3) \<leftarrow> run_coordinated reserve release action env request result w2;
                    Some (out, log_event CoordinatorUnlocked w3)
                  })
             })
        })"

section \<open>Outcomes\<close>

text \<open>Success and error exclude each other, and an error carries a code of the catalog.\<close>

definition outcome_ok :: "outcome \<Rightarrow> bool" where
  "outcome_ok = (\<lambda>(result, err).
     case err of
       None \<Rightarrow> er_Success result \<and> er_ErrorCode result = []
     | Some e \<Rightarrow> \<not> er_Success result \<and> er_ErrorCode result \<in> set AllEvaluationErrorCodes)"

lemma failEvaluation_ok [simp]: "code_ok e \<Longrightarrow> outcome_ok (failEvaluation result e)"
  by (auto simp: failEvaluation_def outcome_ok_def code_ok_def split: option.splits)

lemma failEvaluation_err [simp]: "snd (failEvaluation result e) = Some e"
  by (simp add: failEvaluation_def)

named_theorems check_codes \<open>the errors of the checks carry codes of the catalog\<close>

lemma managed_path_codes [check_codes]:
  "validateManagedAbsolutePath p f c = Some e \<Longrightarrow> c \<in> set AllEvaluationErrorCodes \<Longrightarrow> code_ok e"
  by (auto simp: validateManagedAbsolutePath_def Let_def split: if_splits)

lemma limits_codes [check_codes]: "validate_limits ttl request = Some e \<Longrightarrow> code_ok e"
  by (auto simp: validate_limits_def Let_def split: if_splits)

lemma foldE_code_ok: "foldE f xs s = Inl e \<Longrightarrow> (\<And>x s e. f x s = Inl e \<Longrightarrow> code_ok e) \<Longrightarrow> code_ok e"
  by (induction xs arbitrary: s) (auto split: sum.splits)

lemma bindings_codes [check_codes]: "validateGPUBindings marshal request = Some e \<Longrightarrow> code_ok e"
proof -
  have "code_ok e" if "check_binding ids toolkit b seen = Inl e" for ids toolkit b seen e
    using that by (auto simp: check_binding_def Let_def split: option.splits if_splits)
  then show "validateGPUBindings marshal request = Some e \<Longrightarrow> code_ok e"
    by (auto simp: validateGPUBindings_def Let_def split: if_splits sum.splits dest: foldE_code_ok)
qed

lemma validate_codes [check_codes]: "validate marshal action request = Some e \<Longrightarrow> code_ok e"
  by (auto simp: validate_def validateOutputRootPath_def split: if_splits option.splits sum.splits
      dest: managed_path_codes limits_codes bindings_codes)

lemma inventory_codes [check_codes]: "resolveInventory provided request = Inl e \<Longrightarrow> code_ok e"
proof -
  have c: "code_ok e" if "index_device d m = Inl e" for d m e
    using that by (auto simp: index_device_def split: option.splits if_splits)
  have d: "code_ok e" if "check_declared m dist art d = Some e" for m dist art d e
    using that by (auto simp: check_declared_def split: option.splits if_splits)
  show "resolveInventory provided request = Inl e \<Longrightarrow> code_ok e"
    by (auto simp: resolveInventory_def split: option.splits sum.splits if_splits prod.splits
        dest!: checkE_SomeD intro: d foldE_code_ok [OF _ c])
qed

lemma inspection_codes [check_codes]: "validateInspection request inspection inventory = Some e \<Longrightarrow> code_ok e"
proof -
  have c: "code_ok e" if "index_inspected d m = Inl e" for d m e
    using that by (auto simp: index_inspected_def split: option.splits)
  have d: "code_ok e" if "check_inspected i ds inv b = Some e" for i ds inv b e
    using that by (auto simp: check_inspected_def split: option.splits if_splits)
  show "validateInspection request inspection inventory = Some e \<Longrightarrow> code_ok e"
    by (auto simp: validateInspection_def split: if_splits sum.splits dest!: checkE_SomeD intro: d foldE_code_ok [OF _ c])
qed

lemma new_job_codes [check_codes]: "validateNewJob rl request b a = (j, cs, Some e) \<Longrightarrow> code_ok e"
  by (auto simp: validateNewJob_def Let_def split: if_splits sum.splits)

lemma parent_codes [check_codes]: "prepareOutputRootParent fault root fs = Some (Some e, fs') \<Longrightarrow> code_ok e"
proof -
  have v: "code_ok e" if "component_verdict fault fs p = Some e" for fault fs p e
    using that by (auto simp: component_verdict_def split: sum.splits if_splits)
  have w: "code_ok e" if "walk_up fault fs p = Some (Some e)" for p e
  proof -
    have "\<forall>e. r = Some e \<longrightarrow> code_ok e" if "walk_up fault fs p = Some r" for r
      using that by (rule walk_up.raw_induct [rotated]) (auto simp: Let_def split: option.splits if_splits intro: v)
    with that show ?thesis by blast
  qed
  show "prepareOutputRootParent fault root fs = Some (Some e, fs') \<Longrightarrow> code_ok e"
    by (auto simp: prepareOutputRootParent_def validateExistingOutputPath_def Let_def
        split: option.splits sum.splits if_splits prod.splits Option.bind_splits intro: w)
qed

lemma root_codes [check_codes]: "prepareOutputRoot fault root True fs = Some ((r, Some e), fs') \<Longrightarrow> code_ok e"
  by (auto simp: prepareOutputRoot_def adopt_root_def validatePreparedOutputRootInfo_def Let_def
      split: option.splits sum.splits if_splits prod.splits)

lemma judge_run_ok: "er_ErrorCode result = [] \<Longrightarrow> outcome_ok (judge_run env request before cr re result)"
  by (auto simp: judge_run_def Let_def split: sum.splits option.splits prod.splits dest: new_job_codes)
     (auto simp: outcome_ok_def)

text \<open>The inspector's coded errors come from the catalog.\<close>

definition inspector_ok :: "'env eval_env \<Rightarrow> bool" where
  "inspector_ok env \<longleftrightarrow> (\<forall>request inventory e. ee_Inspect env request inventory = Inl e \<longrightarrow> code_ok e)"

lemma run_leased_ok:
  assumes "er_ErrorCode result = []" and "inspector_ok env"
    and "run_leased env request devices inventory result w = (out, started, w')"
  shows "outcome_ok out"
  using assms
  by (auto simp: run_leased_def inspector_ok_def Let_def judge_run_ok split: sum.splits option.splits prod.splits if_splits
      dest: inspection_codes)

lemma apply_release_ok: "outcome_ok out \<Longrightarrow> outcome_ok (apply_release e out)"
  by (cases out) (auto simp: apply_release_def outcome_ok_def Let_def split: option.splits)

lemma outcome_ok_prov [simp]: "outcome_ok (result\<lparr>er_Provenance := p\<rparr>, err) = outcome_ok (result, err)"
  by (simp add: outcome_ok_def)

text \<open>The three ways through \<open>run_locked\<close>.\<close>

lemma run_locked_cases [consumes 1, case_names inventory refused leased]:
  assumes "run_locked reserve release action env request result w = Some (out, started, w')"
  obtains e where "resolveInventory (ee_Inventory env) request = Inl e" and "out = failEvaluation result e"
      and "\<not> started" and "w' = w"
  | e store' where "reserve (fst (ee_reserve env)) (requestedUUIDs (req_GPUBindings request))
        (req_ManifestSHA256 request) (sint (act_ReservationTTL action)) (snd (ee_reserve env)) (ew_store w) = Some (Inl e, store')"
      and "out = failEvaluation result (evaluationError CodeReservationFailed ''%v'' [AErr e])"
      and "\<not> started" and "w' = w\<lparr>ew_store := store'\<rparr>"
  | devices inventory lease store1 result1 out1 w2 relErr store2
    where "reserve (fst (ee_reserve env)) (requestedUUIDs (req_GPUBindings request))
        (req_ManifestSHA256 request) (sint (act_ReservationTTL action)) (snd (ee_reserve env)) (ew_store w) = Some (Inr lease, store1)"
      and "er_ErrorCode result1 = er_ErrorCode result"
      and "run_leased env request devices inventory result1 (log_event (Reserved lease) (w\<lparr>ew_store := store1\<rparr>)) = (out1, started, w2)"
      and "release (fst (ee_release env)) lease (snd (ee_release env)) (ew_store w2) = Some (relErr, store2)"
      and "out = apply_release relErr out1"
      and "w' = log_event (ReleaseTried (relErr = None)) (w2\<lparr>ew_store := store2\<rparr>)"
proof (cases "resolveInventory (ee_Inventory env) request")
  case (Inl e)
  then show thesis using assms that(1) by (simp add: run_locked_def)
next
  case (Inr di)
  then obtain devices inventory where di: "resolveInventory (ee_Inventory env) request = Inr (devices, inventory)"
    by (cases di) simp
  from assms obtain reserved store1 where r: "reserve (fst (ee_reserve env)) (requestedUUIDs (req_GPUBindings request))
        (req_ManifestSHA256 request) (sint (act_ReservationTTL action)) (snd (ee_reserve env)) (ew_store w) = Some (reserved, store1)"
    by (auto simp: run_locked_def di split: Option.bind_splits)
  show thesis
  proof (cases reserved)
    case (Inl e)
    then show thesis using assms r di that(2) by (simp add: run_locked_def)
  next
    case (Inr lease)
    let ?result1 = "update_prov (\<lambda>p. p\<lparr>prov_ReservationToken := lease_Token lease, prov_ReservationExpiresAt :=
          (if lease_ExpiresAt lease = zero_time then None else Some (lease_ExpiresAt lease))\<rparr>) (result\<lparr>er_Released := False\<rparr>)"
    obtain out1 st w2 where leased: "run_leased env request devices inventory ?result1
        (log_event (Reserved lease) (w\<lparr>ew_store := store1\<rparr>)) = (out1, st, w2)" by (metis prod_cases3)
    from assms Inr r di leased obtain relErr store2
      where "release (fst (ee_release env)) lease (snd (ee_release env)) (ew_store w2) = Some (relErr, store2)"
        and "out = apply_release relErr out1" and "started = st"
        and "w' = log_event (ReleaseTried (relErr = None)) (w2\<lparr>ew_store := store2\<rparr>)"
      by (auto simp: run_locked_def release_deferred_def Let_def split: Option.bind_splits prod.splits)
    with r leased Inr show thesis by (intro that(3)) auto
  qed
qed

lemma run_locked_ok:
  assumes "run_locked reserve release action env request result w = Some (out, started, w')"
    and "er_ErrorCode result = []" and "inspector_ok env"
  shows "outcome_ok out"
  using assms(1)
proof (cases rule: run_locked_cases)
  case (leased devices inventory lease store1 result1 out1 w2 relErr store2)
  with run_leased_ok [OF _ assms(3) leased(3)] assms(2) show ?thesis by (simp add: apply_release_ok)
qed (auto dest: inventory_codes)

lemma unlock_output_ok: "outcome_ok out \<Longrightarrow> outcome_ok (fst (unlock_output env root owned started out w))"
  by (cases out) (auto simp: unlock_output_def Let_def split: option.splits prod.splits)

lemma failPrepared_ok: "code_ok cause \<Longrightarrow> outcome_ok (fst (failPreparedOutputRoot env root owned result cause w))"
  using failEvaluation_ok [of cause result]
  by (cases "failEvaluation result cause") (auto simp: failPreparedOutputRoot_def Let_def split: prod.splits option.splits)

text \<open>The ways through \<open>run_coordinated\<close>: it fails before the lock, after which nothing is logged but a cleanup, or runs locked.\<close>

lemma run_coordinated_cases [consumes 1, case_names root prepared locked]:
  assumes "run_coordinated reserve release action env request result w = Some (out, w')"
  obtains e r fs1 where "prepareOutputRoot (ee_fault env) (req_OutputRoot request) True (ew_fs w) = Some ((r, Some e), fs1)"
      and "out = failEvaluation result e" and "w' = w\<lparr>ew_fs := fs1\<rparr>"
  | root owned result' cause fs' where "code_ok cause"
      and "failPreparedOutputRoot env root owned result' cause (w\<lparr>ew_fs := fs'\<rparr>) = (out, w')"
  | root owned result' fs' out1 started w3 where "er_ErrorCode result' = er_ErrorCode result"
      and "run_locked reserve release action env request result' (w\<lparr>ew_fs := fs'\<rparr>) = Some (out1, started, w3)"
      and "unlock_output env root owned started out1 w3 = (out, w')"
proof -
  obtain root rootErr fs1 where p: "prepareOutputRoot (ee_fault env) (req_OutputRoot request) True (ew_fs w) = Some ((root, rootErr), fs1)"
    using assms by (auto simp: run_coordinated_def split: Option.bind_splits)
  show thesis
  proof (cases rootErr)
    case (Some e)
    with assms p show thesis by (intro that(1)) (auto simp: run_coordinated_def)
  next
    case None
    show thesis
    proof (cases "ee_AvailableSpace env (root_path root)")
      case (Inl e)
      with assms p None have "failPreparedOutputRoot env root None
          (update_prov (\<lambda>p. p\<lparr>prov_OutputRootCreated := root_created root\<rparr>) result)
          (evaluationError CodeOutputRootSpaceFailed ''inspect output_root available space: %v'' [AErr e])
          (w\<lparr>ew_fs := fs1\<rparr>) = (out, w')" by (simp add: run_coordinated_def Let_def)
      then show thesis by (rule that(2) [rotated]) simp
    next
      case (Inr bytes)
      obtain lock lockErr fs2 where l: "lockOutputRoot (ee_fault env) (ee_locks env) (root_path root) fs1 = Some ((lock, lockErr), fs2)"
        using assms p None Inr by (auto simp: run_coordinated_def Let_def split: Option.bind_splits)
      let ?result2 = "update_prov (\<lambda>p. p\<lparr>prov_OutputRootAvailableBytes := Some bytes\<rparr>)
          (update_prov (\<lambda>p. p\<lparr>prov_OutputRootCreated := root_created root\<rparr>) result)"
      show thesis
      proof (cases lockErr)
        case (Some e)
        with assms p None Inr l have "failPreparedOutputRoot env root (lock_ownedIdentity lock) ?result2
            (evaluationError CodeOutputLockFailed ''%v'' [AErr e]) (w\<lparr>ew_fs := fs2\<rparr>) = (out, w')"
          by (simp add: run_coordinated_def Let_def)
        then show thesis by (rule that(2) [rotated]) simp
      next
        case no: None
        from assms p None Inr l no obtain out1 started w3
          where "run_locked reserve release action env request ?result2 (w\<lparr>ew_fs := fs2\<rparr>) = Some (out1, started, w3)"
            and "unlock_output env root (lock_ownedIdentity lock) started out1 w3 = (out, w')"
          by (auto simp: run_coordinated_def Let_def split: Option.bind_splits)
        then show thesis by (rule that(3) [rotated]) simp
      qed
    qed
  qed
qed

lemma initial_result: "er_ErrorCode (attachRequestProvenance request (newEvaluationResult request)) = []"
  by (simp add: attachRequestProvenance_def newEvaluationResult_def)

lemma Execute_cases [consumes 1, case_names early coordinated]:
  assumes "Execute reserve release action env request w = Some (out, w')"
  obtains e result fs' where "code_ok e" and "out = failEvaluation result e" and "w' = w\<lparr>ew_fs := fs'\<rparr>"
      and "er_Released result"
  | result fs' w3 where "validate (ee_marshal env) action request = None" and "er_ErrorCode result = []"
      and "run_coordinated reserve release action env request result (w\<lparr>ew_fs := fs'\<rparr>) = Some (out, w3)"
      and "w' = log_event CoordinatorUnlocked w3" and "er_Released result"
proof -
  let ?result = "attachRequestProvenance request (newEvaluationResult request)"
  have rel: "er_Released ?result" by (simp add: attachRequestProvenance_def newEvaluationResult_def)
  show thesis
  proof (cases "validate (ee_marshal env) action request")
    case (Some e)
    then show thesis
      using assms validate_codes rel by (intro that(1) [of e ?result "ew_fs w"]) (auto simp: Execute_def)
  next
    case valid: None
    obtain parentErr fs1 where p: "prepareOutputRootParent (ee_fault env) (req_OutputRoot request) (ew_fs w) = Some (parentErr, fs1)"
      using assms valid by (auto simp: Execute_def Let_def split: Option.bind_splits)
    show thesis
    proof (cases parentErr)
      case (Some e)
      then show thesis
        using assms valid p parent_codes rel by (intro that(1) [of e ?result fs1]) (auto simp: Execute_def Let_def)
    next
      case None
      obtain lock lockErr fs2 where l: "lockOutputRootCoordinator (ee_fault env) (ee_locks env) (req_OutputRoot request) fs1 =
          Some ((lock, lockErr), fs2)"
        using assms valid p None by (auto simp: Execute_def Let_def split: Option.bind_splits)
      show thesis
      proof (cases lockErr)
        case (Some e)
        with assms valid p None l rel show thesis
          by (intro that(1) [of "evaluationError CodeOutputLockFailed ''coordinate output_root lifecycle: %v'' [AErr e]" ?result fs2])
             (auto simp: Execute_def Let_def)
      next
        case no: None
        from assms valid p None l no obtain w3
          where "run_coordinated reserve release action env request ?result (w\<lparr>ew_fs := fs2\<rparr>) = Some (out, w3)"
            and "w' = log_event CoordinatorUnlocked w3"
          by (auto simp: Execute_def Let_def split: Option.bind_splits)
        with valid rel initial_result [of request] show thesis by (intro that(2)) auto
      qed
    qed
  qed
qed

lemma Execute_outcome_ok:
  assumes "Execute reserve release action env request w = Some (out, w')" and "inspector_ok env"
  shows "outcome_ok out"
  using assms(1)
proof (cases rule: Execute_cases)
  case (coordinated result fs' w3)
  from coordinated(3) show ?thesis
  proof (cases rule: run_coordinated_cases)
    case (root e r fs1)
    then show ?thesis using root_codes by simp
  next
    case (prepared root owned result' cause fs')
    then show ?thesis using failPrepared_ok [OF prepared(1)] by (metis fst_conv)
  next
    case (locked root owned result' fs' out1 started w3)
    then have "outcome_ok out1" using run_locked_ok [OF locked(2) _ assms(2)] coordinated(2) by simp
    then show ?thesis using unlock_output_ok locked(3) by (metis fst_conv)
  qed
qed simp

text \<open>
  \<open>Execute\<close> reports consistently: it returns a nil error exactly when the result says success, and
  then the result carries no error code; otherwise the result carries a code of the published catalog,
  whose process exit class is not success.
\<close>

lemma Execute_reports_consistently:
  assumes "Execute reserve release action env request w = Some ((result, err), w')" and "inspector_ok env"
  shows "(err = None \<longleftrightarrow> er_Success result) \<and> (err = None \<longrightarrow> er_ErrorCode result = []) \<and>
    (err \<noteq> None \<longrightarrow> er_ErrorCode result \<in> set AllEvaluationErrorCodes \<and> ProcessExitFor (er_ErrorCode result) \<noteq> ExitOK)"
  using Execute_outcome_ok [OF assms]
  by (auto simp: outcome_ok_def ProcessExitFor_def exit_classes split: option.splits)

section \<open>What success means\<close>

lemma failEvaluation_not_None: "failEvaluation result e \<noteq> (r, None)"
  by (simp add: failEvaluation_def)

text \<open>The evidence for a run that is reported as a success.\<close>

definition run_succeeded :: "'env eval_env \<Rightarrow> EvaluationRequest \<Rightarrow> EvaluationResult \<Rightarrow> bool" where
  "run_succeeded env request result \<longleftrightarrow>
     (\<exists>environment commandResult.
        ee_Run env environment (fst (command_line request)) (snd (command_line request)) = (commandResult, None) \<and>
        map_of environment ''DOCKER_HOST'' = Some (req_PodmanPipe request) \<and>
        res_ExitCode commandResult = 0 \<and> \<not> res_TimedOut commandResult \<and> \<not> res_Truncated commandResult \<and>
        er_Lifecycle result = lifecycleFromCommand (ee_utf8 env) (ee_sha256 env) commandResult)"

definition job_verified :: "'env eval_env \<Rightarrow> EvaluationRequest \<Rightarrow> EvaluationResult \<Rightarrow> bool" where
  "job_verified env request result \<longleftrightarrow>
     (\<exists>before after job candidates.
        snapshotJobDirectories (ee_before env) = Inr before \<and> snapshotJobDirectories (ee_after env) = Inr after \<and>
        validateNewJob (ee_read_lock env) request before after = (job, candidates, None) \<and>
        (job \<noteq> [] \<longrightarrow> prov_JobDirectory (er_Provenance result) = job))"

lemma judge_run_None:
  assumes "judge_run env request before cr re result0 = (result, None)"
  shows "re = None \<and> res_ExitCode cr = 0 \<and> \<not> res_TimedOut cr \<and> \<not> res_Truncated cr \<and>
    er_Lifecycle result = lifecycleFromCommand (ee_utf8 env) (ee_sha256 env) cr"
    and "\<exists>after job candidates. snapshotJobDirectories (ee_after env) = Inr after \<and>
      validateNewJob (ee_read_lock env) request before after = (job, candidates, None) \<and>
      (job \<noteq> [] \<longrightarrow> prov_JobDirectory (er_Provenance result) = job)"
  using assms
  by (auto simp: judge_run_def Let_def failEvaluation_not_None split: if_splits sum.splits option.splits prod.splits)

lemma run_leased_None:
  assumes "run_leased env request devices inventory result0 w = ((result, None), started, w')"
  shows "started \<and> run_succeeded env request result \<and> job_verified env request result \<and>
    (\<exists>inspection. ee_Inspect env request inventory = Inr inspection \<and> validateInspection request inspection devices = None)"
proof -
  let ?environment = "AList.update ''DOCKER_HOST'' (req_PodmanPipe request) (req_Environment request)"
  obtain before inspection command arguments cr re result2
    where b: "snapshotJobDirectories (ee_before env) = Inr before" and i: "ee_Inspect env request inventory = Inr inspection"
      and v: "validateInspection request inspection devices = None" and c: "command_line request = (command, arguments)"
      and r: "ee_Run env ?environment command arguments = (cr, re)"
      and j: "judge_run env request before cr re result2 = (result, None)" and s: "started"
    using assms
    by (auto simp: run_leased_def Let_def failEvaluation_not_None split: sum.splits option.splits prod.splits if_splits)
  have "map_of ?environment ''DOCKER_HOST'' = Some (req_PodmanPipe request)" by simp
  then have "run_succeeded env request result"
    using judge_run_None(1) [OF j] r c unfolding run_succeeded_def by (intro exI [of _ ?environment] exI [of _ cr]) simp
  moreover have "job_verified env request result"
    using judge_run_None(2) [OF j] b unfolding job_verified_def by blast
  ultimately show ?thesis using s i v by blast
qed

lemma apply_release_None:
  "apply_release e out = (result, None) \<Longrightarrow> e = None \<and> (\<exists>r. out = (r, None) \<and> result = r\<lparr>er_Released := True\<rparr>)"
  by (cases out) (auto simp: apply_release_def Let_def split: option.splits if_splits)

lemma unlock_output_None:
  "unlock_output env root owned started out w = ((result, None), w') \<Longrightarrow> out = (result, None)"
  by (cases out) (auto simp: unlock_output_def Let_def failEvaluation_not_None split: option.splits if_splits prod.splits)

lemma failPrepared_not_None: "failPreparedOutputRoot env root owned r cause w \<noteq> ((result, None), w')"
  by (auto simp: failPreparedOutputRoot_def Let_def failEvaluation_def split: option.splits if_splits prod.splits)

lemma run_locked_None:
  assumes "run_locked reserve release action env request result0 w = Some ((result, None), started, w')"
  shows "er_Released result \<and> run_succeeded env request result \<and> job_verified env request result"
  using assms
proof (cases rule: run_locked_cases)
  case (leased devices inventory lease store1 result1 out1 w2 relErr store2)
  from apply_release_None [OF leased(5) [symmetric]] obtain r
    where r: "out1 = (r, None)" "result = r\<lparr>er_Released := True\<rparr>" by blast
  from run_leased_None [OF leased(3) [unfolded r(1)]] r(2) show ?thesis
    by (simp add: run_succeeded_def job_verified_def)
qed (simp_all add: failEvaluation_def)

lemma Execute_None:
  assumes "Execute reserve release action env request w = Some ((result, None), w')"
  shows "er_Released result \<and> run_succeeded env request result \<and> job_verified env request result \<and>
    validate (ee_marshal env) action request = None"
  using assms
proof (cases rule: Execute_cases)
  case (coordinated result0 fs' w3)
  from coordinated(3) show ?thesis
  proof (cases rule: run_coordinated_cases)
    case (locked root owned result' fs' out1 started w3)
    from unlock_output_None [OF locked(3)] locked(2) run_locked_None coordinated(1) show ?thesis by blast
  qed (auto simp: failEvaluation_def dest: failPrepared_not_None [THEN notE])
qed (simp add: failEvaluation_def)

lemma path_join_abs: "isAbs r \<Longrightarrow> path_join (r # es) \<noteq> []"
proof -
  assume r: "isAbs r"
  then obtain s where s: "r = CHR ''/'' # s" by (cases r) (auto simp: isAbs_def)
  have "isAbs (join (r # es) ''/'')" by (cases es) (auto simp: s isAbs_def)
  then show ?thesis using s by (auto simp: path_join_def clean_def isAbs_def)
qed

text \<open>
  C10. Success is earned. When \<open>Execute\<close> returns no error, the request passed validation, the command ran
  through the named Podman pipe, ended in time with status 0 and untruncated output, its evidence is
  the recorded one, exactly one new directory appeared under the output root, it is the recorded job
  directory, its lock file names the requested invocation, and the GPUs were released.
\<close>

theorem Execute_success_evidence:
  assumes "Execute reserve release action env request w = Some ((result, None), w')"
    and "\<forall>es. ee_after env = Inr es \<longrightarrow> distinct (map fst es)"
  shows "validate (ee_marshal env) action request = None \<and> er_Released result \<and> run_succeeded env request result \<and>
    (\<exists>before after name invocation. snapshotJobDirectories (ee_before env) = Inr before \<and>
       snapshotJobDirectories (ee_after env) = Inr after \<and> set after - set before = {name} \<and>
       prov_JobDirectory (er_Provenance result) = path_join [req_OutputRoot request, name] \<and>
       ee_read_lock env (path_join [path_join [req_OutputRoot request, name], JobLockFilename]) = Inr (Inr invocation) \<and>
       lockInvocationsMatch (req_LockInvocation request) invocation)"
proof -
  note s = Execute_None [OF assms(1)]
  then obtain before after job candidates where b: "snapshotJobDirectories (ee_before env) = Inr before"
    and a: "snapshotJobDirectories (ee_after env) = Inr after"
    and v: "validateNewJob (ee_read_lock env) request before after = (job, candidates, None)"
    and j: "job \<noteq> [] \<longrightarrow> prov_JobDirectory (er_Provenance result) = job"
    by (auto simp: job_verified_def)
  have "distinct after"
    using a assms(2) by (auto simp: snapshotJobDirectories_def distinct_map_filter split: sum.splits)
  from validateNewJob_None [OF v this] obtain name invocation
    where n: "set after - set before = {name}" "job = path_join [req_OutputRoot request, name]"
      "ee_read_lock env (path_join [job, JobLockFilename]) = Inr (Inr invocation)"
      "lockInvocationsMatch (req_LockInvocation request) invocation" by blast
  have "validate (ee_marshal env) action request = None" using s by (elim conjE)
  then have "isAbs (req_OutputRoot request)" by (intro validateOutputRootPath_abs validate_None(1))
  then have "job \<noteq> []" using n(2) path_join_abs by simp
  with s b a n j show ?thesis by blast
qed

section \<open>The order of effects\<close>

fun lease_event :: "eval_event \<Rightarrow> bool" where
  "lease_event (Reserved _) = True"
| "lease_event (Started _ _) = True"
| "lease_event (ReleaseTried _) = True"
| "lease_event _ = False"

definition bracketed :: "eval_event list \<Rightarrow> bool" where
  "bracketed ev \<longleftrightarrow>
     (\<nexists>e. e \<in> set ev \<and> lease_event e) \<or>
     (\<exists>lease middle b. filter lease_event ev = Reserved lease # middle @ [ReleaseTried b] \<and>
        (middle = [] \<or> (\<exists>c args. middle = [Started c args])))"

definition starts :: "eval_event list \<Rightarrow> bool" where
  "starts ev \<longleftrightarrow> (\<exists>c args. Started c args \<in> set ev)"

lemma run_leased_trace:
  "run_leased env request devices inventory result w = (out, started, w') \<Longrightarrow>
     ew_store w' = ew_store w \<and> ew_fs w' = ew_fs w \<and>
     (if started then \<exists>c args. ew_trace w' = ew_trace w @ [Started c args] else ew_trace w' = ew_trace w)"
  by (auto simp: run_leased_def log_event_def Let_def split: sum.splits option.splits prod.splits)

lemma run_locked_trace:
  assumes "run_locked reserve release action env request result w = Some (out, started, w')"
  shows "\<exists>ev. ew_trace w' = ew_trace w @ ev \<and> (started \<longleftrightarrow> starts ev) \<and>
    (ev = [] \<or> (\<exists>l m b. ev = Reserved l # m @ [ReleaseTried b] \<and> (m = [] \<or> (\<exists>c args. m = [Started c args]))))"
  using assms
proof (cases rule: run_locked_cases)
  case (leased devices inventory lease store1 result1 out1 w2 relErr store2)
  from run_leased_trace [OF leased(3)] leased(6) show ?thesis
    by (auto simp: log_event_def starts_def split: if_splits)
qed (auto simp: starts_def)

lemma unlock_output_trace:
  "unlock_output env root owned started out w = (out', w') \<Longrightarrow>
     ew_store w' = ew_store w \<and>
     (\<exists>ev. ew_trace w' = ew_trace w @ OutputUnlocked # ev \<and> (ev = [] \<or> \<not> started \<and> (\<exists>b. ev = [RootCleanup b])))"
  by (auto simp: unlock_output_def log_event_def Let_def split: option.splits if_splits prod.splits)

lemma failPrepared_trace:
  "failPreparedOutputRoot env root owned result cause w = (out, w') \<Longrightarrow>
     ew_store w' = ew_store w \<and> (\<exists>ev. ew_trace w' = ew_trace w @ ev \<and> (ev = [] \<or> (\<exists>b. ev = [RootCleanup b])))"
  by (auto simp: failPreparedOutputRoot_def log_event_def Let_def split: option.splits if_splits prod.splits)

lemma run_coordinated_trace:
  assumes "run_coordinated reserve release action env request result w = Some (out, w')"
  shows "\<exists>ev. ew_trace w' = ew_trace w @ ev \<and> bracketed ev \<and> (\<forall>b. RootCleanup b \<in> set ev \<longrightarrow> \<not> starts ev) \<and>
    (\<forall>l. Reserved l \<in> set ev \<longrightarrow> OutputUnlocked \<in> set ev)"
  using assms
proof (cases rule: run_coordinated_cases)
  case (root e r fs1)
  then show ?thesis by (auto simp: bracketed_def)
next
  case (prepared root owned result' cause fs')
  from failPrepared_trace [OF prepared(2)] show ?thesis by (auto simp: bracketed_def starts_def)
next
  case (locked root owned result' fs' out1 started w3)
  from run_locked_trace [OF locked(2)] obtain ev1 where ev1: "ew_trace w3 = ew_trace w @ ev1" "started \<longleftrightarrow> starts ev1"
    "ev1 = [] \<or> (\<exists>l m b. ev1 = Reserved l # m @ [ReleaseTried b] \<and> (m = [] \<or> (\<exists>c args. m = [Started c args])))" by auto
  from unlock_output_trace [OF locked(3)] obtain ev2 where ev2: "ew_trace w' = ew_trace w3 @ OutputUnlocked # ev2"
    "ev2 = [] \<or> \<not> started \<and> (\<exists>b. ev2 = [RootCleanup b])" by auto
  have "bracketed (ev1 @ OutputUnlocked # ev2)" using ev1(3) ev2(2) by (auto simp: bracketed_def)
  moreover have "\<forall>b. RootCleanup b \<in> set (ev1 @ OutputUnlocked # ev2) \<longrightarrow> \<not> starts (ev1 @ OutputUnlocked # ev2)"
    using ev1(2,3) ev2(2) by (auto simp: starts_def)
  ultimately show ?thesis using ev1(1) ev2(1) by (intro exI [of _ "ev1 @ OutputUnlocked # ev2"]) simp
qed


section \<open>Reservations are given back\<close>

lemma apply_release_Released: "er_Released (fst (apply_release e out)) \<longleftrightarrow> e = None"
  by (cases out) (auto simp: apply_release_def Let_def split: option.splits)

lemma failEvaluation_Released [simp]: "er_Released (fst (failEvaluation result e)) = er_Released result"
  by (simp add: failEvaluation_def split: option.splits)

lemma unlock_output_Released:
  "unlock_output env root owned started out w = (out', w') \<Longrightarrow> er_Released (fst out') = er_Released (fst out)"
  by (cases out) (auto simp: unlock_output_def Let_def failEvaluation_def split: option.splits if_splits prod.splits)

text \<open>What \<open>Execute\<close> does to the reservation store: nothing, a refused reservation, or a reservation and its release.\<close>

lemma Execute_store [consumes 2, case_names untouched refused leased]:
  assumes "Execute reserve release action env request w = Some ((result, err), w')"
    and "r = reserve (fst (ee_reserve env)) (requestedUUIDs (req_GPUBindings request)) (req_ManifestSHA256 request)
           (sint (act_ReservationTTL action)) (snd (ee_reserve env)) (ew_store w)"
  obtains "ew_store w' = ew_store w"
  | e where "r = Some (Inl e, ew_store w')"
  | lease store1 relErr where "r = Some (Inr lease, store1)"
      and "release (fst (ee_release env)) lease (snd (ee_release env)) store1 = Some (relErr, ew_store w')"
      and "er_Released result \<longleftrightarrow> relErr = None"
  using assms(1)
proof (cases rule: Execute_cases)
  case (early e result fs')
  then show thesis using that(1) by simp
next
  case (coordinated result0 fs' w3)
  from coordinated(3) show thesis
  proof (cases rule: run_coordinated_cases)
    case (root e r fs1)
    then show thesis using that(1) coordinated(4) by (simp add: log_event_def)
  next
    case (prepared root owned result' cause fs')
    then show thesis using that(1) coordinated(4) failPrepared_trace [OF prepared(2)] by (simp add: log_event_def)
  next
    case (locked root owned result' fs'' out1 started w4)
    have st: "ew_store w' = ew_store w4" and rel: "er_Released result = er_Released (fst out1)"
      using unlock_output_trace [OF locked(3)] unlock_output_Released [OF locked(3)] coordinated(4) by (simp_all add: log_event_def)
    from locked(2) show thesis
    proof (cases rule: run_locked_cases)
      case (inventory e)
      then show thesis using that(1) st by simp
    next
      case (refused e store')
      then show thesis using that(2) st assms(2) by simp
    next
      case (leased devices inventory lease store1 result1 out2 w2 relErr store2)
      then show thesis
        using that(3) st rel assms(2) run_leased_trace [OF leased(3)] apply_release_Released [of relErr out2]
        by (simp add: log_event_def)
    qed
  qed
qed

context lease_store
begin

text \<open>A reservation followed by its release is invisible afterwards.\<close>

lemma reserve_release_invisible:
  assumes "ok s" and "reserve env uuids owner ttl now s = Some (Inr lease, s1)"
    and "release env' lease now' s1 = Some (None, s2)" and "now \<le> now'" and "now' \<le> t"
  shows "view s2 t u = view s t u"
proof -
  note g = reserve_granted [OF assms(1,2)]
  then have r: "\<forall>u. view s2 now' u = (if u \<in> set uuids then None else view s1 now' u)"
    using release_done [OF _ assms(3)] by simp
  have s1: "view s1 now' u = view s now' u" if "u \<notin> set uuids"
    using view_expiry [OF assms(4), of s1 u] view_expiry [OF assms(4), of s u] g that by simp
  have "view s now' u = None" if "u \<in> set uuids"
    using view_expiry [OF assms(4), of s u] g that by simp
  with r s1 have "view s2 now' u = view s now' u" by auto
  then show ?thesis using view_expiry [OF assms(5), of s2 u] view_expiry [OF assms(5), of s u] by simp
qed

lemma Execute_invisible:
  assumes "Execute reserve release action env request w = Some ((result, err), w')" and "ok (ew_store w)"
    and "er_Released result" and "snd (ee_reserve env) \<le> snd (ee_release env)" and "snd (ee_release env) \<le> t"
  shows "view (ew_store w') t u = view (ew_store w) t u"
  using assms(1) refl
proof (cases rule: Execute_store)
  case (refused e)
  then show ?thesis using reserve_refused [OF refused] by simp
next
  case (leased lease store1 relErr)
  with assms(3) have "relErr = None" by simp
  from reserve_release_invisible [OF assms(2) leased(1) leased(2) [unfolded this] assms(4,5)] show ?thesis .
qed simp

end

section \<open>A complete run\<close>

definition sample_env :: "reservation_env eval_env" where
  "sample_env =
     \<lparr>ee_fault = no_fault, ee_locks = free_locks, ee_AvailableSpace = (\<lambda>_. Inr 1000),
      ee_Inventory = (inv_Devices (sample_inventory ScopeWindowsHost [] [sample_device ''Ampere'' ''8.6'' ''13.1'']), [], None),
      ee_Inspect = (\<lambda>request _. Inr
        \<lparr>insp_Provider = BackendPodman, insp_PodmanPipe = req_PodmanPipe request, insp_Toolkit = ''12.8'',
         insp_ToolkitRoot = ''/opt/cuda'', insp_ToolkitExecutable = ''/opt/cuda/bin/nvcc'',
         insp_Devices = [sample_device ''Ampere'' ''8.6'' ''13.1''],
         insp_CDIDevices = expandCDIDevices ''nvidia.com/gpu=all'' (sample_inventory ScopeWindowsHost [] [sample_device [] [] []])\<rparr>),
      ee_Run = (\<lambda>environment command args. (zero_CommandResult, None)),
      ee_before = Inr [], ee_after = Inr [(''job-1'', True), (''notes.txt'', False)],
      ee_read_lock = (\<lambda>p. Inr (Inr [''harbor'', ''run''])),
      ee_reserve = (quiet_env [10, 11], 0), ee_release = (quiet_env [], 50),
      ee_marshal = sample_marshal, ee_sha256 = (\<lambda>s. [length s mod 256]), ee_utf8 = (\<lambda>s. s)\<rparr>"

definition sample_world :: "state_file eval_world" where
  "sample_world = \<lparr>ew_fs = sample_fs, ew_store = None, ew_trace = []\<rparr>"

definition sample_devices :: "UUID \<rightharpoonup> Device" where
  "sample_devices = [gpu_a \<mapsto> hd (inv_Devices (sample_inventory ScopeWindowsHost [] [sample_device ''Ampere'' ''8.6'' ''13.1'']))]"

definition sample_inspection :: EvaluationInspection where
  "sample_inspection = projr (ee_Inspect sample_env sample_request None)"

lemma sample_validate: "validate (ee_marshal sample_env) sample_action sample_request = None"
  by code_simp

lemma sample_parent: "prepareOutputRootParent no_fault ''/data/out'' sample_fs = Some (None, sample_fs)"
  by code_simp

definition sample_fs2 :: filesystem where
  "sample_fs2 = fs_add ''/data/.out.nanovms-evaluation.coordinator.lock'' RegularFile sample_fs"

definition sample_fs3 :: filesystem where
  "sample_fs3 = fs_add ''/data/out'' Directory sample_fs2"

definition sample_fs4 :: filesystem where
  "sample_fs4 = fs_add ''/data/out/.nanovms-evaluation.lock'' RegularFile sample_fs3"

definition sample_root :: preparedOutputRoot where
  "sample_root = \<lparr>root_path = ''/data/out'', root_created = True, root_identity = Some \<lparr>fi_id = 4, fi_kind = Directory\<rparr>\<rparr>"

lemma sample_coordinator:
  "lockOutputRootCoordinator no_fault free_locks ''/data/out'' sample_fs =
     Some ((\<lparr>lock_acquired = True, lock_ownedIdentity = Some \<lparr>fi_id = 3, fi_kind = RegularFile\<rparr>\<rparr>, None), sample_fs2)"
  by code_simp

lemma sample_prepare: "prepareOutputRoot no_fault ''/data/out'' True sample_fs2 = Some ((sample_root, None), sample_fs3)"
  by code_simp

lemma sample_lock:
  "lockOutputRoot no_fault free_locks (root_path sample_root) sample_fs3 =
     Some ((\<lparr>lock_acquired = True, lock_ownedIdentity = Some \<lparr>fi_id = 5, fi_kind = RegularFile\<rparr>\<rparr>, None), sample_fs4)"
  by code_simp

lemma sample_uuid: "uuid_Validate ''GPU-8d337a84-43de-158d-7526-7175288a6064'' = None"
  by code_simp

lemma sample_inventory_resolved: "resolveInventory (ee_Inventory sample_env) sample_request = Inr (sample_devices, None)"
proof -
  have "foldE index_device (fst (ee_Inventory sample_env)) Map.empty = Inr sample_devices"
    using sample_uuid by (simp add: sample_env_def index_device_def sample_devices_def sample_inventory_def sample_device_def gpu_a_def)
  moreover have "checkE (check_declared sample_devices (req_WSLDistribution sample_request) (req_Artifact sample_request))
      (man_GPUs (req_ResourceManifest sample_request)) = None" by code_simp
  ultimately show ?thesis by (simp add: resolveInventory_def sample_env_def del: checkE_None_iff)
qed

definition lease_0a0b :: ReservationLease where
  "lease_0a0b = \<lparr>lease_Token = ''0a0b'', lease_Owner = req_ManifestSHA256 sample_request, lease_UUIDs = [gpu_a],
     lease_ExpiresAt = 100000000000\<rparr>"

lemma sample_reserved:
  "Reserve sample_store (quiet_env [10, 11]) (requestedUUIDs (req_GPUBindings sample_request)) (req_ManifestSHA256 sample_request)
     (sint (act_ReservationTTL sample_action)) 0 None = Some (Inr lease_0a0b, sample_file [(gpu_a, lease_record lease_0a0b)])"
  by code_simp

lemma sample_released:
  "Release sample_store (quiet_env []) lease_0a0b 50 (sample_file [(gpu_a, lease_record lease_0a0b)]) = Some (None, sample_file [])"
  by code_simp

lemma sample_inspected: "validateInspection sample_request sample_inspection sample_devices = None"
  by code_simp

lemma sample_job:
  "validateNewJob (ee_read_lock sample_env) sample_request [] [''job-1''] = (''/data/out/job-1'', [''/data/out/job-1''], None)"
  by code_simp

lemma sample_judge:
  "\<exists>r. judge_run sample_env sample_request [] zero_CommandResult None result = (r, None)"
  using sample_job
  by (simp add: judge_run_def snapshotJobDirectories_def sample_env_def zero_CommandResult_def)

lemma sample_leased:
  "\<exists>r. run_leased sample_env sample_request sample_devices None result w =
     ((r, None), True, log_event (Started ''/usr/bin/harbor'' [''run'']) w)"
proof -
  have "ee_Inspect sample_env sample_request None = Inr sample_inspection"
    by (simp add: sample_inspection_def sample_env_def)
  moreover have "ee_before sample_env = Inr []" "\<And>e c a. ee_Run sample_env e c a = (zero_CommandResult, None)"
    by (simp_all add: sample_env_def)
  moreover have "command_line sample_request = (''/usr/bin/harbor'', [''run''])"
    by (simp add: command_line_def sample_request_def)
  ultimately show ?thesis
    using sample_judge by (simp add: run_leased_def snapshotJobDirectories_def sample_inspected Let_def)
qed

lemma sample_locked:
  assumes "ew_store w = None"
  shows "\<exists>r w'. run_locked (Reserve sample_store) (Release sample_store) sample_action sample_env sample_request result w =
    Some ((r, None), True, w') \<and>
    ew_trace w' = ew_trace w @ [Reserved lease_0a0b, Started ''/usr/bin/harbor'' [''run''], ReleaseTried True]"
proof -
  have "ee_reserve sample_env = (quiet_env [10, 11], 0)" "ee_release sample_env = (quiet_env [], 50)"
    by (simp_all add: sample_env_def)
  then show ?thesis
    using assms sample_leased [of "update_prov (\<lambda>p. p\<lparr>prov_ReservationToken := lease_Token lease_0a0b, prov_ReservationExpiresAt :=
          (if lease_ExpiresAt lease_0a0b = zero_time then None else Some (lease_ExpiresAt lease_0a0b))\<rparr>) (result\<lparr>er_Released := False\<rparr>)"
        "log_event (Reserved lease_0a0b) (w\<lparr>ew_store := sample_file [(gpu_a, lease_record lease_0a0b)]\<rparr>)"]
    by (auto simp: run_locked_def sample_inventory_resolved sample_reserved release_deferred_def sample_released
        log_event_def apply_release_def Let_def)
qed

lemma sample_execution:
  "\<exists>r w'. Execute (Reserve sample_store) (Release sample_store) sample_action sample_env sample_request sample_world =
    Some ((r, None), w') \<and>
    ew_trace w' = [Reserved lease_0a0b, Started ''/usr/bin/harbor'' [''run''], ReleaseTried True, OutputUnlocked, CoordinatorUnlocked]"
proof -
  have e: "ee_fault sample_env = no_fault" "ee_locks sample_env = free_locks" "\<And>p. ee_AvailableSpace sample_env p = Inr 1000"
    "req_OutputRoot sample_request = ''/data/out''" by (simp_all add: sample_env_def sample_request_def)
  let ?w = "sample_world\<lparr>ew_fs := sample_fs4\<rparr>"
  let ?r = "update_prov (\<lambda>p. p\<lparr>prov_OutputRootAvailableBytes := Some 1000\<rparr>)
         (update_prov (\<lambda>p. p\<lparr>prov_OutputRootCreated := root_created sample_root\<rparr>)
           (attachRequestProvenance sample_request (newEvaluationResult sample_request)))"
  have "ew_store ?w = None" "ew_trace ?w = []" by (simp_all add: sample_world_def)
  with sample_locked [of ?w ?r] obtain r w3 where
    "run_locked (Reserve sample_store) (Release sample_store) sample_action sample_env sample_request ?r ?w = Some ((r, None), True, w3)"
    and "ew_trace w3 = [Reserved lease_0a0b, Started ''/usr/bin/harbor'' [''run''], ReleaseTried True]"
    by auto
  then show ?thesis
    by (auto simp: Execute_def run_coordinated_def sample_validate sample_parent sample_coordinator sample_prepare sample_lock e
        unlock_output_def log_event_def sample_world_def Let_def)
qed

lemma sample_execution_run:
  obtains result w' where "Execute (Reserve sample_store) (Release sample_store) sample_action sample_env sample_request sample_world =
    Some ((result, None), w')" and "ew_trace w' =
      [Reserved lease_0a0b, Started ''/usr/bin/harbor'' [''run''], ReleaseTried True, OutputUnlocked, CoordinatorUnlocked]"
  using sample_execution by blast

theorem Execute_success_evidence_witness:
  "\<exists>result w'. Execute (Reserve sample_store) (Release sample_store) sample_action sample_env sample_request sample_world =
     Some ((result, None), w') \<and> er_Released result \<and> run_succeeded sample_env sample_request result"
proof (rule sample_execution_run)
  fix result w'
  assume run: "Execute (Reserve sample_store) (Release sample_store) sample_action sample_env sample_request sample_world =
    Some ((result, None), w')"
  have "\<forall>es. ee_after sample_env = Inr es \<longrightarrow> distinct (map fst es)" by (simp add: sample_env_def)
  from Execute_success_evidence [OF run this] run show ?thesis by blast
qed


end
