(* ===== verification/Service_Lifecycle.thy ===== *)
theory Service_Lifecycle
  imports Toolkit_Inspector
begin

text \<open>
  The service lifecycle action, \<open>pkg/orchestrate/service_lifecycle.go\<close>: validation of the plan, one
  \<open>podman run\<close> per create intent in plan order, and the rollback that stops what was started. The
  command runner answers each call depending on the calls made so far, so the theory can speak of
  an engine that fails at any point; the calls are the log of the action.
\<close>

section \<open>The wire contract\<close>

definition ServiceLifecycleVersion :: string where "ServiceLifecycleVersion = ''nanovms.io/service-lifecycle/v1''"
definition PhenoComposeLifecycleSchema :: string where "PhenoComposeLifecycleSchema = ''phenocompose.lifecycle/v0''"
definition ServiceLifecycleCompositionDigestLabel :: string where
  "ServiceLifecycleCompositionDigestLabel = ''phenotype.io/composition-digest''"
definition ServiceLifecycleRunIDLabel :: string where "ServiceLifecycleRunIDLabel = ''phenotype.io/run-id''"

record ServiceLifecycleIntent =
  int_Phase :: string
  int_Service :: string
  int_Image :: string
  int_DependsOn :: "string list"

record ServiceDefinition =
  svc_Image :: string
  svc_DependsOn :: "string list"
  svc_Command :: "string list"
  svc_Environment :: "(string, string) gomap"
  svc_CPUMillis :: "32 word option"
  svc_MemoryBytes :: "64 word option"
  svc_GPUUUIDs :: "string list"

record ServiceLifecycleRequest =
  slr_Version :: string
  slr_SchemaVersion :: string
  slr_ManifestSHA256 :: string
  slr_RunID :: string
  slr_WSLDistribution :: string
  slr_PodmanPipe :: string
  slr_Order :: "string list"
  slr_Intents :: "ServiceLifecycleIntent list"
  slr_Services :: "(string, ServiceDefinition) gomap"

record ServiceLifecycleResult =
  sls_Version :: string
  sls_Success :: bool
  sls_ErrorCode :: string
  sls_ErrorMessage :: "go_error option"
  sls_Containers :: "(string, string) gomap"
  sls_EffectiveEngine :: string
  sls_ResolvedProvider :: string
  sls_PodmanPipe :: string

section \<open>Operations\<close>

definition canonicalManifestDigest :: "string \<Rightarrow> string result" where
  "canonicalManifestDigest val =
     (if length val \<noteq> 64 then Inl (Errorf ''manifest_sha256 must be a 64-character digest'' [])
      else if val \<noteq> toLower val then Inl (Errorf ''manifest_sha256 must use lowercase hexadecimal'' [])
      else case hexDecode val of
        None \<Rightarrow> Inl (Errorf ''manifest_sha256 must be lowercase hexadecimal'' [])
      | Some _ \<Rightarrow> Inr (''sha256:'' @ val))"

definition validateServiceLifecycleRequest :: "ServiceLifecycleRequest \<Rightarrow> go_error option" where
  "validateServiceLifecycleRequest request =
     (if slr_Version request \<noteq> ServiceLifecycleVersion
      then Some (evaluationError CodeInvalidRequest ''unsupported service lifecycle version %q'' [AStr (slr_Version request)])
      else if slr_SchemaVersion request \<noteq> PhenoComposeLifecycleSchema
      then Some (evaluationError CodeInvalidRequest ''unsupported lifecycle schema %q'' [AStr (slr_SchemaVersion request)])
      else case canonicalManifestDigest (slr_ManifestSHA256 request) of
        Inl err \<Rightarrow> Some (evaluationError CodeInvalidRequest ''%v'' [AErr err])
      | Inr _ \<Rightarrow>
          if trimSpace (slr_RunID request) = []
          then Some (evaluationError CodeInvalidRequest ''run_id must not be empty'' [])
          else if trimSpace (slr_PodmanPipe request) = []
          then Some (evaluationError CodeInvalidPodmanPipe ''podman_pipe must not be empty'' [])
          else if slr_Intents request = [] \<or> slr_Services request = []
          then Some (evaluationError CodeInvalidRequest ''lifecycle plan must include intents and services'' [])
          else None)"

text \<open>\<open>fmt.Sprintf("%.3f", float64(m)/1000.0)\<close>: three decimals of a quotient by a thousand are exact.\<close>

definition cpus :: "32 word \<Rightarrow> string" where
  "cpus m = (let n = unat m; r = n mod 1000 in
     decimal (n div 1000) @ ''.'' @ decimal (r div 100) @ decimal (r div 10 mod 10) @ decimal (r mod 10))"

text \<open>The arguments of \<open>podman run\<close>; the environment comes in the order the map is ranged over.\<close>

definition spawn_args :: "ServiceLifecycleRequest \<Rightarrow> string \<Rightarrow> string \<Rightarrow> ServiceDefinition \<Rightarrow> string list" where
  "spawn_args request digest serviceName service =
     [''run'', ''--detach'', ''--name'', slr_RunID request @ ''-'' @ serviceName,
      ''--label'', ServiceLifecycleCompositionDigestLabel @ ''='' @ digest,
      ''--label'', ServiceLifecycleRunIDLabel @ ''='' @ slr_RunID request] @
     concat (map (\<lambda>(key, val). [''--env'', key @ ''='' @ val]) (svc_Environment service)) @
     (case svc_CPUMillis service of None \<Rightarrow> [] | Some m \<Rightarrow> [''--cpus'', cpus m]) @
     (case svc_MemoryBytes service of None \<Rightarrow> [] | Some b \<Rightarrow> [''--memory'', decimal (unat b)]) @
     concat (map (\<lambda>uuid. [''--device'', ''nvidia.com/gpu='' @ uuid]) (svc_GPUUUIDs service)) @
     [svc_Image service] @ svc_Command service"

text \<open>The log of \<open>podman\<close> calls, by their arguments; the runner sees the calls before its own.\<close>

type_synonym calls = "string list list"
type_synonym service_runner = "calls \<Rightarrow> inspection_runner"

definition podman :: "service_runner \<Rightarrow> ServiceLifecycleRequest \<Rightarrow> calls \<Rightarrow> string list \<Rightarrow> CommandResult \<times> go_error option" where
  "podman runner request log args =
     inspector_runWithEnv (runner log) (slr_WSLDistribution request)
       [(''DOCKER_HOST'', slr_PodmanPipe request)] ''podman'' args"

text \<open>What \<open>spawn\<close> makes of the answer to \<open>podman run\<close>.\<close>

definition spawn_verdict :: "string \<Rightarrow> CommandResult \<times> go_error option \<Rightarrow> string result" where
  "spawn_verdict serviceName answer =
     (case answer of
        (_, Some err) \<Rightarrow> Inl (evaluationError CodeActionFailed ''podman run failed for %q: %v'' [AStr serviceName, AErr err])
      | (result, None) \<Rightarrow>
          if res_ExitCode result \<noteq> 0
          then Inl (evaluationError CodeActionFailed ''podman run for %q exited %d: %s''
                 [AStr serviceName, AInt (res_ExitCode result), AStr (trimSpace (res_Stderr result))])
          else let ident = trimSpace (res_Stdout result) in
            if ident = []
            then Inl (evaluationError CodeActionFailed ''podman run for %q succeeded without a container ID'' [AStr serviceName])
            else Inr ident)"

definition spawn ::
  "service_runner \<Rightarrow> ServiceLifecycleRequest \<Rightarrow> string \<Rightarrow> ServiceDefinition \<Rightarrow> calls \<Rightarrow> string result \<times> calls" where
  "spawn runner request serviceName service log =
     (if trimSpace (svc_Image service) = []
      then (Inl (evaluationError CodeInvalidRequest ''service %q image must not be empty'' [AStr serviceName]), log)
      else case canonicalManifestDigest (slr_ManifestSHA256 request) of
        Inl err \<Rightarrow> (Inl (evaluationError CodeInvalidRequest ''%v'' [AErr err]), log)
      | Inr digest \<Rightarrow>
          let args = spawn_args request digest serviceName service in
          (spawn_verdict serviceName (podman runner request log args), log @ [args]))"

text \<open>The answers to the \<open>stop\<close> calls are dropped.\<close>

definition rollback :: "string list \<Rightarrow> calls \<Rightarrow> calls" where
  "rollback containerIDs log = fold (\<lambda>ident log. log @ [[''stop'', ident]]) (rev containerIDs) log"

definition failServiceLifecycle ::
  "ServiceLifecycleResult \<Rightarrow> go_error \<Rightarrow> ServiceLifecycleResult \<times> go_error option" where
  "failServiceLifecycle result err =
     ((case errors_as err of
         Some (code, inner) \<Rightarrow> result\<lparr>sls_Success := False, sls_ErrorCode := code, sls_ErrorMessage := Some inner\<rparr>
       | None \<Rightarrow> result\<lparr>sls_Success := False, sls_ErrorCode := CodeEvaluationFailed, sls_ErrorMessage := Some err\<rparr>),
      Some err)"

text \<open>The loop over the intents.\<close>

fun run_intents ::
  "service_runner \<Rightarrow> ServiceLifecycleRequest \<Rightarrow> ServiceLifecycleIntent list \<Rightarrow> ServiceLifecycleResult \<Rightarrow> string list \<Rightarrow>
     calls \<Rightarrow> (ServiceLifecycleResult \<times> go_error option) \<times> calls" where
  "run_intents runner request [] result created log = ((result\<lparr>sls_Success := True\<rparr>, None), log)"
| "run_intents runner request (intent # rest) result created log =
     (if int_Phase intent \<noteq> ''create'' then run_intents runner request rest result created log
      else case map_of (slr_Services request) (int_Service intent) of
        None \<Rightarrow>
          (failServiceLifecycle result (evaluationError CodeInvalidRequest
             ''lifecycle intent references unknown service %q'' [AStr (int_Service intent)]), rollback created log)
      | Some service \<Rightarrow>
          (case spawn runner request (int_Service intent) service log of
             (Inl err, log') \<Rightarrow> (failServiceLifecycle result err, rollback created log')
           | (Inr containerID, log') \<Rightarrow>
               run_intents runner request rest
                 (result\<lparr>sls_Containers := AList.update (int_Service intent) containerID (sls_Containers result)\<rparr>)
                 (created @ [containerID]) log'))"

definition initial_lifecycle_result :: "ServiceLifecycleRequest \<Rightarrow> ServiceLifecycleResult" where
  "initial_lifecycle_result request =
     \<lparr>sls_Version = ServiceLifecycleVersion, sls_Success = False, sls_ErrorCode = [], sls_ErrorMessage = None,
      sls_Containers = [], sls_EffectiveEngine = EffectiveEnginePodman, sls_ResolvedProvider = EffectiveEnginePodman,
      sls_PodmanPipe = slr_PodmanPipe request\<rparr>"

definition ServiceLifecycle_Execute ::
  "service_runner option \<Rightarrow> ServiceLifecycleRequest \<Rightarrow> (ServiceLifecycleResult \<times> go_error option) \<times> calls" where
  "ServiceLifecycle_Execute action request =
     (let result = initial_lifecycle_result request in
      case validateServiceLifecycleRequest request of
        Some err \<Rightarrow> (failServiceLifecycle result err, [])
      | None \<Rightarrow>
        (case action of
           None \<Rightarrow> (failServiceLifecycle result (evaluationError CodeInspectionFailed
               ''service lifecycle runner is not configured'' []), [])
         | Some runner \<Rightarrow>
           (let info = [''info'', ''--format'', ''json''] in
            case podman runner request [] info of
              (_, Some err) \<Rightarrow> (failServiceLifecycle result (evaluationError CodeInspectionFailed
                  ''Podman inspection failed: %v'' [AErr err]), [info])
            | (_, None) \<Rightarrow> run_intents runner request (slr_Intents request) result [] [info])))"

section \<open>All services run, or none is left running\<close>

text \<open>The plan: one call per create intent, in order.\<close>

definition creates :: "ServiceLifecycleRequest \<Rightarrow> string list" where
  "creates request = map int_Service (filter (\<lambda>i. int_Phase i = ''create'') (slr_Intents request))"

definition planned_call :: "ServiceLifecycleRequest \<Rightarrow> string \<Rightarrow> string list" where
  "planned_call request name =
     spawn_args request (''sha256:'' @ slr_ManifestSHA256 request) name (the (map_of (slr_Services request) name))"

definition stop_calls :: "string list \<Rightarrow> calls" where
  "stop_calls containerIDs = map (\<lambda>ident. [''stop'', ident]) (rev containerIDs)"

text \<open>The containers that a stretch of calls started, by the answers of the runner alone.\<close>

definition is_started :: "string list \<Rightarrow> CommandResult \<times> go_error option \<Rightarrow> bool" where
  "is_started args answer \<longleftrightarrow> hd args = ''run'' \<and> snd answer = None \<and>
     res_ExitCode (fst answer) = 0 \<and> trimSpace (res_Stdout (fst answer)) \<noteq> []"

fun started_by :: "service_runner \<Rightarrow> ServiceLifecycleRequest \<Rightarrow> calls \<Rightarrow> calls \<Rightarrow> string list" where
  "started_by runner request log [] = []"
| "started_by runner request log (args # rest) =
     (let answer = podman runner request log args in
      (if is_started args answer then [trimSpace (res_Stdout (fst answer))] else []) @
      started_by runner request (log @ [args]) rest)"

lemma rollback_log: "rollback ids log = log @ stop_calls ids"
proof -
  have "fold (\<lambda>ident log. log @ [[''stop'', ident]]) xs log = log @ map (\<lambda>ident. [''stop'', ident]) xs" for xs
    by (induction xs arbitrary: log) auto
  then show ?thesis by (simp add: rollback_def stop_calls_def)
qed

lemma canonicalManifestDigest_Inr: "canonicalManifestDigest val = Inr digest \<Longrightarrow> digest = ''sha256:'' @ val"
  by (auto simp: canonicalManifestDigest_def split: if_splits option.splits)

lemma spawn_verdict_started:
  "hd args = ''run'' \<Longrightarrow> (case spawn_verdict name answer of Inl _ \<Rightarrow> \<not> is_started args answer
     | Inr ident \<Rightarrow> is_started args answer \<and> ident = trimSpace (res_Stdout (fst answer)))"
  by (auto simp: spawn_verdict_def is_started_def Let_def split: prod.splits option.splits)

lemma spawn_cases:
  assumes "spawn runner request name service log = (r, log')" and "map_of (slr_Services request) name = Some service"
  obtains (silent) e where "r = Inl e" and "log' = log"
  | (failed) e where "r = Inl e" and "log' = log @ [planned_call request name]"
      and "\<not> is_started (planned_call request name) (podman runner request log (planned_call request name))"
  | (running) ident where "r = Inr ident" and "log' = log @ [planned_call request name]"
      and "started_by runner request log [planned_call request name] = [ident]"
proof -
  let ?c = "planned_call request name"
  consider e where "r = Inl e" "log' = log"
    | "r = spawn_verdict name (podman runner request log ?c)" "log' = log @ [?c]"
  proof (cases "trimSpace (svc_Image service) = []")
    case True
    then show thesis using that(1) assms(1) by (auto simp: spawn_def)
  next
    case False
    then show thesis
    proof (cases "canonicalManifestDigest (slr_ManifestSHA256 request)")
      case (Inl e)
      with False show thesis using that(1) assms(1) by (auto simp: spawn_def)
    next
      case (Inr digest)
      with canonicalManifestDigest_Inr [OF Inr] False show thesis
        using that(2) assms by (simp add: spawn_def planned_call_def Let_def)
    qed
  qed
  then show thesis
  proof cases
    case 2
    moreover have "hd ?c = ''run''" by (simp add: planned_call_def spawn_args_def)
    ultimately show thesis
      using spawn_verdict_started [of ?c "podman runner request log ?c" name] that
      by (cases "spawn_verdict name (podman runner request log ?c)") (auto simp: Let_def)
  qed (use that in blast)
qed

lemma failServiceLifecycle_fails:
  "failServiceLifecycle result e = (result', err) \<Longrightarrow> \<not> sls_Success result' \<and> err = Some e"
  by (auto simp: failServiceLifecycle_def split: option.splits)

text \<open>What the loop adds to the log, and what it returns, when \<open>n\<close> of the planned calls are made.\<close>

definition intents_done ::
  "service_runner \<Rightarrow> ServiceLifecycleRequest \<Rightarrow> string list \<Rightarrow> (string, string) gomap \<Rightarrow> string list \<Rightarrow> calls \<Rightarrow>
     ServiceLifecycleResult \<Rightarrow> go_error option \<Rightarrow> calls \<Rightarrow> nat \<Rightarrow> bool" where
  "intents_done runner request names containers created log result' err log' n \<longleftrightarrow>
     (let ran = take n (map (planned_call request) names); ids = started_by runner request log ran in
      if err = None
      then length names \<le> n \<and> length ids = length names \<and> log' = log @ ran \<and> sls_Success result' \<and>
           sls_Containers result' = fold (\<lambda>(s, i). AList.update s i) (zip names ids) containers
      else log' = log @ ran @ stop_calls (created @ ids) \<and> \<not> sls_Success result')"

lemma run_intents_log:
  assumes "run_intents runner request intents result created log = ((result', err), log')"
  shows "\<exists>n. intents_done runner request (map int_Service (filter (\<lambda>i. int_Phase i = ''create'') intents))
    (sls_Containers result) created log result' err log' n"
  using assms
proof (induction intents arbitrary: result created log)
  case Nil
  then show ?case by (auto simp: intents_done_def)
next
  case (Cons intent rest)
  show ?case
  proof (cases "int_Phase intent = ''create''")
    case False
    with Cons show ?thesis by simp
  next
    case create: True
    let ?name = "int_Service intent" and ?names = "map int_Service (filter (\<lambda>i. int_Phase i = ''create'') rest)"
    have refused: ?thesis if "failServiceLifecycle result e = (result', err)" "log' = log @ ran @ stop_calls created"
      "ran = take n [planned_call request ?name]" "started_by runner request log ran = []" for e n ran
      using that create failServiceLifecycle_fails [OF that(1)]
      by (intro exI [of _ "min n 1"]) (cases n, auto simp: intents_done_def Let_def)
    show ?thesis
    proof (cases "map_of (slr_Services request) ?name")
      case None
      with Cons.prems create show ?thesis by (intro refused [of _ "[]" 0]) (auto simp: rollback_log)
    next
      case (Some service)
      obtain r log1 where sp: "spawn runner request ?name service log = (r, log1)" by (cases "spawn runner request ?name service log")
      from sp Some show ?thesis
      proof (cases rule: spawn_cases)
        case (silent e)
        with Cons.prems create Some sp show ?thesis by (intro refused [of e "[]" 0]) (auto simp: rollback_log)
      next
        case (failed e)
        with Cons.prems create Some sp show ?thesis
          by (intro refused [of e "[planned_call request ?name]" 1]) (auto simp: rollback_log Let_def)
      next
        case (running ident)
        with Cons.prems create Some sp have "run_intents runner request rest
            (result\<lparr>sls_Containers := AList.update ?name ident (sls_Containers result)\<rparr>) (created @ [ident]) log1 = ((result', err), log')"
          by simp
        from Cons.IH [OF this] obtain n where "intents_done runner request ?names
            (AList.update ?name ident (sls_Containers result)) (created @ [ident]) log1 result' err log' n"
          by auto
        with running create show ?thesis
          by (intro exI [of _ "Suc n"]) (auto simp: intents_done_def Let_def)
      qed
    qed
  qed
qed

lemma map_of_fold_zip:
  "length ks = length vs \<Longrightarrow> map_of (fold (\<lambda>(k, v). AList.update k v) (zip ks vs) m) = map_of m ++ map_of (rev (zip ks vs))"
proof (induction ks vs arbitrary: m rule: list_induct2)
  case (Cons k ks v vs)
  then show ?case by (auto simp: map_add_def fun_eq_iff split: option.splits)
qed simp

definition info_call :: "string list" where "info_call = [''info'', ''--format'', ''json'']"

lemma info_not_started [simp]: "\<not> is_started info_call answer"
  by (simp add: is_started_def info_call_def)

lemma started_by_info [simp]: "started_by runner request log (info_call # rest) = started_by runner request (log @ [info_call]) rest"
  by (simp add: Let_def)

text \<open>
  C5. A lifecycle plan is carried out completely or rolled back, wherever it fails. On success the calls
  are the inspection followed by one \<open>podman run\<close> per create intent in plan order, each of which started a
  container, and the result maps every created service to the container its last intent started. On an error the
  calls are a prefix of that plan followed by a \<open>podman stop\<close> for exactly the containers that were
  started, the latest first.
\<close>

theorem ServiceLifecycle_all_or_stopped:
  assumes "ServiceLifecycle_Execute (Some runner) request = ((result, err), calls)"
    and "plan = map (planned_call request) (creates request)"
  shows "if err = None
    then calls = info_call # plan \<and> sls_Success result \<and>
      (let ids = started_by runner request [] calls in
       length ids = length plan \<and> map_of (sls_Containers result) = map_of (rev (zip (creates request) ids)))
    else \<not> sls_Success result \<and>
      (\<exists>ran. (ran = [] \<or> (\<exists>n. ran = info_call # take n plan)) \<and>
         calls = ran @ stop_calls (started_by runner request [] ran))"
proof -
  have early: ?thesis if "failServiceLifecycle r e = (result, err)" "calls = take n [info_call]" for r e n
    using failServiceLifecycle_fails [OF that(1)] that(2)
    by (cases n) (auto simp: stop_calls_def Let_def intro!: exI [of _ "take n [info_call]"] exI [of _ 0])
  show ?thesis
  proof (cases "validateServiceLifecycleRequest request")
    case (Some e)
    then show ?thesis using assms(1) by (intro early [where n = 0]) (auto simp: ServiceLifecycle_Execute_def Let_def)
  next
    case None
    show ?thesis
    proof (cases "snd (podman runner request [] info_call)")
      case (Some e)
      then show ?thesis using assms(1) None
        by (intro early [where n = 1]) (auto simp: ServiceLifecycle_Execute_def info_call_def Let_def split: prod.splits)
    next
      case ok: None
      then have r: "run_intents runner request (slr_Intents request) (initial_lifecycle_result request) [] [info_call] = ((result, err), calls)"
        using assms(1) None by (auto simp: ServiceLifecycle_Execute_def info_call_def Let_def split: prod.splits)
      from run_intents_log [OF r] obtain n where
        n: "intents_done runner request (creates request) [] [] [info_call] result err calls n"
        by (auto simp: creates_def initial_lifecycle_result_def)
      show ?thesis
      proof (cases err)
        case None
        with n assms(2) show ?thesis by (auto simp: intents_done_def Let_def map_of_fold_zip)
      next
        case (Some e)
        with n assms(2) show ?thesis
          by (auto simp: intents_done_def Let_def intro!: exI [of _ "info_call # take n plan"])
      qed
    qed
  qed
qed

definition sample_service :: ServiceDefinition where
  "sample_service = \<lparr>svc_Image = ''nginx'', svc_DependsOn = [], svc_Command = [], svc_Environment = [(''A'', ''b'')],
     svc_CPUMillis = Some 1500, svc_MemoryBytes = None, svc_GPUUUIDs = []\<rparr>"

definition sample_lifecycle :: ServiceLifecycleRequest where
  "sample_lifecycle = \<lparr>slr_Version = ServiceLifecycleVersion, slr_SchemaVersion = PhenoComposeLifecycleSchema,
     slr_ManifestSHA256 = replicate 64 (CHR ''a''), slr_RunID = ''r'', slr_WSLDistribution = [], slr_PodmanPipe = ''p'', slr_Order = [],
     slr_Intents = [\<lparr>int_Phase = ''create'', int_Service = ''web'', int_Image = [], int_DependsOn = []\<rparr>,
                    \<lparr>int_Phase = ''create'', int_Service = ''db'', int_Image = [], int_DependsOn = []\<rparr>],
     slr_Services = [(''web'', sample_service), (''db'', sample_service)]\<rparr>"

text \<open>An engine that starts one container and then fails.\<close>

definition failing_engine :: service_runner where
  "failing_engine log = \<lparr>ir_Run = (\<lambda>_ _. (zero_CommandResult, None)), ir_RunWithEnv = Some (\<lambda>_ _ _.
     (if length log < 2 then zero_CommandResult\<lparr>res_Stdout := ''c1 ''\<rparr> else zero_CommandResult\<lparr>res_ExitCode := 125\<rparr>, None))\<rparr>"

lemma sample_rollback:
  "case ServiceLifecycle_Execute (Some failing_engine) sample_lifecycle of ((result, err), calls) \<Rightarrow>
     err \<noteq> None \<and> last calls = [''stop'', ''c1''] \<and> length calls = 4"
  by code_simp

theorem ServiceLifecycle_all_or_stopped_witness:
  "\<exists>result err calls ran. ServiceLifecycle_Execute (Some failing_engine) sample_lifecycle = ((result, err), calls) \<and>
     last calls = [''stop'', ''c1''] \<and> \<not> sls_Success result \<and>
     calls = ran @ stop_calls (started_by failing_engine sample_lifecycle [] ran)"
proof -
  obtain result err calls where x: "ServiceLifecycle_Execute (Some failing_engine) sample_lifecycle = ((result, err), calls)"
    by (metis surj_pair)
  with sample_rollback have "err \<noteq> None" "last calls = [''stop'', ''c1'']" by auto
  with ServiceLifecycle_all_or_stopped [OF x refl] x show ?thesis by auto
qed

end
