(* ===== verification/Tier_Registry.thy ===== *)
theory Tier_Registry
  imports Go_Prelude
begin

text \<open>
  The tier registry, \<open>pkg/tier/registry.go\<close>: adapters by name with a cache of their static metadata.
  An adapter is opaque here; its \<open>Info()\<close> is the argument \<open>info\<close>. A panic of \<open>MustRegister\<close> is \<open>Inl\<close>.
\<close>

record TierInfo =
  ti_Name :: string
  ti_Number :: int
  ti_DisplayName :: string
  ti_Description :: string
  ti_StartupMS :: int
  ti_MemoryMB :: int
  ti_Security :: string
  ti_Platforms :: "string list"
  ti_Workloads :: "string list"

record 'a Registry =
  reg_adapters :: "(string, 'a) gomap"
  reg_infoByName :: "(string, TierInfo) gomap"

definition NewRegistry :: "'a Registry" where
  "NewRegistry = \<lparr>reg_adapters = [], reg_infoByName = []\<rparr>"

definition Register :: "('a \<Rightarrow> TierInfo) \<Rightarrow> string \<Rightarrow> 'a option \<Rightarrow> 'a Registry \<Rightarrow> go_error option \<times> 'a Registry" where
  "Register info name adapter r =
     (if name = [] then (Some (Errorf ''tier: empty name'' []), r)
      else case adapter of
        None \<Rightarrow> (Some (Errorf ''tier %q: nil adapter'' [AStr name]), r)
      | Some a \<Rightarrow>
          if map_of (reg_adapters r) name \<noteq> None
          then (Some (Errorf ''tier %q: already registered'' [AStr name]), r)
          else (None, r\<lparr>reg_adapters := AList.update name a (reg_adapters r),
                        reg_infoByName := AList.update name (info a) (reg_infoByName r)\<rparr>))"

definition MustRegister :: "('a \<Rightarrow> TierInfo) \<Rightarrow> string \<times> 'a option \<Rightarrow> 'a Registry \<Rightarrow> 'a Registry result" where
  "MustRegister info entry r =
     (case Register info (fst entry) (snd entry) r of
        (Some err, _) \<Rightarrow> Inl err
      | (None, r') \<Rightarrow> Inr r')"

definition registered_names :: "'a Registry \<Rightarrow> string list" where
  "registered_names r = sort (map fst (reg_adapters r))"

definition joinNames :: "'a Registry \<Rightarrow> string" where
  "joinNames r = join (registered_names r) '', ''"

definition registry_Get :: "'a Registry \<Rightarrow> string \<Rightarrow> 'a result" where
  "registry_Get r name =
     (case map_of (reg_adapters r) name of
        None \<Rightarrow> Inl (Errorf ''tier %q: not found (registered: %s)'' [AStr name, AStr (joinNames r)])
      | Some a \<Rightarrow> Inr a)"

definition registry_List :: "'a Registry \<Rightarrow> string list" where
  "registry_List r = registered_names r"

definition registry_Names :: "'a Registry \<Rightarrow> string list" where
  "registry_Names r = registry_List r"

definition registry_Info :: "'a Registry \<Rightarrow> string \<Rightarrow> TierInfo option" where
  "registry_Info r = map_of (reg_infoByName r)"

definition registry_Has :: "'a Registry \<Rightarrow> string \<Rightarrow> bool" where
  "registry_Has r name = (map_of (reg_adapters r) name \<noteq> None)"

text \<open>The loop of \<open>RegisterAll\<close>: what was registered before the offending entry stays registered.\<close>

fun register_from ::
  "('a \<Rightarrow> TierInfo) \<Rightarrow> nat \<Rightarrow> (string \<times> 'a option) list \<Rightarrow> 'a Registry \<Rightarrow> go_error option \<times> 'a Registry" where
  "register_from info i [] r = (None, r)"
| "register_from info i ((name, adapter) # entries) r =
     (case Register info name adapter r of
        (Some err, r') \<Rightarrow>
          (Some (Errorf ''tier: RegisterAll entry %d (%q): %w'' [AInt (int i), AStr name, AWrap err]), r')
      | (None, r') \<Rightarrow> register_from info (Suc i) entries r')"

definition RegisterAll ::
  "('a \<Rightarrow> TierInfo) \<Rightarrow> (string \<times> 'a option) list \<Rightarrow> 'a Registry \<Rightarrow> go_error option \<times> 'a Registry" where
  "RegisterAll info entries r = register_from info 0 entries r"

definition platformMatches :: "string list \<Rightarrow> string \<Rightarrow> bool" where
  "platformMatches platforms platform = (platforms = [] \<or> platform \<in> set platforms)"

definition BySecurity :: "'a Registry \<Rightarrow> string \<Rightarrow> string list" where
  "BySecurity r security = sort (map fst (filter (\<lambda>(n, info). equalFold (ti_Security info) security) (reg_infoByName r)))"

definition ByPlatform :: "'a Registry \<Rightarrow> string \<Rightarrow> string list" where
  "ByPlatform r platform = sort (map fst (filter (\<lambda>(n, info). platformMatches (ti_Platforms info) platform) (reg_infoByName r)))"

definition ByStartup :: "'a Registry \<Rightarrow> int \<Rightarrow> string list" where
  "ByStartup r maxMS = sort (map fst (filter (\<lambda>(n, info). ti_StartupMS info \<le> maxMS) (reg_infoByName r)))"

text \<open>
  \<open>registerDefaultTiers\<close>: the names in order, on a host with the given \<open>GOOS\<close>; build tags decide on the three
  OS-gated tiers. The adapter constructors are the argument \<open>mk\<close>.
\<close>

definition os_gated_tiers :: "string \<Rightarrow> string list" where
  "os_gated_tiers goos = (if goos = ''freebsd'' then [''jail''] else []) @
     (if goos = ''openbsd'' then [''pledge''] else []) @ (if goos = ''darwin'' then [''sandboxexec''] else [])"

definition default_tier_names :: "string \<Rightarrow> string list" where
  "default_tier_names goos =
     [''wasm'', ''gvisor'', ''firecracker'', ''landlock'', ''seccomp'', ''native'', ''docker'', ''podman'', ''hyperkit'',
      ''applevz'', ''lima'', ''kvm'', ''qemu'', ''cloudhv'', ''crosvm'', ''kata'', ''youki'', ''systemdnspawn'', ''nitrorekf'',
      ''sev'', ''tdx'', ''kubevirt'', ''virtcontainers''] @ os_gated_tiers goos @
     [''gvisordocker'', ''wolfi'', ''distroless'', ''userns'']"

definition DefaultRegistry :: "('a \<Rightarrow> TierInfo) \<Rightarrow> (string \<Rightarrow> 'a) \<Rightarrow> string \<Rightarrow> 'a Registry result" where
  "DefaultRegistry info mk goos =
     foldE (MustRegister info) (map (\<lambda>name. (name, Some (mk name))) (default_tier_names goos)) NewRegistry"

section \<open>The cache follows the adapters\<close>

definition tier_registry_ok :: "('a \<Rightarrow> TierInfo) \<Rightarrow> 'a Registry \<Rightarrow> bool" where
  "tier_registry_ok info r \<longleftrightarrow> go_map (reg_adapters r) \<and> go_map (reg_infoByName r) \<and>
     (\<forall>n. map_of (reg_infoByName r) n = map_option info (map_of (reg_adapters r) n)) \<and> [] \<notin> fst ` set (reg_adapters r)"

lemma tier_registry_ok_New [simp]: "tier_registry_ok info NewRegistry"
  by (simp add: tier_registry_ok_def NewRegistry_def go_map_def)

lemma Register_cases:
  assumes "Register info name adapter r = (err, r')"
  obtains (failed) e where "err = Some e" and "r' = r" and "name = [] \<or> adapter = None \<or> map_of (reg_adapters r) name \<noteq> None"
  | (added) a where "err = None" and "adapter = Some a" and "name \<noteq> []" and "map_of (reg_adapters r) name = None"
      and "r' = r\<lparr>reg_adapters := AList.update name a (reg_adapters r),
                  reg_infoByName := AList.update name (info a) (reg_infoByName r)\<rparr>"
  using assms by (auto simp: Register_def split: if_splits option.splits)

lemma tier_registry_ok_Register:
  assumes "Register info name adapter r = (err, r')" and "tier_registry_ok info r"
  shows "tier_registry_ok info r'"
  using assms(1)
proof (cases rule: Register_cases)
  case (added a)
  with assms(2) show ?thesis
    by (auto simp: tier_registry_ok_def dom_update)
qed (use assms(2) in simp)

text \<open>A registry only ever grows, and an adapter once registered is never replaced.\<close>

lemma Register_extends: "Register info name adapter r = (err, r') \<Longrightarrow> map_of (reg_adapters r) \<subseteq>\<^sub>m map_of (reg_adapters r')"
  by (auto elim!: Register_cases simp: map_le_def)

lemma registry_Get_iff [simp]: "registry_Get r n = Inr a \<longleftrightarrow> map_of (reg_adapters r) n = Some a"
  by (simp add: registry_Get_def split: option.splits)

lemma registry_Has_iff: "registry_Has r n \<longleftrightarrow> (\<exists>a. registry_Get r n = Inr a)"
  by (simp add: registry_Has_def)

lemma registry_List_ok:
  assumes "tier_registry_ok info r"
  shows "sorted (registry_List r)" and "distinct (registry_List r)" and "set (registry_List r) = {n. registry_Has r n}"
  using assms map_of_eq_None_iff [of "reg_adapters r"]
  by (auto simp: registry_List_def registered_names_def tier_registry_ok_def go_map_def registry_Has_def)

text \<open>The queries over the cache select by the metadata of the registered adapters.\<close>

lemma set_query:
  assumes "tier_registry_ok info r"
  shows "set (sort (map fst (filter (\<lambda>(n, i). P i) (reg_infoByName r)))) = {n. \<exists>a. registry_Get r n = Inr a \<and> P (info a)}"
proof -
  have "(n, i) \<in> set (reg_infoByName r) \<longleftrightarrow> (\<exists>a. registry_Get r n = Inr a \<and> i = info a)" for n i
    using assms go_map_mem_iff [of "reg_infoByName r"] by (auto simp: tier_registry_ok_def)
  then show ?thesis by (force simp: image_iff)
qed

lemma pairs_fresh:
  "(\<forall>(n, b) \<in> E. P n b \<and> n \<noteq> k \<and> Q n) \<longleftrightarrow> k \<notin> fst ` E \<and> (\<forall>(n, b) \<in> E. P n b \<and> Q n)"
  by force

lemma register_from_ok:
  assumes "register_from info i entries r = (err, r')" and "tier_registry_ok info r"
  shows "tier_registry_ok info r' \<and> map_of (reg_adapters r) \<subseteq>\<^sub>m map_of (reg_adapters r') \<and>
    (err = None \<longrightarrow> (\<forall>(n, a) \<in> set entries. a \<noteq> None \<and> map_of (reg_adapters r') n = a)) \<and>
    (err = None \<longleftrightarrow> distinct (map fst entries) \<and>
       (\<forall>(n, a) \<in> set entries. n \<noteq> [] \<and> a \<noteq> None \<and> map_of (reg_adapters r) n = None))"
  using assms
proof (induction info i entries r rule: register_from.induct)
  case (2 info i name adapter entries r)
  obtain e r1 where reg: "Register info name adapter r = (e, r1)" by (cases "Register info name adapter r")
  note ok1 = tier_registry_ok_Register [OF reg "2.prems"(2)] and ext = Register_extends [OF reg]
  from reg show ?case
  proof (cases rule: Register_cases)
    case (failed e')
    with reg "2.prems" show ?thesis by auto
  next
    case (added a)
    with reg "2.prems" have rest: "register_from info (Suc i) entries r1 = (err, r')" by simp
    have r1: "map_of (reg_adapters r1) = (map_of (reg_adapters r))(name \<mapsto> a)" using added by simp
    from "2.IH" [OF reg [symmetric] added(1) rest ok1]
    have IH: "tier_registry_ok info r'" "map_of (reg_adapters r1) \<subseteq>\<^sub>m map_of (reg_adapters r')"
      "err = None \<longrightarrow> (\<forall>(n, a) \<in> set entries. a \<noteq> None \<and> map_of (reg_adapters r') n = a)"
      "err = None \<longleftrightarrow> distinct (map fst entries) \<and>
         (\<forall>(n, a) \<in> set entries. n \<noteq> [] \<and> a \<noteq> None \<and> map_of (reg_adapters r1) n = None)" by auto
    have "map_of (reg_adapters r') name = Some a" using IH(2) r1 by (auto simp: map_le_def dom_def split: if_splits)
    have fresh: "map_of (reg_adapters r1) n = None \<longleftrightarrow> n \<noteq> name \<and> map_of (reg_adapters r) n = None" for n
      by (simp add: r1)
    have "(\<forall>(n, b) \<in> set entries. n \<noteq> [] \<and> b \<noteq> None \<and> map_of (reg_adapters r1) n = None) \<longleftrightarrow>
        name \<notin> fst ` set entries \<and> (\<forall>(n, b) \<in> set entries. n \<noteq> [] \<and> b \<noteq> None \<and> map_of (reg_adapters r) n = None)"
      using pairs_fresh [of "set entries" "\<lambda>n b. n \<noteq> [] \<and> b \<noteq> None" name "\<lambda>n. map_of (reg_adapters r) n = None"]
      unfolding fresh by (simp add: conj_assoc)
    then have "err = None \<longleftrightarrow> distinct (map fst ((name, adapter) # entries)) \<and>
        (\<forall>(n, b) \<in> set ((name, adapter) # entries). n \<noteq> [] \<and> b \<noteq> None \<and> map_of (reg_adapters r) n = None)"
      unfolding IH(4) using added(2-4) by (simp add: conj_left_commute)
    moreover from \<open>map_of (reg_adapters r') name = Some a\<close>
    have "err = None \<longrightarrow> (\<forall>(n, b) \<in> set ((name, adapter) # entries). b \<noteq> None \<and> map_of (reg_adapters r') n = b)"
      using IH(3) added(2) by simp
    ultimately show ?thesis using IH(1) map_le_trans [OF ext IH(2)] by blast
  qed
qed auto

text \<open>
  The registry: bulk registration keeps the metadata cache in step with the adapters and never replaces
  an adapter that is already there; it succeeds exactly when the names are distinct, non-empty and new and
  no adapter is nil, and then every entry can be looked up; names are listed in order without
  repetition, and \<open>ByStartup\<close> selects by the metadata of the registered adapters.
\<close>

lemma RegisterAll_keeps_registry:
  assumes "RegisterAll info entries r = (err, r')" and "tier_registry_ok info r"
  shows "tier_registry_ok info r' \<and>
    (\<forall>n a. registry_Get r n = Inr a \<longrightarrow> registry_Get r' n = Inr a) \<and>
    (err = None \<longleftrightarrow> distinct (map fst entries) \<and> (\<forall>(n, a) \<in> set entries. n \<noteq> [] \<and> a \<noteq> None \<and> \<not> registry_Has r n)) \<and>
    (err = None \<longrightarrow> (\<forall>n a. (n, Some a) \<in> set entries \<longrightarrow> registry_Get r' n = Inr a)) \<and>
    sorted (registry_List r') \<and> distinct (registry_List r') \<and> set (registry_List r') = {n. registry_Has r' n} \<and>
    set (ByStartup r' maxMS) = {n. \<exists>a. registry_Get r' n = Inr a \<and> ti_StartupMS (info a) \<le> maxMS}"
proof -
  note ok = register_from_ok [OF assms(1) [unfolded RegisterAll_def] assms(2)]
  then have "\<forall>n a. registry_Get r n = Inr a \<longrightarrow> registry_Get r' n = Inr a" by (force simp: map_le_def dom_def)
  moreover have "set (ByStartup r' maxMS) = {n. \<exists>a. registry_Get r' n = Inr a \<and> ti_StartupMS (info a) \<le> maxMS}"
    unfolding ByStartup_def by (rule set_query) (use ok in blast)
  moreover have "err = None \<longrightarrow> (\<forall>n a. (n, Some a) \<in> set entries \<longrightarrow> registry_Get r' n = Inr a)" using ok by fastforce
  ultimately show ?thesis using ok registry_List_ok [of info r'] by (simp add: registry_Has_def)
qed

definition zero_TierInfo :: TierInfo where
  "zero_TierInfo = \<lparr>ti_Name = [], ti_Number = 0, ti_DisplayName = [], ti_Description = [], ti_StartupMS = 0, ti_MemoryMB = 0,
     ti_Security = [], ti_Platforms = [], ti_Workloads = []\<rparr>"

section \<open>The default registry\<close>

lemma default_names_ok: "distinct (default_tier_names goos) \<and> [] \<notin> set (default_tier_names goos)"
proof -
  have "distinct (default_tier_names ''freebsd'') \<and> [] \<notin> set (default_tier_names ''freebsd'')" by code_simp
  moreover have "distinct (default_tier_names ''openbsd'') \<and> [] \<notin> set (default_tier_names ''openbsd'')" by code_simp
  moreover have "distinct (default_tier_names ''darwin'') \<and> [] \<notin> set (default_tier_names ''darwin'')" by code_simp
  moreover have "distinct (default_tier_names ''linux'') \<and> [] \<notin> set (default_tier_names ''linux'')" by code_simp
  moreover have "goos \<in> {''freebsd'', ''openbsd'', ''darwin''} \<or> os_gated_tiers goos = os_gated_tiers ''linux''"
    by (simp add: os_gated_tiers_def)
  then have "goos \<in> {''freebsd'', ''openbsd'', ''darwin''} \<or> default_tier_names goos = default_tier_names ''linux''"
    unfolding default_tier_names_def by (metis (no_types))
  ultimately show ?thesis by (elim disjE insertE emptyE) (simp_all only: simp_thms)
qed

lemma foldE_MustRegister:
  "distinct ns \<Longrightarrow> [] \<notin> set ns \<Longrightarrow> \<forall>n \<in> set ns. map_of (reg_adapters r) n = None \<Longrightarrow>
     \<exists>r'. foldE (MustRegister info) (map (\<lambda>name. (name, Some (mk name))) ns) r = Inr r' \<and>
       (\<forall>n. map_of (reg_adapters r') n = (if n \<in> set ns then Some (mk n) else map_of (reg_adapters r) n))"
proof (induction ns arbitrary: r)
  case (Cons a ns)
  let ?r = "r\<lparr>reg_adapters := AList.update a (mk a) (reg_adapters r),
              reg_infoByName := AList.update a (info (mk a)) (reg_infoByName r)\<rparr>"
  from Cons obtain r' where "foldE (MustRegister info) (map (\<lambda>name. (name, Some (mk name))) ns) ?r = Inr r'"
    and "\<forall>n. map_of (reg_adapters r') n = (if n \<in> set ns then Some (mk n) else map_of (reg_adapters ?r) n)"
    using Cons.IH [of ?r] by fastforce
  moreover have "MustRegister info (a, Some (mk a)) r = Inr ?r"
    using Cons.prems by (auto simp: MustRegister_def Register_def)
  ultimately show ?case using Cons.prems by (intro exI [of _ r']) simp
qed simp

text \<open>
  The default registry can be built on every host: no \<open>MustRegister\<close> panics, whatever the adapters are,
  and exactly the canonical names are registered, each with its own adapter.
\<close>

lemma DefaultRegistry_total:
  "\<exists>r. DefaultRegistry info mk goos = Inr r \<and>
     (\<forall>n. registry_Has r n \<longleftrightarrow> n \<in> set (default_tier_names goos)) \<and>
     (\<forall>n a. registry_Get r n = Inr a \<longleftrightarrow> n \<in> set (default_tier_names goos) \<and> a = mk n)"
proof -
  from default_names_ok [of goos] obtain r where r: "DefaultRegistry info mk goos = Inr r"
    and m: "\<forall>n. map_of (reg_adapters r) n = (if n \<in> set (default_tier_names goos) then Some (mk n) else None)"
    using foldE_MustRegister [of "default_tier_names goos" NewRegistry info mk]
    by (auto simp: DefaultRegistry_def NewRegistry_def)
  have "registry_Has r n \<longleftrightarrow> n \<in> set (default_tier_names goos)" for n
    using m by (simp add: registry_Has_def)
  moreover have "registry_Get r n = Inr a \<longleftrightarrow> n \<in> set (default_tier_names goos) \<and> a = mk n" for n a
    using spec [OF m, of n] by auto
  ultimately show ?thesis using r by blast
qed

lemma DefaultRegistry_ok:
  assumes "DefaultRegistry info mk goos = Inr r"
  shows "tier_registry_ok info r"
proof (rule foldE_invariant [OF assms [unfolded DefaultRegistry_def]])
  fix e t t' assume "tier_registry_ok info t" "MustRegister info e t = Inr t'"
  then show "tier_registry_ok info t'"
    by (auto simp: MustRegister_def intro: tier_registry_ok_Register split: prod.splits option.splits)
qed simp

lemma DefaultRegistry_Info:
  assumes "DefaultRegistry info mk goos = Inr r"
  shows "registry_Info r n = (if n \<in> set (default_tier_names goos) then Some (info (mk n)) else None)"
proof -
  have a: "map_of (reg_adapters r) n = (if n \<in> set (default_tier_names goos) then Some (mk n) else None)"
  proof -
    have "(map_of (reg_adapters r) n = Some a) = (n \<in> set (default_tier_names goos) \<and> a = mk n)" for a
      using DefaultRegistry_total [of info mk goos] assms by auto
    from this [of "mk n"] this show ?thesis by (cases "map_of (reg_adapters r) n") auto
  qed
  have "registry_Info r n = map_option info (map_of (reg_adapters r) n)"
    using DefaultRegistry_ok [OF assms] by (simp add: registry_Info_def tier_registry_ok_def)
  with a show ?thesis by simp
qed

end
