(* ===== verification/Sandbox_Ports.thy ===== *)
theory Sandbox_Ports
  imports Tier_Registry
begin

text \<open>
  The sandbox data model (\<open>internal/domain/sandbox.go\<close>), the lifecycle interface \<open>ports.SandboxPort\<close> as a
  locale, and its client \<open>sandboxPortDispatcher\<close> (\<open>pkg/orchestrate/sandbox_dispatcher.go\<close>), proved once for
  every port. A \<open>*Sandbox\<close> is copied where the code shares it; no statement below depends on the sharing.
  Fields that no operation here reads are left out of the records.
\<close>

section \<open>Sandboxes\<close>

definition SandboxTypeContainer :: string where "SandboxTypeContainer = ''container''"

definition SandboxStatusPending :: string where "SandboxStatusPending = ''pending''"
definition SandboxStatusRunning :: string where "SandboxStatusRunning = ''running''"
definition SandboxStatusStopped :: string where "SandboxStatusStopped = ''stopped''"
definition SandboxStatusFailed :: string where "SandboxStatusFailed = ''failed''"

record Mount =
  mnt_Source :: string
  mnt_Target :: string
  mnt_Type :: string
  mnt_ReadOnly :: bool

record SandboxConfig =
  sc_Name :: string
  sc_Image :: string
  sc_VMType :: string
  sc_VMTier :: string
  sc_SandboxType :: string
  sc_SandboxLayer :: string
  sc_NativeCommand :: "string list option" \<comment> \<open>\<open>NativeSandbox\<close> and its \<open>Command\<close>\<close>
  sc_Labels :: "(string, string) gomap"
  sc_Mounts :: "Mount list"
  sc_Environment :: "(string, string) gomap"
  sc_ReadOnlyRootfs :: bool
  sc_TmpfsTmp :: bool
  sc_SeccompProfile :: string
  sc_WorkDir :: string
  sc_FirejailProfile :: string
  sc_RuntimePath :: string

definition zero_SandboxConfig :: SandboxConfig where
  "zero_SandboxConfig = \<lparr>sc_Name = [], sc_Image = [], sc_VMType = [], sc_VMTier = [], sc_SandboxType = [], sc_SandboxLayer = [],
     sc_NativeCommand = None, sc_Labels = [], sc_Mounts = [], sc_Environment = [], sc_ReadOnlyRootfs = False, sc_TmpfsTmp = False,
     sc_SeccompProfile = [], sc_WorkDir = [], sc_FirejailProfile = [], sc_RuntimePath = []\<rparr>"

record Sandbox =
  sb_ID :: string
  sb_Name :: string
  sb_Status :: string
  sb_VMFlavor :: string
  sb_Type :: string
  sb_Config :: "SandboxConfig option"
  sb_PID :: int
  sb_VMTier :: string
  sb_SandboxLayer :: string
  sb_CreatedAt :: time
  sb_StartedAt :: "time option"
  sb_IPAddress :: string
  sb_Mounts :: "Mount list"
  sb_Environment :: "(string, string) gomap"

definition zero_Sandbox :: Sandbox where
  "zero_Sandbox = \<lparr>sb_ID = [], sb_Name = [], sb_Status = [], sb_VMFlavor = [], sb_Type = [], sb_Config = None, sb_PID = 0, sb_VMTier = [], sb_SandboxLayer = [],
     sb_CreatedAt = zero_time, sb_StartedAt = None, sb_IPAddress = [], sb_Mounts = [], sb_Environment = []\<rparr>"

definition IsRunning :: "Sandbox \<Rightarrow> bool" where
  "IsRunning s = (sb_Status s = SandboxStatusRunning)"

text \<open>\<open>domain.GenerateID\<close>: the next value of a counter that never gets near the end of its 64 bits.\<close>

definition GenerateID :: "nat \<Rightarrow> string \<times> nat" where
  "GenerateID counter = (decimal (Suc counter), Suc counter)"

text \<open>
  Usage samples hold floating-point numbers. Their type \<open>'f\<close> and the operations of the language on it are parameters:
  nothing is assumed of them.
\<close>

record 'f SandboxMetrics =
  sm_SandboxID :: string
  sm_CPUUsage :: 'f
  sm_MemoryUsage :: int
  sm_DiskUsage :: int
  sm_NetworkRx :: int
  sm_NetworkTx :: int

record 'f float_ops =
  fo_ParseFloat :: "string \<Rightarrow> 'f \<times> bool" \<comment> \<open>the number, and whether the error is nil\<close>
  fo_Sscanf_f :: "string \<Rightarrow> 'f"
  fo_Sscanf_d :: "string \<Rightarrow> int"
  fo_of_nat :: "nat \<Rightarrow> 'f" \<comment> \<open>a constant\<close>
  fo_mul :: "'f \<Rightarrow> 'f \<Rightarrow> 'f"
  fo_int64 :: "'f \<Rightarrow> int" \<comment> \<open>the conversion \<open>int64(x)\<close>\<close>

section \<open>The port and its dispatcher\<close>

text \<open>
  A \<open>ports.SandboxPort\<close> as its methods over a state of its own. A stream is what it yields until it ends;
  \<open>sp_PortForward\<close> is present when the adapter implements the optional \<open>portForwarder\<close> interface. \<open>Metrics\<close> changes nothing and is modelled with each adapter.
\<close>

record 's SandboxPort =
  sp_Create :: "SandboxConfig \<Rightarrow> 's \<Rightarrow> Sandbox option result \<times> 's"
  sp_Start :: "string \<Rightarrow> 's \<Rightarrow> go_error option \<times> 's"
  sp_Stop :: "string \<Rightarrow> bool \<Rightarrow> 's \<Rightarrow> go_error option \<times> 's"
  sp_Delete :: "string \<Rightarrow> 's \<Rightarrow> go_error option \<times> 's"
  sp_List :: "'s \<Rightarrow> Sandbox list result \<times> 's"
  sp_Get :: "string \<Rightarrow> 's \<Rightarrow> Sandbox option result \<times> 's"
  sp_Logs :: "string \<Rightarrow> bool \<Rightarrow> 's \<Rightarrow> string result \<times> 's"
  sp_Exec :: "string \<Rightarrow> string list \<Rightarrow> 's \<Rightarrow> string result \<times> 's"
  sp_PortForward :: "(string \<Rightarrow> int \<Rightarrow> int \<Rightarrow> 's \<Rightarrow> string result \<times> 's) option"

text \<open>\<open>sandboxPortDispatcher.Deploy\<close>; a port may hand back a nil sandbox without an error.\<close>

definition dispatcher_Deploy ::
  "('e \<Rightarrow> SandboxConfig \<Rightarrow> 's \<Rightarrow> Sandbox option result \<times> 's) \<Rightarrow> ('e \<Rightarrow> string \<Rightarrow> 's \<Rightarrow> go_error option \<times> 's) \<Rightarrow>
   ('e \<Rightarrow> string \<Rightarrow> 's \<Rightarrow> go_error option \<times> 's) \<Rightarrow> ('e \<Rightarrow> string \<Rightarrow> 's \<Rightarrow> Sandbox option result) \<Rightarrow>
     'e \<Rightarrow> SandboxConfig \<Rightarrow> 's \<Rightarrow> Sandbox result \<times> 's" where
  "dispatcher_Deploy create start delete get env cfg s =
     (case create env cfg s of
        (Inl err, s1) \<Rightarrow> (Inl err, s1)
      | (Inr None, s1) \<Rightarrow> (Inl (Errorf ''sandbox provider returned no identity'' []), s1)
      | (Inr (Some sandbox), s1) \<Rightarrow>
          if sb_ID sandbox = [] then (Inl (Errorf ''sandbox provider returned no identity'' []), s1)
          else (case start env (sb_ID sandbox) s1 of
              (Some err, s2) \<Rightarrow>
                (case delete env (sb_ID sandbox) s2 of
                   (Some cleanupErr, s3) \<Rightarrow>
                     (Inl (Errorf ''start failed: %w (cleanup failed: %v)'' [AWrap err, AErr cleanupErr]), s3)
                 | (None, s3) \<Rightarrow> (Inl (Errorf ''start failed: %w'' [AWrap err]), s3))
            | (None, s2) \<Rightarrow>
                (case get env (sb_ID sandbox) s2 of
                   Inr (Some refreshed) \<Rightarrow> (Inr refreshed, s2)
                 | _ \<Rightarrow> (Inr (sandbox\<lparr>sb_Status := SandboxStatusRunning\<rparr>), s2))))"

locale sandbox_port =
  fixes create :: "'e \<Rightarrow> SandboxConfig \<Rightarrow> 's \<Rightarrow> Sandbox option result \<times> 's"
    and start :: "'e \<Rightarrow> string \<Rightarrow> 's \<Rightarrow> go_error option \<times> 's"
    and delete :: "'e \<Rightarrow> string \<Rightarrow> 's \<Rightarrow> go_error option \<times> 's"
    and get :: "'e \<Rightarrow> string \<Rightarrow> 's \<Rightarrow> Sandbox option result"
    and known :: "'s \<Rightarrow> string set"
    and ok :: "'s \<Rightarrow> bool"
  assumes create_fails: "create env cfg s = (Inl err, s') \<Longrightarrow> known s' = known s"
    and create_fresh: "ok s \<Longrightarrow> create env cfg s = (Inr r, s') \<Longrightarrow>
      ok s' \<and> (\<exists>sb. r = Some sb \<and> sb_ID sb \<noteq> [] \<and> sb_ID sb \<notin> known s \<and> known s' = insert (sb_ID sb) (known s))"
    and start_keeps: "ok s \<Longrightarrow> start env i s = (e, s') \<Longrightarrow> ok s' \<and> known s' = known s"
    and delete_removes: "delete env i s = (None, s') \<Longrightarrow> known s' = known s - {i}"
    and get_known: "ok s \<Longrightarrow> get env i s = Inr (Some sb) \<Longrightarrow> sb_ID sb = i \<and> i \<in> known s"
begin

text \<open>
  A deployment through the dispatcher creates exactly one sandbox, or none: after a failure the port knows
  what it knew before, unless the error says that the cleanup failed as well.
\<close>

lemma Deploy_all_or_nothing:
  assumes "dispatcher_Deploy create start delete get env cfg s = (r, s')" and "ok s"
  shows "case r of
      Inr sb \<Rightarrow> sb_ID sb \<noteq> [] \<and> sb_ID sb \<notin> known s \<and> known s' = insert (sb_ID sb) (known s)
    | Inl err \<Rightarrow> known s' = known s \<or>
        (\<exists>e1 e2. err = Errorf ''start failed: %w (cleanup failed: %v)'' [AWrap e1, AErr e2])"
proof (cases "create env cfg s")
  case (Pair c s1)
  show ?thesis
  proof (cases c)
    case (Inl err)
    with Pair assms(1) create_fails [of env cfg s err s1] show ?thesis by (auto simp: dispatcher_Deploy_def)
  next
    case (Inr o1)
    with Pair create_fresh [OF assms(2), of env cfg o1 s1] obtain sb where sb: "o1 = Some sb" "sb_ID sb \<noteq> []" "ok s1"
      "sb_ID sb \<notin> known s" "known s1 = insert (sb_ID sb) (known s)" by blast
    obtain e s2 where st: "start env (sb_ID sb) s1 = (e, s2)" by (cases "start env (sb_ID sb) s1")
    note k = start_keeps [OF sb(3) st]
    obtain d s3 where de: "delete env (sb_ID sb) s2 = (d, s3)" by (cases "delete env (sb_ID sb) s2")
    show ?thesis
    proof (cases e)
      case None
      have "\<exists>sb'. dispatcher_Deploy create start delete get env cfg s = (Inr sb', s2) \<and> sb_ID sb' = sb_ID sb"
      proof (cases "\<exists>sb'. get env (sb_ID sb) s2 = Inr (Some sb')")
        case True
        then obtain sb' where "get env (sb_ID sb) s2 = Inr (Some sb')" by blast
        moreover from this have "sb_ID sb' = sb_ID sb" using get_known k by blast
        ultimately show ?thesis using Pair Inr sb(1,2) st None by (simp add: dispatcher_Deploy_def)
      next
        case False
        then show ?thesis using Pair Inr sb(1,2) st None
          by (cases "get env (sb_ID sb) s2") (auto simp: dispatcher_Deploy_def split: option.splits)
      qed
      with assms(1) sb k show ?thesis by auto
    next
      case (Some err)
      with assms(1) Pair Inr sb st k de delete_removes [of env "sb_ID sb" s2 s3] show ?thesis
        by (auto simp: dispatcher_Deploy_def split: option.splits)
    qed
  qed
qed

end

end
