(* ===== verification/Process_Adapter.thy ===== *)
theory Process_Adapter
  imports Sandbox_Ports
begin

text \<open>
  The process adapter, \<open>internal/adapters/process/process.go\<close>, with its goroutines. A started command is a
  handle (its index); the reaper goroutine of a handle waits for the process, closes the channel
  \<open>waitDone\<close> and only then takes the lock to update the sandbox, and \<open>Stop\<close> signals, waits for the channel and
  takes the lock again. Every critical section is one function on the state, and a step relation interleaves
  them in every order. PIDs, the temporary log file and the start of a command are answers of the
  system.
\<close>

section \<open>State\<close>

text \<open>The life of a command and its reaper: running, ended, channel closed, sandbox updated.\<close>

datatype cmd_phase = Alive | Exited | WaitClosed | Reaped

primrec phase_rank :: "cmd_phase \<Rightarrow> nat" where
  "phase_rank Alive = 0"
| "phase_rank Exited = 1"
| "phase_rank WaitClosed = 2"
| "phase_rank Reaped = 3"

lemma phase_rank_inject [simp]: "phase_rank p = phase_rank q \<longleftrightarrow> p = q"
  by (cases p; cases q) simp_all

instantiation cmd_phase :: linorder
begin

definition less_eq_cmd_phase :: "cmd_phase \<Rightarrow> cmd_phase \<Rightarrow> bool" where
  "less_eq_cmd_phase p q \<longleftrightarrow> phase_rank p \<le> phase_rank q"

definition less_cmd_phase :: "cmd_phase \<Rightarrow> cmd_phase \<Rightarrow> bool" where
  "less_cmd_phase p q \<longleftrightarrow> phase_rank p < phase_rank q"

instance
  by standard (auto simp: less_eq_cmd_phase_def less_cmd_phase_def)

end

record processSandbox =
  ps_sandbox :: Sandbox
  ps_cmd :: "nat option"
  ps_logPath :: string
  ps_waitDone :: "nat option"

record process_state =
  pa_idCounter :: nat
  pa_sandboxes :: "(string, processSandbox) gomap"
  pa_cmds :: "(string \<times> cmd_phase) list" \<comment> \<open>owner and phase of every command ever started\<close>

definition new_process_state :: "nat \<Rightarrow> process_state" where
  "new_process_state counter = \<lparr>pa_idCounter = counter, pa_sandboxes = [], pa_cmds = []\<rparr>"

text \<open>What the system answers to \<open>os.CreateTemp\<close> (a file name), \<open>cmd.Start\<close> (a PID) and the signals of a stop.\<close>

record process_env =
  pe_CreateTemp :: "string result"
  pe_Start :: "string list \<Rightarrow> int result"
  pe_Signal :: "go_error option"
  pe_Kill :: "go_error option"
  pe_now :: time

definition phase :: "process_state \<Rightarrow> nat \<Rightarrow> cmd_phase option" where
  "phase s n = (if n < length (pa_cmds s) then Some (snd (pa_cmds s ! n)) else None)"

definition set_phase :: "nat \<Rightarrow> cmd_phase \<Rightarrow> process_state \<Rightarrow> process_state" where
  "set_phase n p s = s\<lparr>pa_cmds := (pa_cmds s)[n := (fst (pa_cmds s ! n), p)]\<rparr>"

definition put_entry :: "string \<Rightarrow> processSandbox \<Rightarrow> process_state \<Rightarrow> process_state" where
  "put_entry i e s = s\<lparr>pa_sandboxes := AList.update i e (pa_sandboxes s)\<rparr>"

section \<open>Critical sections\<close>

definition resolveStartCommand :: "SandboxConfig option \<Rightarrow> string list" where
  "resolveStartCommand config =
     (case config of
        Some cfg \<Rightarrow> (case sc_NativeCommand cfg of Some (c # cs) \<Rightarrow> c # cs | _ \<Rightarrow> [''/bin/sh'', ''-c'', ''sleep 3600''])
      | None \<Rightarrow> [''/bin/sh'', ''-c'', ''sleep 3600''])"

definition proc_Create :: "process_env \<Rightarrow> SandboxConfig \<Rightarrow> process_state \<Rightarrow> Sandbox option result \<times> process_state" where
  "proc_Create env config s =
     (let (i, counter) = GenerateID (pa_idCounter s);
          sb = zero_Sandbox\<lparr>sb_ID := i, sb_Name := (if sc_Name config = [] then i else sc_Name config),
                 sb_Status := SandboxStatusPending, sb_Type := ''process'', sb_Config := Some config, sb_PID := -1,
                 sb_CreatedAt := pe_now env, sb_Mounts := sc_Mounts config, sb_Environment := sc_Environment config\<rparr> in
      (Inr (Some sb), put_entry i \<lparr>ps_sandbox = sb, ps_cmd = None, ps_logPath = [], ps_waitDone = None\<rparr>
         (s\<lparr>pa_idCounter := counter\<rparr>)))"

definition proc_Start :: "process_env \<Rightarrow> string \<Rightarrow> process_state \<Rightarrow> go_error option \<times> process_state" where
  "proc_Start env i s =
     (case map_of (pa_sandboxes s) i of
        None \<Rightarrow> (Some (Errorf ''sandbox not found: %s'' [AStr i]), s)
      | Some entry \<Rightarrow>
          if sb_Status (ps_sandbox entry) = SandboxStatusRunning
          then (Some (Errorf ''sandbox already running: %s'' [AStr i]), s)
          else (case pe_CreateTemp env of
              Inl err \<Rightarrow> (Some (Errorf ''failed to allocate process log file: %w'' [AWrap err]), s)
            | Inr logFile \<Rightarrow>
                (case pe_Start env (resolveStartCommand (sb_Config (ps_sandbox entry))) of
                   Inl err \<Rightarrow> (Some (Errorf ''failed to start sandbox process: %w'' [AWrap err]), s)
                 | Inr pid \<Rightarrow>
                     let n = length (pa_cmds s) in
                     (None, put_entry i (entry\<lparr>ps_cmd := Some n, ps_waitDone := Some n, ps_logPath := logFile,
                          ps_sandbox := (ps_sandbox entry)\<lparr>sb_PID := pid, sb_StartedAt := Some (pe_now env),
                            sb_Status := SandboxStatusRunning\<rparr>\<rparr>)
                        (s\<lparr>pa_cmds := pa_cmds s @ [(i, Alive)]\<rparr>)))))"

definition mark_stopped :: "Sandbox \<Rightarrow> Sandbox" where
  "mark_stopped sb = sb\<lparr>sb_Status := SandboxStatusStopped, sb_PID := -1\<rparr>"

text \<open>The reaper's update after \<open>cmd.Wait\<close>: it looks its sandbox up by identifier again.\<close>

definition reap :: "nat \<Rightarrow> process_state \<Rightarrow> process_state" where
  "reap n s =
     (let i = fst (pa_cmds s ! n); s' = set_phase n Reaped s in
      case map_of (pa_sandboxes s) i of
        Some entry \<Rightarrow>
          if sb_Status (ps_sandbox entry) = SandboxStatusRunning
          then put_entry i (entry\<lparr>ps_sandbox := mark_stopped (ps_sandbox entry)\<rparr>) s' else s'
      | None \<Rightarrow> s')"

text \<open>The first part of \<open>Stop\<close>: done at once (\<open>Inl\<close>), or a command to signal (\<open>Inr\<close>).\<close>

definition stop_begin :: "string \<Rightarrow> process_state \<Rightarrow> (go_error option + nat) \<times> process_state" where
  "stop_begin i s =
     (case map_of (pa_sandboxes s) i of
        None \<Rightarrow> (Inl (Some (Errorf ''sandbox not found: %s'' [AStr i])), s)
      | Some entry \<Rightarrow>
          (case (sb_Status (ps_sandbox entry) = SandboxStatusRunning, ps_cmd entry) of
             (True, Some n) \<Rightarrow> (Inr n, s)
           | _ \<Rightarrow> (Inl None, put_entry i (entry\<lparr>ps_sandbox := mark_stopped (ps_sandbox entry), ps_cmd := None\<rparr>) s)))"

text \<open>The signals of \<open>Stop\<close> on Unix and the error it returns in the end.\<close>

definition stop_signal :: "process_env \<Rightarrow> bool \<Rightarrow> go_error option" where
  "stop_signal env force =
     (case pe_Signal env of None \<Rightarrow> None | Some err \<Rightarrow> if force then pe_Kill env else Some err)"

text \<open>The last part of \<open>Stop\<close>; the entry may have left the table in the meantime.\<close>

definition stop_end :: "string \<Rightarrow> process_state \<Rightarrow> process_state" where
  "stop_end i s =
     (case map_of (pa_sandboxes s) i of
        None \<Rightarrow> s
      | Some entry \<Rightarrow> put_entry i (entry\<lparr>ps_sandbox := mark_stopped (ps_sandbox entry), ps_cmd := None\<rparr>) s)"

text \<open>\<open>Stop\<close> when nothing else runs meanwhile: the process ends and its reaper closes the channel.\<close>

definition proc_Stop :: "process_env \<Rightarrow> string \<Rightarrow> bool \<Rightarrow> process_state \<Rightarrow> go_error option \<times> process_state" where
  "proc_Stop env i force s =
     (case stop_begin i s of
        (Inl out, s1) \<Rightarrow> (out, s1)
      | (Inr n, s1) \<Rightarrow> (stop_signal env force, stop_end i (set_phase n WaitClosed s1)))"

definition proc_remove :: "string \<Rightarrow> process_state \<Rightarrow> process_state" where
  "proc_remove i s = s\<lparr>pa_sandboxes := AList.delete i (pa_sandboxes s)\<rparr>"

definition proc_Delete :: "process_env \<Rightarrow> string \<Rightarrow> process_state \<Rightarrow> go_error option \<times> process_state" where
  "proc_Delete env i s =
     (case map_of (pa_sandboxes s) i of
        None \<Rightarrow> (None, s)
      | Some entry \<Rightarrow>
          let s1 = (if sb_Status (ps_sandbox entry) = SandboxStatusRunning then snd (proc_Stop env i True s) else s) in
          (None, proc_remove i s1))"

definition proc_Get :: "process_env \<Rightarrow> string \<Rightarrow> process_state \<Rightarrow> Sandbox option result" where
  "proc_Get env i s =
     (case map_of (pa_sandboxes s) i of
        None \<Rightarrow> Inl (Errorf ''sandbox not found: %s'' [AStr i])
      | Some entry \<Rightarrow> Inr (Some (ps_sandbox entry)))"

definition proc_List :: "process_state \<Rightarrow> Sandbox list" where
  "proc_List s = map (ps_sandbox \<circ> snd) (pa_sandboxes s)"

section \<open>A lifecycle port\<close>

definition proc_known :: "process_state \<Rightarrow> string set" where
  "proc_known s = {i. map_of (pa_sandboxes s) i \<noteq> None}"

definition proc_ok :: "process_state \<Rightarrow> bool" where
  "proc_ok s \<longleftrightarrow> (\<forall>i e. map_of (pa_sandboxes s) i = Some e \<longrightarrow>
     sb_ID (ps_sandbox e) = i \<and> (\<exists>n \<le> pa_idCounter s. i = decimal n))"

lemma put_entry_simps [simp]:
  "map_of (pa_sandboxes (put_entry i e s)) = (map_of (pa_sandboxes s))(i \<mapsto> e)"
  "pa_idCounter (put_entry i e s) = pa_idCounter s" "pa_cmds (put_entry i e s) = pa_cmds s"
  by (simp_all add: put_entry_def)

lemma set_phase_simps [simp]:
  "pa_sandboxes (set_phase n p s) = pa_sandboxes s" "pa_idCounter (set_phase n p s) = pa_idCounter s"
  "length (pa_cmds (set_phase n p s)) = length (pa_cmds s)"
  by (simp_all add: set_phase_def)

lemma mark_stopped_simps [simp]:
  "sb_ID (mark_stopped sb) = sb_ID sb" "sb_Status (mark_stopped sb) = SandboxStatusStopped" "sb_PID (mark_stopped sb) = -1"
  by (simp_all add: mark_stopped_def)

lemma proc_known_simps [simp]:
  "proc_known (put_entry i e s) = insert i (proc_known s)" "proc_known (set_phase n p s) = proc_known s"
  "proc_known (proc_remove i s) = proc_known s - {i}"
  by (auto simp: proc_known_def proc_remove_def)

lemma proc_Stop_known: "proc_known (snd (proc_Stop env i force s)) = proc_known s"
  by (auto simp: proc_Stop_def stop_begin_def stop_end_def proc_known_def split: option.splits bool.splits)

lemma proc_Create_adds:
  assumes "proc_Create env cfg s = (r, s')"
  shows "\<exists>sb. r = Inr (Some sb) \<and> sb_ID sb = decimal (Suc (pa_idCounter s)) \<and> sb_PID sb = -1 \<and> sb_Status sb = SandboxStatusPending \<and>
    s' = put_entry (sb_ID sb) \<lparr>ps_sandbox = sb, ps_cmd = None, ps_logPath = [], ps_waitDone = None\<rparr> (s\<lparr>pa_idCounter := Suc (pa_idCounter s)\<rparr>)"
  using assms by (auto simp: proc_Create_def GenerateID_def Let_def)

interpretation proc: sandbox_port proc_Create proc_Start proc_Delete proc_Get proc_known proc_ok
proof unfold_locales
  fix env cfg s r s' assume ok: "proc_ok s" and "proc_Create env cfg s = (Inr r, s')"
  then obtain sb where sb: "r = Some sb" "sb_ID sb = decimal (Suc (pa_idCounter s))"
    "s' = put_entry (sb_ID sb) \<lparr>ps_sandbox = sb, ps_cmd = None, ps_logPath = [], ps_waitDone = None\<rparr> (s\<lparr>pa_idCounter := Suc (pa_idCounter s)\<rparr>)"
    using proc_Create_adds [of env cfg s "Inr r" s'] by auto
  have "decimal (Suc (pa_idCounter s)) \<notin> proc_known s"
  proof
    assume "decimal (Suc (pa_idCounter s)) \<in> proc_known s"
    then obtain n where "n \<le> pa_idCounter s" "decimal (Suc (pa_idCounter s)) = decimal n"
      using ok by (auto simp: proc_ok_def proc_known_def)
    then show False by (simp add: decimal_inject)
  qed
  moreover have "proc_ok s'" using ok sb by (fastforce simp: proc_ok_def le_Suc_eq)
  ultimately show "proc_ok s' \<and> (\<exists>sb. r = Some sb \<and> sb_ID sb \<noteq> [] \<and> sb_ID sb \<notin> proc_known s \<and>
      proc_known s' = insert (sb_ID sb) (proc_known s))"
    using sb decimal_nonempty by (auto simp: proc_known_def)
next
  fix s :: process_state and env i e s' assume ok: "proc_ok s" and "proc_Start env i s = (e, s')"
  then show "proc_ok s' \<and> proc_known s' = proc_known s"
    by (auto simp: proc_Start_def proc_ok_def proc_known_def Let_def split: option.splits if_splits sum.splits)
next
  fix env i s s' assume "proc_Delete env i s = (None, s')"
  then show "proc_known s' = proc_known s - {i}"
  proof (cases "map_of (pa_sandboxes s) i")
    case None
    then have "i \<notin> proc_known s" by (simp add: proc_known_def)
    then show ?thesis using \<open>proc_Delete env i s = (None, s')\<close> None by (auto simp: proc_Delete_def)
  next
    case (Some e)
    then show ?thesis using \<open>proc_Delete env i s = (None, s')\<close>
      by (auto simp: proc_Delete_def Let_def proc_Stop_known split: if_splits)
  qed
qed (auto simp: proc_Create_def proc_Get_def proc_ok_def proc_known_def GenerateID_def Let_def split: option.splits)

section \<open>Interleavings\<close>

text \<open>
  The second component lists the calls of \<open>Stop\<close> in progress: signalled, or waiting for the channel that the
  entry held when the wait began.
\<close>

type_synonym process_world = "process_state \<times> (string \<times> nat option) list"

inductive process_step :: "process_world \<Rightarrow> process_world \<Rightarrow> bool" where
  create: "proc_Create env cfg s = (r, s') \<Longrightarrow> process_step (s, st) (s', st)"
| start: "proc_Start env i s = (e, s') \<Longrightarrow> process_step (s, st) (s', st)"
| exit: "phase s n = Some Alive \<Longrightarrow> process_step (s, st) (set_phase n Exited s, st)"
| waited: "phase s n = Some Exited \<Longrightarrow> process_step (s, st) (set_phase n WaitClosed s, st)"
| reaped: "phase s n = Some WaitClosed \<Longrightarrow> process_step (s, st) (reap n s, st)"
| stop_at_once: "stop_begin i s = (Inl out, s') \<Longrightarrow> process_step (s, st) (s', st)"
| stop_signals: "stop_begin i s = (Inr n, s') \<Longrightarrow> process_step (s, st) (s', (i, None) # st)"
| stop_waits: "(i, None) \<in> set st \<Longrightarrow> map_of (pa_sandboxes s) i = Some e \<Longrightarrow> ps_waitDone e = Some m \<Longrightarrow>
    process_step (s, st) (s, (i, Some m) # remove1 (i, None) st)"
| stop_detached: "(i, None) \<in> set st \<Longrightarrow> map_of (pa_sandboxes s) i = None \<Longrightarrow>
    process_step (s, st) (s, remove1 (i, None) st)"
| stop_ends: "(i, Some m) \<in> set st \<Longrightarrow> phase s m = Some WaitClosed \<or> phase s m = Some Reaped \<Longrightarrow>
    process_step (s, st) (stop_end i s, remove1 (i, Some m) st)"
| remove: "process_step (s, st) (proc_remove i s, st)"

inductive_cases process_stepE: "process_step w w'"

text \<open>A command only ever moves on in its life, whoever acts.\<close>

lemma phase_set_phase: "phase s n = Some p \<Longrightarrow> phase (set_phase m q s) n = Some (if m = n then q else p)"
  by (auto simp: phase_def set_phase_def nth_list_update split: if_splits)

lemma phase_same_cmds [simp]: "phase (s\<lparr>pa_sandboxes := x\<rparr>) = phase s" "phase (s\<lparr>pa_idCounter := c\<rparr>) = phase s"
  "phase (put_entry i e s) = phase s" "phase (proc_remove i s) = phase s" "phase (stop_end i s) = phase s"
  by (auto simp: phase_def fun_eq_iff proc_remove_def stop_end_def put_entry_def split: option.splits)

lemma phase_reap: "phase (reap m s) = phase (set_phase m Reaped s)"
  by (auto simp: reap_def Let_def split: option.splits)

lemma phase_advances:
  assumes "process_step w w'" and "phase (fst w) n = Some p"
  shows "\<exists>q \<ge> p. phase (fst w') n = Some q"
proof -
  have spawned: "phase (s\<lparr>pa_cmds := pa_cmds s @ xs\<rparr>) n = Some p" if "phase s n = Some p" for s xs
    using that by (auto simp: phase_def nth_append split: if_splits)
  show ?thesis
    using assms
    by (elim process_stepE)
       (auto simp: phase_set_phase phase_reap proc_Create_def proc_Start_def stop_begin_def Let_def spawned less_eq_cmd_phase_def
         split: if_splits option.splits sum.splits prod.splits bool.splits)
qed

lemma reaped_forever:
  assumes "process_step\<^sup>*\<^sup>* w w'" and "phase (fst w) n = Some Reaped"
  shows "phase (fst w') n = Some Reaped"
  using assms
proof (induction rule: rtranclp_induct)
  case (step y z)
  then obtain q where "q \<ge> Reaped" "phase (fst z) n = Some q" using phase_advances by blast
  then show ?case by (cases q) (auto simp: less_eq_cmd_phase_def)
qed simp

text \<open>What every entry guarantees, whatever the order of the critical sections.\<close>

definition entry_ok :: "process_state \<Rightarrow> string \<Rightarrow> processSandbox \<Rightarrow> bool" where
  "entry_ok s i e \<longleftrightarrow>
     (IsRunning (ps_sandbox e) \<longrightarrow>
        (\<exists>n. ps_cmd e = Some n \<and> ps_waitDone e = Some n \<and> n < length (pa_cmds s) \<and> fst (pa_cmds s ! n) = i \<and> snd (pa_cmds s ! n) \<noteq> Reaped)) \<and>
     (\<not> IsRunning (ps_sandbox e) \<longrightarrow> sb_PID (ps_sandbox e) = -1)"

definition process_inv :: "process_state \<Rightarrow> bool" where
  "process_inv s \<longleftrightarrow> (\<forall>i e. map_of (pa_sandboxes s) i = Some e \<longrightarrow> entry_ok s i e)"

lemma stopped_not_running [simp]: "SandboxStatusStopped \<noteq> SandboxStatusRunning" "SandboxStatusPending \<noteq> SandboxStatusRunning"
  by (simp_all add: SandboxStatusStopped_def SandboxStatusRunning_def SandboxStatusPending_def)

lemma entry_ok_stopped [simp]: "entry_ok s i (e\<lparr>ps_sandbox := mark_stopped sb, ps_cmd := c\<rparr>)" "entry_ok s i (e\<lparr>ps_sandbox := mark_stopped sb\<rparr>)"
  by (simp_all add: entry_ok_def IsRunning_def)

lemma process_inv_put:
  "process_inv s \<Longrightarrow> entry_ok s i e \<Longrightarrow> process_inv (put_entry i e s)"
  by (auto simp: process_inv_def entry_ok_def)

lemma nth_set_phase:
  "k < length (pa_cmds s) \<Longrightarrow> pa_cmds (set_phase n p s) ! k = (if n = k then (fst (pa_cmds s ! n), p) else pa_cmds s ! k)"
  by (cases "n < length (pa_cmds s)") (auto simp: set_phase_def nth_list_update)

lemma entry_ok_phase: "entry_ok s i e \<Longrightarrow> p \<noteq> Reaped \<Longrightarrow> entry_ok (set_phase n p s) i e"
  unfolding entry_ok_def by (auto simp: nth_set_phase split: if_splits)

lemma entry_ok_reaped:
  "entry_ok s i e \<Longrightarrow> i \<noteq> fst (pa_cmds s ! n) \<or> \<not> IsRunning (ps_sandbox e) \<Longrightarrow> entry_ok (set_phase n Reaped s) i e"
  unfolding entry_ok_def by (auto simp: nth_set_phase split: if_splits)

lemma process_inv_phase:
  "process_inv s \<Longrightarrow> p \<noteq> Reaped \<Longrightarrow> process_inv (set_phase n p s)"
  by (simp add: process_inv_def entry_ok_phase)

lemma process_inv_reap:
  assumes "process_inv s"
  shows "process_inv (reap n s)"
proof -
  let ?o = "fst (pa_cmds s ! n)"
  have others: "entry_ok (set_phase n Reaped s) i e" if "map_of (pa_sandboxes s) i = Some e" "i \<noteq> ?o \<or> \<not> IsRunning (ps_sandbox e)" for i e
    using that assms by (intro entry_ok_reaped) (auto simp: process_inv_def)
  have upd: "entry_ok (put_entry ?o x (set_phase n Reaped s)) j f = entry_ok (set_phase n Reaped s) j f" for x j f
    by (simp add: entry_ok_def)
  show ?thesis
  proof (cases "\<exists>e0. map_of (pa_sandboxes s) ?o = Some e0 \<and> IsRunning (ps_sandbox e0)")
    case True
    then obtain e0 where "reap n s = put_entry ?o (e0\<lparr>ps_sandbox := mark_stopped (ps_sandbox e0)\<rparr>) (set_phase n Reaped s)"
      by (auto simp: reap_def IsRunning_def Let_def)
    then show ?thesis using others by (auto simp: process_inv_def upd)
  next
    case False
    then have "reap n s = set_phase n Reaped s"
      by (auto simp: reap_def IsRunning_def Let_def split: option.splits)
    moreover have "entry_ok (set_phase n Reaped s) i e" if "map_of (pa_sandboxes s) i = Some e" for i e
      using others [OF that] that False by blast
    ultimately show ?thesis by (simp add: process_inv_def)
  qed
qed

lemma process_inv_counter [simp]: "process_inv (s\<lparr>pa_idCounter := c\<rparr>) = process_inv s"
  by (simp add: process_inv_def entry_ok_def)

lemma process_inv_spawn: "process_inv s \<Longrightarrow> process_inv (s\<lparr>pa_cmds := pa_cmds s @ xs\<rparr>)"
  by (fastforce simp: process_inv_def entry_ok_def nth_append)

lemma process_inv_step: "process_step w w' \<Longrightarrow> process_inv (fst w) \<Longrightarrow> process_inv (fst w')"
proof (induction rule: process_step.induct)
  case (create env cfg s r s' st)
  then show ?case using proc_Create_adds [OF create(1)]
    by (auto intro!: process_inv_put simp: entry_ok_def IsRunning_def)
next
  case (start env i s e s' st)
  then show ?case
    by (auto simp: proc_Start_def entry_ok_def IsRunning_def Let_def
        intro!: process_inv_put process_inv_spawn split: option.splits if_splits sum.splits)
next
  case (stop_at_once i s out s' st)
  then show ?case by (auto simp: stop_begin_def intro!: process_inv_put split: option.splits bool.splits)
next
  case (stop_signals i s n s' st)
  then show ?case by (auto simp: stop_begin_def split: option.splits bool.splits)
next
  case (stop_ends i m st s)
  then show ?case by (auto simp: stop_end_def intro!: process_inv_put split: option.splits)
next
  case (remove s st i)
  then show ?case by (auto simp: process_inv_def proc_remove_def entry_ok_def)
qed (simp_all add: process_inv_phase process_inv_reap)


section \<open>A stale reaper\<close>

text \<open>
  The channel is closed before the reaper updates the sandbox, and the update looks only at the identifier.
  So the reaper of a stopped command can run after the sandbox was started again.
\<close>

definition sample_penv :: process_env where
  "sample_penv = \<lparr>pe_CreateTemp = Inr ''/tmp/log'', pe_Start = (\<lambda>_. Inr 41), pe_Signal = None, pe_Kill = None, pe_now = 5\<rparr>"

definition sample_pconfig :: SandboxConfig where
  "sample_pconfig = zero_SandboxConfig\<lparr>sc_Name := ''job''\<rparr>"

definition stale1 :: process_state where "stale1 = snd (proc_Create sample_penv sample_pconfig (new_process_state 0))"
definition stale2 :: process_state where "stale2 = snd (proc_Start sample_penv ''1'' stale1)"
definition stale3 :: process_state where "stale3 = stop_end ''1'' (set_phase 0 WaitClosed (set_phase 0 Exited stale2))"
definition stale4 :: process_state where "stale4 = snd (proc_Start sample_penv ''1'' stale3)"
definition stale5 :: process_state where "stale5 = reap 0 stale4"

lemma stale_run: "process_step\<^sup>*\<^sup>* (new_process_state 0, []) (stale5, [])"
proof -
  let ?closed = "set_phase 0 WaitClosed (set_phase 0 Exited stale2)"
  have 1: "process_step (new_process_state 0, []) (stale1, [])"
    by (rule process_step.create [of sample_penv sample_pconfig]) (simp add: stale1_def prod_eq_iff)
  have 2: "process_step (stale1, []) (stale2, [])"
    by (rule process_step.start [of sample_penv "''1''"]) (simp add: stale2_def prod_eq_iff)
  have "stop_begin ''1'' stale2 = (Inr 0, stale2)" by code_simp
  then have 3: "process_step (stale2, []) (stale2, [(''1'', None)])" by (rule process_step.stop_signals)
  have "map_of (pa_sandboxes stale2) ''1'' = Some (the (map_of (pa_sandboxes stale2) ''1''))"
    "ps_waitDone (the (map_of (pa_sandboxes stale2) ''1'')) = Some 0" by code_simp+
  then have 4: "process_step (stale2, [(''1'', None)]) (stale2, [(''1'', Some 0)])"
    using process_step.stop_waits [of "''1''" "[(''1'', None)]" stale2] by simp
  have "phase stale2 0 = Some Alive" by code_simp
  then have 5: "process_step (stale2, [(''1'', Some 0)]) (set_phase 0 Exited stale2, [(''1'', Some 0)])"
    by (rule process_step.exit)
  have "phase (set_phase 0 Exited stale2) 0 = Some Exited" by code_simp
  then have 6: "process_step (set_phase 0 Exited stale2, [(''1'', Some 0)]) (?closed, [(''1'', Some 0)])"
    by (rule process_step.waited)
  have "phase ?closed 0 = Some WaitClosed" by code_simp
  then have 7: "process_step (?closed, [(''1'', Some 0)]) (stale3, [])"
    using process_step.stop_ends [of "''1''" 0 "[(''1'', Some 0)]" ?closed] by (simp add: stale3_def)
  have 8: "process_step (stale3, []) (stale4, [])"
    by (rule process_step.start [of sample_penv "''1''"]) (simp add: stale4_def prod_eq_iff)
  have "phase stale4 0 = Some WaitClosed" by code_simp
  then have 9: "process_step (stale4, []) (stale5, [])" unfolding stale5_def by (rule process_step.reaped)
  note step = converse_rtranclp_into_rtranclp [of process_step]
  show ?thesis
    by (rule step [OF 1 step [OF 2 step [OF 3 step [OF 4 step [OF 5 step [OF 6 step [OF 7 step [OF 8 r_into_rtranclp [of process_step, OF 9]]]]]]]]])
qed

text \<open>
  A restarted sandbox can be lost. After stop and start in quick succession there is an interleaving in
  which the command of the second start is alive while its sandbox is reported as stopped without PID; a
  further \<open>Stop\<close> returns at once with no error and leaves the command running.
\<close>

lemma stale_reaper_orphans_process:
  "\<exists>s i e n. process_step\<^sup>*\<^sup>* (new_process_state 0, []) (s, []) \<and> map_of (pa_sandboxes s) i = Some e \<and>
     phase s n = Some Alive \<and> fst (pa_cmds s ! n) = i \<and> ps_cmd e = Some n \<and> sb_Status (ps_sandbox e) = SandboxStatusStopped \<and>
     (\<exists>s'. stop_begin i s = (Inl None, s') \<and> phase s' n = Some Alive)"
proof (intro exI conjI)
  show "process_step\<^sup>*\<^sup>* (new_process_state 0, []) (stale5, [])" by (rule stale_run)
  show "map_of (pa_sandboxes stale5) ''1'' = Some (the (map_of (pa_sandboxes stale5) ''1''))" by code_simp
  show "phase stale5 1 = Some Alive" "fst (pa_cmds stale5 ! 1) = ''1''" by code_simp+
  show "ps_cmd (the (map_of (pa_sandboxes stale5) ''1'')) = Some 1" by code_simp
  show "sb_Status (ps_sandbox (the (map_of (pa_sandboxes stale5) ''1''))) = SandboxStatusStopped" by code_simp
  show "stop_begin ''1'' stale5 = (Inl None, snd (stop_begin ''1'' stale5))" by code_simp
  show "phase (snd (stop_begin ''1'' stale5)) 1 = Some Alive" by code_simp
qed


end
