(* ===== verification/Engine.thy ===== *)
theory Engine
  imports Sandbox_Ports Backend_Runtime Reservation
begin

text \<open>
  The orchestration engine: the choice of a port for a tier (\<open>internal/adapters/sandbox.go\<close>), the engine and
  its deployments (\<open>pkg/orchestrate/orchestrate.go\<close>) and the handoff of compositions
  (\<open>pkg/orchestrate/composition.go\<close>). The tier runtimes and adapters behind the interfaces answer through
  functions; a deployment that returns no error returns a sandbox.
\<close>

section \<open>Ports by tier\<close>

datatype 'a port = GVisorPort | FirecrackerPort | PodmanPort | StubPort string int | TierPort 'a int

definition tierName :: "(int, string) gomap" where
  "tierName =
     [(4, ''docker''), (5, ''podman''), (6, ''gvisor''), (7, ''firecracker''), (8, ''native''), (9, ''landlock''),
      (10, ''seccomp''), (11, ''lxc''), (12, ''kata''), (13, ''qemu''), (14, ''kvm''), (15, ''wasm''),
      (16, ''wasmtime''), (17, ''cloudhv''), (18, ''crosvm''), (19, ''applevz''), (20, ''hyperkit''), (21, ''lima''),
      (22, ''firejail''), (23, ''bubblewrap''), (24, ''nsjail''), (25, ''youki''), (26, ''crun''), (27, ''sysbox''),
      (28, ''kata-fc''), (29, ''kata-qemu''), (30, ''kata-cloud-hv'')]"

text \<open>\<open>registry.Get\<close>, then the first registered name that differs in case only.\<close>

definition find_adapter :: "'a Registry \<Rightarrow> string \<Rightarrow> 'a option" where
  "find_adapter registry name =
     (case registry_Get registry name of
        Inr adapter \<Rightarrow> Some adapter
      | Inl _ \<Rightarrow>
          (case find (\<lambda>regName. equalFold regName name) (registry_List registry) of
             None \<Rightarrow> None
           | Some regName \<Rightarrow> (case registry_Get registry regName of Inl _ \<Rightarrow> None | Inr adapter \<Rightarrow> Some adapter)))"

definition NewSandboxPort :: "'a Registry \<Rightarrow> int \<Rightarrow> 'a port result" where
  "NewSandboxPort registry tierID =
     (if tierID = 1 then Inl (Errorf ''tier 1 (WASM) SandboxPort adapter not yet implemented'' [])
      else if tierID = 2 then Inr GVisorPort
      else if tierID = 3 then Inr FirecrackerPort
      else if tierID < 4 \<or> tierID > 30 then Inl (Errorf ''unsupported tier: %d (valid range: 1-30)'' [AInt tierID])
      else case map_of tierName tierID of
        None \<Rightarrow> Inl (Errorf ''no adapter mapping for tier %d'' [AInt tierID])
      | Some name \<Rightarrow>
          (case find_adapter registry name of
             None \<Rightarrow> Inr (StubPort (''tier-'' @ itoa tierID) tierID)
           | Some adapter \<Rightarrow> Inr (TierPort adapter tierID)))"

definition NewProvider :: "'a Registry \<Rightarrow> string \<Rightarrow> int \<Rightarrow> 'a port result" where
  "NewProvider registry name tierID =
     (if name = [] \<or> name = ''tier'' then NewSandboxPort registry tierID
      else if name = ''podman'' then Inr PodmanPort
      else if name = ''apple-containers'' then Inr (StubPort ''apple-containers'' tierID)
      else if name = ''wsl-containers'' then Inr (StubPort ''wsl-containers'' tierID)
      else Inl (Errorf ''unsupported provider %q (supported: tier, podman, apple-containers, wsl-containers)'' [AStr name]))"

section \<open>The tier adapter\<close>

text \<open>\<open>tierAdapter\<close>: the sandboxes it created, around an adapter whose operations are arguments.\<close>

record tier_adapter =
  ta_tierID :: int
  ta_sandboxes :: "(string, Sandbox) gomap"

definition tier_Create ::
  "(SandboxConfig \<Rightarrow> Sandbox option result) \<Rightarrow> SandboxConfig \<Rightarrow> tier_adapter \<Rightarrow> Sandbox result \<times> tier_adapter" where
  "tier_Create deploy config t =
     (case deploy config of
        Inl err \<Rightarrow> (Inl (Errorf ''tier %d deploy: %w'' [AInt (ta_tierID t), AWrap err]), t)
      | Inr r \<Rightarrow>
          let sandbox = (case r of
              Some sb \<Rightarrow> sb
            | None \<Rightarrow> zero_Sandbox\<lparr>sb_ID := ''sandbox-'' @ sc_Name config @ ''-'' @ itoa (ta_tierID t),
                sb_Name := ''tier-'' @ itoa (ta_tierID t), sb_Status := SandboxStatusPending, sb_Config := Some config\<rparr>) in
          (Inr sandbox, t\<lparr>ta_sandboxes := AList.update (sb_ID sandbox) sandbox (ta_sandboxes t)\<rparr>))"

definition tier_Delete :: "(string \<Rightarrow> go_error option) \<Rightarrow> string \<Rightarrow> tier_adapter \<Rightarrow> go_error option \<times> tier_adapter" where
  "tier_Delete delete i t = (delete i, t\<lparr>ta_sandboxes := AList.delete i (ta_sandboxes t)\<rparr>)"

definition tier_Get :: "string \<Rightarrow> tier_adapter \<Rightarrow> Sandbox result" where
  "tier_Get i t =
     (case map_of (ta_sandboxes t) i of
        Some s \<Rightarrow> Inr s
      | None \<Rightarrow> Inl (Errorf ''sandbox %s not found in tier %d'' [AStr i, AInt (ta_tierID t)]))"

definition tier_List :: "tier_adapter \<Rightarrow> Sandbox list" where
  "tier_List t = map snd (ta_sandboxes t)"

definition stub_error :: "string \<Rightarrow> go_error" where
  "stub_error name = Errorf ''%s: adapter not yet implemented'' [AStr name]"

section \<open>The engine\<close>

record 'a tier_ops =
  op_Deploy :: "'a \<Rightarrow> SandboxConfig \<Rightarrow> Sandbox option result"
  op_Stop :: "'a \<Rightarrow> string \<Rightarrow> go_error option"
  op_Delete :: "'a \<Rightarrow> string \<Rightarrow> go_error option"
  op_port_Create :: "SandboxConfig \<Rightarrow> 'a port \<Rightarrow> Sandbox result" \<comment> \<open>the ports that are no tier adapters\<close>
  op_port_Stop :: "string \<Rightarrow> 'a port \<Rightarrow> go_error option"
  op_port_Delete :: "string \<Rightarrow> 'a port \<Rightarrow> go_error option"

type_synonym dispatcher = "SandboxConfig \<Rightarrow> Sandbox result"

record Engine =
  eng_tier1 :: dispatcher
  eng_tier2 :: dispatcher
  eng_tier3 :: dispatcher
  eng_firecracker :: "((string \<Rightarrow> go_error option) \<times> (string \<Rightarrow> go_error option)) option" \<comment> \<open>stop and delete of a \<open>FirecrackerAdapter\<close>\<close>
  eng_backendDispatchers :: "(BackendID, dispatcher) gomap"
  eng_reservations :: "ReservationStore option"
  eng_reservationTTL :: int

definition NewEngineWithAdapters :: "dispatcher \<Rightarrow> dispatcher \<Rightarrow> dispatcher \<Rightarrow>
    ((string \<Rightarrow> go_error option) \<times> (string \<Rightarrow> go_error option)) option \<Rightarrow> Engine" where
  "NewEngineWithAdapters t1 t2 t3 fc =
     \<lparr>eng_tier1 = t1, eng_tier2 = t2, eng_tier3 = t3, eng_firecracker = fc, eng_backendDispatchers = [(BackendNanoVMS, t3)],
      eng_reservations = None, eng_reservationTTL = 15 * 60 * 1000000000\<rparr>"

text \<open>
  \<open>NewEngine\<close>: the stock adapters and one dispatcher per container backend; \<open>dispatch\<close> is
  \<open>newSandboxPortDispatcher\<close>.
\<close>

definition NewEngine :: "'a Registry \<Rightarrow> ('a port \<Rightarrow> dispatcher) \<Rightarrow> dispatcher \<Rightarrow> dispatcher \<Rightarrow> dispatcher \<Rightarrow>
    (string \<Rightarrow> go_error option) \<times> (string \<Rightarrow> go_error option) \<Rightarrow> Engine" where
  "NewEngine registry dispatch wasm gvisor firecracker fc =
     (NewEngineWithAdapters wasm gvisor firecracker (Some fc))\<lparr>eng_backendDispatchers :=
        fold (\<lambda>(backend, provider) dispatchers.
            case NewProvider registry provider 2 of
              Inl _ \<Rightarrow> dispatchers
            | Inr port \<Rightarrow> AList.update backend (dispatch port) dispatchers)
          [(BackendPodman, ''podman''), (BackendAppleContainers, ''apple-containers''), (BackendWSLContainers, ''wsl-containers'')]
          [(BackendNanoVMS, firecracker)]\<rparr>"

definition RegisterBackendDispatcher :: "BackendID \<Rightarrow> dispatcher option \<Rightarrow> Engine option \<Rightarrow> go_error option \<times> Engine option" where
  "RegisterBackendDispatcher backend d engine =
     (case (engine, d) of
        (Some e, Some dispatch) \<Rightarrow>
          (case registry_Resolve NewBackendRegistry backend of
             Inl err \<Rightarrow> (Some err, engine)
           | Inr metadata \<Rightarrow>
               if \<not> backend_Lifecycle metadata
               then (Some (Errorf ''backend %q does not advertise lifecycle support'' [AStr backend]), engine)
               else (None, Some (e\<lparr>eng_backendDispatchers := AList.update backend dispatch (eng_backendDispatchers e)\<rparr>)))
      | _ \<Rightarrow> (Some (Errorf ''engine and backend dispatcher are required'' []), engine))"

definition ConfigureGPUReservations :: "ReservationStore option \<Rightarrow> int \<Rightarrow> Engine option \<Rightarrow> go_error option \<times> Engine option" where
  "ConfigureGPUReservations store ttl engine =
     (case engine of
        Some e \<Rightarrow>
          if store = None \<or> ttl \<le> 0
          then (Some (Errorf ''engine, reservation store, and positive expiry are required'' []), engine)
          else (None, Some (e\<lparr>eng_reservations := store, eng_reservationTTL := ttl\<rparr>))
      | None \<Rightarrow> (Some (Errorf ''engine, reservation store, and positive expiry are required'' []), engine))"

definition mergeLabels :: "(string, string) gomap \<Rightarrow> (string, string) gomap \<Rightarrow> (string, string) gomap" where
  "mergeLabels base override = fold (\<lambda>(k, v). AList.update k v) override base"

definition port_Create :: "'a tier_ops \<Rightarrow> 'a port \<Rightarrow> SandboxConfig \<Rightarrow> Sandbox result" where
  "port_Create ops port config =
     (case port of
        StubPort name _ \<Rightarrow> Inl (stub_error name)
      | TierPort adapter tierID \<Rightarrow> fst (tier_Create (op_Deploy ops adapter) config \<lparr>ta_tierID = tierID, ta_sandboxes = []\<rparr>)
      | _ \<Rightarrow> op_port_Create ops config port)"

text \<open>\<open>Deploy\<close>; \<open>deployedAt\<close> is the formatted start time.\<close>

definition Engine_Deploy ::
  "'a Registry \<Rightarrow> 'a tier_ops \<Rightarrow> string \<Rightarrow> Engine \<Rightarrow> int \<Rightarrow> SandboxConfig \<Rightarrow> Sandbox result" where
  "Engine_Deploy registry ops deployedAt e tierLevel config =
     (let deployed =
        (if tierLevel = 1 then Inr (eng_tier1 e config)
         else if tierLevel = 2 then Inr (eng_tier2 e config)
         else if tierLevel = 3 then Inr (eng_tier3 e config)
         else case NewSandboxPort registry tierLevel of
           Inl portErr \<Rightarrow> Inl (Errorf ''tier %d: %w'' [AInt tierLevel, AWrap portErr])
         | Inr port \<Rightarrow> Inr (port_Create ops port config)) in
      case deployed of
        Inl err \<Rightarrow> Inl err
      | Inr (Inl err) \<Rightarrow> Inl (Errorf ''tier %d deployment failed: %w'' [AInt tierLevel, AWrap err])
      | Inr (Inr sandbox) \<Rightarrow>
          Inr (sandbox\<lparr>sb_Environment := mergeLabels (sb_Environment sandbox)
                 [(''nvms.tier'', itoa tierLevel), (''nvms.deployedAt'', deployedAt)]\<rparr>))"

definition Engine_Stop :: "'a Registry \<Rightarrow> 'a tier_ops \<Rightarrow> Engine \<Rightarrow> int \<Rightarrow> string \<Rightarrow> go_error option" where
  "Engine_Stop registry ops e tierLevel i =
     (if tierLevel = 1 then Some (Errorf ''tier1 stop not yet implemented for id=%s'' [AStr i])
      else if tierLevel = 2 then Some (Errorf ''tier2 stop not yet implemented for id=%s'' [AStr i])
      else if tierLevel = 3 then
        (case eng_firecracker e of
           Some (stop, _) \<Rightarrow> stop i
         | None \<Rightarrow> Some (Errorf ''tier3 stop not available for id=%s'' [AStr i]))
      else case NewSandboxPort registry tierLevel of
        Inl portErr \<Rightarrow> Some (Errorf ''tier %d: %w'' [AInt tierLevel, AWrap portErr])
      | Inr (StubPort name _) \<Rightarrow> Some (stub_error name)
      | Inr (TierPort adapter _) \<Rightarrow> op_Stop ops adapter i
      | Inr port \<Rightarrow> op_port_Stop ops i port)"

definition Engine_Delete :: "'a Registry \<Rightarrow> 'a tier_ops \<Rightarrow> Engine \<Rightarrow> int \<Rightarrow> string \<Rightarrow> go_error option" where
  "Engine_Delete registry ops e tierLevel i =
     (if tierLevel = 1 then Some (Errorf ''tier1 delete not yet implemented for id=%s'' [AStr i])
      else if tierLevel = 2 then Some (Errorf ''tier2 delete not yet implemented for id=%s'' [AStr i])
      else if tierLevel = 3 then
        (case eng_firecracker e of
           Some (_, delete) \<Rightarrow> delete i
         | None \<Rightarrow> Some (Errorf ''tier3 delete not available for id=%s'' [AStr i]))
      else case NewSandboxPort registry tierLevel of
        Inl portErr \<Rightarrow> Some (Errorf ''tier %d: %w'' [AInt tierLevel, AWrap portErr])
      | Inr (StubPort name _) \<Rightarrow> Some (stub_error name)
      | Inr (TierPort adapter tierID) \<Rightarrow>
          fst (tier_Delete (op_Delete ops adapter) i \<lparr>ta_tierID = tierID, ta_sandboxes = []\<rparr>)
      | Inr port \<Rightarrow> op_port_Delete ops i port)"

section \<open>Compositions\<close>

record CompositionRequest =
  comp_Name :: string
  comp_Digest :: string
  comp_Backend :: BackendMetadata
  comp_Config :: SandboxConfig

definition validateCompositionRequest :: "CompositionRequest \<Rightarrow> go_error option" where
  "validateCompositionRequest request =
     (if comp_Name request = [] \<or> trimSpace (comp_Name request) \<noteq> comp_Name request \<or>
         (\<exists>c \<in> set (comp_Name request). c \<in> set [CHR '' '', CHR 0x09, CHR 0x0D, CHR 0x0A])
      then Some (Errorf ''composition name must be non-empty and contain no whitespace'' [])
      else if length (comp_Digest request) \<noteq> 64
      then Some (Errorf ''composition digest must be a 64-character SHA-256 hex string'' [])
      else if hexDecode (comp_Digest request) = None
      then Some (Errorf ''composition digest must be hexadecimal: %w'' [AWrap (Sentinel ''hex'')])
      else if backend_ID (comp_Backend request) = [] \<or> backend_Tier (comp_Backend request) < 1 \<or>
              \<not> backend_Lifecycle (comp_Backend request)
      then Some (Errorf ''composition backend metadata is incomplete'' [])
      else None)"

definition DeployComposition ::
  "'a Registry \<Rightarrow> 'a tier_ops \<Rightarrow> string \<Rightarrow> Engine option \<Rightarrow> CompositionRequest \<Rightarrow> Sandbox result" where
  "DeployComposition registry ops deployedAt engine request =
     (case engine of
        None \<Rightarrow> Inl (Errorf ''orchestration engine is nil'' [])
      | Some e \<Rightarrow>
        (case validateCompositionRequest request of
           Some err \<Rightarrow> Inl err
         | None \<Rightarrow>
           (case registry_Resolve NewBackendRegistry (backend_ID (comp_Backend request)) of
              Inl err \<Rightarrow> Inl err
            | Inr metadata \<Rightarrow>
                if backend_Tier metadata \<noteq> backend_Tier (comp_Backend request) \<or>
                   backend_Lifecycle metadata \<noteq> backend_Lifecycle (comp_Backend request)
                then Inl (Errorf ''backend metadata mismatch for %q'' [AStr (backend_ID (comp_Backend request))])
                else (case Engine_Deploy registry ops deployedAt e (backend_Tier metadata)
                             ((comp_Config request)\<lparr>sc_Name := comp_Name request\<rparr>) of
                    Inl err \<Rightarrow> Inl err
                  | Inr sandbox \<Rightarrow>
                      Inr (sandbox\<lparr>sb_Environment :=
                        AList.update ''nvms.backend'' (backend_ID (comp_Backend request))
                          (AList.update ''phenocompose.sha256'' (toLower (comp_Digest request))
                            (AList.update ''phenocompose.name'' (comp_Name request) (sb_Environment sandbox)))\<rparr>)))))"

section \<open>Lemmas\<close>

lemma map_of_mergeLabels: "map_of (mergeLabels l r) = map_of l ++ map_of (rev r)"
  unfolding mergeLabels_def by (induction r arbitrary: l) (auto simp: map_add_def fun_eq_iff split: option.splits)

lemma Resolve_ID:
  assumes "registry_Resolve NewBackendRegistry ident = Inr metadata"
  shows "backend_ID metadata = ident"
proof -
  obtain m where m: "NewBackendRegistry = Some m" by (simp add: NewBackendRegistry_def)
  then have "(ident, metadata) \<in> set m"
    using assms by (auto simp: registry_Resolve_def m dest: map_of_SomeD split: option.splits)
  moreover have "\<forall>(ident, md) \<in> set m. backend_ID md = ident"
    using registry_ok_NewBackendRegistry by (simp add: m registry_ok_def)
  ultimately show ?thesis by blast
qed

lemma label_names_distinct:
  "distinct [''nvms.tier'', ''nvms.deployedAt'', ''nvms.backend'', ''phenocompose.sha256'', ''phenocompose.name'']"
  by code_simp

lemma Engine_Deploy_tier_label:
  assumes "Engine_Deploy registry ops deployedAt e tierLevel config = Inr sb"
  shows "map_of (sb_Environment sb) ''nvms.tier'' = Some (itoa tierLevel)"
  using assms label_names_distinct
  by (auto simp: Engine_Deploy_def Let_def map_of_mergeLabels split: sum.splits if_splits)

lemma DeployComposition_Inr:
  assumes "DeployComposition registry ops deployedAt engine request = Inr sb"
  obtains e metadata sandbox where "engine = Some e" "validateCompositionRequest request = None"
    "registry_Resolve NewBackendRegistry (backend_ID (comp_Backend request)) = Inr metadata"
    "backend_Tier metadata = backend_Tier (comp_Backend request)"
    "backend_Lifecycle metadata = backend_Lifecycle (comp_Backend request)"
    "Engine_Deploy registry ops deployedAt e (backend_Tier metadata) ((comp_Config request)\<lparr>sc_Name := comp_Name request\<rparr>) =
       Inr sandbox"
    "sb = sandbox\<lparr>sb_Environment := AList.update ''nvms.backend'' (backend_ID (comp_Backend request))
       (AList.update ''phenocompose.sha256'' (toLower (comp_Digest request))
         (AList.update ''phenocompose.name'' (comp_Name request) (sb_Environment sandbox)))\<rparr>"
  using assms unfolding DeployComposition_def
  by (simp split: option.splits sum.splits if_splits)

lemma validateCompositionRequest_None:
  assumes "validateCompositionRequest request = None"
  shows "length (comp_Digest request) = 64" and "list_all is_hex (comp_Digest request)"
proof -
  obtain bs where "hexDecode (comp_Digest request) = Some bs"
    using assms by (auto simp: validateCompositionRequest_def split: if_splits)
  then show "list_all is_hex (comp_Digest request)"
    using hexDecode_Some_iff [of "comp_Digest request"] by (auto simp: list_all_iff)
  show "length (comp_Digest request) = 64"
    using assms by (auto simp: validateCompositionRequest_def split: if_splits)
qed

text \<open>
  \<open>DeployComposition\<close> never reads the registered backend dispatchers: the documentation of
  \<open>BackendDispatcher\<close> (\<open>orchestrate.go\<close>, lines 29 and 30) says that a backend is never turned into a generic tier.
\<close>

lemma DeployComposition_ignores_dispatchers:
  "DeployComposition registry ops deployedAt (Some (e\<lparr>eng_backendDispatchers := ds\<rparr>)) request =
   DeployComposition registry ops deployedAt (Some e) request"
proof -
  have "Engine_Deploy registry ops deployedAt (e\<lparr>eng_backendDispatchers := ds\<rparr>) = Engine_Deploy registry ops deployedAt e"
    by (intro ext) (simp add: Engine_Deploy_def)
  then show ?thesis by (simp add: DeployComposition_def split: option.split sum.split)
qed

text \<open>A stock engine has a dispatcher for every registered backend.\<close>

lemma NewEngine_covers_backends:
  "map fst (eng_backendDispatchers (NewEngine registry dispatch wasm gvisor firecracker fc)) =
   [BackendNanoVMS, BackendPodman, BackendAppleContainers, BackendWSLContainers]"
  by (simp add: NewEngine_def NewEngineWithAdapters_def NewProvider_def BackendNanoVMS_def BackendPodman_def
    BackendAppleContainers_def BackendWSLContainers_def)

section \<open>Properties\<close>

text \<open>
  A deployed composition is identified and admitted: the request's digest is 64 hexadecimal digits, its
  backend is a registered one with exactly the registered tier and lifecycle flag, and the sandbox carries
  the composition's name, the lower-case digest, the backend and the tier it runs in as
  labels.
\<close>

lemma DeployComposition_labels:
  assumes "DeployComposition registry ops deployedAt engine request = Inr sb"
  shows "length (comp_Digest request) = 64 \<and> list_all is_hex (comp_Digest request) \<and>
    registry_Resolve NewBackendRegistry (backend_ID (comp_Backend request)) = Inr (comp_Backend request) \<and>
    map_of (sb_Environment sb) ''phenocompose.name'' = Some (comp_Name request) \<and>
    map_of (sb_Environment sb) ''phenocompose.sha256'' = Some (toLower (comp_Digest request)) \<and>
    map_of (sb_Environment sb) ''nvms.backend'' = Some (backend_ID (comp_Backend request)) \<and>
    map_of (sb_Environment sb) ''nvms.tier'' = Some (itoa (backend_Tier (comp_Backend request)))"
  using assms
proof (cases rule: DeployComposition_Inr)
  case (1 e metadata sandbox)
  have "metadata = comp_Backend request"
    using Resolve_ID [OF 1(3)] 1(4,5) by simp
  moreover have "map_of (sb_Environment sandbox) ''nvms.tier'' = Some (itoa (backend_Tier metadata))"
    by (rule Engine_Deploy_tier_label [OF 1(6)])
  ultimately show ?thesis
    using 1(3) validateCompositionRequest_None [OF 1(2)] label_names_distinct by (simp add: 1(7))
qed

end
