(* ===== verification/Nvms_Config.thy ===== *)
theory Nvms_Config
  imports Engine
begin

text \<open>
  Configuration files (\<open>pkg/config/config.go\<close>) and their deployment by the engine. Reading the file and the YAML
  decoder are parameters; of the sandbox settings only the fields that reach the domain are kept.
\<close>

record NVMSConfig =
  nc_Version :: string
  nc_Name :: string
  nc_Tier :: int
  nc_Image :: string
  nc_CPU :: int
  nc_Memory :: int
  nc_Disk :: int
  nc_SandboxType :: string
  nc_ReadOnly :: bool
  nc_Seccomp :: string
  nc_Firejail :: string
  nc_Mounts :: "Mount list"
  nc_Env :: "(string, string) gomap"
  nc_Labels :: "(string, string) gomap"

definition config_Validate :: "NVMSConfig \<Rightarrow> go_error option" where
  "config_Validate c =
     (if nc_Name c = [] then Some (Errorf ''config name is required'' [])
      else if nc_Image c = [] then Some (Errorf ''config image is required'' [])
      else if nc_Tier c < 1 \<or> nc_Tier c > 3 then Some (Errorf ''config tier must be 1, 2, or 3'' [])
      else if nc_CPU c < 2 \<or> nc_CPU c > 64 then Some (Errorf ''config cpu must be between 2 and 64'' [])
      else if nc_Memory c < 64 then Some (Errorf ''config memory must be at least 64 MB'' [])
      else None)"

definition config_Parse :: "(string \<Rightarrow> string result) \<Rightarrow> (string \<Rightarrow> NVMSConfig result) \<Rightarrow> string \<Rightarrow> NVMSConfig result" where
  "config_Parse readFile unmarshal path =
     (case readFile path of
        Inl err \<Rightarrow> Inl (Errorf ''failed to read config file %s: %w'' [AStr path, AWrap err])
      | Inr data \<Rightarrow>
          (case unmarshal data of
             Inl err \<Rightarrow> Inl (Errorf ''failed to parse YAML config: %w'' [AWrap err])
           | Inr cfg \<Rightarrow>
               (case config_Validate cfg of
                  Some err \<Rightarrow> Inl (Errorf ''config validation failed: %w'' [AWrap err])
                | None \<Rightarrow> Inr cfg)))"

definition ToDomainConfig :: "NVMSConfig \<Rightarrow> SandboxConfig" where
  "ToDomainConfig c =
     (let mounts = map (\<lambda>m. \<lparr>mnt_Source = mnt_Source m, mnt_Target = mnt_Target m, mnt_Type = mnt_Type m, mnt_ReadOnly = mnt_ReadOnly m\<rparr>)
            (nc_Mounts c);
          vmFlavor = (if nc_Tier c = 1 then ''wasm'' else if nc_Tier c = 2 then ''lima'' else if nc_Tier c = 3 then ''microvm'' else ''native'') in
      zero_SandboxConfig\<lparr>sc_Name := nc_Name c, sc_Image := nc_Image c, sc_VMType := vmFlavor, sc_SandboxType := nc_SandboxType c,
        sc_Labels := nc_Labels c, sc_Mounts := mounts, sc_Environment := nc_Env c, sc_ReadOnlyRootfs := nc_ReadOnly c,
        sc_SeccompProfile := nc_Seccomp c, sc_FirejailProfile := nc_Firejail c\<rparr>)"

definition DeployFromConfig ::
  "'a Registry \<Rightarrow> 'a tier_ops \<Rightarrow> string \<Rightarrow> Engine \<Rightarrow> NVMSConfig option \<Rightarrow> Sandbox result" where
  "DeployFromConfig registry ops deployedAt e cfg =
     (case cfg of
        None \<Rightarrow> Inl (Errorf ''config is nil'' [])
      | Some c \<Rightarrow> Engine_Deploy registry ops deployedAt e (nc_Tier c) (ToDomainConfig c))"

text \<open>
  A configuration that \<open>Parse\<close> returns has a name, an image and one of the engine's own three tiers: its
  deployment depends on the engine's tier runtimes alone, whatever tiers are registered.
\<close>

lemma config_Parse_valid:
  assumes "config_Parse readFile unmarshal path = Inr c"
  shows "nc_Name c \<noteq> [] \<and> nc_Image c \<noteq> [] \<and> nc_Tier c \<in> {1, 2, 3} \<and> nc_CPU c \<in> {2..64} \<and> 64 \<le> nc_Memory c"
  using assms by (auto simp: config_Parse_def config_Validate_def split: sum.splits option.splits if_splits)

lemma parsed_config_own_tier:
  assumes "config_Parse readFile unmarshal path = Inr c"
  shows "DeployFromConfig registry ops deployedAt e (Some c) = DeployFromConfig registry' ops' deployedAt e (Some c)"
  using config_Parse_valid [OF assms] by (auto simp: DeployFromConfig_def Engine_Deploy_def)

end
