(* ===== verification/Env_Toolkit.thy ===== *)
theory Env_Toolkit
  imports Toolkit_Inspector
begin

text \<open>
  The environment provider's error codes (\<open>pkg/environment/error_codes.go\<close>) and its CUDA toolkit discovery
  (\<open>inspector.go\<close>, \<open>toolkit.go\<close>). The package has its own copy of the discovery of
  \<open>pkg/orchestrate/evaluation_inspector.go\<close>; the two are proved to agree, so that what is known of one holds of
  the other. The release pattern, \<open>uniqueNonempty\<close> and \<open>runWithEnv\<close> are word for word those of
  \<open>Toolkit_Inspector\<close> and are used from there.
\<close>

section \<open>Codes\<close>

definition EnvApplyFailed :: string where "EnvApplyFailed = ''apply_failed''"
definition EnvContractDigestFailed :: string where "EnvContractDigestFailed = ''contract_digest_failed''"
definition EnvEnvironmentDrift :: string where "EnvEnvironmentDrift = ''environment_drift''"
definition EnvEnvironmentFailed :: string where "EnvEnvironmentFailed = ''environment_failed''"
definition EnvEnvironmentNotApplied :: string where "EnvEnvironmentNotApplied = ''environment_not_applied''"
definition EnvGPUNotFound :: string where "EnvGPUNotFound = ''gpu_not_found''"
definition EnvInvalidProfile :: string where "EnvInvalidProfile = ''invalid_profile''"
definition EnvInvalidRequest :: string where "EnvInvalidRequest = ''invalid_request''"
definition EnvInventoryEmpty :: string where "EnvInventoryEmpty = ''inventory_empty''"
definition EnvInventoryFailed :: string where "EnvInventoryFailed = ''inventory_failed''"
definition EnvToolkitAmbiguous :: string where "EnvToolkitAmbiguous = ''toolkit_ambiguous''"
definition EnvToolkitInspectionTimeout :: string where "EnvToolkitInspectionTimeout = ''toolkit_inspection_timeout''"
definition EnvToolkitNotFound :: string where "EnvToolkitNotFound = ''toolkit_not_found''"
definition EnvToolkitVersionMismatch :: string where "EnvToolkitVersionMismatch = ''toolkit_version_mismatch''"
definition EnvWSLInspectionFailed :: string where "EnvWSLInspectionFailed = ''wsl_inspection_failed''"

lemmas env_codes [go_simps] =
  EnvApplyFailed_def EnvContractDigestFailed_def EnvEnvironmentDrift_def EnvEnvironmentFailed_def
  EnvEnvironmentNotApplied_def EnvGPUNotFound_def EnvInvalidProfile_def EnvInvalidRequest_def
  EnvInventoryEmpty_def EnvInventoryFailed_def EnvToolkitAmbiguous_def EnvToolkitInspectionTimeout_def
  EnvToolkitNotFound_def EnvToolkitVersionMismatch_def EnvWSLInspectionFailed_def

definition AllEnvironmentErrorCodes :: "string list" where
  "AllEnvironmentErrorCodes =
     [EnvApplyFailed, EnvContractDigestFailed, EnvEnvironmentDrift, EnvEnvironmentFailed, EnvEnvironmentNotApplied,
      EnvGPUNotFound, EnvInvalidProfile, EnvInvalidRequest, EnvInventoryEmpty, EnvInventoryFailed,
      EnvToolkitAmbiguous, EnvToolkitInspectionTimeout, EnvToolkitNotFound, EnvToolkitVersionMismatch, EnvWSLInspectionFailed]"

definition Env_ProcessExitFor :: "string \<Rightarrow> int" where
  "Env_ProcessExitFor code =
     (if code \<in> {EnvInvalidRequest, EnvInvalidProfile} then 4
      else if code \<in> {EnvInventoryFailed, EnvInventoryEmpty, EnvGPUNotFound, EnvToolkitNotFound, EnvToolkitAmbiguous,
        EnvToolkitVersionMismatch, EnvToolkitInspectionTimeout, EnvWSLInspectionFailed} then 7
      else if code \<in> {EnvApplyFailed, EnvContractDigestFailed, EnvEnvironmentDrift, EnvEnvironmentNotApplied} then 9
      else 4)"

text \<open>A \<open>ProviderError\<close> is the only coded error of the package.\<close>

definition providerError :: "string \<Rightarrow> string \<Rightarrow> go_arg list \<Rightarrow> go_error" where
  "providerError code format values = CodedError code (Errorf format values)"

section \<open>Discovery\<close>

record HostToolkitInspector =
  hti_Runner :: "inspection_runner option"
  hti_ToolkitRoot :: string
  hti_LookupEnv :: "string \<Rightarrow> string option"
  hti_ProgramFilesRoots :: "string list"
  hti_WSLToolkitProvider :: "(string \<Rightarrow> string \<Rightarrow> string list result) option"

record ToolkitDiscoveryRequest =
  tdr_WSLDistribution :: string
  tdr_Environment :: "(string, string) gomap"
  tdr_CUDAToolkit :: string

definition Env_requestEnv :: "(string, string) gomap \<Rightarrow> string \<Rightarrow> string result" where
  "Env_requestEnv environment key =
     (let keys = sort (map fst (filter (\<lambda>(candidate, val). equalFold candidate key \<and> trimSpace val \<noteq> []) environment));
          lookup = (\<lambda>k. case map_of environment k of None \<Rightarrow> [] | Some v \<Rightarrow> trimSpace v) in
      case keys of
        [] \<Rightarrow> Inr []
      | k # ks \<Rightarrow>
          if \<exists>candidate \<in> set ks. lookup candidate \<noteq> lookup k
          then Inl (providerError EnvToolkitAmbiguous
                 ''environment contains conflicting case-insensitive values for %s'' [AStr key])
          else Inr (lookup k))"

definition Env_environmentValue ::
  "(string \<Rightarrow> string option) \<Rightarrow> (string, string) gomap \<Rightarrow> string \<Rightarrow> bool \<Rightarrow> string result" where
  "Env_environmentValue lookup environment key allowHost =
     (case Env_requestEnv environment key of
        Inl err \<Rightarrow> Inl err
      | Inr val \<Rightarrow>
          if val \<noteq> [] then Inr val
          else if \<not> allowHost then Inr []
          else Inr (trimSpace (case lookup key of None \<Rightarrow> [] | Some v \<Rightarrow> v)))"

definition Env_program_roots :: "HostToolkitInspector \<Rightarrow> (string, string) gomap \<Rightarrow> string list result" where
  "Env_program_roots inspector environment =
     (if hti_ProgramFilesRoots inspector \<noteq> [] then Inr (hti_ProgramFilesRoots inspector)
      else
          foldE (\<lambda>key roots.
              case Env_environmentValue (hti_LookupEnv inspector) environment key True of
                Inl err \<Rightarrow> Inl err
              | Inr val \<Rightarrow> Inr (if val \<noteq> [] then roots @ [val] else roots))
            [''ProgramFiles'', ''ProgramW6432''] [])"

definition Env_defaultWSLToolkitProvider :: "string \<Rightarrow> string \<Rightarrow> string list result" where
  "Env_defaultWSLToolkitProvider distribution version = Inr [''/usr/local/cuda-'' @ version]"

definition Env_toolkitCandidateGroups ::
  "HostToolkitInspector \<Rightarrow> ToolkitDiscoveryRequest \<Rightarrow> string \<Rightarrow> toolkitCandidateGroup list result" where
  "Env_toolkitCandidateGroups inspector request version =
     (let distribution = tdr_WSLDistribution request;
          env = Env_environmentValue (hti_LookupEnv inspector) (tdr_Environment request);
          configured = (if trimSpace (hti_ToolkitRoot inspector) = []
            then env ''NANOVMS_CUDA_TOOLKIT_ROOT'' (distribution = []) else Inr (trimSpace (hti_ToolkitRoot inspector))) in
      case configured of
        Inl err \<Rightarrow> Inl err
      | Inr configuredRoot \<Rightarrow>
      (case env (version_variable version) (distribution = []) of
        Inl err \<Rightarrow> Inl err
      | Inr versionRoot \<Rightarrow>
      (case env ''CUDA_PATH'' (distribution = []) of
        Inl err \<Rightarrow> Inl err
      | Inr cudaPath \<Rightarrow>
        let groups = [\<lparr>grp_roots = [configuredRoot], grp_authoritative = True\<rparr>,
                      \<lparr>grp_roots = [versionRoot], grp_authoritative = True\<rparr>,
                      \<lparr>grp_roots = [cudaPath], grp_authoritative = False\<rparr>] in
        if distribution \<noteq> []
        then let provider = (case hti_WSLToolkitProvider inspector of None \<Rightarrow> Env_defaultWSLToolkitProvider | Some p \<Rightarrow> p) in
          (case provider distribution version of
             Inl err \<Rightarrow>
               if errors_is err ''context.DeadlineExceeded''
               then Inl (providerError EnvToolkitInspectionTimeout
                      ''CUDA toolkit discovery timed out in WSL distribution %q'' [AStr distribution])
               else Inl (providerError EnvToolkitNotFound
                      ''discover CUDA toolkit in WSL distribution %q: %v'' [AStr distribution, AErr err])
           | Inr roots \<Rightarrow> Inr (groups @ [\<lparr>grp_roots = roots, grp_authoritative = False\<rparr>]))
        else
          (case Env_program_roots inspector (tdr_Environment request) of
             Inl err \<Rightarrow> Inl err
           | Inr roots \<Rightarrow>
               Inr (groups @ [\<lparr>grp_roots = map (\<lambda>root. path_join [root, ''NVIDIA GPU Computing Toolkit'', ''CUDA'', ''v'' @ version]) roots,
                 grp_authoritative = False\<rparr>])))))"

definition Env_inspectToolkitCandidate ::
  "inspection_runner \<Rightarrow> string \<Rightarrow> string \<Rightarrow> (resolvedToolkit \<times> string \<times> bool) result" where
  "Env_inspectToolkitCandidate runner distribution root =
     (let absolute = isAbs root;
          hostDistribution = (if distribution \<noteq> [] \<and> absolute then [] else distribution) in
      if \<not> absolute then Inr (\<lparr>tk_Root = root, tk_Executable = [], tk_Version = []\<rparr>, [], False)
      else
        let executable = (if hostDistribution \<noteq> [] then path_join [root, ''bin'', ''nvcc'']
                          else path_join [root, ''bin'', ''nvcc.exe'']);
            candidate = \<lparr>tk_Root = root, tk_Executable = executable, tk_Version = []\<rparr>;
            (result, err) = inspector_run runner hostDistribution executable [''--version''] in
        if res_TimedOut result \<or> (case err of None \<Rightarrow> False | Some e \<Rightarrow> errors_is e ''context.DeadlineExceeded'')
        then Inl (providerError EnvToolkitInspectionTimeout ''CUDA toolkit inspection timed out for %q'' [AStr executable])
        else if err \<noteq> None \<or> res_ExitCode result \<noteq> 0 then Inr (candidate, [], False)
        else case nvccReleasePattern (res_Stdout result @ res_Stderr result) of
          None \<Rightarrow> Inr (candidate, ''unknown'', True)
        | Some v \<Rightarrow> Inr (candidate, v, True))"

text \<open>The loop over the groups; the loop over one group's roots is \<open>inspect_root\<close>, which has no error of its own.\<close>

fun Env_resolve_groups ::
  "(string \<Rightarrow> (resolvedToolkit \<times> string \<times> bool) result) \<Rightarrow> string \<Rightarrow> string list \<Rightarrow>
     toolkitCandidateGroup list \<Rightarrow> resolvedToolkit result" where
  "Env_resolve_groups inspect requested mismatches [] =
     (if mismatches \<noteq> []
      then Inl (providerError EnvToolkitVersionMismatch ''no CUDA toolkit matched requested %s: %s''
             [AStr requested, AStr (join mismatches ''; '')])
      else Inl (providerError EnvToolkitNotFound ''CUDA toolkit %s was not found'' [AStr requested]))"
| "Env_resolve_groups inspect requested mismatches (grp # groups) =
     (let roots = uniqueNonempty (grp_roots grp) in
      if roots = [] then Env_resolve_groups inspect requested mismatches groups
      else case foldE (inspect_root inspect requested) roots (mismatches, [], False) of
        Inl err \<Rightarrow> Inl err
      | Inr (mismatches', matches, unavailable) \<Rightarrow>
          if length matches > 1
          then Inl (providerError EnvToolkitAmbiguous ''multiple CUDA %s installations found: %s''
                 [AStr requested, AStr (join (sort (map tk_Root matches)) '', '')])
          else if length matches = 1 then Inr (hd matches)
          else if grp_authoritative grp \<and> mismatches' \<noteq> []
          then Inl (providerError EnvToolkitVersionMismatch
                 ''configured CUDA toolkit does not match requested %s: %s'' [AStr requested, AStr (join mismatches' ''; '')])
          else if grp_authoritative grp \<and> unavailable
          then Inl (providerError EnvToolkitNotFound
                 ''configured CUDA %s toolkit has no executable nvcc'' [AStr requested])
          else Env_resolve_groups inspect requested mismatches' groups)"

definition Env_resolveToolkit ::
  "HostToolkitInspector \<Rightarrow> inspection_runner \<Rightarrow> ToolkitDiscoveryRequest \<Rightarrow> resolvedToolkit result" where
  "Env_resolveToolkit inspector runner request =
     (let requested = trimSpace (tdr_CUDAToolkit request) in
      if requested = []
      then Inl (providerError EnvToolkitNotFound ''requested CUDA toolkit version is empty'' [])
      else case Env_toolkitCandidateGroups inspector request requested of
        Inl err \<Rightarrow> Inl err
      | Inr groups \<Rightarrow>
          Env_resolve_groups (Env_inspectToolkitCandidate runner (tdr_WSLDistribution request)) requested [] groups)"

section \<open>Agreement with the evaluation inspector\<close>

lemmas same_error = providerError_def evaluationError_def env_codes CodeToolkitAmbiguous_def CodeToolkitInspectionTO_def
  CodeToolkitNotFound_def CodeToolkitVersionMismatch_def

definition evaluation_inspector :: "HostToolkitInspector \<Rightarrow> HostEvaluationInspector" where
  "evaluation_inspector i = \<lparr>hei_Runner = hti_Runner i, hei_ToolkitRoot = hti_ToolkitRoot i, hei_LookupEnv = hti_LookupEnv i,
     hei_ProgramFilesRoots = hti_ProgramFilesRoots i, hei_WSLToolkitProvider = hti_WSLToolkitProvider i\<rparr>"

lemma evaluation_inspector_sel [simp]:
  "hei_ToolkitRoot (evaluation_inspector i) = hti_ToolkitRoot i" "hei_LookupEnv (evaluation_inspector i) = hti_LookupEnv i"
  "hei_ProgramFilesRoots (evaluation_inspector i) = hti_ProgramFilesRoots i"
  "hei_WSLToolkitProvider (evaluation_inspector i) = hti_WSLToolkitProvider i"
  by (simp_all add: evaluation_inspector_def)

lemma Env_requestEnv_agrees: "Env_requestEnv = requestEnv"
  unfolding Env_requestEnv_def [abs_def] requestEnv_def [abs_def] same_error by (rule refl)

lemma Env_environmentValue_agrees: "Env_environmentValue = environmentValue"
  by (intro ext) (simp add: Env_environmentValue_def environmentValue_def Env_requestEnv_agrees)

lemma Env_program_roots_agrees: "Env_program_roots i = program_roots (evaluation_inspector i)"
  by (intro ext) (simp add: Env_program_roots_def program_roots_def Env_environmentValue_agrees)

lemma Env_defaultWSLToolkitProvider_agrees: "Env_defaultWSLToolkitProvider = defaultWSLToolkitProvider"
  by (intro ext) (simp add: Env_defaultWSLToolkitProvider_def defaultWSLToolkitProvider_def)

lemma Env_inspectToolkitCandidate_agrees: "Env_inspectToolkitCandidate = inspectToolkitCandidate"
  by (intro ext) (simp only: Env_inspectToolkitCandidate_def inspectToolkitCandidate_def same_error)

lemma Env_resolve_groups_agrees: "Env_resolve_groups = resolve_groups"
proof (intro ext)
  fix inspect requested ms groups
  show "Env_resolve_groups inspect requested ms groups = resolve_groups inspect requested ms groups"
  proof (induction groups arbitrary: ms)
    case (Cons grp groups)
    show ?case unfolding Env_resolve_groups.simps resolve_groups.simps same_error Cons.IH by (rule refl)
  qed (simp add: same_error)
qed

lemma Env_toolkitCandidateGroups_agrees:
  assumes "req_WSLDistribution er = tdr_WSLDistribution request" and "req_Environment er = tdr_Environment request"
  shows "Env_toolkitCandidateGroups i request version = toolkitCandidateGroups (evaluation_inspector i) er version"
  using assms
  by (simp only: Env_toolkitCandidateGroups_def toolkitCandidateGroups_def Env_environmentValue_agrees
      Env_program_roots_agrees Env_defaultWSLToolkitProvider_agrees same_error evaluation_inspector_sel)


definition sample_env_inspector :: HostToolkitInspector where
  "sample_env_inspector =
     \<lparr>hti_Runner = Some sample_runner, hti_ToolkitRoot = '' /opt/cuda '', hti_LookupEnv = (\<lambda>_. None), hti_ProgramFilesRoots = [],
      hti_WSLToolkitProvider = None\<rparr>"


section \<open>Failures carry a code of the catalog\<close>

definition catalogued :: "go_error \<Rightarrow> bool" where
  "catalogued err \<longleftrightarrow> (\<exists>code inner. err = CodedError code inner \<and> code \<in> set AllEnvironmentErrorCodes)"

lemma catalogued_providerError [simp]: "catalogued (providerError code f as) \<longleftrightarrow> code \<in> set AllEnvironmentErrorCodes"
  by (simp add: catalogued_def providerError_def)

lemma catalog_codes [simp]:
  "EnvApplyFailed \<in> set AllEnvironmentErrorCodes" "EnvContractDigestFailed \<in> set AllEnvironmentErrorCodes"
  "EnvEnvironmentDrift \<in> set AllEnvironmentErrorCodes" "EnvEnvironmentFailed \<in> set AllEnvironmentErrorCodes"
  "EnvEnvironmentNotApplied \<in> set AllEnvironmentErrorCodes" "EnvGPUNotFound \<in> set AllEnvironmentErrorCodes"
  "EnvInvalidProfile \<in> set AllEnvironmentErrorCodes" "EnvInvalidRequest \<in> set AllEnvironmentErrorCodes"
  "EnvInventoryEmpty \<in> set AllEnvironmentErrorCodes" "EnvInventoryFailed \<in> set AllEnvironmentErrorCodes"
  "EnvToolkitAmbiguous \<in> set AllEnvironmentErrorCodes" "EnvToolkitInspectionTimeout \<in> set AllEnvironmentErrorCodes"
  "EnvToolkitNotFound \<in> set AllEnvironmentErrorCodes" "EnvToolkitVersionMismatch \<in> set AllEnvironmentErrorCodes"
  "EnvWSLInspectionFailed \<in> set AllEnvironmentErrorCodes"
  by (simp_all add: AllEnvironmentErrorCodes_def)

lemma Env_requestEnv_code: "Env_requestEnv environment key = Inl err \<Longrightarrow> catalogued err"
  by (auto simp: Env_requestEnv_def Let_def split: list.splits if_splits)

lemma Env_environmentValue_code: "Env_environmentValue lookup environment key host = Inl err \<Longrightarrow> catalogued err"
  by (auto simp: Env_environmentValue_def dest: Env_requestEnv_code split: sum.splits if_splits)

lemma foldE_error: "foldE f xs s = Inl err \<Longrightarrow> (\<And>x s. f x s = Inl err \<Longrightarrow> P) \<Longrightarrow> P"
  by (induction xs arbitrary: s) (auto split: sum.splits)

lemma Env_program_roots_code: "Env_program_roots i environment = Inl err \<Longrightarrow> catalogued err"
  by (auto simp: Env_program_roots_def dest: Env_environmentValue_code elim!: foldE_error split: sum.splits if_splits)

lemma Env_toolkitCandidateGroups_code: "Env_toolkitCandidateGroups i request version = Inl err \<Longrightarrow> catalogued err"
  by (auto simp: Env_toolkitCandidateGroups_def Let_def dest: Env_environmentValue_code Env_program_roots_code
      split: sum.splits if_splits)

lemma Env_inspectToolkitCandidate_code: "Env_inspectToolkitCandidate runner distribution root = Inl err \<Longrightarrow> catalogued err"
  by (auto simp: Env_inspectToolkitCandidate_def Let_def split: prod.splits option.splits if_splits)

lemma inspect_root_error: "inspect_root inspect requested root s = Inl err \<Longrightarrow> inspect root = Inl err"
  by (auto simp: inspect_root_def split: prod.splits sum.splits if_splits)

lemma Env_resolve_groups_code:
  assumes "\<And>root err. inspect root = Inl err \<Longrightarrow> catalogued err"
  shows "Env_resolve_groups inspect requested ms groups = Inl err \<Longrightarrow> catalogued err"
proof (induction groups arbitrary: ms)
  case (Cons grp groups)
  show ?case
  proof (cases "foldE (inspect_root inspect requested) (uniqueNonempty (grp_roots grp)) (ms, [], False)")
    case (Inl e)
    then have "catalogued e" by (rule foldE_error) (use assms inspect_root_error in blast)
    with Inl Cons show ?thesis by (auto simp: Let_def split: if_splits)
  next
    case (Inr r)
    with Cons show ?thesis by (cases r) (auto simp: Let_def split: if_splits)
  qed
qed (auto split: if_splits)

lemma Env_resolveToolkit_code: "Env_resolveToolkit i runner request = Inl err \<Longrightarrow> catalogued err"
  by (auto simp: Env_resolveToolkit_def Let_def dest: Env_toolkitCandidateGroups_code
      intro: Env_resolve_groups_code [of "Env_inspectToolkitCandidate runner (tdr_WSLDistribution request)"]
        Env_inspectToolkitCandidate_code split: sum.splits if_splits)

lemma Env_resolveToolkit_version:
  assumes "Env_resolveToolkit i runner request = Inr t"
  shows "tk_Version t = trimSpace (tdr_CUDAToolkit request)"
proof -
  obtain groups where "resolve_groups (inspectToolkitCandidate runner (tdr_WSLDistribution request))
      (trimSpace (tdr_CUDAToolkit request)) [] groups = Inr t"
    using assms by (auto simp: Env_resolveToolkit_def Let_def Env_resolve_groups_agrees Env_inspectToolkitCandidate_agrees
      split: sum.splits if_splits)
  from resolve_groups_Inr [OF this] show ?thesis by auto
qed

end
