(* ===== verification/Environment.thy ===== *)
theory Environment
  imports Env_Toolkit
begin

text \<open>
  The WSL/CUDA environment provider of \<open>pkg/environment\<close>: locked profiles (\<open>profiles.go\<close>), contracts and their
  canonical digest (\<open>contracts.go\<close>, \<open>wsl.go\<close>), the choice of a toolkit (\<open>toolkit.go\<close>) and the operations \<open>Plan\<close>,
  \<open>Apply\<close> and \<open>Verify\<close> (\<open>provider.go\<close>) over a store of applied digests (\<open>state.go\<close>). The inventory, the command
  runner, \<open>json.Marshal\<close> (whose errors are bare messages) and \<open>sha256.Sum256\<close> are parameters.
\<close>

section \<open>Data\<close>

definition ProviderVersion :: string where "ProviderVersion = ''nanovms.io/environment/v1''"

type_synonym ProfileID = string

definition ProfileAmpere :: ProfileID where "ProfileAmpere = ''ampere''"
definition ProfilePascal :: ProfileID where "ProfilePascal = ''pascal''"

record EnvRequest =
  erq_Version :: string
  erq_Profile :: ProfileID
  erq_WSLDistribution :: string
  erq_Environment :: "(string, string) gomap"
  erq_ToolkitRoot :: string

record RuntimeIdentity =
  rt_PythonInterpreter :: string
  rt_TorchVariant :: string

record PackageDigest =
  pkg_Name :: string
  pkg_Digest :: string

record CompatibilityRecord =
  cr_CUDAToolkitRequested :: string
  cr_CUDAToolkitObserved :: string
  cr_DriverVersion :: string
  cr_DriverCUDACeiling :: string
  cr_ComputeCapability :: string
  cr_Compatible :: bool

record Mutation =
  mut_Kind :: string
  mut_Key :: string
  mut_Value :: string

record ToolkitRecord =
  tr_Requested :: string
  tr_Observed :: string
  tr_Root :: string
  tr_Executable :: string

record WSLMetadata =
  wsl_Distribution :: string
  wsl_Kernel :: string
  wsl_Digest :: string

record Contract =
  ct_Version :: string
  ct_Profile :: ProfileID
  ct_GPU :: Device
  ct_Runtime :: RuntimeIdentity
  ct_Packages :: "PackageDigest list"
  ct_Compatibility :: CompatibilityRecord
  ct_Mutations :: "Mutation list"
  ct_WSL :: "WSLMetadata option"
  ct_Toolkit :: ToolkitRecord
  ct_Digest :: string

record EnvResult =
  ers_Version :: string
  ers_Success :: bool
  ers_NoOp :: bool
  ers_Contract :: "Contract option" \<comment> \<open>\<open>None\<close>: the zero contract\<close>
  ers_ErrorCode :: string
  ers_ErrorMessage :: "go_error option"

definition newResult :: "EnvRequest \<Rightarrow> EnvResult" where
  "newResult request = \<lparr>ers_Version = ProviderVersion, ers_Success = False, ers_NoOp = False, ers_Contract = None,
     ers_ErrorCode = [], ers_ErrorMessage = None\<rparr>"

definition failResult :: "EnvResult \<Rightarrow> go_error \<Rightarrow> EnvResult \<times> go_error option" where
  "failResult result err =
     (let (code, message) = (case errors_as err of None \<Rightarrow> (''environment_failed'', err) | Some (c, inner) \<Rightarrow> (c, inner)) in
      (result\<lparr>ers_Success := False, ers_ErrorCode := code, ers_ErrorMessage := Some message\<rparr>, Some err))"

section \<open>Canonical contracts\<close>

record canonicalWSLMetadata =
  cw_Distribution :: string
  cw_Kernel :: string

record canonicalContract =
  cc_Version :: string
  cc_Profile :: ProfileID
  cc_GPU :: Device
  cc_Runtime :: RuntimeIdentity
  cc_Packages :: "string list" \<comment> \<open>\<open>canonicalPackage\<close> has the name only\<close>
  cc_Compatibility :: CompatibilityRecord
  cc_Mutations :: "Mutation list"
  cc_WSL :: "canonicalWSLMetadata option"
  cc_Toolkit :: ToolkitRecord

text \<open>The host as the provider sees it, and the encoders.\<close>

record env_host =
  eh_Inventory :: "Device list result option"
  eh_Inspector :: HostToolkitInspector
  eh_marshal :: "canonicalContract \<Rightarrow> string + string"
  eh_marshalWSL :: "canonicalWSLMetadata \<Rightarrow> string + string"
  eh_sha256 :: "string \<Rightarrow> nat list"

definition canonical_body :: "Contract \<Rightarrow> canonicalContract" where
  "canonical_body c =
     \<lparr>cc_Version = ct_Version c, cc_Profile = ct_Profile c, cc_GPU = canonical_observations (ct_GPU c), cc_Runtime = ct_Runtime c,
      cc_Packages = sort (map pkg_Name (ct_Packages c)), cc_Compatibility = ct_Compatibility c,
      cc_Mutations = sort_key (\<lambda>x. (mut_Kind x, mut_Key x, mut_Value x)) (ct_Mutations c),
      cc_WSL = map_option (\<lambda>w. \<lparr>cw_Distribution = wsl_Distribution w, cw_Kernel = wsl_Kernel w\<rparr>) (ct_WSL c),
      cc_Toolkit = ct_Toolkit c\<rparr>"

text \<open>
  \<open>CanonicalJSON\<close> copies the packages and the mutations before it sorts them, but the observations in place: the
  body's device shares them with the contract, so the contract comes back with its observations sorted.
\<close>

definition Contract_CanonicalJSON :: "env_host \<Rightarrow> Contract \<Rightarrow> string result \<times> Contract" where
  "Contract_CanonicalJSON host c =
     (if ct_Version c \<noteq> ProviderVersion
      then (Inl (Errorf ''unsupported environment contract version %q'' [AStr (ct_Version c)]), c)
      else case uuid_Validate (dev_UUID (ct_GPU c)) of
        Some err \<Rightarrow> (Inl err, c)
      | None \<Rightarrow>
          (case eh_marshal host (canonical_body c) of Inl msg \<Rightarrow> Inl (Sentinel msg) | Inr payload \<Rightarrow> Inr payload,
           c\<lparr>ct_GPU := canonical_observations (ct_GPU c)\<rparr>))"

definition DigestContract :: "env_host \<Rightarrow> Contract \<Rightarrow> string result \<times> Contract" where
  "DigestContract host c =
     (case Contract_CanonicalJSON host c of
        (Inl err, c') \<Rightarrow> (Inl err, c')
      | (Inr payload, c') \<Rightarrow> (Inr (hexEncode (eh_sha256 host payload)), c'))"

definition wslMetadataDigest :: "env_host \<Rightarrow> WSLMetadata \<Rightarrow> string result" where
  "wslMetadataDigest host metadata =
     (case eh_marshalWSL host \<lparr>cw_Distribution = wsl_Distribution metadata, cw_Kernel = wsl_Kernel metadata\<rparr> of
        Inl msg \<Rightarrow> Inl (Errorf ''marshal WSL metadata: %w'' [AWrap (Sentinel msg)])
      | Inr payload \<Rightarrow> Inr (hexEncode (eh_sha256 host payload)))"

definition InspectWSL :: "env_host \<Rightarrow> inspection_runner option \<Rightarrow> string \<Rightarrow> WSLMetadata option result" where
  "InspectWSL host runner dist =
     (let distribution = trimSpace dist in
      if distribution = [] then Inr None
      else case runner of
        None \<Rightarrow> Inl (providerError EnvWSLInspectionFailed ''command runner is required'' [])
      | Some run \<Rightarrow>
        (case ir_Run run ''wsl.exe'' [''-d'', distribution, ''--'', ''uname'', ''-r''] of
           (_, Some err) \<Rightarrow> Inl (providerError EnvWSLInspectionFailed ''inspect WSL distribution %q kernel: %v'' [AStr distribution, AErr err])
         | (result, None) \<Rightarrow>
             if res_ExitCode result \<noteq> 0
             then Inl (providerError EnvWSLInspectionFailed ''inspect WSL distribution %q kernel exited %d''
                    [AStr distribution, AInt (res_ExitCode result)])
             else
               let metadata = \<lparr>wsl_Distribution = distribution, wsl_Kernel = trimSpace (res_Stdout result), wsl_Digest = []\<rparr> in
               (case wslMetadataDigest host metadata of
                  Inl digestErr \<Rightarrow> Inl digestErr
                | Inr digest \<Rightarrow> Inr (Some (metadata\<lparr>wsl_Digest := digest\<rparr>)))))"

section \<open>Profiles\<close>

definition AmpereGPUUUID :: UUID where "AmpereGPUUUID = ''GPU-8d337a84-43de-158d-7526-7175288a6064''"
definition PascalGPUUUID :: UUID where "PascalGPUUUID = ''GPU-e1e28703-34bd-e46b-6dc1-d7c39fa5612c''"

record LockedProfile =
  lp_ID :: ProfileID
  lp_GPUUUID :: UUID
  lp_CUDAToolkitTarget :: string
  lp_CUDAToolkitTransitional :: "string list"
  lp_TorchVariant :: string
  lp_Packages :: "PackageDigest list"

definition Profile :: "ProfileID \<Rightarrow> LockedProfile result" where
  "Profile ident =
     (if ident = ProfileAmpere
      then Inr \<lparr>lp_ID = ProfileAmpere, lp_GPUUUID = AmpereGPUUUID, lp_CUDAToolkitTarget = ''13.0'', lp_CUDAToolkitTransitional = [],
             lp_TorchVariant = ''cu130'', lp_Packages = [\<lparr>pkg_Name = ''torch'', pkg_Digest = ''sha256:cu130-compatible''\<rparr>]\<rparr>
      else if ident = ProfilePascal
      then Inr \<lparr>lp_ID = ProfilePascal, lp_GPUUUID = PascalGPUUUID, lp_CUDAToolkitTarget = ''12.9'',
             lp_CUDAToolkitTransitional = [''12.4''], lp_TorchVariant = ''cu124'',
             lp_Packages = [\<lparr>pkg_Name = ''torch'', pkg_Digest = ''sha256:cu124-compatible''\<rparr>]\<rparr>
      else Inl (providerError EnvInvalidProfile ''unknown environment profile %q'' [AStr ident]))"

definition AcceptsToolkitVersion :: "LockedProfile \<Rightarrow> string \<Rightarrow> bool" where
  "AcceptsToolkitVersion profile version =
     (version = lp_CUDAToolkitTarget profile \<or> version \<in> set (lp_CUDAToolkitTransitional profile))"

definition ToolkitCandidates :: "LockedProfile \<Rightarrow> string list" where
  "ToolkitCandidates profile = lp_CUDAToolkitTarget profile # lp_CUDAToolkitTransitional profile"

definition artifactRequirements :: "LockedProfile \<Rightarrow> string \<Rightarrow> ArtifactRequirements" where
  "artifactRequirements profile toolkit = \<lparr>art_CUDAToolkit = toolkit, art_CompiledKernels = True\<rparr>"

definition validateProfile :: "LockedProfile \<Rightarrow> go_error option" where
  "validateProfile profile =
     (case uuid_Validate (lp_GPUUUID profile) of
        Some err \<Rightarrow> Some (providerError EnvInvalidProfile ''profile GPU UUID: %v'' [AErr err])
      | None \<Rightarrow>
          if lp_CUDAToolkitTarget profile = []
          then Some (providerError EnvInvalidProfile ''profile %q missing CUDA toolkit target'' [AStr (lp_ID profile)])
          else None)"

definition findDevice :: "Device list \<Rightarrow> UUID \<Rightarrow> Device result" where
  "findDevice devices uuid =
     (case find (\<lambda>device. dev_UUID device = uuid) devices of
        Some device \<Rightarrow> Inr device
      | None \<Rightarrow> Inl (providerError EnvGPUNotFound ''GPU %s not found in inventory'' [AStr uuid]))"

definition runtimeIdentity :: "LockedProfile \<Rightarrow> RuntimeIdentity" where
  "runtimeIdentity profile = \<lparr>rt_PythonInterpreter = ''python3'', rt_TorchVariant = lp_TorchVariant profile\<rparr>"

definition ensureProfile :: "ProfileID \<Rightarrow> LockedProfile result" where
  "ensureProfile ident =
     (case Profile ident of
        Inl err \<Rightarrow> Inl err
      | Inr profile \<Rightarrow> (case validateProfile profile of Some err \<Rightarrow> Inl err | None \<Rightarrow> Inr profile))"

definition validateRequest :: "EnvRequest \<Rightarrow> go_error option" where
  "validateRequest request =
     (if erq_Version request \<noteq> ProviderVersion
      then Some (providerError EnvInvalidRequest ''unsupported environment request version %q'' [AStr (erq_Version request)])
      else if erq_Profile request = [] then Some (providerError EnvInvalidRequest ''profile is required'' [])
      else case ensureProfile (erq_Profile request) of Inl err \<Rightarrow> Some err | Inr _ \<Rightarrow> None)"

section \<open>The choice of a toolkit\<close>

definition toolkitDiscoveryRequest :: "EnvRequest \<Rightarrow> string \<Rightarrow> ToolkitDiscoveryRequest" where
  "toolkitDiscoveryRequest request version =
     \<lparr>tdr_WSLDistribution = [], tdr_Environment = erq_Environment request, tdr_CUDAToolkit = version\<rparr>"

text \<open>The loop over the candidate versions, with \<open>lastErr\<close>.\<close>

fun resolve_versions :: "(string \<Rightarrow> resolvedToolkit result) \<Rightarrow> LockedProfile \<Rightarrow> go_error option \<Rightarrow> string list \<Rightarrow> resolvedToolkit result" where
  "resolve_versions discover profile lastErr [] =
     (case lastErr of
        None \<Rightarrow> Inl (providerError EnvToolkitNotFound ''CUDA toolkit for profile %q was not found'' [AStr (lp_ID profile)])
      | Some err \<Rightarrow> Inl err)"
| "resolve_versions discover profile lastErr (version # versions) =
     (case discover version of
        Inl err \<Rightarrow> resolve_versions discover profile (Some err) versions
      | Inr toolkit \<Rightarrow>
          if AcceptsToolkitVersion profile (tk_Version toolkit) then Inr toolkit
          else resolve_versions discover profile
            (Some (providerError EnvToolkitVersionMismatch ''observed CUDA toolkit %s is not accepted for profile %q''
               [AStr (tk_Version toolkit), AStr (lp_ID profile)])) versions)"

text \<open>\<open>ResolveToolkit\<close> of the inspector after the request's root has been filled in.\<close>

definition discover_toolkit :: "HostToolkitInspector \<Rightarrow> inspection_runner \<Rightarrow> EnvRequest \<Rightarrow> string \<Rightarrow> resolvedToolkit result" where
  "discover_toolkit inspector runner request version =
     Env_resolveToolkit
       (if erq_ToolkitRoot request \<noteq> [] \<and> hti_ToolkitRoot inspector = []
        then inspector\<lparr>hti_ToolkitRoot := erq_ToolkitRoot request\<rparr> else inspector)
       runner (toolkitDiscoveryRequest request version)"

definition Resolver_Resolve :: "HostToolkitInspector \<Rightarrow> EnvRequest \<Rightarrow> LockedProfile \<Rightarrow> resolvedToolkit result" where
  "Resolver_Resolve inspector request profile =
     (case hti_Runner inspector of
        None \<Rightarrow> Inl (providerError EnvToolkitNotFound ''toolkit command runner is required'' [])
      | Some runner \<Rightarrow>
          resolve_versions (discover_toolkit inspector runner request) profile None (ToolkitCandidates profile))"

definition plannedMutations :: "resolvedToolkit \<Rightarrow> Mutation list" where
  "plannedMutations toolkit =
     (if tk_Root toolkit = [] then []
      else map (\<lambda>key. \<lparr>mut_Kind = ''set_env'', mut_Key = key, mut_Value = tk_Root toolkit\<rparr>)
        [''NANOVMS_CUDA_TOOLKIT_ROOT'', ''CUDA_PATH'', version_variable (tk_Version toolkit)])"

definition toolkitRecord :: "LockedProfile \<Rightarrow> resolvedToolkit \<Rightarrow> ToolkitRecord" where
  "toolkitRecord profile toolkit = \<lparr>tr_Requested = lp_CUDAToolkitTarget profile, tr_Observed = tk_Version toolkit,
     tr_Root = tk_Root toolkit, tr_Executable = tk_Executable toolkit\<rparr>"

definition compatibilityRecord :: "LockedProfile \<Rightarrow> Device \<Rightarrow> resolvedToolkit \<Rightarrow> bool \<Rightarrow> CompatibilityRecord" where
  "compatibilityRecord profile device toolkit compatible =
     \<lparr>cr_CUDAToolkitRequested = lp_CUDAToolkitTarget profile, cr_CUDAToolkitObserved = tk_Version toolkit,
      cr_DriverVersion = dev_DriverVersion device, cr_DriverCUDACeiling = dev_DriverCUDACeiling device,
      cr_ComputeCapability = dev_ComputeCapability device, cr_Compatible = compatible\<rparr>"

definition Env_validateCompatibility :: "Device \<Rightarrow> LockedProfile \<Rightarrow> resolvedToolkit \<Rightarrow> go_error option" where
  "Env_validateCompatibility device profile toolkit =
     (if \<not> AcceptsToolkitVersion profile (tk_Version toolkit)
      then Some (providerError EnvToolkitVersionMismatch ''observed CUDA toolkit %s is not accepted for profile %q''
             [AStr (tk_Version toolkit), AStr (lp_ID profile)])
      else ValidateCompatibility device (artifactRequirements profile (tk_Version toolkit)))"

section \<open>The provider\<close>

text \<open>The contract before its digest.\<close>

definition draft_contract :: "LockedProfile \<Rightarrow> Device \<Rightarrow> resolvedToolkit \<Rightarrow> WSLMetadata option \<Rightarrow> Contract" where
  "draft_contract profile device toolkit wsl =
     \<lparr>ct_Version = ProviderVersion, ct_Profile = lp_ID profile, ct_GPU = device, ct_Runtime = runtimeIdentity profile,
      ct_Packages = lp_Packages profile, ct_Compatibility = compatibilityRecord profile device toolkit True,
      ct_Mutations = plannedMutations toolkit, ct_WSL = wsl, ct_Toolkit = toolkitRecord profile toolkit, ct_Digest = []\<rparr>"

definition buildContract :: "env_host \<Rightarrow> EnvRequest \<Rightarrow> Contract result" where
  "buildContract host request =
     (case validateRequest request of
        Some err \<Rightarrow> Inl err
      | None \<Rightarrow>
     (case ensureProfile (erq_Profile request) of
        Inl err \<Rightarrow> Inl err
      | Inr profile \<Rightarrow>
     (case eh_Inventory host of
        None \<Rightarrow> Inl (providerError EnvInventoryFailed ''inventory provider is required'' [])
      | Some (Inl err) \<Rightarrow> Inl (providerError EnvInventoryFailed ''%v'' [AErr err])
      | Some (Inr devices) \<Rightarrow>
      if devices = [] then Inl (providerError EnvInventoryEmpty ''GPU inventory returned no devices'' [])
      else case findDevice devices (lp_GPUUUID profile) of
        Inl err \<Rightarrow> Inl err
      | Inr device \<Rightarrow>
     (case Resolver_Resolve (eh_Inspector host) request profile of
        Inl err \<Rightarrow> Inl err
      | Inr toolkit \<Rightarrow>
     (case Env_validateCompatibility device profile toolkit of
        Some err \<Rightarrow> Inl err
      | None \<Rightarrow>
     (case (if erq_WSLDistribution request = [] then Inr None
            else InspectWSL host (hti_Runner (eh_Inspector host)) (erq_WSLDistribution request)) of
        Inl err \<Rightarrow> Inl err
      | Inr wsl \<Rightarrow>
        (case DigestContract host (draft_contract profile device toolkit wsl) of
          (Inl err, _) \<Rightarrow> Inl (providerError EnvContractDigestFailed ''%v'' [AErr err])
        | (Inr digest, contract') \<Rightarrow> Inr (contract'\<lparr>ct_Digest := digest\<rparr>))))))))"

text \<open>The interface \<open>StateStore\<close>; \<open>'s\<close> is the state behind it.\<close>

record 's StateStore =
  st_AppliedDigest :: "ProfileID \<Rightarrow> 's \<Rightarrow> string option"
  st_RecordApplied :: "ProfileID \<Rightarrow> string \<Rightarrow> 's \<Rightarrow> go_error option \<times> 's"

definition Provider_Plan :: "env_host \<Rightarrow> EnvRequest \<Rightarrow> EnvResult \<times> go_error option" where
  "Provider_Plan host request =
     (case buildContract host request of
        Inl err \<Rightarrow> failResult (newResult request) err
      | Inr contract \<Rightarrow> ((newResult request)\<lparr>ers_Success := True, ers_Contract := Some contract\<rparr>, None))"

definition Provider_Apply :: "'s StateStore option \<Rightarrow> env_host \<Rightarrow> EnvRequest \<Rightarrow> 's \<Rightarrow> (EnvResult \<times> go_error option) \<times> 's" where
  "Provider_Apply store host request s =
     (case buildContract host request of
        Inl err \<Rightarrow> (failResult (newResult request) err, s)
      | Inr contract \<Rightarrow>
          let applied = ((newResult request)\<lparr>ers_Success := True, ers_Contract := Some contract\<rparr>, None) in
          (case store of
             None \<Rightarrow> (applied, s)
           | Some st \<Rightarrow>
               if st_AppliedDigest st (erq_Profile request) s = Some (ct_Digest contract)
               then (((newResult request)\<lparr>ers_Success := True, ers_NoOp := True, ers_Contract := Some contract\<rparr>, None), s)
               else case st_RecordApplied st (erq_Profile request) (ct_Digest contract) s of
                 (Some err, s') \<Rightarrow>
                   (failResult (newResult request) (providerError EnvApplyFailed ''record applied contract: %v'' [AErr err]), s')
               | (None, s') \<Rightarrow> (applied, s')))"

definition Provider_Verify :: "'s StateStore option \<Rightarrow> env_host \<Rightarrow> EnvRequest \<Rightarrow> 's \<Rightarrow> EnvResult \<times> go_error option" where
  "Provider_Verify store host request s =
     (case buildContract host request of
        Inl err \<Rightarrow> failResult (newResult request) err
      | Inr contract \<Rightarrow>
          (case store of
             None \<Rightarrow> failResult (newResult request) (providerError EnvEnvironmentNotApplied
                 ''no applied environment state for profile %q'' [AStr (erq_Profile request)])
           | Some st \<Rightarrow>
               if st_AppliedDigest st (erq_Profile request) s \<noteq> Some (ct_Digest contract)
               then failResult (newResult request) (providerError EnvEnvironmentDrift
                 ''applied environment does not match current plan for profile %q'' [AStr (erq_Profile request)])
               else ((newResult request)\<lparr>ers_Success := True, ers_Contract := Some contract\<rparr>, None)))"

text \<open>\<open>MemoryStateStore\<close>.\<close>

definition MemoryStateStore :: "(ProfileID, string) gomap StateStore" where
  "MemoryStateStore = \<lparr>st_AppliedDigest = (\<lambda>profile applied. map_of applied profile),
     st_RecordApplied = (\<lambda>profile digest applied. (None, AList.update profile digest applied))\<rparr>"

definition DefaultProvider :: "Device list result option \<Rightarrow> inspection_runner option \<Rightarrow> env_host \<Rightarrow> env_host" where
  "DefaultProvider inventory runner host =
     host\<lparr>eh_Inventory := inventory, eh_Inspector := \<lparr>hti_Runner = runner, hti_ToolkitRoot = [],
       hti_LookupEnv = hti_LookupEnv (eh_Inspector host), hti_ProgramFilesRoots = [], hti_WSLToolkitProvider = None\<rparr>\<rparr>"

section \<open>What a contract guarantees\<close>

lemma canonical_observations_sel [simp]:
  "dev_UUID (canonical_observations d) = dev_UUID d" "dev_Architecture (canonical_observations d) = dev_Architecture d"
  "dev_ComputeCapability (canonical_observations d) = dev_ComputeCapability d"
  "dev_DriverCUDACeiling (canonical_observations d) = dev_DriverCUDACeiling d"
  "dev_DriverVersion (canonical_observations d) = dev_DriverVersion d"
  "canonical_observations (canonical_observations d) = canonical_observations d"
  by (simp_all add: canonical_observations_def sort_key_id_if_sorted)

lemma ValidateCompatibility_canonical [simp]: "ValidateCompatibility (canonical_observations d) = ValidateCompatibility d"
proof -
  have "is_architecture (canonical_observations d) = is_architecture d"
    by (intro ext) (simp add: is_architecture_def)
  then show ?thesis
    unfolding ValidateCompatibility_def [abs_def] canonical_observations_sel by (simp only:)
qed

lemma ensureProfile_candidates:
  assumes "ensureProfile ident = Inr profile"
  shows "list_all (\<lambda>v. trimSpace v = v) (ToolkitCandidates profile)"
proof -
  have "trimSpace ''13.0'' = ''13.0''" "trimSpace ''12.9'' = ''12.9''" "trimSpace ''12.4'' = ''12.4''" by code_simp+
  then show ?thesis
    using assms by (auto simp: ensureProfile_def Profile_def ToolkitCandidates_def split: if_splits option.splits)
qed

lemma resolve_versions_first:
  assumes "list_all (\<lambda>v. \<forall>t. discover v = Inr t \<longrightarrow> AcceptsToolkitVersion profile (tk_Version t)) versions"
    and "resolve_versions discover profile lastErr versions = Inr t"
  shows "\<exists>before v after. versions = before @ v # after \<and> discover v = Inr t \<and> list_all (\<lambda>u. isl (discover u)) before"
  using assms
proof (induction versions arbitrary: lastErr)
  case (Cons v vs)
  show ?case
  proof (cases "discover v")
    case (Inl e)
    with Cons obtain before w after where "vs = before @ w # after" "discover w = Inr t" "list_all (\<lambda>u. isl (discover u)) before"
      by force
    with Inl show ?thesis by (intro exI [of _ "v # before"] exI [of _ w] exI [of _ after]) simp
  next
    case (Inr x)
    with Cons.prems have "discover v = Inr t" by simp
    then show ?thesis by (intro exI [of _ "[]"] exI [of _ v] exI [of _ vs]) simp
  qed
qed (simp split: option.splits)

lemma Resolver_Resolve_first:
  assumes "ensureProfile ident = Inr profile" and "Resolver_Resolve inspector request profile = Inr t"
  shows "\<exists>runner before v after. hti_Runner inspector = Some runner \<and> ToolkitCandidates profile = before @ v # after \<and>
    discover_toolkit inspector runner request v = Inr t \<and>
    list_all (\<lambda>u. isl (discover_toolkit inspector runner request u)) before"
proof -
  obtain runner where r: "hti_Runner inspector = Some runner"
    and run: "resolve_versions (discover_toolkit inspector runner request) profile None (ToolkitCandidates profile) = Inr t"
    using assms(2) by (auto simp: Resolver_Resolve_def split: option.splits)
  have "list_all (\<lambda>v. \<forall>t. discover_toolkit inspector runner request v = Inr t \<longrightarrow> AcceptsToolkitVersion profile (tk_Version t))
      (ToolkitCandidates profile)"
    using ensureProfile_candidates [OF assms(1)]
    by (auto simp: list_all_iff discover_toolkit_def toolkitDiscoveryRequest_def AcceptsToolkitVersion_def ToolkitCandidates_def
        dest!: Env_resolveToolkit_version)
  from resolve_versions_first [OF this run] r show ?thesis by blast
qed

lemma canonical_body_sorted [simp]:
  "canonical_body (c\<lparr>ct_GPU := canonical_observations (ct_GPU c)\<rparr>) = canonical_body c"
  "canonical_body (c\<lparr>ct_Digest := digest\<rparr>) = canonical_body c"
  by (simp_all add: canonical_body_def)

lemma DigestContract_Inr:
  assumes "DigestContract host c = (Inr digest, c')"
  shows "\<exists>payload. eh_marshal host (canonical_body c) = Inr payload \<and> digest = hexEncode (eh_sha256 host payload) \<and>
    c' = c\<lparr>ct_GPU := canonical_observations (ct_GPU c)\<rparr>"
  using assms by (auto simp: DigestContract_def Contract_CanonicalJSON_def split: if_splits option.splits sum.splits prod.splits)

lemma buildContract_Inr:
  assumes "buildContract host request = Inr c"
  obtains profile devices device toolkit wsl digest draft where "ensureProfile (erq_Profile request) = Inr profile"
    "eh_Inventory host = Some (Inr devices)" "findDevice devices (lp_GPUUUID profile) = Inr device"
    "Resolver_Resolve (eh_Inspector host) request profile = Inr toolkit"
    "Env_validateCompatibility device profile toolkit = None"
    "DigestContract host (draft_contract profile device toolkit wsl) = (Inr digest, draft)" "c = draft\<lparr>ct_Digest := digest\<rparr>"
  using assms unfolding buildContract_def by (auto split: option.splits sum.splits if_splits prod.splits)

text \<open>
  C27. A contract is only issued for a host that satisfies its profile: the GPU is the profile's locked device
  from the inventory, the toolkit is the one discovered for the first of the profile's versions that is
  installed, it is accepted by the profile and compatible with the device, the planned variables all
  point to its root, and the digest is that of the contract's own canonical body.
\<close>

theorem buildContract_locked:
  assumes "buildContract host request = Inr c"
  shows "\<exists>profile devices device runner before v after t payload.
    ensureProfile (erq_Profile request) = Inr profile \<and>
    eh_Inventory host = Some (Inr devices) \<and> device \<in> set devices \<and> dev_UUID device = lp_GPUUUID profile \<and>
    ct_GPU c = canonical_observations device \<and>
    hti_Runner (eh_Inspector host) = Some runner \<and> ToolkitCandidates profile = before @ v # after \<and>
    list_all (\<lambda>u. isl (discover_toolkit (eh_Inspector host) runner request u)) before \<and>
    discover_toolkit (eh_Inspector host) runner request v = Inr t \<and> ct_Toolkit c = toolkitRecord profile t \<and>
    AcceptsToolkitVersion profile (tk_Version t) \<and>
    ValidateCompatibility (ct_GPU c) (artifactRequirements profile (tk_Version t)) = None \<and>
    list_all (\<lambda>x. mut_Value x = tk_Root t) (ct_Mutations c) \<and>
    eh_marshal host (canonical_body c) = Inr payload \<and> ct_Digest c = hexEncode (eh_sha256 host payload)"
  using assms
proof (cases rule: buildContract_Inr)
  case (1 profile devices device t wsl digest draft)
  obtain payload where m: "eh_marshal host (canonical_body (draft_contract profile device t wsl)) = Inr payload"
    and digest: "digest = hexEncode (eh_sha256 host payload)"
    and draft: "draft = (draft_contract profile device t wsl)\<lparr>ct_GPU := canonical_observations device\<rparr>"
    using DigestContract_Inr [OF 1(6)] by (auto simp: draft_contract_def)
  have c: "ct_GPU c = canonical_observations device" "ct_Toolkit c = toolkitRecord profile t"
      "ct_Mutations c = plannedMutations t" "ct_Digest c = digest"
    by (simp_all add: 1(7) draft) (simp_all add: draft_contract_def)
  have body: "canonical_body c = canonical_body (draft_contract profile device t wsl)"
    by (simp add: 1(7) draft) (simp add: draft_contract_def canonical_body_def)
  have dev: "device \<in> set devices" "dev_UUID device = lp_GPUUUID profile"
    using 1(3) by (auto simp: findDevice_def find_Some_iff split: option.splits)
  have "list_all (\<lambda>x. mut_Value x = tk_Root t) (ct_Mutations c)" by (simp add: c plannedMutations_def)
  moreover have "AcceptsToolkitVersion profile (tk_Version t)"
    "ValidateCompatibility (ct_GPU c) (artifactRequirements profile (tk_Version t)) = None"
    using 1(5) by (auto simp: Env_validateCompatibility_def c split: if_splits)
  ultimately show ?thesis
    using 1(1,2) dev c m digest body Resolver_Resolve_first [OF 1(1,4)]
    by (intro exI [of _ profile] exI [of _ devices] exI [of _ device]) fastforce
qed

section \<open>Planning, applying and verifying\<close>

lemma failResult_err [simp]: "snd (failResult r e) = Some e" "failResult r e = (x, y) \<Longrightarrow> y = Some e"
  by (auto simp: failResult_def Let_def split: option.splits prod.splits)

text \<open>What a \<open>StateStore\<close> promises: a recorded digest is the applied one, and nothing else moves.\<close>

locale applied_store =
  fixes st :: "'s StateStore"
  assumes record_stores: "st_RecordApplied st p d s = (None, s') \<Longrightarrow>
      st_AppliedDigest st q s' = (if q = p then Some d else st_AppliedDigest st q s)"
    and record_fails: "st_RecordApplied st p d s = (Some err, s') \<Longrightarrow> st_AppliedDigest st q s' = st_AppliedDigest st q s"
begin

lemma Verify_iff:
  "snd (Provider_Verify (Some st) host request s) = None \<longleftrightarrow>
     (\<exists>c. buildContract host request = Inr c \<and> st_AppliedDigest st (erq_Profile request) s = Some (ct_Digest c))"
  by (auto simp: Provider_Verify_def split: sum.splits)

lemma Apply_None:
  assumes "Provider_Apply (Some st) host request s = ((r, None), s')"
  obtains c where "buildContract host request = Inr c"
    "ers_NoOp r = (st_AppliedDigest st (erq_Profile request) s = Some (ct_Digest c))"
    "r = (newResult request)\<lparr>ers_Success := True, ers_NoOp := ers_NoOp r, ers_Contract := Some c\<rparr>"
    "ers_NoOp r \<Longrightarrow> s' = s"
    "\<And>q. st_AppliedDigest st q s' = (if q = erq_Profile request then Some (ct_Digest c) else st_AppliedDigest st q s)"
  using assms
  by (auto simp: Provider_Apply_def Let_def newResult_def record_stores dest: failResult_err(2)
      split: sum.splits if_splits prod.splits option.splits)

lemma Apply_Some:
  "Provider_Apply (Some st) host request s = ((r, Some err), s') \<Longrightarrow> st_AppliedDigest st q s' = st_AppliedDigest st q s"
  by (auto simp: Provider_Apply_def Let_def record_fails split: sum.splits if_splits prod.splits option.splits)

lemma Apply_then_Verify:
  assumes "Provider_Apply (Some st) host request s = ((r, None), s')"
  shows "Provider_Verify (Some st) host request s' = (r\<lparr>ers_NoOp := False\<rparr>, None)"
    and "Provider_Apply (Some st) host request s' = ((r\<lparr>ers_NoOp := True\<rparr>, None), s')"
    and "snd (Provider_Verify (Some st) host2 request s') = None \<longleftrightarrow>
      (\<exists>c c2. ers_Contract r = Some c \<and> buildContract host2 request = Inr c2 \<and> ct_Digest c2 = ct_Digest c)"
proof -
  obtain c where c: "buildContract host request = Inr c" "st_AppliedDigest st (erq_Profile request) s' = Some (ct_Digest c)"
    and r: "r = (newResult request)\<lparr>ers_Success := True, ers_NoOp := ers_NoOp r, ers_Contract := Some c\<rparr>"
    by (rule Apply_None [OF assms]) simp
  have "r\<lparr>ers_NoOp := b\<rparr> = (newResult request)\<lparr>ers_Success := True, ers_NoOp := b, ers_Contract := Some c\<rparr>" for b
    by (subst r) simp
  then show "Provider_Verify (Some st) host request s' = (r\<lparr>ers_NoOp := False\<rparr>, None)"
    "Provider_Apply (Some st) host request s' = ((r\<lparr>ers_NoOp := True\<rparr>, None), s')"
    using c by (simp_all add: Provider_Verify_def Provider_Apply_def) (simp add: newResult_def)
  have "ers_Contract r = Some c" by (subst r) simp
  then show "snd (Provider_Verify (Some st) host2 request s') = None \<longleftrightarrow>
      (\<exists>c c2. ers_Contract r = Some c \<and> buildContract host2 request = Inr c2 \<and> ct_Digest c2 = ct_Digest c)"
    using c(2) by (auto simp: Verify_iff)
qed

end

interpretation memory: applied_store MemoryStateStore
  by unfold_locales (auto simp: MemoryStateStore_def)

text \<open>
  C6. Apply and Verify over the state store. A successful \<open>Apply\<close> makes the very same \<open>Verify\<close> succeed with the
  same contract, makes a repeated \<open>Apply\<close> a no-op that changes nothing, and leaves the other profiles
  alone; a failed one leaves every applied digest as it was. From then on \<open>Verify\<close> succeeds on a host
  exactly when the contract that can be built there has the applied digest, and so fails closed on any
  other.
\<close>

theorem Apply_Verify_protocol:
  assumes "Provider_Apply (Some MemoryStateStore) host request applied = ((r, err), applied')"
  shows "if err = None
    then Provider_Verify (Some MemoryStateStore) host request applied' = (r\<lparr>ers_NoOp := False\<rparr>, None) \<and>
      Provider_Apply (Some MemoryStateStore) host request applied' = ((r\<lparr>ers_NoOp := True\<rparr>, None), applied') \<and>
      (map_of applied')(erq_Profile request := None) = (map_of applied)(erq_Profile request := None) \<and>
      (\<forall>host2. snd (Provider_Verify (Some MemoryStateStore) host2 request applied') = None \<longleftrightarrow>
        (\<exists>c c2. ers_Contract r = Some c \<and> buildContract host2 request = Inr c2 \<and> ct_Digest c2 = ct_Digest c))
    else map_of applied' = map_of applied"
proof (cases err)
  case None
  note run = assms [unfolded None]
  have "(map_of applied')(erq_Profile request := None) = (map_of applied)(erq_Profile request := None)"
    by (rule memory.Apply_None [OF run]) (auto simp: MemoryStateStore_def fun_eq_iff)
  with None show ?thesis using memory.Apply_then_Verify [OF run] by simp
next
  case (Some e)
  have "map_of applied' q = map_of applied q" for q
    using memory.Apply_Some [OF assms [unfolded Some], of q] by (simp add: MemoryStateStore_def)
  with Some show ?thesis by auto
qed

section \<open>Failures\<close>

definition reported :: "go_error \<Rightarrow> bool" where
  "reported err \<longleftrightarrow> errors_as err = None \<or> catalogued err"

lemma reported_providerError [simp]: "reported (providerError code f as) \<longleftrightarrow> code \<in> set AllEnvironmentErrorCodes"
  by (simp add: reported_def) (simp add: providerError_def)

lemma parseMajorMinor_uncoded: "parseMajorMinor s = Inl err \<Longrightarrow> errors_as err = None"
  by (auto simp: parseMajorMinor_def Let_def split: if_splits option.splits prod.splits list.splits)

lemma ValidateCompatibility_uncoded: "ValidateCompatibility device artifact = Some err \<Longrightarrow> errors_as err = None"
  by (auto simp: ValidateCompatibility_def Let_def parseMajorMinor_uncoded split: if_splits sum.splits prod.splits)

lemma ensureProfile_reported: "ensureProfile ident = Inl err \<Longrightarrow> reported err"
  by (auto simp: ensureProfile_def Profile_def validateProfile_def split: if_splits option.splits)

lemma resolve_versions_reported:
  assumes "\<And>v err. discover v = Inl err \<Longrightarrow> reported err"
  shows "resolve_versions discover profile lastErr versions = Inl err \<Longrightarrow> pred_option reported lastErr \<Longrightarrow> reported err"
proof (induction versions arbitrary: lastErr)
  case (Cons v vs)
  then show ?case using assms [of v] by (auto split: sum.splits if_splits)
qed (auto split: option.splits)

lemma Resolver_Resolve_reported: "Resolver_Resolve inspector request profile = Inl err \<Longrightarrow> reported err"
  using resolve_versions_reported [of "discover_toolkit inspector runner request" for runner] Env_resolveToolkit_code
  by (auto simp: Resolver_Resolve_def discover_toolkit_def reported_def split: option.splits)

lemma InspectWSL_reported: "InspectWSL host runner distribution = Inl err \<Longrightarrow> reported err"
  by (auto simp: InspectWSL_def wslMetadataDigest_def Let_def split: if_splits option.splits prod.splits sum.splits)
     (auto simp: reported_def)

lemma Env_validateCompatibility_reported: "Env_validateCompatibility device profile toolkit = Some err \<Longrightarrow> reported err"
  using ValidateCompatibility_uncoded [of device "artifactRequirements profile (tk_Version toolkit)" err]
  by (auto simp: Env_validateCompatibility_def split: if_splits) (simp add: reported_def)

lemma validateRequest_reported: "validateRequest request = Some err \<Longrightarrow> reported err"
  by (auto simp: validateRequest_def dest: ensureProfile_reported split: if_splits sum.splits)

lemma findDevice_reported: "findDevice devices uuid = Inl err \<Longrightarrow> reported err"
  by (auto simp: findDevice_def split: option.splits)

lemma buildContract_reported: "buildContract host request = Inl err \<Longrightarrow> reported err"
  unfolding buildContract_def
  by (auto dest: validateRequest_reported ensureProfile_reported findDevice_reported Resolver_Resolve_reported
        Env_validateCompatibility_reported InspectWSL_reported
      split: option.splits sum.splits if_splits prod.splits)

definition report_ok :: "EnvResult \<times> go_error option \<Rightarrow> bool" where
  "report_ok = (\<lambda>(r, err). case err of
     None \<Rightarrow> ers_Success r \<and> ers_ErrorCode r = [] \<and> ers_Contract r \<noteq> None
   | Some _ \<Rightarrow> \<not> ers_Success r \<and> ers_ErrorCode r \<in> set AllEnvironmentErrorCodes \<and> ers_Contract r = None)"

lemma report_ok_fail: "reported err \<Longrightarrow> report_ok (failResult (newResult request) err)"
  using catalog_codes(4)
  by (auto simp: report_ok_def failResult_def newResult_def reported_def catalogued_def EnvEnvironmentFailed_def)

lemma report_ok_success: "report_ok ((newResult request)\<lparr>ers_Success := True, ers_Contract := Some c\<rparr>, None)"
    "report_ok ((newResult request)\<lparr>ers_Success := True, ers_NoOp := b, ers_Contract := Some c\<rparr>, None)"
  by (simp_all add: report_ok_def newResult_def)

text \<open>
  Every result of the provider is consistent evidence: it says success, with a contract and no error code,
  exactly when no error is returned, and otherwise it carries no contract and a code of the frozen
  catalog.
\<close>

lemma Provider_reports:
  "report_ok (Provider_Plan host request) \<and> report_ok (fst (Provider_Apply store host request s)) \<and>
   report_ok (Provider_Verify store host request s)"
  unfolding Provider_Plan_def Provider_Apply_def Provider_Verify_def
  by (auto simp: Let_def report_ok_success report_ok_fail buildContract_reported split: sum.split option.split prod.split)

section \<open>A sample host\<close>

definition sample_env_host :: env_host where
  "sample_env_host =
     \<lparr>eh_Inventory = Some (Inr [sample_device ''Ampere'' ''8.6'' ''13.1'']),
      eh_Inspector = \<lparr>hti_Runner = Some \<lparr>ir_Run = (\<lambda>command args. (zero_CommandResult\<lparr>res_Stdout := ''release 13.0''\<rparr>, None)), ir_RunWithEnv = None\<rparr>,
        hti_ToolkitRoot = [], hti_LookupEnv = (\<lambda>_. None), hti_ProgramFilesRoots = [], hti_WSLToolkitProvider = None\<rparr>,
      eh_marshal = (\<lambda>body. Inr (tr_Root (cc_Toolkit body))), eh_marshalWSL = (\<lambda>_. Inr []), eh_sha256 = map byte\<rparr>"

definition sample_env_request :: EnvRequest where
  "sample_env_request = \<lparr>erq_Version = ProviderVersion, erq_Profile = ProfileAmpere, erq_WSLDistribution = [],
     erq_Environment = [(''cuda_path'', ''/opt/cuda'')], erq_ToolkitRoot = []\<rparr>"

lemma sample_build: "\<not> isl (buildContract sample_env_host sample_env_request)"
  by code_simp

theorem buildContract_locked_witness:
  "\<exists>c. buildContract sample_env_host sample_env_request = Inr c \<and> dev_UUID (ct_GPU c) = AmpereGPUUUID"
proof -
  obtain c where c: "buildContract sample_env_host sample_env_request = Inr c"
    using sample_build by (cases "buildContract sample_env_host sample_env_request") auto
  have "ensureProfile ProfileAmpere = Profile ProfileAmpere" by code_simp
  with buildContract_locked [OF c] have "dev_UUID (ct_GPU c) = AmpereGPUUUID"
    by (auto simp: sample_env_request_def Profile_def)
  with c show ?thesis by blast
qed

theorem Apply_Verify_protocol_witness:
  "\<exists>r applied. Provider_Apply (Some MemoryStateStore) sample_env_host sample_env_request [] = ((r, None), applied) \<and>
     snd (Provider_Verify (Some MemoryStateStore) sample_env_host sample_env_request applied) = None"
proof -
  let ?a = "Provider_Apply (Some MemoryStateStore) sample_env_host sample_env_request []"
  have "snd (fst ?a) = None" by code_simp
  then obtain r applied where a: "?a = ((r, None), applied)" by (metis prod.collapse)
  from Apply_Verify_protocol [OF a] a show ?thesis by auto
qed

end
