(* ===== verification/Resilience.thy ===== *)
theory Resilience
  imports Go_Prelude
begin

text \<open>
  Retries and the circuit breaker (\<open>pkg/resilience/resilience.go\<close>). Times and durations are nanoseconds without
  wrap-around; every operation of the breaker runs under its mutex and is one step.
\<close>

section \<open>Retries\<close>

record RetryPolicy =
  rp_MaxAttempts :: int
  rp_BackoffFunc :: "(int \<Rightarrow> int) option"

text \<open>
  What the surroundings answer in attempt \<open>i\<close>: \<open>ctx.Err()\<close> before it, the outcome of \<open>fn\<close>, and \<open>Some\<close> the context's error when
  the context is done before the delay is over.
\<close>

record retry_env =
  re_ctxErr :: "int \<Rightarrow> go_error option"
  re_fn :: "int \<Rightarrow> go_error option"
  re_wait :: "int \<Rightarrow> int \<Rightarrow> go_error option"

text \<open>The loop from attempt \<open>i\<close> on; the second result is the number of calls of \<open>fn\<close>.\<close>

function retry_loop :: "RetryPolicy \<Rightarrow> retry_env \<Rightarrow> int \<Rightarrow> int \<Rightarrow> go_error option \<Rightarrow> go_error option \<times> nat" where
  "retry_loop r env attempts i lastErr =
     (if i \<ge> attempts then (lastErr, 0)
      else case re_ctxErr env i of
        Some err \<Rightarrow> (Some err, 0)
      | None \<Rightarrow>
          (case re_fn env i of
             None \<Rightarrow> (None, 1)
           | Some err \<Rightarrow>
               (case (if i < attempts - 1
                      then (case rp_BackoffFunc r of None \<Rightarrow> None | Some backoff \<Rightarrow> re_wait env i (backoff (i + 1)))
                      else None) of
                  Some ctxErr \<Rightarrow> (Some ctxErr, 1)
                | None \<Rightarrow> let (res, calls) = retry_loop r env attempts (i + 1) (Some err) in (res, Suc calls))))"
  by pat_completeness auto
termination
  by (relation "measure (\<lambda>(r, env, attempts, i, lastErr). nat (attempts - i))") auto

declare retry_loop.simps [simp del]

definition Retry_Execute :: "RetryPolicy \<Rightarrow> retry_env \<Rightarrow> go_error option \<times> nat" where
  "Retry_Execute r env = retry_loop r env (if rp_MaxAttempts r \<le> 0 then 1 else rp_MaxAttempts r) 0 None"

text \<open>
  The calls are those of the attempts \<open>i\<close>, \<open>i + 1\<close>, and so on; all but the last have failed, and the loop reports no error
  exactly when the last one succeeded.
\<close>

definition retry_spec :: "retry_env \<Rightarrow> int \<Rightarrow> int \<Rightarrow> go_error option \<Rightarrow> go_error option \<times> nat \<Rightarrow> bool" where
  "retry_spec env attempts i lastErr = (\<lambda>(res, calls).
     calls \<le> nat (attempts - i) \<and> (\<forall>k < calls - 1. re_fn env (i + int k) \<noteq> None) \<and>
     (if i < attempts then res = None \<longleftrightarrow> 0 < calls \<and> re_fn env (i + int (calls - 1)) = None else res = lastErr \<and> calls = 0))"

lemma retry_spec_more:
  assumes "retry_spec env attempts (i + 1) (Some err) (res, calls)" and "re_fn env i = Some err" and "i < attempts"
  shows "retry_spec env attempts i lastErr (res, Suc calls)"
proof (cases calls)
  case 0
  with assms show ?thesis by (auto simp: retry_spec_def split: if_splits)
next
  case (Suc c)
  have "re_fn env (i + int k) \<noteq> None" if "k < Suc c" for k
    using assms(1,2) Suc that by (cases k) (auto simp: retry_spec_def algebra_simps)
  moreover have "i + 1 < attempts" using assms(1) Suc by (auto simp: retry_spec_def)
  ultimately show ?thesis using assms(1) Suc by (auto simp: retry_spec_def algebra_simps)
qed

lemma retry_loop_spec: "retry_spec env attempts i lastErr (retry_loop r env attempts i lastErr)"
proof (induction r env attempts i lastErr rule: retry_loop.induct)
  case (1 r env attempts i lastErr)
  let ?wait = "if i < attempts - 1
    then (case rp_BackoffFunc r of None \<Rightarrow> None | Some backoff \<Rightarrow> re_wait env i (backoff (i + 1))) else None"
  consider "i \<ge> attempts" | "i < attempts" "re_ctxErr env i \<noteq> None" | "i < attempts" "re_ctxErr env i = None" "re_fn env i = None"
    | err ctxErr where "i < attempts" "re_ctxErr env i = None" "re_fn env i = Some err" "?wait = Some ctxErr"
    | err where "i < attempts" "re_ctxErr env i = None" "re_fn env i = Some err" "?wait = None"
    by (cases "re_ctxErr env i"; cases "re_fn env i"; cases ?wait) force+
  then show ?case
  proof cases
    case (5 err)
    obtain res calls where l: "retry_loop r env attempts (i + 1) (Some err) = (res, calls)" by force
    have "retry_spec env attempts (i + 1) (Some err) (res, calls)" using 1 5 l by simp
    then show ?thesis using 5 l by (subst retry_loop.simps) (simp add: retry_spec_more)
  qed (subst retry_loop.simps; auto simp: retry_spec_def)+
qed

lemma Retry_Execute_calls:
  assumes "Retry_Execute r env = (res, calls)"
  shows "int calls \<le> max 1 (rp_MaxAttempts r)" and "\<forall>k < calls - 1. re_fn env (int k) \<noteq> None"
    and "res = None \<longleftrightarrow> 0 < calls \<and> re_fn env (int (calls - 1)) = None"
  using retry_loop_spec [of env "if rp_MaxAttempts r \<le> 0 then 1 else rp_MaxAttempts r" 0 None r] assms
  by (auto simp: retry_spec_def Retry_Execute_def split: if_splits)

section \<open>The circuit breaker\<close>

datatype State = StateClosed | StateOpen | StateHalfOpen

record CircuitBreaker =
  cb_state :: State
  cb_failureCount :: int
  cb_failureThreshold :: int
  cb_successCount :: int
  cb_successThreshold :: int
  cb_resetTimeout :: int
  cb_lastFailureTime :: int

text \<open>The zero time lies before every other one.\<close>

definition NewCircuitBreaker :: "int \<Rightarrow> int \<Rightarrow> int \<Rightarrow> CircuitBreaker" where
  "NewCircuitBreaker failureThreshold successThreshold resetTimeout =
     \<lparr>cb_state = StateClosed, cb_failureCount = 0, cb_failureThreshold = failureThreshold, cb_successCount = 0,
      cb_successThreshold = successThreshold, cb_resetTimeout = resetTimeout, cb_lastFailureTime = 0\<rparr>"

definition Allow :: "int \<Rightarrow> CircuitBreaker \<Rightarrow> bool \<times> CircuitBreaker" where
  "Allow now cb =
     (if cb_failureThreshold cb \<le> 0 then (True, cb)
      else case cb_state cb of
        StateClosed \<Rightarrow> (True, cb)
      | StateOpen \<Rightarrow>
          if now - cb_lastFailureTime cb \<ge> cb_resetTimeout cb
          then (True, cb\<lparr>cb_state := StateHalfOpen, cb_failureCount := 0, cb_successCount := 0\<rparr>)
          else (False, cb)
      | StateHalfOpen \<Rightarrow> (True, cb))"

definition RecordSuccess :: "CircuitBreaker \<Rightarrow> CircuitBreaker" where
  "RecordSuccess cb =
     (if cb_failureThreshold cb \<le> 0 then cb
      else let cb1 = cb\<lparr>cb_failureCount := 0\<rparr> in
        case cb_state cb of
          StateHalfOpen \<Rightarrow>
            let cb2 = cb1\<lparr>cb_successCount := cb_successCount cb1 + 1\<rparr> in
            if cb_successCount cb2 \<ge> cb_successThreshold cb2
            then cb2\<lparr>cb_state := StateClosed, cb_successCount := 0\<rparr> else cb2
        | _ \<Rightarrow> cb1)"

definition RecordFailure :: "int \<Rightarrow> CircuitBreaker \<Rightarrow> CircuitBreaker" where
  "RecordFailure now cb =
     (if cb_failureThreshold cb \<le> 0 then cb
      else let cb1 = cb\<lparr>cb_lastFailureTime := now\<rparr> in
        case cb_state cb of
          StateClosed \<Rightarrow>
            let cb2 = cb1\<lparr>cb_failureCount := cb_failureCount cb1 + 1\<rparr> in
            if cb_failureCount cb2 \<ge> cb_failureThreshold cb2 then cb2\<lparr>cb_state := StateOpen\<rparr> else cb2
        | StateHalfOpen \<Rightarrow> cb1\<lparr>cb_state := StateOpen, cb_failureCount := cb_failureCount cb1 + 1\<rparr>
        | StateOpen \<Rightarrow> cb1)"

section \<open>Histories of a breaker\<close>

datatype breaker_event = Request int bool | Success | Failure int

text \<open>A history lists its events newest first.\<close>

inductive breaker_run :: "int \<Rightarrow> int \<Rightarrow> int \<Rightarrow> breaker_event list \<Rightarrow> CircuitBreaker \<Rightarrow> bool"
  for ft st rt where
  new: "breaker_run ft st rt [] (NewCircuitBreaker ft st rt)"
| request: "breaker_run ft st rt h cb \<Longrightarrow> Allow now cb = (ok, cb') \<Longrightarrow> breaker_run ft st rt (Request now ok # h) cb'"
| success: "breaker_run ft st rt h cb \<Longrightarrow> breaker_run ft st rt (Success # h) (RecordSuccess cb)"
| failure: "breaker_run ft st rt h cb \<Longrightarrow> breaker_run ft st rt (Failure now # h) (RecordFailure now cb)"

text \<open>The failures since the last success, and the time of the last failure.\<close>

fun failure_run :: "breaker_event list \<Rightarrow> int" where
  "failure_run [] = 0"
| "failure_run (Failure _ # h) = failure_run h + 1"
| "failure_run (Success # h) = 0"
| "failure_run (Request _ _ # h) = failure_run h"

fun last_failure :: "breaker_event list \<Rightarrow> int option" where
  "last_failure [] = None"
| "last_failure (Failure t # h) = Some t"
| "last_failure (_ # h) = last_failure h"

definition tripped :: "int \<Rightarrow> breaker_event list \<Rightarrow> bool" where
  "tripped ft h \<longleftrightarrow> (\<exists>later earlier. h = later @ earlier \<and> ft \<le> failure_run earlier)"

lemma tripped_Cons: "tripped ft h \<Longrightarrow> tripped ft (e # h)"
  unfolding tripped_def by (metis append_Cons)

lemma tripped_now: "ft \<le> failure_run h \<Longrightarrow> tripped ft h"
  unfolding tripped_def by (metis append_Nil)

definition breaker_inv :: "int \<Rightarrow> int \<Rightarrow> int \<Rightarrow> breaker_event list \<Rightarrow> CircuitBreaker \<Rightarrow> bool" where
  "breaker_inv ft st rt h cb \<longleftrightarrow>
     cb_failureThreshold cb = ft \<and> cb_successThreshold cb = st \<and> cb_resetTimeout cb = rt \<and>
     (case cb_state cb of
        StateClosed \<Rightarrow> cb_failureCount cb = failure_run h \<and> failure_run h < ft
      | StateOpen \<Rightarrow> tripped ft h \<and> last_failure h = Some (cb_lastFailureTime cb)
      | StateHalfOpen \<Rightarrow> tripped ft h)"

lemma breaker_inv_run: "breaker_run ft st rt h cb \<Longrightarrow> 0 < ft \<Longrightarrow> breaker_inv ft st rt h cb"
proof (induction rule: breaker_run.induct)
  case new
  then show ?case by (simp add: breaker_inv_def NewCircuitBreaker_def)
next
  case (request h cb now ok cb')
  then show ?case
    by (auto simp: breaker_inv_def Allow_def tripped_Cons split: State.splits if_splits)
next
  case (success h cb)
  then show ?case
    by (auto simp: breaker_inv_def RecordSuccess_def Let_def tripped_Cons split: State.splits)
next
  case (failure h cb now)
  then show ?case
    by (auto simp: breaker_inv_def RecordFailure_def Let_def tripped_Cons intro: tripped_now split: State.splits)
qed

text \<open>
  C16. The breaker against the history of its calls, for a positive threshold. It is closed only while fewer
  than \<open>failureThreshold\<close> failures have followed the last success; it is open or half-open only after that many failures
  in a row; and it rejects a request exactly when it is open and the last failure is less than
  \<open>resetTimeout\<close> ago, so that no history locks callers out for good.
\<close>

theorem breaker_history:
  assumes "breaker_run ft st rt h cb" and "0 < ft"
  shows "(if cb_state cb = StateClosed then failure_run h < ft else tripped ft h) \<and>
    (\<not> fst (Allow now cb) \<longleftrightarrow> cb_state cb = StateOpen \<and> (\<exists>t. last_failure h = Some t \<and> now - t < rt))"
  using breaker_inv_run [OF assms] assms(2)
  by (cases "cb_state cb") (auto simp: breaker_inv_def Allow_def)

theorem breaker_history_witness:
  "\<not> fst (Allow 25 (RecordFailure 20 (RecordFailure 10 (NewCircuitBreaker 2 1 100)))) \<and>
   fst (Allow 120 (RecordFailure 20 (RecordFailure 10 (NewCircuitBreaker 2 1 100))))"
proof -
  let ?cb = "RecordFailure 20 (RecordFailure 10 (NewCircuitBreaker 2 1 100))"
  have r: "breaker_run 2 1 100 [Failure 20, Failure 10] ?cb"
    by (intro breaker_run.failure breaker_run.new)
  have "cb_state ?cb = StateOpen" by code_simp
  with breaker_history [OF r, of 25] breaker_history [OF r, of 120] show ?thesis by simp
qed

end
