(* ===== verification/Snapshot.thy ===== *)
theory Snapshot
  imports Go_Prelude
begin

text \<open>
  The in-memory snapshot store of \<open>pkg/snapshot/snapshot.go\<close>: version 4 identifiers, the table and the in-place
  insertion sort behind \<open>List\<close>. Random bytes and the clock are parameters.
\<close>

unbundle bit_operations_syntax

section \<open>The store\<close>

record Snapshot =
  snap_ID :: string
  snap_SandboxID :: string
  snap_CreatedAt :: int
  snap_SizeBytes :: int
  snap_TierID :: int

type_synonym MemorySnapshotStore = "(string, Snapshot) gomap"

definition NewMemorySnapshotStore :: MemorySnapshotStore where
  "NewMemorySnapshotStore = []"

text \<open>\<open>fmt\<close> prints a byte slice in full, two digits per byte; \<open>buf\<close> holds the 16 bytes that \<open>rand.Read\<close> filled in.\<close>

definition generateUUID :: "8 word list result \<Rightarrow> string result" where
  "generateUUID rand =
     (case rand of
        Inl err \<Rightarrow> Inl err
      | Inr bytes \<Rightarrow>
          let buf = map unat (bytes[6 := (bytes ! 6 AND 0x0F) OR 0x40, 8 := (bytes ! 8 AND 0x3F) OR 0x80]) in
          Inr (hexEncode (take 4 buf) @ ''-'' @ hexEncode (take 2 (drop 4 buf)) @ ''-'' @ hexEncode (take 2 (drop 6 buf)) @ ''-'' @
            hexEncode (take 2 (drop 8 buf)) @ ''-'' @ hexEncode (take 6 (drop 10 buf))))"

definition snapshot_Create :: "8 word list result \<Rightarrow> int \<Rightarrow> string \<Rightarrow> MemorySnapshotStore \<Rightarrow> string result \<times> MemorySnapshotStore" where
  "snapshot_Create rand now sandboxID m =
     (case generateUUID rand of
        Inl err \<Rightarrow> (Inl (Errorf ''snapshot: generate uuid: %w'' [AWrap err]), m)
      | Inr ident \<Rightarrow>
          (Inr ident, AList.update ident
             \<lparr>snap_ID = ident, snap_SandboxID = sandboxID, snap_CreatedAt = now, snap_SizeBytes = 0, snap_TierID = 0\<rparr> m))"

definition snapshot_Restore :: "string \<Rightarrow> string \<Rightarrow> go_error option" where
  "snapshot_Restore ident sandboxID = None"

text \<open>The inner loop of the sort, from index \<open>j\<close> down, and the outer loop.\<close>

fun sift_down :: "nat \<Rightarrow> Snapshot list \<Rightarrow> Snapshot list" where
  "sift_down 0 ss = ss"
| "sift_down (Suc j) ss =
     (if snap_CreatedAt (ss ! Suc j) < snap_CreatedAt (ss ! j)
      then sift_down j (ss[Suc j := ss ! j, j := ss ! Suc j]) else ss)"

definition sortSnapshotsByTime :: "Snapshot list \<Rightarrow> Snapshot list" where
  "sortSnapshotsByTime ss = fold sift_down [1..<length ss] ss"

definition snapshot_List :: "string \<Rightarrow> MemorySnapshotStore \<Rightarrow> Snapshot list" where
  "snapshot_List sandboxID m = sortSnapshotsByTime (filter (\<lambda>s. snap_SandboxID s = sandboxID) (map snd m))"

definition snapshot_Delete :: "string \<Rightarrow> MemorySnapshotStore \<Rightarrow> go_error option \<times> MemorySnapshotStore" where
  "snapshot_Delete ident m =
     (if map_of m ident = None then (Some (Errorf ''snapshot: %s not found'' [AStr ident]), m)
      else (None, AList.delete ident m))"

definition snapshot_Get :: "string \<Rightarrow> MemorySnapshotStore \<Rightarrow> Snapshot result" where
  "snapshot_Get ident m =
     (case map_of m ident of None \<Rightarrow> Inl (Errorf ''snapshot: %s not found'' [AStr ident]) | Some s \<Rightarrow> Inr s)"

section \<open>The sort is the stable one\<close>

text \<open>Where the inner loop puts an element.\<close>

definition insert_after :: "Snapshot \<Rightarrow> Snapshot list \<Rightarrow> Snapshot list" where
  "insert_after x ss = takeWhile (\<lambda>y. snap_CreatedAt y \<le> snap_CreatedAt x) ss @ x # dropWhile (\<lambda>y. snap_CreatedAt y \<le> snap_CreatedAt x) ss"

lemma sift_down_inserts:
  "sorted (map snap_CreatedAt xs) \<Longrightarrow> sift_down (length xs) (xs @ x # rest) = insert_after x xs @ rest"
proof (induction xs arbitrary: rest rule: rev_induct)
  case (snoc y ys)
  have nth: "((ys @ [y]) @ x # rest) ! length ys = y" "((ys @ [y]) @ x # rest) ! Suc (length ys) = x"
    by (simp_all add: nth_append)
  have le: "\<forall>z \<in> set ys. snap_CreatedAt z \<le> snap_CreatedAt y" and s: "sorted (map snap_CreatedAt ys)"
    using snoc.prems by (auto simp: sorted_append)
  show ?case
  proof (cases "snap_CreatedAt x < snap_CreatedAt y")
    case True
    have swap: "((ys @ [y]) @ x # rest)[Suc (length ys) := y, length ys := x] = ys @ x # y # rest"
      by (simp add: list_update_append)
    have "insert_after x (ys @ [y]) = insert_after x ys @ [y]"
      using True by (auto simp: insert_after_def takeWhile_append dropWhile_append) (metis takeWhile_eq_all_conv)
    with True swap show ?thesis by (simp add: nth snoc.IH [OF s] del: append_assoc)
  next
    case False
    then have "insert_after x (ys @ [y]) = ys @ [y, x]"
      using le by (auto simp: insert_after_def takeWhile_append dropWhile_append)
    with False show ?thesis by (simp add: nth del: append_assoc)
  qed
qed (simp add: insert_after_def)

lemma dropWhile_later:
  assumes "sorted (map f ys)"
  shows "\<forall>y \<in> set (dropWhile (\<lambda>y. f y \<le> (v::int)) ys). v < f y"
  using assms
proof (induction ys)
  case (Cons a ys)
  then show ?case by (cases "f a \<le> v") force+
qed simp

lemma insert_after_sorts:
  assumes "sort_key snap_CreatedAt xs = ys"
  shows "sort_key snap_CreatedAt (xs @ [x]) = insert_after x ys"
proof (rule properties_for_sort_key)
  let ?f = snap_CreatedAt and ?le = "\<lambda>y. snap_CreatedAt y \<le> snap_CreatedAt x"
  have s: "sorted (map ?f ys)" using assms by auto
  have split: "takeWhile ?le ys @ dropWhile ?le ys = ys" by simp
  have m: "mset (takeWhile ?le ys) + mset (dropWhile ?le ys) = mset xs"
    using assms by (metis mset_append mset_sort takeWhile_dropWhile_id)
  then show "mset (insert_after x ys) = mset (xs @ [x])"
    by (simp add: insert_after_def)
  have later: "\<forall>y \<in> set (dropWhile ?le ys). ?f x < ?f y" by (rule dropWhile_later [OF s])
  have "sorted (map ?f (takeWhile ?le ys))" "sorted (map ?f (dropWhile ?le ys))"
    using s by (metis map_append sorted_append split)+
  then show "sorted (map ?f (insert_after x ys))"
    using later set_takeWhileD [where P = ?le and xs = ys]
    by (force simp: insert_after_def sorted_append less_imp_le)
  show "filter (\<lambda>z. ?f k = ?f z) (insert_after x ys) = filter (\<lambda>z. ?f k = ?f z) (xs @ [x])" for k
  proof -
    have "filter (\<lambda>z. ?f k = ?f z) ys = filter (\<lambda>z. ?f k = ?f z) xs"
      using sort_key_stable [of ?f "?f k" xs] assms by (simp add: eq_commute)
    moreover have "filter (\<lambda>z. ?f k = ?f z) ys = filter (\<lambda>z. ?f k = ?f z) (takeWhile ?le ys) @ filter (\<lambda>z. ?f k = ?f z) (dropWhile ?le ys)"
      by (metis filter_append split)
    moreover have "filter (\<lambda>z. ?f k = ?f z) (dropWhile ?le ys) = []" if "?f k = ?f x"
      using later that by (auto simp: filter_empty_conv)
    ultimately show ?thesis by (auto simp: insert_after_def)
  qed
qed

lemma sort_prefix:
  "n \<le> length ss \<Longrightarrow> fold sift_down [1..<n] ss = sort_key snap_CreatedAt (take n ss) @ drop n ss"
proof (induction n)
  case (Suc n)
  show ?case
  proof (cases n)
    case 0
    then show ?thesis using Suc.prems by (cases ss) simp_all
  next
    case (Suc k)
    let ?ys = "sort_key snap_CreatedAt (take n ss)"
    have "drop n ss = ss ! n # drop (Suc n) ss" using Suc.prems by (simp add: Cons_nth_drop_Suc)
    then have "fold sift_down [1..<Suc n] ss = sift_down n (?ys @ ss ! n # drop (Suc n) ss)"
      using Suc.IH Suc.prems Suc by simp
    also have "\<dots> = insert_after (ss ! n) ?ys @ drop (Suc n) ss"
      using sift_down_inserts [of ?ys "ss ! n" "drop (Suc n) ss"] Suc.prems by simp
    also have "insert_after (ss ! n) ?ys = sort_key snap_CreatedAt (take (Suc n) ss)"
      using insert_after_sorts [OF refl, of "take n ss" "ss ! n"] Suc.prems by (simp add: take_Suc_conv_app_nth)
    finally show ?thesis .
  qed
qed simp

lemma sortSnapshotsByTime_sort: "sortSnapshotsByTime ss = sort_key snap_CreatedAt ss"
  using sort_prefix [of "length ss" ss] by (simp add: sortSnapshotsByTime_def)

section \<open>Identifiers\<close>

lemma version_bits: "unat (((b :: 8 word) AND 0x0F) OR 0x40) div 16 = 4"
  and variant_bits: "unat (((b :: 8 word) AND 0x3F) OR 0x80) div 16 \<in> {8, 9, 10, 11}"
proof -
  have "\<forall>n \<in> set [0..<256]. unat (((of_nat n :: 8 word) AND 0x0F) OR 0x40) div 16 = 4 \<and>
      unat (((of_nat n :: 8 word) AND 0x3F) OR 0x80) div 16 \<in> {8, 9, 10, 11}"
    by code_simp
  moreover have "unat b < 2 ^ LENGTH(8)" by (rule unsigned_less)
  then have "unat b \<in> set [0..<256]" by simp
  ultimately have "unat (((of_nat (unat b) :: 8 word) AND 0x0F) OR 0x40) div 16 = 4 \<and>
      unat (((of_nat (unat b) :: 8 word) AND 0x3F) OR 0x80) div 16 \<in> {8, 9, 10, 11}" by blast
  then show "unat ((b AND 0x0F) OR 0x40) div 16 = 4" "unat ((b AND 0x3F) OR 0x80) div 16 \<in> {8, 9, 10, 11}"
    by simp_all
qed

lemma hexEncode_hd: "bs \<noteq> [] \<Longrightarrow> hexEncode bs ! 0 = hex_digit (hd bs div 16)"
  by (cases bs) simp_all

lemma generateUUID_v4:
  assumes "length bytes = 16" and "generateUUID (Inr bytes) = Inr u"
  shows "length u = 36 \<and> u ! 14 = CHR ''4'' \<and> u ! 19 \<in> set ''89ab''"
proof -
  define buf where "buf = map unat (bytes[6 := (bytes ! 6 AND 0x0F) OR 0x40, 8 := (bytes ! 8 AND 0x3F) OR 0x80])"
  have l: "length buf = 16" using assms(1) by (simp add: buf_def)
  have b: "buf ! 6 div 16 = 4" "buf ! 8 div 16 \<in> {8, 9, 10, 11}"
    using assms(1) version_bits [of "bytes ! 6"] variant_bits [of "bytes ! 8"] by (simp_all add: buf_def)
  have u: "u = hexEncode (take 4 buf) @ ''-'' @ hexEncode (take 2 (drop 4 buf)) @ ''-'' @ hexEncode (take 2 (drop 6 buf)) @ ''-'' @
      hexEncode (take 2 (drop 8 buf)) @ ''-'' @ hexEncode (take 6 (drop 10 buf))"
    using assms(2) by (simp add: generateUUID_def buf_def Let_def)
  have "u ! 14 = hexEncode (take 2 (drop 6 buf)) ! 0" "u ! 19 = hexEncode (take 2 (drop 8 buf)) ! 0"
    by (simp_all add: u l nth_append)
  moreover have "hexEncode (take 2 (drop k buf)) ! 0 = hex_digit (buf ! k div 16)" if "k < 16" for k
    using that l by (subst hexEncode_hd) (auto simp: hd_conv_nth hd_drop_conv_nth)
  ultimately have nth: "u ! 14 = hex_digit (buf ! 6 div 16)" "u ! 19 = hex_digit (buf ! 8 div 16)" by simp_all
  have "hex_digit 4 = CHR ''4''" "\<forall>d \<in> {8, 9, 10, 11}. hex_digit d \<in> set ''89ab''" by code_simp+
  then have "u ! 14 = CHR ''4''" "u ! 19 \<in> set ''89ab''" unfolding nth using b by (simp, blast)
  moreover have "length u = 36" by (simp add: u l)
  ultimately show ?thesis by blast
qed

section \<open>Histories\<close>

inductive snapshot_reachable :: "MemorySnapshotStore \<Rightarrow> bool" where
  new: "snapshot_reachable NewMemorySnapshotStore"
| create: "snapshot_reachable m \<Longrightarrow> snapshot_Create rand now sandboxID m = (r, m') \<Longrightarrow> snapshot_reachable m'"
| delete: "snapshot_reachable m \<Longrightarrow> snapshot_Delete ident m = (err, m') \<Longrightarrow> snapshot_reachable m'"

lemma snapshot_reachable_ok: "snapshot_reachable m \<Longrightarrow> go_map m \<and> (\<forall>k s. map_of m k = Some s \<longrightarrow> snap_ID s = k)"
proof (induction rule: snapshot_reachable.induct)
  case (create m rand now sandboxID r m')
  then show ?case by (auto simp: snapshot_Create_def intro!: go_map_update split: sum.splits if_splits)
next
  case (delete m ident err m')
  then show ?case by (auto simp: snapshot_Delete_def intro!: go_map_delete split: if_splits)
qed (simp add: NewMemorySnapshotStore_def go_map_def)

text \<open>
  C18. In every reachable store \<open>List\<close> returns the snapshots of the sandbox, each once and in the order of their
  creation times: exactly the ones that \<open>Get\<close> finds under their identifiers.
\<close>

theorem snapshot_List_complete:
  assumes "snapshot_reachable m"
  shows "sorted (map snap_CreatedAt (snapshot_List sandboxID m)) \<and> distinct (map snap_ID (snapshot_List sandboxID m)) \<and>
    (\<forall>s. s \<in> set (snapshot_List sandboxID m) \<longleftrightarrow> snapshot_Get (snap_ID s) m = Inr s \<and> snap_SandboxID s = sandboxID)"
proof -
  have ok: "go_map m" "\<forall>k s. map_of m k = Some s \<longrightarrow> snap_ID s = k"
    using snapshot_reachable_ok [OF assms] by blast+
  then have mem: "(k, s) \<in> set m \<longleftrightarrow> map_of m (snap_ID s) = Some s \<and> k = snap_ID s" for k s
    by (auto simp: go_map_mem_iff)
  have "map snap_ID (map snd m) = map fst m" by (auto simp: mem)
  then have "distinct (map snap_ID (filter (\<lambda>s. snap_SandboxID s = sandboxID) (map snd m)))"
    using ok(1) by (metis distinct_map_filter go_map_def)
  moreover have "s \<in> set (map snd m) \<longleftrightarrow> snapshot_Get (snap_ID s) m = Inr s" for s
  proof -
    have "s \<in> set (map snd m) \<longleftrightarrow> (\<exists>k. (k, s) \<in> set m)" by force
    then show ?thesis by (simp add: mem snapshot_Get_def split: option.splits)
  qed
  ultimately show ?thesis
    by (auto simp: snapshot_List_def sortSnapshotsByTime_sort)
qed

definition sample_snapshots :: MemorySnapshotStore where
  "sample_snapshots = snd (snapshot_Create (Inr (replicate 16 1)) 20 ''vm'' (snd (snapshot_Create (Inr (replicate 16 2)) 30 ''vm'' NewMemorySnapshotStore)))"

theorem snapshot_List_complete_witness:
  "sorted (map snap_CreatedAt (snapshot_List ''vm'' sample_snapshots)) \<and> length (snapshot_List ''vm'' sample_snapshots) = 2"
proof -
  have "snapshot_reachable sample_snapshots"
    unfolding sample_snapshots_def
    by (intro snapshot_reachable.create [OF _ prod.collapse [symmetric]] snapshot_reachable.new)
  from snapshot_List_complete [OF this, of "''vm''"] have "sorted (map snap_CreatedAt (snapshot_List ''vm'' sample_snapshots))" by blast
  moreover have "length (snapshot_List ''vm'' sample_snapshots) = 2" by code_simp
  ultimately show ?thesis ..
qed

end
