(* ===== verification/Token.thy ===== *)
theory Token
  imports Go_Path
begin

text \<open>
  Bearer tokens of the daemon: the static token set of \<open>internal/token/token.go\<close> and the JWT verifier of
  \<open>internal/token/jwt.go\<close> and \<open>internal/token/jwt_helper.go\<close>, with the base64url decoder of the Go library that it
  calls. The offset that \<open>base64.CorruptInputError\<close> prints is left out. PEM and X.509 parsing, SHA-256, the RSA
  and ECDSA signature checks and the JSON decoder of the two structs are parameters.
\<close>

unbundle bit_operations_syntax

section \<open>The static token set\<close>

abbreviation ErrNoTokens :: go_error where
  "ErrNoTokens \<equiv> Sentinel ''token: no tokens configured (file empty? set NVMS_TOKENS)''"
abbreviation ErrInvalidToken :: go_error where "ErrInvalidToken \<equiv> Sentinel ''token: invalid bearer token''"
abbreviation ErrTokenFileRead :: go_error where "ErrTokenFileRead \<equiv> Sentinel ''token: failed to read token file''"

text \<open>A map to \<open>struct{}\<close>: its keys in the order of iteration.\<close>

record Manager =
  mg_tokens :: "string list"

text \<open>The errors of \<open>hex.DecodeString\<close> are not told apart.\<close>

abbreviation hex_error :: go_error where "hex_error \<equiv> Sentinel ''encoding/hex''"

definition token_line :: "string \<Rightarrow> string list \<Rightarrow> string list result" where
  "token_line line tokens =
     (let token = trimSpace line in
      if token = [] \<or> hasPrefix token ''#'' then Inr tokens
      else case hexDecode token of
        None \<Rightarrow> Inl (Errorf ''token: invalid hex token: %w'' [AWrap hex_error])
      | Some _ \<Rightarrow> Inr (List.insert token tokens))"

definition FromString :: "string \<Rightarrow> Manager result" where
  "FromString s =
     (case foldE token_line (split_on s (CHR 0x0A)) [] of
        Inl err \<Rightarrow> Inl err
      | Inr tokens \<Rightarrow> if length tokens = 0 then Inl ErrNoTokens else Inr \<lparr>mg_tokens = tokens\<rparr>)"

definition NewManager :: "(string \<Rightarrow> string result) \<Rightarrow> string \<Rightarrow> Manager result" where
  "NewManager ReadFile path =
     (case ReadFile path of
        Inl err \<Rightarrow> if errors_is err ''os.ErrNotExist'' then Inl ErrNoTokens
                   else Inl (Errorf ''%w: %v'' [AWrap ErrTokenFileRead, AErr err])
      | Inr contents \<Rightarrow> (case FromString contents of Inl err \<Rightarrow> Inl err | Inr m \<Rightarrow> Inr m))"

definition NewFromHex :: "string list \<Rightarrow> Manager result" where
  "NewFromHex ts =
     (case foldE (\<lambda>t tokens.
        case hexDecode t of
          None \<Rightarrow> Inl (Errorf ''token: invalid hex: %w'' [AWrap hex_error])
        | Some _ \<Rightarrow> Inr (List.insert t tokens)) ts [] of
        Inl err \<Rightarrow> Inl err
      | Inr tokens \<Rightarrow> if length tokens = 0 then Inl ErrNoTokens else Inr \<lparr>mg_tokens = tokens\<rparr>)"

text \<open>\<open>rand\<close> is what \<open>rand.Read\<close> puts into the 32 bytes, or its error.\<close>

definition MintToken :: "(nat \<Rightarrow> nat list result) \<Rightarrow> string result" where
  "MintToken rand =
     (case rand 32 of
        Inl err \<Rightarrow> Inl (Errorf ''token: rand.Read failed: %w'' [AWrap err])
      | Inr b \<Rightarrow> Inr (hexEncode b))"

text \<open>\<open>subtle.ConstantTimeCompare\<close>: the bytes are compared by collecting all differences.\<close>

definition ConstantTimeCompare :: "8 word list \<Rightarrow> 8 word list \<Rightarrow> int" where
  "ConstantTimeCompare x y =
     (if length x \<noteq> length y then 0
      else if fold (\<lambda>(a, b) v. v OR (a XOR b)) (zip x y) 0 = 0 then 1 else 0)"

definition to_bytes :: "string \<Rightarrow> 8 word list" where
  "to_bytes s = map (\<lambda>c. word_of_nat (byte c)) s"

definition Check :: "Manager \<Rightarrow> string \<Rightarrow> go_error option" where
  "Check m candidate =
     (if candidate = [] then Some ErrInvalidToken
      else if list_ex (\<lambda>t. length candidate = length t \<and> ConstantTimeCompare (to_bytes candidate) (to_bytes t) = 1) (mg_tokens m)
      then None else Some ErrInvalidToken)"

definition manager_Len :: "Manager \<Rightarrow> nat" where
  "manager_Len m = length (mg_tokens m)"

subsection \<open>Comparison in constant time is equality\<close>

lemma or_xor_zero: "(a OR (b XOR c) = 0) \<longleftrightarrow> a = 0 \<and> b = (c :: 8 word)"
  by (auto simp: or_eq_0_iff xor_self_eq) (metis xor_self_eq xor.left_neutral xor.assoc xor.commute)

lemma fold_diff_zero:
  "length x = length y \<Longrightarrow>
     (fold (\<lambda>(a, b) v. v OR (a XOR b)) (zip x y) v = 0) \<longleftrightarrow> v = 0 \<and> x = (y :: 8 word list)"
  by (induction x y arbitrary: v rule: list_induct2) (auto simp: or_xor_zero)

lemma to_bytes_inject [simp]: "to_bytes s = to_bytes t \<longleftrightarrow> s = t"
proof -
  have "(word_of_nat (byte c) :: 8 word) = word_of_nat (byte d) \<longleftrightarrow> c = d" for c d
    by (simp add: byte_def word_of_nat_eq_iff take_bit_eq_mod of_char_mod_256)
  then show ?thesis by (simp add: to_bytes_def inj_on_def inj_map_eq_map)
qed

lemma ConstantTimeCompare_iff: "ConstantTimeCompare x y = 1 \<longleftrightarrow> x = y"
  by (auto simp: ConstantTimeCompare_def fold_diff_zero)

lemma Check_iff: "Check m candidate = None \<longleftrightarrow> candidate \<noteq> [] \<and> candidate \<in> set (mg_tokens m)"
  by (auto simp: Check_def ConstantTimeCompare_iff list_ex_iff)

subsection \<open>What a token file authorises\<close>

text \<open>The tokens that a file lists: its lines without white space around them, blank ones and comments left out.\<close>

definition listed_tokens :: "string \<Rightarrow> string list" where
  "listed_tokens s = filter (\<lambda>t. t \<noteq> [] \<and> \<not> hasPrefix t ''#'') (map trimSpace (split_on s (CHR 0x0A)))"

lemma foldE_insert_tokens:
  "foldE token_line ls acc =
   (let ts = filter (\<lambda>t. t \<noteq> [] \<and> \<not> hasPrefix t ''#'') (map trimSpace ls) in
    if list_all (\<lambda>t. hexDecode t \<noteq> None) ts then Inr (fold List.insert ts acc)
    else Inl (Errorf ''token: invalid hex token: %w'' [AWrap hex_error]))"
  by (induction ls arbitrary: acc) (auto simp: token_line_def Let_def split: option.split)

lemma FromString_eq:
  "FromString s =
     (if \<not> list_all (\<lambda>t. hexDecode t \<noteq> None) (listed_tokens s) then Inl (Errorf ''token: invalid hex token: %w'' [AWrap hex_error])
      else if listed_tokens s = [] then Inl ErrNoTokens
      else Inr \<lparr>mg_tokens = fold List.insert (listed_tokens s) []\<rparr>)"
proof -
  have "fold List.insert ts [] = [] \<longleftrightarrow> ts = []" for ts :: "string list"
    by (cases ts rule: rev_cases) (auto simp: List.insert_def split: if_splits)
  then show ?thesis unfolding FromString_def foldE_insert_tokens Let_def listed_tokens_def [symmetric]
    by (simp split: if_split)
qed

lemma set_fold_insert: "set (fold List.insert ts acc) = set ts \<union> set acc" "distinct acc \<Longrightarrow> distinct (fold List.insert ts acc)"
  by (induction ts arbitrary: acc) auto

lemma hexEncode_graphic: "(\<forall>b \<in> set bs. b < 256) \<Longrightarrow> list_all graphic (hexEncode bs) \<and> CHR ''#'' \<notin> set (hexEncode bs) \<and> CHR 0x0A \<notin> set (hexEncode bs)"
proof (induction bs)
  case (Cons b bs)
  have "\<forall>n \<in> set [0..<16]. graphic (hex_digit n) \<and> hex_digit n \<noteq> CHR ''#'' \<and> hex_digit n \<noteq> CHR 0x0A" by code_simp
  then have digit: "graphic (hex_digit n) \<and> hex_digit n \<noteq> CHR ''#'' \<and> hex_digit n \<noteq> CHR 0x0A" if "n < 16" for n using that by simp
  have "b div 16 < 16" using Cons.prems by auto
  with digit [of "b div 16"] digit [of "b mod 16"] Cons show ?case by auto
qed simp

text \<open>
  A token file authorises exactly what it lists: \<open>FromString\<close> succeeds when at least one token is listed and all of
  them are hexadecimal, and then \<open>Check\<close> accepts a candidate exactly when it is one of them, however often and in
  whatever order they occur; blank lines and comments authorise nobody.
\<close>

lemma token_file_authorises:
  "case FromString s of
     Inl err \<Rightarrow> (if list_all (\<lambda>t. hexDecode t \<noteq> None) (listed_tokens s) then listed_tokens s = [] \<and> err = ErrNoTokens
                 else err = Errorf ''token: invalid hex token: %w'' [AWrap hex_error])
   | Inr m \<Rightarrow> listed_tokens s \<noteq> [] \<and> list_all (\<lambda>t. hexDecode t \<noteq> None) (listed_tokens s) \<and>
       (\<forall>candidate. Check m candidate = None \<longleftrightarrow> candidate \<in> set (listed_tokens s)) \<and>
       manager_Len m = card (set (listed_tokens s))"
proof -
  have "[] \<notin> set (listed_tokens s)" by (simp add: listed_tokens_def)
  moreover have "length (fold List.insert (listed_tokens s) []) = card (set (listed_tokens s))"
    using distinct_card [OF set_fold_insert(2) [of "[]" "listed_tokens s"]] by (simp add: set_fold_insert(1))
  ultimately show ?thesis
    by (auto simp: FromString_eq Check_iff set_fold_insert(1) manager_Len_def)
qed

text \<open>
  Minting and checking are inverse: a file with one minted token per line is accepted, and then the daemon accepts
  every one of these tokens and no other string.
\<close>

lemma minted_tokens_accepted:
  assumes "\<forall>r \<in> set rands. \<exists>b. r 32 = Inr b \<and> length b = 32 \<and> (\<forall>x \<in> set b. x < 256)"
    and "rands \<noteq> []" and "\<forall>r \<in> set rands. \<exists>t \<in> set minted. MintToken r = Inr t" and "\<forall>t \<in> set minted. \<exists>r \<in> set rands. MintToken r = Inr t"
  shows "\<exists>m. FromString (join minted [CHR 0x0A]) = Inr m \<and> (\<forall>candidate. Check m candidate = None \<longleftrightarrow> candidate \<in> set minted)"
proof -
  have hex: "\<exists>b. t = hexEncode b \<and> length b = 32 \<and> (\<forall>x \<in> set b. x < 256)" if "t \<in> set minted" for t
    using assms(1,4) that by (fastforce simp: MintToken_def)
  have trim: "trimSpace t = t" "t \<noteq> []" "\<not> hasPrefix t ''#''" "CHR 0x0A \<notin> set t" "hexDecode t \<noteq> None" if t: "t \<in> set minted" for t
  proof -
    obtain b where b: "t = hexEncode b" "length b = 32" "\<forall>x \<in> set b. x < 256" using hex [OF t] by blast
    note g = hexEncode_graphic [OF b(3)]
    show "trimSpace t = t" "CHR 0x0A \<notin> set t" using g b(1) trimSpace_graphic by simp_all
    show "t \<noteq> []" using b(1,2) by (cases b) auto
    have "CHR ''#'' \<notin> set t" using g b(1) by simp
    with \<open>t \<noteq> []\<close> show "\<not> hasPrefix t ''#''" by (cases t) (auto simp: hasPrefix_def)
    show "hexDecode t \<noteq> None" using hex_roundtrip [OF b(3)] b(1) by simp
  qed
  have ne: "minted \<noteq> []" using assms(2,3) by (cases rands) auto
  have "split_on (join minted [CHR 0x0A]) (CHR 0x0A) = minted" using split_join [OF ne] trim(4) by blast
  then have "listed_tokens (join minted [CHR 0x0A]) = minted"
    using trim by (simp add: listed_tokens_def map_idI filter_id_conv)
  then show ?thesis using ne trim(2,5) by (auto simp: FromString_eq Check_iff set_fold_insert list_all_iff)
qed

section \<open>JSON Web Tokens\<close>

subsection \<open>URL-safe base64\<close>

text \<open>\<open>base64.URLEncoding\<close>: the decode map, with \<open>None\<close> for a byte outside the alphabet.\<close>

definition b64_val :: "char \<Rightarrow> nat option" where
  "b64_val c =
     (let n = byte c in
      if 65 \<le> n \<and> n \<le> 90 then Some (n - 65) else if 97 \<le> n \<and> n \<le> 122 then Some (n - 71)
      else if 48 \<le> n \<and> n \<le> 57 then Some (n + 4) else if n = 45 then Some 62 else if n = 95 then Some 63 else None)"

text \<open>
  \<open>decodeQuantum\<close> in a loop, on input without line breaks: the bytes written so far and whether the input was well
  formed. Padding ends the data, what follows it is an error, and spare bits are ignored.
\<close>

fun b64_quanta :: "string \<Rightarrow> nat list \<times> bool" where
  "b64_quanta [] = ([], True)"
| "b64_quanta (a # b # c # d # rest) =
     (case (b64_val a, b64_val b) of
        (Some va, Some vb) \<Rightarrow>
          let x = (64 * va + vb) div 16 in
          if c = CHR ''='' then (if d = CHR ''='' then ([x], rest = []) else ([], False))
          else (case b64_val c of
             None \<Rightarrow> ([], False)
           | Some vc \<Rightarrow>
               let y = (64 * (vb mod 16) + vc) div 4 in
               if d = CHR ''='' then ([x, y], rest = [])
               else (case b64_val d of
                  None \<Rightarrow> ([], False)
                | Some vd \<Rightarrow> let (bs, ok) = b64_quanta rest in (x # y # (64 * (vc mod 4) + vd) # bs, ok)))
      | _ \<Rightarrow> ([], False))"
| "b64_quanta _ = ([], False)"

text \<open>\<open>DecodeString\<close> skips carriage returns and line feeds; with an error it still returns the bytes before it.\<close>

definition URLEncoding_DecodeString :: "string \<Rightarrow> nat list \<times> go_error option" where
  "URLEncoding_DecodeString s =
     (let (bs, ok) = b64_quanta (filter (\<lambda>c. c \<noteq> CHR 0x0A \<and> c \<noteq> CHR 0x0D) s)
      in (bs, if ok then None else Some (Errorf ''illegal base64 data'' [])))"

definition restore_padding :: "string \<Rightarrow> string" where
  "restore_padding seg = (if length seg mod 4 = 2 then seg @ ''=='' else if length seg mod 4 = 3 then seg @ ''='' else seg)"

definition decodeSegment :: "string \<Rightarrow> nat list result" where
  "decodeSegment seg =
     (case URLEncoding_DecodeString (restore_padding seg) of (b, None) \<Rightarrow> Inr b | (_, Some err) \<Rightarrow> Inl err)"

definition decodeSig :: "string \<Rightarrow> nat list" where
  "decodeSig seg = fst (URLEncoding_DecodeString (restore_padding seg))"

text \<open>\<open>strings.SplitN(raw, ".", 3)\<close>.\<close>

definition splitToken :: "string \<Rightarrow> string list" where
  "splitToken raw =
     (case cut raw (CHR ''.'') of
        None \<Rightarrow> [raw]
      | Some (a, r) \<Rightarrow> (case cut r (CHR ''.'') of None \<Rightarrow> [a, r] | Some (b, c) \<Rightarrow> [a, b, c]))"

subsection \<open>The verifier\<close>

record JWTClaims =
  cl_Subject :: string
  cl_Issuer :: string
  cl_Audience :: string
  cl_Expiry :: int
  cl_NotBefore :: int
  cl_IssuedAt :: int

record jwtHeader =
  jh_Alg :: string
  jh_KID :: string

text \<open>The dynamic types of a parsed key; \<open>OtherKey\<close> carries the name that \<open>%T\<close> prints for any further one.\<close>

datatype ('r, 'e) jwt_key = RSAPublicKey 'r | ECDSAPublicKey 'e | OtherKey string

record ('r, 'e) JWKSet =
  jwk_key :: "('r, 'e) jwt_key"
  jwk_kid :: string

record ('r, 'e) JWTVerifier =
  jv_issuer :: string
  jv_audience :: string
  jv_jwkSet :: "('r, 'e) JWKSet"

record ('r, 'e) jwt_lib =
  lib_pem_Decode :: "string \<Rightarrow> (string \<times> string) option" \<comment> \<open>the type and the bytes of the first block\<close>
  lib_ParsePKIXPublicKey :: "string \<Rightarrow> ('r, 'e) jwt_key result"
  lib_ParsePKCS1PublicKey :: "string \<Rightarrow> 'r result"
  lib_ParsePKCS1PrivateKey :: "string \<Rightarrow> unit result"
  lib_ParseECPrivateKey :: "string \<Rightarrow> unit result"
  lib_header :: "nat list \<Rightarrow> jwtHeader result"
  lib_claims :: "nat list \<Rightarrow> JWTClaims result"
  lib_sha256 :: "string \<Rightarrow> nat list"
  lib_VerifyPKCS1v15 :: "'r \<Rightarrow> nat list \<Rightarrow> nat list \<Rightarrow> go_error option"
  lib_VerifyASN1 :: "'e \<Rightarrow> nat list \<Rightarrow> nat list \<Rightarrow> bool"

definition parsePrivateKey :: "('r, 'e, 'z) jwt_lib_scheme \<Rightarrow> string \<Rightarrow> string \<Rightarrow> ('r, 'e) jwt_key result" where
  "parsePrivateKey lib blockType blockBytes =
     (if blockType = ''RSA PRIVATE KEY'' then
        (case lib_ParsePKCS1PrivateKey lib blockBytes of Inl err \<Rightarrow> Inl err | Inr _ \<Rightarrow> Inr (OtherKey ''*rsa.PrivateKey''))
      else if blockType = ''EC PRIVATE KEY'' then
        (case lib_ParseECPrivateKey lib blockBytes of Inl err \<Rightarrow> Inl err | Inr _ \<Rightarrow> Inr (OtherKey ''*ecdsa.PrivateKey''))
      else Inl (Errorf ''unknown private key type: %s'' [AStr blockType]))"

definition NewJWTVerifier :: "('r, 'e, 'z) jwt_lib_scheme \<Rightarrow> string \<Rightarrow> string \<Rightarrow> string \<Rightarrow> ('r, 'e) JWTVerifier result" where
  "NewJWTVerifier lib issuer audience pemKey =
     (case lib_pem_Decode lib pemKey of
        None \<Rightarrow> Inl (Errorf ''no PEM block found in public key'' [])
      | Some (blockType, blockBytes) \<Rightarrow>
          let parsed =
            (if blockType = ''PUBLIC KEY'' then Some (lib_ParsePKIXPublicKey lib blockBytes)
             else if blockType = ''RSA PUBLIC KEY'' then
               Some (case lib_ParsePKCS1PublicKey lib blockBytes of Inl err \<Rightarrow> Inl err | Inr k \<Rightarrow> Inr (RSAPublicKey k))
             else if blockType = ''EC PRIVATE KEY'' \<or> blockType = ''RSA PRIVATE KEY'' then Some (parsePrivateKey lib blockType blockBytes)
             else None)
          in (case parsed of
               None \<Rightarrow> Inl (Errorf ''unsupported PEM block type: %s'' [AStr blockType])
             | Some (Inl err) \<Rightarrow> Inl (Errorf ''failed to parse public key: %w'' [AWrap err])
             | Some (Inr key) \<Rightarrow>
                 Inr \<lparr>jv_issuer = issuer, jv_audience = audience, jv_jwkSet = \<lparr>jwk_key = key, jwk_kid = []\<rparr>\<rparr>))"

definition parseHeader :: "('r, 'e, 'z) jwt_lib_scheme \<Rightarrow> nat list \<Rightarrow> (string \<times> string) result" where
  "parseHeader lib raw =
     (case lib_header lib raw of
        Inl err \<Rightarrow> Inl (Errorf ''json: %w'' [AWrap err])
      | Inr h \<Rightarrow> if jh_Alg h = [] then Inl (Errorf ''missing 'alg' in header'' []) else Inr (jh_Alg h, jh_KID h))"

definition parseClaims :: "('r, 'e, 'z) jwt_lib_scheme \<Rightarrow> nat list \<Rightarrow> JWTClaims result" where
  "parseClaims lib raw =
     (case lib_claims lib raw of Inl err \<Rightarrow> Inl (Errorf ''json: %w'' [AWrap err]) | Inr c \<Rightarrow> Inr c)"

definition verifySignature :: "('r, 'e, 'z) jwt_lib_scheme \<Rightarrow> ('r, 'e) jwt_key \<Rightarrow> string \<Rightarrow> string \<Rightarrow> nat list \<Rightarrow> go_error option" where
  "verifySignature lib pub alg input sig =
     (case pub of
        RSAPublicKey k \<Rightarrow>
          if alg \<noteq> ''RS256'' then Some (Errorf ''unsupported RSA algorithm: %s'' [AStr alg])
          else lib_VerifyPKCS1v15 lib k (lib_sha256 lib input) sig
      | ECDSAPublicKey k \<Rightarrow>
          if alg \<noteq> ''ES256'' then Some (Errorf ''unsupported ECDSA algorithm: %s'' [AStr alg])
          else if \<not> lib_VerifyASN1 lib k (lib_sha256 lib input) sig then Some (Errorf ''ECDSA signature invalid'' [])
          else None
      | OtherKey name \<Rightarrow> Some (Errorf ''unsupported key type: %T'' [AStr name]))"

text \<open>\<open>now\<close> is \<open>time.Now().Unix()\<close>.\<close>

definition Verify :: "('r, 'e, 'z) jwt_lib_scheme \<Rightarrow> int \<Rightarrow> ('r, 'e) JWTVerifier \<Rightarrow> string \<Rightarrow> JWTClaims result" where
  "Verify lib now v tokenStr =
     (if length tokenStr < 20 \<or> length tokenStr > 32768 then Inl (Errorf ''invalid token length'' [])
      else let parts = splitToken tokenStr in
        if length parts \<noteq> 3 then Inl (Errorf ''token must have 3 parts, got %d'' [AInt (int (length parts))])
        else (case decodeSegment (parts ! 0) of
           Inl err \<Rightarrow> Inl (Errorf ''header decode: %w'' [AWrap err])
         | Inr headerJSON \<Rightarrow> (case decodeSegment (parts ! 1) of
             Inl err \<Rightarrow> Inl (Errorf ''payload decode: %w'' [AWrap err])
           | Inr payloadJSON \<Rightarrow>
               let sig = decodeSig (parts ! 2) in
               (case parseHeader lib headerJSON of
                  Inl err \<Rightarrow> Inl (Errorf ''header parse: %w'' [AWrap err])
                | Inr (alg, _) \<Rightarrow> (case parseClaims lib payloadJSON of
                    Inl err \<Rightarrow> Inl (Errorf ''claims parse: %w'' [AWrap err])
                  | Inr claims \<Rightarrow>
                      if cl_Issuer claims \<noteq> jv_issuer v then
                        Inl (Errorf ''unexpected issuer: %q (expected %q)'' [AStr (cl_Issuer claims), AStr (jv_issuer v)])
                      else if cl_Audience claims \<noteq> jv_audience v then
                        Inl (Errorf ''unexpected audience: %q (expected %q)'' [AStr (cl_Audience claims), AStr (jv_audience v)])
                      else if cl_Expiry claims > 0 \<and> now \<ge> cl_Expiry claims then
                        Inl (Errorf ''token expired at %d (now %d)'' [AInt (cl_Expiry claims), AInt now])
                      else if cl_NotBefore claims > 0 \<and> now < cl_NotBefore claims then
                        Inl (Errorf ''token not yet valid until %d (now %d)'' [AInt (cl_NotBefore claims), AInt now])
                      else let signingInput = parts ! 0 @ ''.'' @ parts ! 1 in
                        (case verifySignature lib (jwk_key (jv_jwkSet v)) alg signingInput sig of
                           Some err \<Rightarrow> Inl (Errorf ''signature verification: %w'' [AWrap err])
                         | None \<Rightarrow> Inr claims))))))"

subsection \<open>Encoding and decoding\<close>

text \<open>The encoding that RFC 7515 prescribes for the parts of a token: base64url without padding.\<close>

definition b64_char :: "nat \<Rightarrow> char" where
  "b64_char n =
     char_of (if n < 26 then n + 65 else if n < 52 then n + 71 else if n < 62 then n - 4 else if n = 62 then 45 else 95 :: nat)"

fun b64url :: "nat list \<Rightarrow> string" where
  "b64url [] = []"
| "b64url [x] = [b64_char (x div 4), b64_char (x mod 4 * 16)]"
| "b64url [x, y] = [b64_char (x div 4), b64_char (x mod 4 * 16 + y div 16), b64_char (y mod 16 * 4)]"
| "b64url (x # y # z # bs) =
     b64_char (x div 4) # b64_char (x mod 4 * 16 + y div 16) # b64_char (y mod 16 * 4 + z div 64) # b64_char (z mod 64) # b64url bs"

definition b64_safe :: "char \<Rightarrow> bool" where
  "b64_safe c \<longleftrightarrow> byte c \<notin> {10, 13, 46, 61}"

lemma b64_safeD: "b64_safe c \<Longrightarrow> c \<noteq> CHR ''='' \<and> c \<noteq> CHR ''.'' \<and> c \<noteq> CHR 0x0A \<and> c \<noteq> CHR 0x0D"
  by (auto simp: b64_safe_def byte_def)

lemma b64_char_props:
  assumes "n < 64"
  shows "b64_val (b64_char n) = Some n" "b64_safe (b64_char n)"
  using assms by (auto simp: b64_val_def b64_char_def b64_safe_def byte_def Let_def)

lemma byte_parts:
  assumes "(x::nat) < 256"
  shows "x div 4 < 64" "x mod 4 * 16 < 64" "x mod 16 * 4 < 64" "x div 16 < 16" "x div 64 < 4" "x mod 64 < 64"
    "z < 16 \<Longrightarrow> x mod 4 * 16 + z < 64" "w < 4 \<Longrightarrow> x mod 16 * 4 + w < 64"
proof -
  have "x mod 4 < 4" "x mod 16 < 16" by simp_all
  then show "x mod 4 * 16 < 64" "x mod 16 * 4 < 64" "z < 16 \<Longrightarrow> x mod 4 * 16 + z < 64" "w < 4 \<Longrightarrow> x mod 16 * 4 + w < 64" by linarith+
qed (use assms in auto)

lemma b64url_safe: "(\<forall>b \<in> set bs. b < 256) \<Longrightarrow> list_all b64_safe (b64url bs)"
  by (induction bs rule: b64url.induct) (simp_all add: b64_char_props byte_parts)

lemma restore_padding_quantum: "restore_padding (a # b # c # d # s) = a # b # c # d # restore_padding s"
  by (simp add: restore_padding_def)

text \<open>The three bytes of a quantum come back from its four digits.\<close>

lemma quantum_bytes:
  fixes x y z w :: nat
  shows "w < 16 \<Longrightarrow> (64 * (x div 4) + (x mod 4 * 16 + w)) div 16 = x"
    and "w < 4 \<Longrightarrow> y < 256 \<Longrightarrow> (64 * ((x mod 4 * 16 + y div 16) mod 16) + (y mod 16 * 4 + w)) div 4 = y"
    and "z < 256 \<Longrightarrow> 64 * ((y mod 16 * 4 + z div 64) mod 4) + z mod 64 = z"
proof -
  show "(64 * (x div 4) + (x mod 4 * 16 + w)) div 16 = x" if "w < 16"
  proof -
    have "64 * (x div 4) + (x mod 4 * 16 + w) = w + x * 16" using mult_div_mod_eq [of 4 x] by linarith
    with that show ?thesis by simp
  qed
  show "(64 * ((x mod 4 * 16 + y div 16) mod 16) + (y mod 16 * 4 + w)) div 4 = y" if "w < 4" "y < 256"
  proof -
    have "y div 16 < 16" using that(2) by auto
    then have "(x mod 4 * 16 + y div 16) mod 16 = y div 16" by simp
    moreover have "64 * (y div 16) + (y mod 16 * 4 + w) = w + y * 4" using mult_div_mod_eq [of 16 y] by linarith
    ultimately show ?thesis using that(1) by simp
  qed
  show "64 * ((y mod 16 * 4 + z div 64) mod 4) + z mod 64 = z" if "z < 256"
  proof -
    have "z div 64 < 4" using that by auto
    then have "(y mod 16 * 4 + z div 64) mod 4 = z div 64" by simp
    then show ?thesis by simp
  qed
qed

lemma b64_quanta_b64url: "(\<forall>b \<in> set bs. b < 256) \<Longrightarrow> b64_quanta (restore_padding (b64url bs)) = (bs, True)"
proof (induction bs rule: b64url.induct)
  case 1
  then show ?case by (simp add: restore_padding_def)
next
  case (2 x)
  then show ?case using quantum_bytes(1) [of 0 x] by (simp add: restore_padding_def b64_char_props byte_parts)
next
  case (3 x y)
  note safe = b64_char_props(2) [OF byte_parts(3), of y]
  from 3 safe show ?case using quantum_bytes(1) [of "y div 16" x] quantum_bytes(2) [of 0 y x]
    by (simp add: restore_padding_def b64_char_props byte_parts b64_safeD)
next
  case (4 x y z bs)
  have "x < 256" "y < 256" "z < 256" using 4 by simp_all
  note safe = b64_char_props(2) [OF byte_parts(6) [OF \<open>z < 256\<close>]]
    b64_char_props(2) [OF byte_parts(8) [OF \<open>y < 256\<close> byte_parts(5) [OF \<open>z < 256\<close>]]]
  from 4 safe show ?case using quantum_bytes(1) [of "y div 16" x] quantum_bytes(2) [of "z div 64" y x] quantum_bytes(3) [of z y]
    by (simp add: restore_padding_quantum b64_char_props byte_parts b64_safeD)
qed

text \<open>What was encoded is decoded, for data segments and for signatures.\<close>

lemma filter_safe: "list_all b64_safe s \<Longrightarrow> filter (\<lambda>c. c \<noteq> CHR 0x0A \<and> c \<noteq> CHR 0x0D) (restore_padding s) = restore_padding s"
  by (auto simp: restore_padding_def list_all_iff filter_id_conv dest!: bspec b64_safeD)

lemma decode_b64url:
  assumes "\<forall>b \<in> set bs. b < 256"
  shows "decodeSegment (b64url bs) = Inr bs" and "decodeSig (b64url bs) = bs"
  using assms by (simp_all add: decodeSegment_def decodeSig_def URLEncoding_DecodeString_def filter_safe b64url_safe b64_quanta_b64url)

lemma b64url_no_dot: "(\<forall>b \<in> set bs. b < 256) \<Longrightarrow> CHR ''.'' \<notin> set (b64url bs)"
  using b64url_safe [of bs] by (auto simp: list_all_iff dest!: bspec b64_safeD)

subsection \<open>What the verifier accepts\<close>

text \<open>A signature that the key of the verifier makes over \<open>input\<close>, under the one algorithm of that kind of key.\<close>

definition signature_valid :: "('r, 'e, 'z) jwt_lib_scheme \<Rightarrow> ('r, 'e) jwt_key \<Rightarrow> string \<Rightarrow> string \<Rightarrow> nat list \<Rightarrow> bool" where
  "signature_valid lib key alg input sig \<longleftrightarrow>
     (case key of
        RSAPublicKey k \<Rightarrow> alg = ''RS256'' \<and> lib_VerifyPKCS1v15 lib k (lib_sha256 lib input) sig = None
      | ECDSAPublicKey k \<Rightarrow> alg = ''ES256'' \<and> lib_VerifyASN1 lib k (lib_sha256 lib input) sig
      | OtherKey _ \<Rightarrow> False)"

definition claims_current :: "int \<Rightarrow> JWTClaims \<Rightarrow> bool" where
  "claims_current now claims \<longleftrightarrow>
     (cl_Expiry claims \<le> 0 \<or> now < cl_Expiry claims) \<and> (cl_NotBefore claims \<le> 0 \<or> cl_NotBefore claims \<le> now)"

lemma verifySignature_None [simp]: "verifySignature lib key alg input sig = None \<longleftrightarrow> signature_valid lib key alg input sig"
  by (cases key) (auto simp: verifySignature_def signature_valid_def)

lemma splitToken_three:
  "splitToken tok = [h, p, s] \<longleftrightarrow> tok = h @ ''.'' @ p @ ''.'' @ s \<and> CHR ''.'' \<notin> set h \<and> CHR ''.'' \<notin> set p"
proof
  assume "splitToken tok = [h, p, s]"
  then obtain r where "cut tok (CHR ''.'') = Some (h, r)" "cut r (CHR ''.'') = Some (p, s)"
    by (auto simp: splitToken_def split: option.splits)
  then show "tok = h @ ''.'' @ p @ ''.'' @ s \<and> CHR ''.'' \<notin> set h \<and> CHR ''.'' \<notin> set p"
    by (auto dest!: cut_SomeD)
next
  assume "tok = h @ ''.'' @ p @ ''.'' @ s \<and> CHR ''.'' \<notin> set h \<and> CHR ''.'' \<notin> set p"
  then show "splitToken tok = [h, p, s]" by (simp add: splitToken_def cut_append)
qed

lemma length_three: "length xs = 3 \<longleftrightarrow> (\<exists>a b c. xs = [a, b, c])"
  by (auto simp: numeral_3_eq_3 length_Suc_conv)

lemma Verify_Inr:
  "Verify lib now v tok = Inr claims \<longleftrightarrow>
     20 \<le> length tok \<and> length tok \<le> 32768 \<and>
     (\<exists>h p s hj pj alg kid. splitToken tok = [h, p, s] \<and> decodeSegment h = Inr hj \<and> decodeSegment p = Inr pj \<and>
        parseHeader lib hj = Inr (alg, kid) \<and> parseClaims lib pj = Inr claims \<and>
        cl_Issuer claims = jv_issuer v \<and> cl_Audience claims = jv_audience v \<and> claims_current now claims \<and>
        signature_valid lib (jwk_key (jv_jwkSet v)) alg (h @ ''.'' @ p) (decodeSig s))" (is "?l \<longleftrightarrow> ?r")
proof
  assume ?l
  then have "length (splitToken tok) = 3" by (auto simp: Verify_def Let_def split: if_splits)
  then obtain h p s where parts: "splitToken tok = [h, p, s]" unfolding length_three by blast
  from \<open>?l\<close> show ?r unfolding Verify_def Let_def parts
    by (auto simp: claims_current_def split: if_splits sum.splits option.splits)
next
  assume ?r
  then show ?l by (auto simp: Verify_def Let_def claims_current_def verifySignature_None [THEN iffD2])
qed

text \<open>
  C7. \<open>Verify\<close> accepts a token exactly when it is 20 to 32768 bytes of two dot-free segments and a signature, both
  segments decode, the header names the one algorithm of the key of the verifier (RS256 for an RSA public key, ES256
  for an ECDSA one, none for any other), the claims name the issuer and the audience, the token is neither expired nor early, and
  the signature holds for the two segments as they were sent; the claims it returns are those of the signed
  payload. A token without an expiry or with one that is not positive never expires.
\<close>

theorem Verify_accepts_iff:
  "Verify lib now v tokenStr = Inr claims \<longleftrightarrow>
     20 \<le> length tokenStr \<and> length tokenStr \<le> 32768 \<and>
     (\<exists>header payload sig hj pj h.
        tokenStr = header @ ''.'' @ payload @ ''.'' @ sig \<and> CHR ''.'' \<notin> set header \<and> CHR ''.'' \<notin> set payload \<and>
        decodeSegment header = Inr hj \<and> lib_header lib hj = Inr h \<and> jh_Alg h \<noteq> [] \<and>
        decodeSegment payload = Inr pj \<and> lib_claims lib pj = Inr claims \<and>
        cl_Issuer claims = jv_issuer v \<and> cl_Audience claims = jv_audience v \<and>
        (cl_Expiry claims \<le> 0 \<or> now < cl_Expiry claims) \<and> (cl_NotBefore claims \<le> 0 \<or> cl_NotBefore claims \<le> now) \<and>
        (case jwk_key (jv_jwkSet v) of
           RSAPublicKey k \<Rightarrow> jh_Alg h = ''RS256'' \<and> lib_VerifyPKCS1v15 lib k (lib_sha256 lib (header @ ''.'' @ payload)) (decodeSig sig) = None
         | ECDSAPublicKey k \<Rightarrow> jh_Alg h = ''ES256'' \<and> lib_VerifyASN1 lib k (lib_sha256 lib (header @ ''.'' @ payload)) (decodeSig sig)
         | OtherKey _ \<Rightarrow> False))"
proof -
  have header: "parseHeader lib hj = Inr (alg, kid) \<longleftrightarrow> (\<exists>h. lib_header lib hj = Inr h \<and> jh_Alg h \<noteq> [] \<and> alg = jh_Alg h \<and> kid = jh_KID h)" for hj alg kid
    by (auto simp: parseHeader_def split: sum.splits if_splits)
  have payload: "parseClaims lib pj = Inr claims \<longleftrightarrow> lib_claims lib pj = Inr claims" for pj
    by (auto simp: parseClaims_def split: sum.splits)
  show ?thesis unfolding Verify_Inr splitToken_three header payload claims_current_def signature_valid_def by blast
qed

text \<open>Tokens in the standard encoding that carry the right claims and a good signature are accepted.\<close>

lemma issued_token_accepted:
  assumes "\<forall>b \<in> set hj \<union> set pj \<union> set sig. b < 256" and "tok = b64url hj @ ''.'' @ b64url pj @ ''.'' @ b64url sig"
    and "20 \<le> length tok" "length tok \<le> 32768" and "parseHeader lib hj = Inr (alg, kid)" and "parseClaims lib pj = Inr claims"
    and "cl_Issuer claims = jv_issuer v" "cl_Audience claims = jv_audience v" "claims_current now claims"
    and "signature_valid lib (jwk_key (jv_jwkSet v)) alg (b64url hj @ ''.'' @ b64url pj) sig"
  shows "Verify lib now v tok = Inr claims"
proof -
  have b: "\<forall>b \<in> set hj. b < 256" "\<forall>b \<in> set pj. b < 256" "\<forall>b \<in> set sig. b < 256" using assms(1) by auto
  have "splitToken tok = [b64url hj, b64url pj, b64url sig]"
    using assms(2) b64url_no_dot [OF b(1)] b64url_no_dot [OF b(2)] by (simp add: splitToken_three)
  with assms b show ?thesis by (auto simp: Verify_Inr decode_b64url)
qed

text \<open>
  The error of the last decoding is dropped, so bytes after a complete signature are not seen: a token of the standard
  encoding whose signature fills whole quanta stays valid with a dot and any text appended.
\<close>

lemma b64_quanta_dot: "length s mod 4 = 0 \<Longrightarrow> fst (b64_quanta (s @ CHR ''.'' # t)) = fst (b64_quanta s)"
proof (induction s rule: b64_quanta.induct)
  case 1
  have "b64_val (CHR ''.'') = None" by code_simp
  then show ?case by (cases t rule: b64_quanta.cases) (simp_all split: list.split)
next
  case (2 a b c d rest)
  then show ?case by (auto simp: Let_def case_prod_beta split: option.splits)
qed (simp_all)

lemma decodeSig_trailing:
  assumes "length s mod 4 = 0" and "CHR 0x0A \<notin> set s" "CHR 0x0D \<notin> set s"
  shows "decodeSig (s @ CHR ''.'' # x) = decodeSig s"
proof -
  let ?f = "filter (\<lambda>c. c \<noteq> CHR 0x0A \<and> c \<noteq> CHR 0x0D)"
  have f: "?f s = s" using assms(2,3) by (auto simp: filter_id_conv)
  have "\<exists>z. restore_padding u = u @ z" for u by (auto simp: restore_padding_def)
  from this [of "s @ CHR ''.'' # x"] obtain y where "restore_padding (s @ CHR ''.'' # x) = s @ CHR ''.'' # y" by auto
  then have "decodeSig (s @ CHR ''.'' # x) = fst (b64_quanta (s @ CHR ''.'' # ?f y))"
    by (simp add: decodeSig_def URLEncoding_DecodeString_def f case_prod_beta)
  also have "\<dots> = fst (b64_quanta (?f (restore_padding s)))" using b64_quanta_dot [OF assms(1)] assms(1) f by (simp add: restore_padding_def)
  finally show ?thesis by (simp add: decodeSig_def URLEncoding_DecodeString_def case_prod_beta)
qed

lemma Verify_ignores_trailing:
  assumes "Verify lib now v (h @ ''.'' @ p @ ''.'' @ s) = Inr claims" and "CHR ''.'' \<notin> set h" "CHR ''.'' \<notin> set p"
    and "length s mod 4 = 0" and "CHR 0x0A \<notin> set s" "CHR 0x0D \<notin> set s"
    and "length (h @ ''.'' @ p @ ''.'' @ s @ ''.'' @ x) \<le> 32768"
  shows "Verify lib now v (h @ ''.'' @ p @ ''.'' @ s @ ''.'' @ x) = Inr claims"
proof -
  have "splitToken (h @ ''.'' @ p @ ''.'' @ s) = [h, p, s]" "splitToken (h @ ''.'' @ p @ ''.'' @ s @ ''.'' @ x) = [h, p, s @ ''.'' @ x]"
    using assms(2,3) by (simp_all add: splitToken_three)
  with assms(1,7) show ?thesis unfolding Verify_Inr by (auto simp: decodeSig_trailing [OF assms(4-6)])
qed

text \<open>A verifier made from a private key, which \<open>NewJWTVerifier\<close> accepts, refuses every token.\<close>

lemma private_key_rejects_all:
  assumes "NewJWTVerifier lib issuer audience pemKey = Inr v" and "lib_pem_Decode lib pemKey = Some (blockType, blockBytes)"
    and "blockType = ''EC PRIVATE KEY'' \<or> blockType = ''RSA PRIVATE KEY''"
  shows "Verify lib now v tok \<noteq> Inr claims"
proof -
  obtain name where "jwk_key (jv_jwkSet v) = OtherKey name"
    using assms by (auto simp: NewJWTVerifier_def parsePrivateKey_def Let_def split: sum.splits if_splits)
  then show ?thesis by (auto simp: Verify_Inr signature_valid_def)
qed

end
