(* ===== verification/Rate_Limit.thy ===== *)
theory Rate_Limit
  imports Go_Prelude Complex_Main
begin

text \<open>
  The two token buckets of the service: \<open>TokenBucket\<close> (\<open>internal/api/rate_limit.go\<close>) behind the daemon's router
  and \<open>RateLimiter\<close> (\<open>pkg/ratelimit/ratelimit.go\<close>). A call under the mutex is one step, at the time that the
  monotonic clock reads.

  A finite \<open>float64\<close> is the rational number it denotes and every operation rounds its exact result with
  \<open>fl_round\<close>; \<open>fl_fused\<close> says whether the compiler fuses the product and the sum of the refill into one rounding, as
  Go permits. The statements rely on what IEEE 754 says of rounding to nearest, collected in \<open>rounding_ok\<close>. Rates
  that are infinite or not a number are outside the model.
\<close>

section \<open>Floating point\<close>

record go_float =
  fl_round :: "rat \<Rightarrow> rat"
  fl_fused :: bool

definition unit_roundoff :: rat where "unit_roundoff = 1 / 2 ^ 53"
definition half_subnormal :: rat where "half_subnormal = 1 / 2 ^ 1075"

definition rounding_ok :: "go_float \<Rightarrow> bool" where
  "rounding_ok fe \<longleftrightarrow> mono (fl_round fe) \<and> (\<forall>n. \<bar>n\<bar> \<le> 2 ^ 53 \<longrightarrow> fl_round fe (of_int n) = of_int n) \<and>
     (\<forall>x \<ge> 0. fl_round fe x \<le> (1 + unit_roundoff) * x + half_subnormal)"

text \<open>\<open>Time.Sub\<close> saturates; integer division truncates toward zero.\<close>

definition time_Sub :: "time \<Rightarrow> time \<Rightarrow> int" where
  "time_Sub t u = max (- (2 ^ 63)) (min (2 ^ 63 - 1) (t - u))"

definition quo :: "int \<Rightarrow> int \<Rightarrow> int" where
  "quo a b = (if a \<ge> 0 then a div b else - ((- a) div b))"

text \<open>\<open>Duration.Seconds\<close>: whole seconds and the fraction are converted apart.\<close>

definition Seconds :: "go_float \<Rightarrow> int \<Rightarrow> rat" where
  "Seconds fe d =
     (let sec = quo d 1000000000; nsec = d - sec * 1000000000
      in fl_round fe (fl_round fe (of_int sec) + fl_round fe (fl_round fe (of_int nsec) / 1000000000)))"

text \<open>\<open>tokens += elapsed * rate\<close>.\<close>

definition add_product :: "go_float \<Rightarrow> rat \<Rightarrow> rat \<Rightarrow> rat \<Rightarrow> rat" where
  "add_product fe tokens elapsed rate =
     fl_round fe (tokens + (if fl_fused fe then elapsed * rate else fl_round fe (elapsed * rate)))"

section \<open>The bucket of the daemon\<close>

record TokenBucket =
  tb_rate :: rat
  tb_burst :: int
  tb_tokens :: rat
  tb_lastRef :: time

definition NewTokenBucket :: "go_float \<Rightarrow> rat \<Rightarrow> int \<Rightarrow> time \<Rightarrow> TokenBucket" where
  "NewTokenBucket fe rate burst now =
     \<lparr>tb_rate = rate, tb_burst = burst, tb_tokens = fl_round fe (of_int burst), tb_lastRef = now\<rparr>"

definition tb_refill :: "go_float \<Rightarrow> time \<Rightarrow> TokenBucket \<Rightarrow> TokenBucket" where
  "tb_refill fe now tb =
     (let elapsed = Seconds fe (time_Sub now (tb_lastRef tb));
          tokens = add_product fe (tb_tokens tb) elapsed (tb_rate tb)
      in tb\<lparr>tb_lastRef := now,
            tb_tokens := (if tokens > fl_round fe (of_int (tb_burst tb)) then fl_round fe (of_int (tb_burst tb)) else tokens)\<rparr>)"

definition tb_Allow :: "go_float \<Rightarrow> time \<Rightarrow> TokenBucket \<Rightarrow> bool \<times> TokenBucket" where
  "tb_Allow fe now tb =
     (let tb1 = tb_refill fe now tb in
      if tb_tokens tb1 \<ge> 1 then (True, tb1\<lparr>tb_tokens := fl_round fe (tb_tokens tb1 - 1)\<rparr>) else (False, tb1))"

definition Remaining :: "go_float \<Rightarrow> time \<Rightarrow> TokenBucket \<Rightarrow> rat \<times> TokenBucket" where
  "Remaining fe now tb = (let tb1 = tb_refill fe now tb in (tb_tokens tb1, tb1))"

section \<open>The limiter package\<close>

record RateLimiter =
  rl_rate :: rat
  rl_burst :: int
  rl_tokens :: rat
  rl_lastTime :: time

definition NewRateLimiter :: "go_float \<Rightarrow> rat \<Rightarrow> int \<Rightarrow> time \<Rightarrow> RateLimiter" where
  "NewRateLimiter fe rate burst now =
     (let burst = (if burst < 1 then 1 else burst)
      in \<lparr>rl_rate = rate, rl_burst = burst, rl_tokens = fl_round fe (of_int burst), rl_lastTime = now\<rparr>)"

definition rl_Allow :: "go_float \<Rightarrow> time \<Rightarrow> RateLimiter \<Rightarrow> bool \<times> RateLimiter" where
  "rl_Allow fe now rl =
     (if rl_rate rl \<le> 0 then (True, rl)
      else
        let elapsed = Seconds fe (time_Sub now (rl_lastTime rl));
            rl1 = rl\<lparr>rl_lastTime := now\<rparr>;
            rl2 = rl1\<lparr>rl_tokens := add_product fe (rl_tokens rl1) elapsed (rl_rate rl1)\<rparr>;
            rl3 = (if rl_tokens rl2 > fl_round fe (of_int (rl_burst rl2)) then rl2\<lparr>rl_tokens := fl_round fe (of_int (rl_burst rl2))\<rparr> else rl2)
        in if rl_tokens rl3 \<ge> 1 then (True, rl3\<lparr>rl_tokens := fl_round fe (rl_tokens rl3 - 1)\<rparr>) else (False, rl3))"

section \<open>The contract of a bucket\<close>

text \<open>Calls at the given times, one after the other: how many are granted, and the bucket afterwards.\<close>

primrec run_calls :: "(time \<Rightarrow> 'b \<Rightarrow> bool \<times> 'b) \<Rightarrow> time list \<Rightarrow> 'b \<Rightarrow> nat \<times> 'b" where
  "run_calls allow [] b = (0, b)"
| "run_calls allow (now # ts) b =
     (let (granted, b1) = allow now b; (n, b2) = run_calls allow ts b1 in (n + (if granted then 1 else 0), b2))"

text \<open>
  \<open>good\<close> is the invariant of a bucket under a rounding. A call at a time that is not in the past spends a token exactly when it
  is allowed, and between two calls the level grows by at most \<open>gain\<close> of the time that has passed.
\<close>

locale bucket =
  fixes allow :: "'f \<Rightarrow> time \<Rightarrow> 'b \<Rightarrow> bool \<times> 'b"
    and good :: "'f \<Rightarrow> 'b \<Rightarrow> bool"
    and level :: "'b \<Rightarrow> rat"
    and clock :: "'b \<Rightarrow> time"
    and gain :: "'b \<Rightarrow> rat" \<comment> \<open>tokens per nanosecond\<close>
    and slack :: "'b \<Rightarrow> rat" \<comment> \<open>what rounding may add in one call\<close>
  assumes allow_step: "good fe b \<Longrightarrow> clock b \<le> now \<Longrightarrow> allow fe now b = (granted, b') \<Longrightarrow>
      good fe b' \<and> clock b' = now \<and> gain b' = gain b \<and> slack b' = slack b \<and>
      level b' + (if granted then 1 else 0) \<le> level b + gain b * of_int (now - clock b) + slack b"
    and level_nonneg: "good fe b \<Longrightarrow> 0 \<le> level b"
begin

lemma run_step:
  assumes "good fe b" and "sorted (clock b # ts)" and "run_calls (allow fe) ts b = (n, b')"
  shows "good fe b' \<and> clock b' = last (clock b # ts) \<and>
    of_nat n + level b' \<le> level b + gain b * of_int (last (clock b # ts) - clock b) + of_nat (length ts) * slack b"
  using assms
proof (induction ts arbitrary: b n)
  case Nil
  then show ?case by simp
next
  case (Cons now ts)
  obtain granted b1 where a: "allow fe now b = (granted, b1)" by fastforce
  obtain m where r: "run_calls (allow fe) ts b1 = (m, b')" and n: "n = m + (if granted then 1 else 0)"
    using Cons.prems(3) a by (auto split: prod.splits)
  note step = allow_step [OF Cons.prems(1) _ a]
  have s: "clock b1 = now" "good fe b1" "gain b1 = gain b" "slack b1 = slack b"
    "level b1 + (if granted then 1 else 0) \<le> level b + gain b * of_int (now - clock b) + slack b"
    using step Cons.prems(2) by simp_all
  have IH: "good fe b' \<and> clock b' = last (now # ts) \<and>
      of_nat m + level b' \<le> level b1 + gain b * of_int (last (now # ts) - now) + of_nat (length ts) * slack b"
    using Cons.IH [OF s(2) _ r] Cons.prems(2) s by simp
  let ?l = "last (now # ts)"
  have "gain b * of_int (now - clock b) + gain b * of_int (?l - now) = gain b * of_int (?l - clock b)"
    by (simp add: algebra_simps)
  with IH s(5) show ?case unfolding n by (auto simp: algebra_simps)
qed

text \<open>Over any run of calls no more are granted than the bucket held, plus what the time that passed brings in.\<close>

lemma run_bound:
  assumes "good fe b" and "sorted (clock b # ts)"
  shows "of_nat (fst (run_calls (allow fe) ts b)) \<le> level b + gain b * of_int (last (clock b # ts) - clock b) + of_nat (length ts) * slack b"
proof -
  obtain n b' where r: "run_calls (allow fe) ts b = (n, b')" by fastforce
  note s = run_step [OF assms r]
  then have "0 \<le> level b'" using level_nonneg by blast
  with s r show ?thesis by simp
qed

end

section \<open>Both buckets keep the contract\<close>

subsection \<open>Rounding\<close>

lemma roundD:
  assumes "rounding_ok fe"
  shows "x \<le> y \<Longrightarrow> fl_round fe x \<le> fl_round fe y" and "\<bar>n\<bar> \<le> 2 ^ 53 \<Longrightarrow> fl_round fe (of_int n) = of_int n"
    and "0 \<le> x \<Longrightarrow> fl_round fe x \<le> (1 + unit_roundoff) * x + half_subnormal"
  using assms by (auto simp: rounding_ok_def mono_def)

lemma round_nonneg: "rounding_ok fe \<Longrightarrow> 0 \<le> x \<Longrightarrow> 0 \<le> fl_round fe x"
  using roundD(1) [of fe 0 x] roundD(2) [of fe 0] by simp

lemma round_constants [simp]: "0 < unit_roundoff" "0 < half_subnormal"
  by (simp_all add: unit_roundoff_def half_subnormal_def)

lemma time_Sub_bounds: "u \<le> t \<Longrightarrow> 0 \<le> time_Sub t u \<and> time_Sub t u \<le> t - u"
  by (auto simp: time_Sub_def)

abbreviation grow :: rat where "grow \<equiv> 1 + unit_roundoff"

lemma quo_nonneg: "0 \<le> d \<Longrightarrow> 0 < k \<Longrightarrow> quo d k = d div k \<and> d - quo d k * k = d mod k"
  by (simp add: quo_def minus_div_mult_eq_mod)

lemma Seconds_bounds:
  assumes fe: "rounding_ok fe" and d: "0 \<le> d" "d < 2 ^ 63"
  shows "0 \<le> Seconds fe d" and "Seconds fe d \<le> grow ^ 2 * (of_int d / 1000000000) + (grow + 1) * half_subnormal"
proof -
  let ?s = "d div 1000000000" and ?n = "d mod 1000000000"
  have exact: "fl_round fe (of_int ?s) = of_int ?s" "fl_round fe (of_int ?n) = of_int ?n"
    using d by (auto intro!: roundD(2) [OF fe] simp: pos_imp_zdiv_nonneg_iff)
  have S: "Seconds fe d = fl_round fe (of_int ?s + fl_round fe (of_int ?n / 1000000000))"
  proof -
    have q: "quo d 1000000000 = ?s" "d - ?s * 1000000000 = ?n" using quo_nonneg [OF d(1), of 1000000000] by (simp_all add: minus_div_mult_eq_mod)
    show ?thesis unfolding Seconds_def Let_def q exact ..
  qed
  have nn: "0 \<le> (of_int ?s :: rat)" "0 \<le> (of_int ?n / 1000000000 :: rat)" using d by (simp_all add: pos_imp_zdiv_nonneg_iff)
  let ?f = "fl_round fe (of_int ?n / 1000000000)"
  have f: "0 \<le> ?f" "?f \<le> grow * (of_int ?n / 1000000000) + half_subnormal"
    using round_nonneg [OF fe nn(2)] roundD(3) [OF fe nn(2)] by simp_all
  show "0 \<le> Seconds fe d" unfolding S using nn(1) f(1) by (intro round_nonneg [OF fe]) simp
  have "Seconds fe d \<le> grow * (of_int ?s + ?f) + half_subnormal" unfolding S by (rule roundD(3) [OF fe]) (use nn f in simp)
  also have "\<dots> \<le> grow * (grow * of_int ?s + (grow * (of_int ?n / 1000000000) + half_subnormal)) + half_subnormal"
    using f(2) nn(1) by (intro add_right_mono mult_left_mono add_mono) (simp_all add: mult_le_cancel_right1 less_imp_le)
  also have "\<dots> = grow ^ 2 * (of_int ?s + of_int ?n / 1000000000) + (grow + 1) * half_subnormal"
    by (simp add: algebra_simps power2_eq_square add_divide_distrib)
  also have "(of_int ?s + of_int ?n / 1000000000 :: rat) = of_int d / 1000000000"
  proof -
    have "(of_int (?s * 1000000000 + ?n) :: rat) = of_int d" by (simp only: div_mult_mod_eq)
    then show ?thesis unfolding of_int_add of_int_mult of_int_numeral by linarith
  qed
  finally show "Seconds fe d \<le> grow ^ 2 * (of_int d / 1000000000) + (grow + 1) * half_subnormal" .
qed

lemma add_product_bounds:
  assumes fe: "rounding_ok fe" and "0 \<le> tokens" "0 \<le> elapsed" "0 \<le> rate"
  shows "0 \<le> add_product fe tokens elapsed rate"
    and "add_product fe tokens elapsed rate \<le> grow * tokens + grow ^ 2 * (elapsed * rate) + (grow + 1) * half_subnormal"
proof -
  have p: "0 \<le> elapsed * rate" using assms by simp
  let ?g = "if fl_fused fe then elapsed * rate else fl_round fe (elapsed * rate)"
  have g: "0 \<le> ?g" "?g \<le> grow * (elapsed * rate) + half_subnormal"
    using p round_nonneg [OF fe p] roundD(3) [OF fe p] mult_right_mono [OF _ p, of 1 grow] by (auto simp: less_imp_le add_increasing2)
  have nn: "0 \<le> tokens + ?g" using g assms by simp
  show "0 \<le> add_product fe tokens elapsed rate" unfolding add_product_def by (rule round_nonneg [OF fe nn])
  have "add_product fe tokens elapsed rate \<le> grow * (tokens + ?g) + half_subnormal" unfolding add_product_def by (rule roundD(3) [OF fe nn])
  also have "\<dots> \<le> grow * (tokens + (grow * (elapsed * rate) + half_subnormal)) + half_subnormal"
    by (intro add_right_mono mult_left_mono add_left_mono g(2)) (simp add: less_imp_le add_nonneg_nonneg)
  finally show "add_product fe tokens elapsed rate \<le> grow * tokens + grow ^ 2 * (elapsed * rate) + (grow + 1) * half_subnormal"
    by (simp add: algebra_simps power2_eq_square)
qed

subsection \<open>The bucket of the daemon\<close>

text \<open>The invariant: between nothing and the burst, which the integers represent exactly, with a rate that is not negative.\<close>

definition tb_good :: "go_float \<Rightarrow> TokenBucket \<Rightarrow> bool" where
  "tb_good fe tb \<longleftrightarrow> rounding_ok fe \<and> 0 \<le> tb_rate tb \<and> 1 \<le> tb_burst tb \<and> tb_burst tb \<le> 2 ^ 53 \<and>
     0 \<le> tb_tokens tb \<and> tb_tokens tb \<le> of_int (tb_burst tb)"

definition tb_gain :: "TokenBucket \<Rightarrow> rat" where
  "tb_gain tb = grow ^ 4 * tb_rate tb / 1000000000"

definition refill_slack :: "TokenBucket \<Rightarrow> rat" where
  "refill_slack tb = unit_roundoff * of_int (tb_burst tb) + (grow ^ 2 * (grow + 1) * tb_rate tb + grow + 1) * half_subnormal"

definition tb_slack :: "TokenBucket \<Rightarrow> rat" where
  "tb_slack tb = refill_slack tb + unit_roundoff * of_int (tb_burst tb) + half_subnormal"

lemma tb_good_New: "rounding_ok fe \<Longrightarrow> 0 \<le> rate \<Longrightarrow> 1 \<le> burst \<Longrightarrow> burst \<le> 2 ^ 53 \<Longrightarrow> tb_good fe (NewTokenBucket fe rate burst now)"
  using roundD(2) [of fe burst] by (simp add: tb_good_def NewTokenBucket_def)

lemma tb_refill_step:
  assumes "tb_good fe tb" and "tb_lastRef tb \<le> now" and "tb1 = tb_refill fe now tb"
  shows "tb_good fe tb1 \<and> tb_lastRef tb1 = now \<and> tb_rate tb1 = tb_rate tb \<and> tb_burst tb1 = tb_burst tb \<and>
    tb_tokens tb1 \<le> tb_tokens tb + tb_gain tb * of_int (now - tb_lastRef tb) + refill_slack tb"
proof -
  let ?d = "time_Sub now (tb_lastRef tb)" and ?r = "tb_rate tb" and ?t = "tb_tokens tb"
  let ?E = "Seconds fe ?d" and ?e = "of_int (now - tb_lastRef tb) / 1000000000 :: rat"
  have g: "rounding_ok fe" "0 \<le> ?r" "0 \<le> ?t" "?t \<le> of_int (tb_burst tb)" "fl_round fe (of_int (tb_burst tb)) = of_int (tb_burst tb)"
    using assms(1) roundD(2) [of fe "tb_burst tb"] by (auto simp: tb_good_def)
  have d: "0 \<le> ?d" "?d < 2 ^ 63" "?d \<le> now - tb_lastRef tb" using time_Sub_bounds [OF assms(2)] by (auto simp: time_Sub_def)
  note E = Seconds_bounds [OF g(1) d(1,2)]
  have c: "0 \<le> grow" by (simp add: less_imp_le add_nonneg_nonneg)
  have "of_int ?d / 1000000000 \<le> ?e" using d(3) by (simp add: divide_right_mono del: of_int_diff)
  then have E2: "?E \<le> grow ^ 2 * ?e + (grow + 1) * half_subnormal"
    using E(2) c mult_left_mono [of "of_int ?d / 1000000000" ?e "grow ^ 2"] by simp
  let ?p = "add_product fe ?t ?E ?r"
  note P = add_product_bounds [OF g(1) g(3) E(1) g(2)]
  have "?p \<le> grow * ?t + grow ^ 2 * (?E * ?r) + (grow + 1) * half_subnormal" by (rule P(2))
  also have "\<dots> \<le> grow * ?t + grow ^ 2 * ((grow ^ 2 * ?e + (grow + 1) * half_subnormal) * ?r) + (grow + 1) * half_subnormal"
    using E2 g(2) c by (intro add_right_mono add_left_mono mult_left_mono mult_right_mono) simp_all
  also have "\<dots> = ?t + unit_roundoff * ?t + tb_gain tb * of_int (now - tb_lastRef tb) + (grow ^ 2 * (grow + 1) * ?r + grow + 1) * half_subnormal"
    by (simp add: tb_gain_def algebra_simps eval_nat_numeral add_divide_distrib diff_divide_distrib)
  finally have "?p \<le> ?t + tb_gain tb * of_int (now - tb_lastRef tb) + refill_slack tb"
    using mult_left_mono [OF g(4) less_imp_le [OF round_constants(1)]] unfolding refill_slack_def by linarith
  moreover have "tb1 = tb\<lparr>tb_lastRef := now, tb_tokens := min (of_int (tb_burst tb)) ?p\<rparr>"
    by (simp add: assms(3) tb_refill_def Let_def g(5) min_def)
  ultimately show ?thesis using assms(1) P(1) by (auto simp: tb_good_def min_def)
qed

lemma tb_Allow_step:
  assumes "tb_good fe tb" and "tb_lastRef tb \<le> now" and "tb_Allow fe now tb = (granted, tb')"
  shows "tb_good fe tb' \<and> tb_lastRef tb' = now \<and> tb_gain tb' = tb_gain tb \<and> tb_slack tb' = tb_slack tb \<and>
    tb_tokens tb' + (if granted then 1 else 0) \<le> tb_tokens tb + tb_gain tb * of_int (now - tb_lastRef tb) + tb_slack tb"
proof -
  define tb1 where "tb1 = tb_refill fe now tb"
  note s = tb_refill_step [OF assms(1,2) tb1_def]
  have c: "0 \<le> unit_roundoff * of_int (tb_burst tb)" using assms(1) by (simp add: tb_good_def less_imp_le)
  show ?thesis
  proof (cases "tb_tokens tb1 \<ge> 1")
    case True
    let ?x = "fl_round fe (tb_tokens tb1 - 1)"
    have g: "rounding_ok fe" "tb_tokens tb1 \<le> of_int (tb_burst tb)" "tb_burst tb \<le> 2 ^ 53" "1 \<le> tb_burst tb" using s by (auto simp: tb_good_def)
    have x: "0 \<le> ?x" "?x \<le> grow * (tb_tokens tb1 - 1) + half_subnormal" using True round_nonneg [OF g(1)] roundD(3) [OF g(1)] by simp_all
    have "?x \<le> fl_round fe (of_int (tb_burst tb))" using g(2) by (intro roundD(1) [OF g(1)]) simp
    then have "?x \<le> of_int (tb_burst tb)" using roundD(2) [OF g(1), of "tb_burst tb"] g(3,4) by simp
    moreover have "unit_roundoff * (tb_tokens tb1 - 1) \<le> unit_roundoff * of_int (tb_burst tb)"
      using g(2) by (intro mult_left_mono) (simp_all add: less_imp_le)
    then have "?x + 1 \<le> tb_tokens tb1 + unit_roundoff * of_int (tb_burst tb) + half_subnormal" using x(2) by (simp add: algebra_simps)
    moreover have "granted" "tb' = tb1\<lparr>tb_tokens := ?x\<rparr>" using assms(3) True by (auto simp: tb_Allow_def tb1_def Let_def)
    ultimately show ?thesis using s x(1) by (auto simp: tb_good_def tb_gain_def tb_slack_def refill_slack_def)
  next
    case False
    then have "\<not> granted" "tb' = tb1" using assms(3) by (auto simp: tb_Allow_def tb1_def Let_def)
    moreover have "refill_slack tb \<le> tb_slack tb" using c by (simp add: tb_slack_def less_imp_le)
    ultimately show ?thesis using s by (simp add: tb_gain_def tb_slack_def refill_slack_def)
  qed
qed

interpretation tb: bucket tb_Allow tb_good tb_tokens tb_lastRef tb_gain tb_slack
  by unfold_locales (use tb_Allow_step in \<open>blast\<close>, simp add: tb_good_def)

lemma run_calls_burst: "tb_burst (snd (run_calls (tb_Allow fe) ts tb)) = tb_burst tb"
  by (induction ts arbitrary: tb) (simp_all add: case_prod_beta tb_Allow_def tb_refill_def Let_def)

subsection \<open>The limiter package\<close>

text \<open>With a positive rate the limiter is the bucket of the daemon under other names.\<close>

definition tb_of :: "RateLimiter \<Rightarrow> TokenBucket" where
  "tb_of rl = \<lparr>tb_rate = rl_rate rl, tb_burst = rl_burst rl, tb_tokens = rl_tokens rl, tb_lastRef = rl_lastTime rl\<rparr>"

lemma tb_of_fields [simp]: "tb_rate (tb_of rl) = rl_rate rl" "tb_burst (tb_of rl) = rl_burst rl" "tb_tokens (tb_of rl) = rl_tokens rl"
    "tb_lastRef (tb_of rl) = rl_lastTime rl"
  by (simp_all add: tb_of_def)

lemma rl_Allow_tb:
  assumes "0 < rl_rate rl"
  shows "map_prod id tb_of (rl_Allow fe now rl) = tb_Allow fe now (tb_of rl)" and "rl_rate (snd (rl_Allow fe now rl)) = rl_rate rl"
  using assms by (simp_all add: rl_Allow_def tb_Allow_def tb_refill_def tb_of_def Let_def)

definition rl_good :: "go_float \<Rightarrow> RateLimiter \<Rightarrow> bool" where
  "rl_good fe rl \<longleftrightarrow> 0 < rl_rate rl \<and> tb_good fe (tb_of rl)"

interpretation rl: bucket rl_Allow rl_good rl_tokens rl_lastTime "\<lambda>rl. tb_gain (tb_of rl)" "\<lambda>rl. tb_slack (tb_of rl)"
proof unfold_locales
  fix fe rl now granted rl'
  assume "rl_good fe rl" and t: "rl_lastTime rl \<le> now" and a: "rl_Allow fe now rl = (granted, rl')"
  then have p: "0 < rl_rate rl" and g: "tb_good fe (tb_of rl)" by (simp_all add: rl_good_def)
  have "tb_Allow fe now (tb_of rl) = (granted, tb_of rl')" "rl_rate rl' = rl_rate rl" using rl_Allow_tb [OF p, of fe now] a by simp_all
  with tb_Allow_step [OF g _ this(1)] t p
  show "rl_good fe rl' \<and> rl_lastTime rl' = now \<and> tb_gain (tb_of rl') = tb_gain (tb_of rl) \<and> tb_slack (tb_of rl') = tb_slack (tb_of rl) \<and>
      rl_tokens rl' + (if granted then 1 else 0)
        \<le> rl_tokens rl + tb_gain (tb_of rl) * of_int (now - rl_lastTime rl) + tb_slack (tb_of rl)"
    by (simp add: rl_good_def)
qed (simp add: rl_good_def tb_good_def tb_of_def)

lemma run_calls_tb:
  "0 < rl_rate rl \<Longrightarrow> map_prod id tb_of (run_calls (rl_Allow fe) ts rl) = run_calls (tb_Allow fe) ts (tb_of rl)"
proof (induction ts arbitrary: rl)
  case (Cons now ts)
  obtain granted rl1 where a: "rl_Allow fe now rl = (granted, rl1)" by fastforce
  then have "tb_Allow fe now (tb_of rl) = (granted, tb_of rl1)" "0 < rl_rate rl1"
    using rl_Allow_tb [OF Cons.prems, of fe now] Cons.prems by simp_all
  with Cons.IH [of rl1, symmetric] a show ?case by (simp add: case_prod_beta map_prod_def)
qed simp

lemma run_calls_pass: "rl_rate rl \<le> 0 \<Longrightarrow> run_calls (rl_Allow fe) ts rl = (length ts, rl)"
  by (induction ts) (simp_all add: rl_Allow_def)

section \<open>Properties\<close>

text \<open>
  C9. The daemon's limiter keeps its rate. Under any rounding that IEEE 754 permits, with a burst from 1 to 2 ^ 53,
  calls at times that never decrease are granted at most \<open>burst\<close> times plus the rate times the seconds that have passed,
  up to the stated effect of rounding (a relative error of about 2 ^ -51 of the rate and 2 ^ -52 tokens of the burst per call); and the
  tokens stay between 0 and the burst.
\<close>

theorem TokenBucket_rate_bound:
  assumes "rounding_ok fe" and "0 \<le> rate" and "1 \<le> burst" "burst \<le> 2 ^ 53" and "sorted (start # ts)"
    and "tb = NewTokenBucket fe rate burst start" and "run_calls (tb_Allow fe) ts tb = (granted, tb')"
  shows "of_nat granted \<le> of_int burst + (1 + unit_roundoff) ^ 4 * rate * (of_int (last (start # ts) - start) / 1000000000)
      + of_nat (length ts) * tb_slack tb \<and>
    0 \<le> tb_tokens tb' \<and> tb_tokens tb' \<le> of_int burst"
proof (intro conjI)
  have g: "tb_good fe tb" using assms tb_good_New by blast
  have tb: "tb_lastRef tb = start" "tb_tokens tb = of_int burst" "tb_rate tb = rate" "tb_burst tb = burst"
    using assms(3,4,6) roundD(2) [OF assms(1), of burst] by (simp_all add: NewTokenBucket_def)
  show "of_nat granted \<le> of_int burst + (1 + unit_roundoff) ^ 4 * rate * (of_int (last (start # ts) - start) / 1000000000)
      + of_nat (length ts) * tb_slack tb"
    using tb.run_bound [OF g, of ts] assms(5,7) by (simp add: tb tb_gain_def)
  have "tb_good fe tb'" using tb.run_step [OF g _ assms(7)] assms(5) tb(1) by simp
  moreover have "tb_burst tb' = burst" using run_calls_burst [of fe ts tb] assms(7) tb(4) by simp
  ultimately show "0 \<le> tb_tokens tb'" "tb_tokens tb' \<le> of_int burst" by (auto simp: tb_good_def)
qed

text \<open>Exact arithmetic is such a rounding.\<close>

theorem TokenBucket_rate_bound_witness:
  "of_nat (fst (run_calls (tb_Allow \<lparr>fl_round = id, fl_fused = False\<rparr>) [0, 0, 0] (NewTokenBucket \<lparr>fl_round = id, fl_fused = False\<rparr> 100 2 0)))
     \<le> (2 + 3 * tb_slack (NewTokenBucket \<lparr>fl_round = id, fl_fused = False\<rparr> 100 2 0) :: rat)"
proof -
  let ?fe = "\<lparr>fl_round = id, fl_fused = False\<rparr>"
  have "rounding_ok ?fe"
    by (auto simp: rounding_ok_def mono_def algebra_simps less_imp_le add_nonneg_nonneg)
  from TokenBucket_rate_bound [OF this, of 100 2 0 "[0, 0, 0]", OF _ _ _ _ refl prod.collapse [symmetric]] show ?thesis by simp
qed

text \<open>
  The two limiters agree. \<open>ratelimit.New\<close> with a positive rate and a burst of at least 1 grants the same calls and
  holds the same tokens as the bucket of the daemon, whatever the times of the calls and the rounding; a smaller
  burst is one of 1, and with a rate that is not positive every call is granted.
\<close>

lemma limiters_agree:
  "run_calls (rl_Allow fe) ts (NewRateLimiter fe rate burst start) =
     (if rate \<le> 0 then (length ts, NewRateLimiter fe rate burst start)
      else let (granted, tb) = run_calls (tb_Allow fe) ts (NewTokenBucket fe rate (max 1 burst) start)
           in (granted, \<lparr>rl_rate = tb_rate tb, rl_burst = tb_burst tb, rl_tokens = tb_tokens tb, rl_lastTime = tb_lastRef tb\<rparr>))"
proof (cases "rate \<le> 0")
  case True
  then show ?thesis using run_calls_pass [of "NewRateLimiter fe rate burst start"] by (simp add: NewRateLimiter_def Let_def)
next
  case False
  let ?rl = "NewRateLimiter fe rate burst start"
  have "tb_of ?rl = NewTokenBucket fe rate (max 1 burst) start"
    by (auto simp: NewRateLimiter_def tb_of_def NewTokenBucket_def Let_def max_def)
  moreover have "0 < rl_rate ?rl" using False by (simp add: NewRateLimiter_def Let_def)
  ultimately have "run_calls (tb_Allow fe) ts (NewTokenBucket fe rate (max 1 burst) start) = map_prod id tb_of (run_calls (rl_Allow fe) ts ?rl)"
    using run_calls_tb by metis
  with False show ?thesis by (simp add: case_prod_beta prod_eq_iff)
qed

end
