(* ===== verification/Audit_Log.thy ===== *)
theory Audit_Log
  imports Go_Prelude
begin

text \<open>
  The audit log of the service (\<open>internal/api/audit.go\<close>): a ring buffer of the last entries and a rotating JSONL
  file. The file operations that may fail are parameters; \<open>Append\<close> ignores their failures as the code does.
\<close>

section \<open>The logger\<close>

record AuditEntry =
  ae_ID :: int
  ae_Timestamp :: string
  ae_Method :: string
  ae_Path :: string
  ae_RequestID :: string
  ae_StatusCode :: int
  ae_DurationMs :: int
  ae_ClientTokenHash :: string
  ae_Provider :: string
  ae_Isolation :: string
  ae_Error :: string

definition zero_AuditEntry :: AuditEntry where
  "zero_AuditEntry = \<lparr>ae_ID = 0, ae_Timestamp = [], ae_Method = [], ae_Path = [], ae_RequestID = [], ae_StatusCode = 0,
     ae_DurationMs = 0, ae_ClientTokenHash = [], ae_Provider = [], ae_Isolation = [], ae_Error = []\<rparr>"

definition MaxInMemoryEntries :: nat where "MaxInMemoryEntries = 10000"

text \<open>The JSONL file: none, an open one with its content, or one that is closed but still referenced.\<close>

datatype jsonl = NoFile | OpenFile string | ClosedFile

record AuditLogger =
  al_buf :: "AuditEntry list"
  al_head :: nat
  al_count :: nat
  al_jsonlFile :: jsonl

record audit_io =
  io_Marshal :: "AuditEntry \<Rightarrow> string option"
  io_Written :: "string \<Rightarrow> nat" \<comment> \<open>how many bytes of a write reach the file\<close>
  io_StatOk :: bool
  io_RenameOk :: bool
  io_ReopenOk :: bool
  io_MaxJSONLLenBytes :: nat

text \<open>The first part is the logger of an empty data directory or of one that cannot be set up.\<close>

definition NewAuditLogger :: "string \<Rightarrow> bool \<Rightarrow> string option \<Rightarrow> AuditLogger" where
  "NewAuditLogger dataDir mkdirOk present =
     \<lparr>al_buf = replicate MaxInMemoryEntries zero_AuditEntry, al_head = 0, al_count = 0,
      al_jsonlFile = (if dataDir \<noteq> [] \<and> mkdirOk then case present of None \<Rightarrow> NoFile | Some content \<Rightarrow> OpenFile content else NoFile)\<rparr>"

text \<open>A file that cannot be renamed is opened again with its content; one that cannot be reopened stays closed.\<close>

definition maybeRotate :: "audit_io \<Rightarrow> AuditLogger \<Rightarrow> AuditLogger" where
  "maybeRotate io l =
     (case al_jsonlFile l of
        OpenFile content \<Rightarrow>
          if \<not> io_StatOk io \<or> length content < io_MaxJSONLLenBytes io then l
          else if \<not> io_ReopenOk io then l\<lparr>al_jsonlFile := ClosedFile\<rparr>
          else l\<lparr>al_jsonlFile := OpenFile (if io_RenameOk io then [] else content)\<rparr>
      | _ \<Rightarrow> l)"

definition write_line :: "audit_io \<Rightarrow> AuditEntry \<Rightarrow> AuditLogger \<Rightarrow> AuditLogger" where
  "write_line io e l =
     (case (al_jsonlFile l, io_Marshal io e) of
        (OpenFile content, Some line) \<Rightarrow>
          maybeRotate io (l\<lparr>al_jsonlFile := OpenFile (content @ take (io_Written io (line @ [CHR 0x0A])) (line @ [CHR 0x0A]))\<rparr>)
      | _ \<Rightarrow> l)"

definition audit_Append :: "audit_io \<Rightarrow> AuditEntry \<Rightarrow> AuditLogger \<Rightarrow> AuditLogger" where
  "audit_Append io e l =
     write_line io e
       (l\<lparr>al_buf := (al_buf l)[al_head l := e], al_head := (al_head l + 1) mod MaxInMemoryEntries,
          al_count := (if al_count l < MaxInMemoryEntries then al_count l + 1 else al_count l)\<rparr>)"

text \<open>The loop of \<open>Query\<close> over the offsets from the newest entry: \<open>break\<close> at the first entry before \<open>from\<close>.\<close>

fun query_loop :: "string \<Rightarrow> string \<Rightarrow> string \<Rightarrow> string \<Rightarrow> AuditLogger \<Rightarrow> nat \<Rightarrow> nat list \<Rightarrow> AuditEntry list" where
  "query_loop from to provider isolation l start [] = []"
| "query_loop from to provider isolation l start (i # is) =
     (let e = al_buf l ! ((start + MaxInMemoryEntries - i) mod MaxInMemoryEntries) in
      if from \<noteq> [] \<and> ae_Timestamp e < from then []
      else if to \<noteq> [] \<and> ae_Timestamp e > to then query_loop from to provider isolation l start is
      else if provider \<noteq> [] \<and> ae_Provider e \<noteq> provider then query_loop from to provider isolation l start is
      else if isolation \<noteq> [] \<and> ae_Isolation e \<noteq> isolation then query_loop from to provider isolation l start is
      else e # query_loop from to provider isolation l start is)"

text \<open>\<open>None\<close> is the run-time panic of a slice expression with a negative bound.\<close>

definition audit_Query :: "AuditLogger \<Rightarrow> string \<Rightarrow> string \<Rightarrow> string \<Rightarrow> string \<Rightarrow> int \<Rightarrow> int \<Rightarrow> AuditEntry list option" where
  "audit_Query l from to provider isolation limit offset =
     (let start = (al_head l + MaxInMemoryEntries - 1) mod MaxInMemoryEntries;
          filtered = query_loop from to provider isolation l start [0..<al_count l] in
      if offset > int (length filtered) then Some []
      else if offset < 0 then None
      else let page = drop (nat offset) filtered in
        Some (if limit > 0 \<and> limit < int (length page) then take (nat limit) page else page))"

definition audit_Close :: "AuditLogger \<Rightarrow> AuditLogger" where
  "audit_Close l = l\<lparr>al_jsonlFile := (case al_jsonlFile l of OpenFile _ \<Rightarrow> ClosedFile | f \<Rightarrow> f)\<rparr>"

section \<open>The ring holds the latest entries\<close>

definition logger_ok :: "AuditLogger \<Rightarrow> bool" where
  "logger_ok l \<longleftrightarrow> length (al_buf l) = MaxInMemoryEntries \<and> al_head l < MaxInMemoryEntries \<and> al_count l \<le> MaxInMemoryEntries"

text \<open>The abstract log: the entries in memory, newest first.\<close>

definition entry_at :: "AuditLogger \<Rightarrow> nat \<Rightarrow> AuditEntry" where
  "entry_at l i = al_buf l ! ((al_head l + MaxInMemoryEntries - 1 - i) mod MaxInMemoryEntries)"

definition recent :: "AuditLogger \<Rightarrow> AuditEntry list" where
  "recent l = map (entry_at l) [0..<al_count l]"

lemma Max_pos [simp]: "0 < MaxInMemoryEntries"
  by (simp add: MaxInMemoryEntries_def)

lemma write_line_ring [simp]:
  "al_buf (write_line io e l) = al_buf l" "al_head (write_line io e l) = al_head l" "al_count (write_line io e l) = al_count l"
  by (auto simp: write_line_def maybeRotate_def split: jsonl.splits option.splits)

lemma logger_ok_New: "logger_ok (NewAuditLogger dataDir mkdirOk present)" "recent (NewAuditLogger dataDir mkdirOk present) = []"
  by (simp_all add: logger_ok_def NewAuditLogger_def recent_def)

lemma logger_ok_Append: "logger_ok l \<Longrightarrow> logger_ok (audit_Append io e l)"
  by (simp add: logger_ok_def audit_Append_def)

lemma mod_shift: "k < n \<Longrightarrow> m = k + n \<Longrightarrow> m mod n = (k::nat)"
  by simp

lemma ring_index:
  assumes "h < (n::nat)" and "i < n"
  shows "((h + 1) mod n + n - 1 - i) mod n = (h + n - i) mod n" and "(h + n - i) mod n = (if i \<le> h then h - i else h + n - i)"
    and "((h + n - 1) mod n + n - i) mod n = (h + n - 1 - i) mod n"
proof -
  have "(h + n - i) mod n = h - i" if "i \<le> h"
    by (rule mod_shift) (use assms that in simp_all)
  then show "(h + n - i) mod n = (if i \<le> h then h - i else h + n - i)" using assms by simp
  show "((h + 1) mod n + n - 1 - i) mod n = (h + n - i) mod n"
  proof (cases "h + 1 = n")
    case True
    have "(h + n - i) mod n = n - 1 - i" by (rule mod_shift) (use assms True in simp_all)
    moreover have "(h + 1) mod n = 0" using True by simp
    ultimately show ?thesis using assms by simp
  qed (use assms in simp)
  show "((h + n - 1) mod n + n - i) mod n = (h + n - 1 - i) mod n"
  proof (cases h)
    case 0
    have "(n - 1 + n - i) mod n = n - 1 - i" by (rule mod_shift) (use assms in simp_all)
    with 0 assms show ?thesis by simp
  next
    case (Suc k)
    then have "(h + n - 1) mod n = k" using assms by simp
    with Suc show ?thesis by simp
  qed
qed

lemma entry_at_Append:
  assumes "logger_ok l" and "i < MaxInMemoryEntries"
  shows "entry_at (audit_Append io e l) i = (case i of 0 \<Rightarrow> e | Suc j \<Rightarrow> entry_at l j)"
proof -
  let ?n = MaxInMemoryEntries and ?h = "al_head l"
  have h: "?h < ?n" "length (al_buf l) = ?n" using assms(1) by (simp_all add: logger_ok_def)
  have "entry_at (audit_Append io e l) i = (al_buf l)[?h := e] ! ((?h + ?n - i) mod ?n)"
    using ring_index(1) [OF h(1) assms(2)] by (simp add: entry_at_def audit_Append_def)
  moreover have "(al_buf l)[?h := e] ! ((?h + ?n - i) mod ?n) = al_buf l ! ((?h + ?n - i) mod ?n)" if "i \<noteq> 0"
    using ring_index(2) [OF h(1) assms(2)] that assms(2) by simp
  ultimately show ?thesis using h by (cases i) (simp_all add: entry_at_def)
qed

lemma recent_Append:
  assumes "logger_ok l"
  shows "recent (audit_Append io e l) = take MaxInMemoryEntries (e # recent l)"
proof (rule nth_equalityI)
  have c: "al_count (audit_Append io e l) = min MaxInMemoryEntries (Suc (al_count l))"
    using assms by (simp add: audit_Append_def logger_ok_def)
  then show "length (recent (audit_Append io e l)) = length (take MaxInMemoryEntries (e # recent l))"
    by (simp add: recent_def)
  fix i
  assume "i < length (recent (audit_Append io e l))"
  then have i: "i < MaxInMemoryEntries" "i < Suc (al_count l)" by (simp_all add: recent_def c)
  then have "recent (audit_Append io e l) ! i = entry_at (audit_Append io e l) i" by (simp add: recent_def c)
  with i show "recent (audit_Append io e l) ! i = take MaxInMemoryEntries (e # recent l) ! i"
    by (cases i) (simp_all add: entry_at_Append [OF assms] recent_def)
qed

lemma recent_history:
  "logger_ok l \<Longrightarrow> logger_ok (fold (audit_Append io) es l) \<and>
     recent (fold (audit_Append io) es l) = take MaxInMemoryEntries (rev es @ recent l)"
proof (induction es arbitrary: l)
  case Nil
  then show ?case by (simp add: recent_def logger_ok_def)
next
  case (Cons e es)
  then show ?case using logger_ok_Append [of l io e] recent_Append [of l io e]
    by (simp add: take_append)
qed

section \<open>Queries\<close>

text \<open>What a query asks for, and the page of it.\<close>

definition audit_matches :: "string \<Rightarrow> string \<Rightarrow> string \<Rightarrow> string \<Rightarrow> AuditEntry \<Rightarrow> bool" where
  "audit_matches from to provider isolation e \<longleftrightarrow>
     (from = [] \<or> from \<le> ae_Timestamp e) \<and> (to = [] \<or> ae_Timestamp e \<le> to) \<and>
     (provider = [] \<or> ae_Provider e = provider) \<and> (isolation = [] \<or> ae_Isolation e = isolation)"

definition page :: "int \<Rightarrow> nat \<Rightarrow> 'a list \<Rightarrow> 'a list" where
  "page limit offset xs = (if limit > 0 then take (nat limit) (drop offset xs) else drop offset xs)"

lemma query_loop_filter:
  assumes "logger_ok l" and "sorted (rev (map (ae_Timestamp \<circ> entry_at l) is))" and "\<forall>i \<in> set is. i < MaxInMemoryEntries"
    and "start = (al_head l + MaxInMemoryEntries - 1) mod MaxInMemoryEntries"
  shows "query_loop from to provider isolation l start is = filter (audit_matches from to provider isolation) (map (entry_at l) is)"
  using assms(2,3)
proof (induction "is")
  case (Cons i "is")
  have e: "al_buf l ! ((start + MaxInMemoryEntries - i) mod MaxInMemoryEntries) = entry_at l i"
    using ring_index(3) [of "al_head l" MaxInMemoryEntries i] assms(1,4) Cons.prems(2) by (simp add: entry_at_def logger_ok_def)
  have older: "\<forall>j \<in> set is. ae_Timestamp (entry_at l j) \<le> ae_Timestamp (entry_at l i)"
    and IH: "query_loop from to provider isolation l start is = filter (audit_matches from to provider isolation) (map (entry_at l) is)"
    using Cons by (auto simp: sorted_append)
  show ?case
  proof (cases "from \<noteq> [] \<and> ae_Timestamp (entry_at l i) < from")
    case True
    with older have "filter (audit_matches from to provider isolation) (map (entry_at l) (i # is)) = []"
      by (fastforce simp: filter_empty_conv audit_matches_def)
    with True show ?thesis by (simp add: e)
  next
    case False
    then have m: "audit_matches from to provider isolation (entry_at l i) \<longleftrightarrow>
        \<not> (to \<noteq> [] \<and> to < ae_Timestamp (entry_at l i)) \<and> \<not> (provider \<noteq> [] \<and> ae_Provider (entry_at l i) \<noteq> provider) \<and>
        \<not> (isolation \<noteq> [] \<and> ae_Isolation (entry_at l i) \<noteq> isolation)"
      by (auto simp: audit_matches_def)
    show ?thesis
      unfolding query_loop.simps e Let_def IH list.map filter.simps m if_not_P [OF False] by (simp split: if_split)
  qed
qed simp

lemma recent_sorted:
  assumes "sorted (map ae_Timestamp es)"
  shows "sorted (rev (map ae_Timestamp (take n (rev es))))"
proof -
  have "rev (map ae_Timestamp (take n (rev es))) = drop (length es - n) (map ae_Timestamp es)"
    by (simp add: rev_map take_rev drop_map)
  then show ?thesis using assms by (simp add: sorted_wrt_drop)
qed

text \<open>A query on a well-formed logger is the page of the matching entries in memory.\<close>

lemma audit_Query_page:
  assumes "logger_ok l" and "sorted (rev (map ae_Timestamp (recent l)))"
  shows "audit_Query l from to provider isolation limit offset =
    (if offset < 0 then None else Some (page limit (nat offset) (filter (audit_matches from to provider isolation) (recent l))))"
proof -
  have "query_loop from to provider isolation l ((al_head l + MaxInMemoryEntries - 1) mod MaxInMemoryEntries) [0..<al_count l] =
      filter (audit_matches from to provider isolation) (recent l)"
    unfolding recent_def
  proof (rule query_loop_filter [OF assms(1) _ _ refl])
    show "sorted (rev (map (ae_Timestamp \<circ> entry_at l) [0..<al_count l]))"
      using assms(2) by (simp add: recent_def comp_def)
  qed (use assms(1) in \<open>auto simp: logger_ok_def\<close>)
  then show ?thesis by (auto simp: audit_Query_def Let_def page_def)
qed

text \<open>
  C15. The ring buffer refines the list of requests. After any sequence of entries with timestamps that never
  decrease, whatever happens to the JSONL file, a query returns the requested page of exactly those of
  the last \<open>MaxInMemoryEntries\<close> entries that match the filters, the newest first; an offset past the end gives
  no entries and a negative one is a run-time panic.
\<close>

theorem audit_Query_refines:
  assumes "sorted (map ae_Timestamp es)"
    and "hits = filter (audit_matches from to provider isolation) (take MaxInMemoryEntries (rev es))"
  shows "audit_Query (fold (audit_Append io) es (NewAuditLogger dataDir mkdirOk present)) from to provider isolation limit offset =
    (if offset < 0 then None else Some (page limit (nat offset) hits))"
proof -
  let ?l = "fold (audit_Append io) es (NewAuditLogger dataDir mkdirOk present)"
  have ok: "logger_ok ?l" and r: "recent ?l = take MaxInMemoryEntries (rev es)"
    using recent_history [OF logger_ok_New(1), of io es] by (simp_all add: logger_ok_New(2))
  show ?thesis unfolding assms(2) r [symmetric]
    by (rule audit_Query_page [OF ok]) (simp add: r recent_sorted [OF assms(1)])
qed

definition sample_entry :: "string \<Rightarrow> string \<Rightarrow> AuditEntry" where
  "sample_entry timestamp provider = zero_AuditEntry\<lparr>ae_Timestamp := timestamp, ae_Provider := provider\<rparr>"

definition sample_io :: audit_io where
  "sample_io = \<lparr>io_Marshal = (\<lambda>_. None), io_Written = length, io_StatOk = True, io_RenameOk = True, io_ReopenOk = True,
     io_MaxJSONLLenBytes = 104857600\<rparr>"

theorem audit_Query_refines_witness:
  "audit_Query (fold (audit_Append sample_io) [sample_entry ''1'' ''podman'', sample_entry ''2'' ''tier'', sample_entry ''3'' ''podman'', sample_entry ''4'' ''podman'']
     (NewAuditLogger [] True None)) ''2'' [] ''podman'' [] 1 1 = Some [sample_entry ''3'' ''podman'']"
proof -
  let ?es = "[sample_entry ''1'' ''podman'', sample_entry ''2'' ''tier'', sample_entry ''3'' ''podman'', sample_entry ''4'' ''podman'']"
  have s: "sorted (map ae_Timestamp ?es)" by code_simp
  have "filter (audit_matches ''2'' [] ''podman'' []) (rev ?es) = [sample_entry ''4'' ''podman'', sample_entry ''3'' ''podman'']"
    by code_simp
  moreover have "take MaxInMemoryEntries (rev ?es) = rev ?es" by (simp add: MaxInMemoryEntries_def)
  ultimately show ?thesis
    using audit_Query_refines [OF s refl, of sample_io "[]" True None "''2''" "[]" "''podman''" "[]" 1 1] by (simp add: page_def)
qed

end
