(* ===== verification/Api_Router.thy ===== *)
theory Api_Router
  imports Token Rate_Limit Audit_Log Sandbox_Ports
begin

text \<open>
  The HTTP surface of the daemon (\<open>internal/api/router.go\<close> and the middleware of \<open>internal/api/rate_limit.go\<close>): the
  request multiplexer of \<open>net/http\<close> with the patterns that \<open>NewRouter\<close> registers, authentication, every handler, the audit
  and the rate-limit middleware, over any \<open>SandboxPort\<close>.

  A request is served in one step from the state of the daemon to the next. The port, the JSON decoder of request
  bodies, the clock readings and the status of the multiplexer's redirect (301, or 307 from Go 1.26 on) are parameters. A response is its status, content type and body
  before encoding; \<open>None\<close> is a handler that panics, for which the server sends nothing.
\<close>

section \<open>Requests and responses\<close>

record Request =
  rq_Method :: string
  rq_RequestURI :: string
  rq_EscapedPath :: string \<comment> \<open>\<open>URL.EscapedPath()\<close>\<close>
  rq_Query :: "string \<Rightarrow> string" \<comment> \<open>\<open>URL.Query().Get\<close>\<close>
  rq_Authorization :: string
  rq_Body :: string
  rq_Claims :: "JWTClaims option" \<comment> \<open>the context value under \<open>ctxKeyClaims\<close>\<close>

datatype json_val = JStr string | JInt int | JErr go_error | JSandbox Sandbox | JSandboxes "Sandbox list" | JEntries "AuditEntry list"
  | JEmpty

datatype resp_body = Plain string | ErrText string go_error | Object "(string \<times> json_val) list" | OneSandbox "Sandbox option" | Location string

record Response =
  rs_Status :: int
  rs_ContentType :: string
  rs_Body :: resp_body

abbreviation json_type :: string where "json_type \<equiv> ''application/json''"

definition http_Error :: "resp_body \<Rightarrow> int \<Rightarrow> Response" where
  "http_Error b code = \<lparr>rs_Status = code, rs_ContentType = ''text/plain; charset=utf-8'', rs_Body = b\<rparr>"

definition http_JSON :: "int \<Rightarrow> resp_body \<Rightarrow> Response" where
  "http_JSON code b = \<lparr>rs_Status = code, rs_ContentType = json_type, rs_Body = b\<rparr>"

definition method_not_allowed :: Response where
  "method_not_allowed = http_Error (Plain ''method not allowed'') 405"

text \<open>The percent-decoding of a path; a bad escape leaves it as it is.\<close>

fun percent_decode :: "string \<Rightarrow> string option" where
  "percent_decode [] = Some []"
| "percent_decode (c # s) =
     (if c = CHR ''%'' then
        (case s of
           a # b # r \<Rightarrow> if is_hex a \<and> is_hex b then map_option ((#) (char_of (16 * hex_val a + hex_val b))) (percent_decode r) else None
         | _ \<Rightarrow> None)
      else map_option ((#) c) (percent_decode s))"

definition pathUnescape :: "string \<Rightarrow> string" where
  "pathUnescape s = (case percent_decode s of None \<Rightarrow> s | Some t \<Rightarrow> t)"

text \<open>\<open>r.URL.Path\<close>.\<close>

definition rq_Path :: "Request \<Rightarrow> string" where
  "rq_Path r = pathUnescape (rq_EscapedPath r)"

section \<open>The daemon\<close>

record ('s, 'r, 'e) Handlers =
  h_Port :: "'s SandboxPort"
  h_Token :: "Manager option"
  h_JWTVerifier :: "('r, 'e) JWTVerifier option"
  h_Metrics :: "string option" \<comment> \<open>what \<open>ToPrometheus\<close> prints\<close>

record 's daemon =
  dm_port :: 's
  dm_AuditLog :: "AuditLogger option"
  dm_bucket :: TokenBucket

record ('r, 'e) req_env =
  en_lib :: "('r, 'e) jwt_lib"
  en_float :: go_float
  en_audit_io :: audit_io
  en_arrival :: time \<comment> \<open>the clock in the rate limiter\<close>
  en_unix :: int \<comment> \<open>the clock in \<open>Verify\<close>, in seconds\<close>
  en_now :: time \<comment> \<open>the clock in \<open>handleDeploy\<close>\<close>
  en_Timestamp :: string
  en_DurationMs :: int
  en_config :: "string \<Rightarrow> SandboxConfig option" \<comment> \<open>the JSON decoder for each type of body\<close>
  en_command :: "string \<Rightarrow> string list option"
  en_ports :: "string \<Rightarrow> (int \<times> int) option"
  en_redirect :: int

type_synonym 's handler = "Request \<Rightarrow> 's daemon \<Rightarrow> Response option \<times> 's daemon"

definition on_port :: "('s \<Rightarrow> 'a \<times> 's) \<Rightarrow> 's daemon \<Rightarrow> 'a \<times> 's daemon" where
  "on_port f d = (case f (dm_port d) of (a, s) \<Rightarrow> (a, d\<lparr>dm_port := s\<rparr>))"

section \<open>Handlers\<close>

definition handleHealthz :: "'s handler" where
  "handleHealthz r d =
     (if rq_Method r \<noteq> ''GET'' then (Some method_not_allowed, d)
      else (Some (http_JSON 200 (Object [(''status'', JStr ''ok'')])), d))"

definition handleReadyz :: "'s handler" where
  "handleReadyz r d = (Some (http_JSON 200 (Object [(''status'', JStr ''ready'')])), d)"

definition handleModels :: "'s handler" where
  "handleModels r d =
     (if rq_Method r \<noteq> ''GET'' then (Some method_not_allowed, d)
      else (Some (http_JSON 200 (Object [(''object'', JStr ''list''), (''data'', JEmpty)])), d))"

definition handleProxyDispatch :: "'s handler" where
  "handleProxyDispatch r d =
     (if rq_Method r \<noteq> ''POST'' then (Some method_not_allowed, d)
      else (Some (http_JSON 200 (Object [(''status'', JStr ''accepted''), (''message'', JStr ''dispatch queued'')])), d))"

definition handleDeploy :: "('s, 'r, 'e) Handlers \<Rightarrow> ('r, 'e) req_env \<Rightarrow> 's handler" where
  "handleDeploy h env r d =
     (if rq_Method r \<noteq> ''POST'' then (Some method_not_allowed, d)
      else case en_config env (rq_Body r) of
        None \<Rightarrow> (Some (http_Error (Plain ''bad request'') 400), d)
      | Some cfg \<Rightarrow> (case on_port (sp_Create (h_Port h) cfg) d of
          (Inl err, d1) \<Rightarrow> (Some (http_Error (ErrText [] err) 500), d1)
        | (Inr None, d1) \<Rightarrow> (None, d1)
        | (Inr (Some sb), d1) \<Rightarrow> (case on_port (sp_Start (h_Port h) (sb_ID sb)) d1 of
            (Some err, d2) \<Rightarrow>
              let sb1 = sb\<lparr>sb_Status := SandboxStatusFailed\<rparr>
              in (Some (http_JSON 500 (Object [(''error'', JErr err), (''sandbox'', JSandbox sb1), (''status'', JStr SandboxStatusFailed)])), d2)
          | (None, d2) \<Rightarrow>
              let sb1 = (if sb_Status sb \<noteq> SandboxStatusFailed then
                  let sb2 = sb\<lparr>sb_Status := SandboxStatusRunning\<rparr>
                  in (if sb_StartedAt sb2 = None then sb2\<lparr>sb_StartedAt := Some (en_now env)\<rparr> else sb2)
                else sb)
              in if sb_Status sb1 \<noteq> SandboxStatusRunning
                 then (Some (http_Error (Plain ''adapter reported a non-running sandbox after start'') 500), d2)
                 else (Some (http_JSON 201 (OneSandbox (Some sb1))), d2))))"

definition handleStop :: "('s, 'r, 'e) Handlers \<Rightarrow> 's handler" where
  "handleStop h r d =
     (if rq_Method r \<noteq> ''POST'' then (Some method_not_allowed, d)
      else let i = rq_Query r ''id'' in
        if i = [] then (Some (http_Error (Plain ''missing id'') 400), d)
        else (case on_port (sp_Stop (h_Port h) i False) d of
            (Some err, d1) \<Rightarrow> (Some (http_Error (ErrText [] err) 500), d1)
          | (None, d1) \<Rightarrow> (Some (http_JSON 200 (Object [(''status'', JStr ''stopped''), (''id'', JStr i)])), d1)))"

definition handleListSandboxes :: "('s, 'r, 'e) Handlers \<Rightarrow> 's handler" where
  "handleListSandboxes h r d =
     (if rq_Method r \<noteq> ''GET'' then (Some method_not_allowed, d)
      else (case on_port (sp_List (h_Port h)) d of
          (Inl err, d1) \<Rightarrow> (Some (http_Error (ErrText [] err) 500), d1)
        | (Inr sbs, d1) \<Rightarrow> (Some (http_JSON 200 (Object [(''object'', JStr ''list''), (''data'', JSandboxes sbs)])), d1)))"

definition handleExec :: "('s, 'r, 'e) Handlers \<Rightarrow> ('r, 'e) req_env \<Rightarrow> string \<Rightarrow> 's handler" where
  "handleExec h env i r d =
     (if rq_Method r \<noteq> ''POST'' then (Some method_not_allowed, d)
      else case en_command env (rq_Body r) of
        None \<Rightarrow> (Some (http_Error (Plain ''bad request'') 400), d)
      | Some command \<Rightarrow> (case on_port (sp_Exec (h_Port h) i command) d of
          (Inl err, d1) \<Rightarrow> (Some (http_Error (ErrText [] err) 500), d1)
        | (Inr out, d1) \<Rightarrow> (Some \<lparr>rs_Status = 200, rs_ContentType = ''application/x-ndjson'', rs_Body = Plain out\<rparr>, d1)))"

definition handleLogs :: "('s, 'r, 'e) Handlers \<Rightarrow> string \<Rightarrow> 's handler" where
  "handleLogs h i r d =
     (if rq_Method r \<noteq> ''GET'' then (Some method_not_allowed, d)
      else let follow = (rq_Query r ''follow'' = ''true'') in
        (case on_port (sp_Logs (h_Port h) i follow) d of
          (Inl err, d1) \<Rightarrow> (Some (http_Error (ErrText [] err) 500), d1)
        | (Inr out, d1) \<Rightarrow> (Some \<lparr>rs_Status = 200, rs_ContentType = ''text/plain'', rs_Body = Plain out\<rparr>, d1)))"

definition handlePortForward :: "('s, 'r, 'e) Handlers \<Rightarrow> ('r, 'e) req_env \<Rightarrow> string \<Rightarrow> 's handler" where
  "handlePortForward h env i r d =
     (if rq_Method r \<noteq> ''POST'' then (Some method_not_allowed, d)
      else case en_ports env (rq_Body r) of
        None \<Rightarrow> (Some (http_Error (Plain ''bad request'') 400), d)
      | Some (localPort, remotePort) \<Rightarrow> (case sp_PortForward (h_Port h) of
          Some pf \<Rightarrow> (case on_port (pf i localPort remotePort) d of
              (Inl err, d1) \<Rightarrow> (Some (http_Error (ErrText [] err) 500), d1)
            | (Inr addr, d1) \<Rightarrow> (Some (http_JSON 200 (Object [(''local_address'', JStr addr)])), d1))
        | None \<Rightarrow> (Some (http_Error (Plain ''port-forward not supported by this adapter'') 501), d)))"

definition handleSandboxByID :: "('s, 'r, 'e) Handlers \<Rightarrow> ('r, 'e) req_env \<Rightarrow> 's handler" where
  "handleSandboxByID h env r d =
     (let path = drop (length ''/v1/sandboxes/'') (rq_Path r);
          (i, sub) = (case cut path (CHR ''/'') of None \<Rightarrow> (path, []) | Some (b, a) \<Rightarrow> (b, a)) in
      if i = [] then (Some (http_Error (Plain ''missing id'') 400), d)
      else if sub \<noteq> [] then
        (if sub = ''exec'' then handleExec h env i r d
         else if sub = ''logs'' then handleLogs h i r d
         else if sub = ''port-forward'' then handlePortForward h env i r d
         else (Some (http_Error (Plain ''unknown sub-resource'') 404), d))
      else if rq_Method r = ''GET'' then
        (case on_port (sp_Get (h_Port h) i) d of
           (Inl err, d1) \<Rightarrow> (Some (http_Error (ErrText [] err) 404), d1)
         | (Inr sb, d1) \<Rightarrow> (Some (http_JSON 200 (OneSandbox sb)), d1))
      else if rq_Method r = ''DELETE'' then
        (case on_port (sp_Delete (h_Port h) i) d of
           (Some err, d1) \<Rightarrow> (Some (http_Error (ErrText [] err) 500), d1)
         | (None, d1) \<Rightarrow> (Some (http_JSON 200 (Object [(''status'', JStr ''deleted''), (''id'', JStr i)])), d1))
      else (Some method_not_allowed, d))"

definition handleMetrics :: "('s, 'r, 'e) Handlers \<Rightarrow> 's handler" where
  "handleMetrics h r d =
     (if rq_Method r \<noteq> ''GET'' then (Some method_not_allowed, d)
      else (Some \<lparr>rs_Status = 200, rs_ContentType = ''text/plain; version=0.0.4'',
             rs_Body = Plain (case h_Metrics h of Some out \<Rightarrow> out
               | None \<Rightarrow> ''# HELP nvms_up NVMS daemon is up'' @ [CHR 0x0A] @ ''nvms_up 1'' @ [CHR 0x0A])\<rparr>, d))"

definition handleAudit :: "'s handler" where
  "handleAudit r d =
     (if rq_Method r \<noteq> ''GET'' then (Some method_not_allowed, d)
      else case dm_AuditLog d of
        None \<Rightarrow> (Some (http_Error (Plain ''audit log not configured'') 404), d)
      | Some l \<Rightarrow>
          let q = rq_Query r;
              limit = (case atoi (q ''limit'') of Some v \<Rightarrow> if v > 0 \<and> v \<le> 500 then v else 50 | None \<Rightarrow> 50);
              offset = (case atoi (q ''offset'') of Some v \<Rightarrow> if v \<ge> 0 then v else 0 | None \<Rightarrow> 0)
          in (case audit_Query l (q ''from'') (q ''to'') (q ''provider'') (q ''isolation'') limit offset of
               None \<Rightarrow> (None, d)
             | Some entries \<Rightarrow>
                 (Some (http_JSON 200 (Object [(''object'', JStr ''list''), (''object_type'', JStr ''audit_log''), (''total'', JInt (int (length entries))),
                     (''limit'', JInt limit), (''offset'', JInt offset), (''entries'', JEntries entries)])), d)))"

section \<open>Authentication and routing\<close>

definition auth :: "('s, 'r, 'e) Handlers \<Rightarrow> ('r, 'e) req_env \<Rightarrow> 's handler \<Rightarrow> 's handler" where
  "auth h env next r d =
     (let authz = rq_Authorization r; prefix = ''Bearer '' in
      if length authz \<le> length prefix \<or> take (length prefix) authz \<noteq> prefix
      then (Some (http_Error (Plain ''unauthorized'') 401), d)
      else let tokenStr = drop (length prefix) authz in
        (case h_JWTVerifier h of
           Some jv \<Rightarrow> (case Verify (en_lib env) (en_unix env) jv tokenStr of
               Inl err \<Rightarrow> (Some (http_Error (ErrText ''forbidden: '' err) 403), d)
             | Inr claims \<Rightarrow> next (r\<lparr>rq_Claims := Some claims\<rparr>) d)
         | None \<Rightarrow> (case h_Token h of
               None \<Rightarrow> (Some (http_Error (Plain ''auth required'') 401), d)
             | Some tm \<Rightarrow> (case Check tm tokenStr of
                 Some err \<Rightarrow> (Some (http_Error (Plain ''forbidden'') 403), d)
               | None \<Rightarrow> next r d))))"

definition ClaimsFromContext :: "Request \<Rightarrow> JWTClaims option" where
  "ClaimsFromContext r = rq_Claims r"

text \<open>The patterns of \<open>NewRouter\<close> with their handlers; \<open>/v1/audit\<close> exists when there is an audit log.\<close>

definition routes :: "('s, 'r, 'e) Handlers \<Rightarrow> ('r, 'e) req_env \<Rightarrow> bool \<Rightarrow> (string \<times> 's handler) list" where
  "routes h env audited =
     [(''/healthz'', handleHealthz),
      (''/readyz'', handleReadyz),
      (''/v1/models'', auth h env handleModels),
      (''/v1/proxy/dispatch'', auth h env handleProxyDispatch),
      (''/v1/deploy'', auth h env (handleDeploy h env)),
      (''/v1/stop'', auth h env (handleStop h)),
      (''/v1/sandboxes'', auth h env (handleListSandboxes h)),
      (''/v1/metrics'', auth h env (handleMetrics h)),
      (''/v1/sandboxes/'', auth h env (handleSandboxByID h env))] @
     (if audited then [(''/v1/audit'', auth h env handleAudit)] else [])"

text \<open>
  \<open>http.ServeMux\<close>: a pattern that ends in a slash matches every path below it, any other one only itself, segment by
  segment after percent-decoding. No two patterns of the table match the same path, so precedence does not arise.
\<close>

definition path_segments :: "string \<Rightarrow> string list" where
  "path_segments p = (case p of [] \<Rightarrow> [] | _ # q \<Rightarrow> split_on q (CHR ''/''))"

definition pattern_matches :: "string \<Rightarrow> string \<Rightarrow> bool" where
  "pattern_matches pattern p =
     (let ps = path_segments pattern; segs = map pathUnescape (path_segments p) in
      if last ps = [] then length ps \<le> length segs \<and> take (length ps - 1) segs = butlast ps else segs = ps)"

definition cleanPath :: "string \<Rightarrow> string" where
  "cleanPath p =
     (if p = [] then ''/''
      else let q = (if hd p \<noteq> CHR ''/'' then CHR ''/'' # p else p); np = clean q
           in if last q = CHR ''/'' \<and> np \<noteq> ''/'' then np @ ''/'' else np)"

definition mux_ServeHTTP :: "('s, 'r, 'e) Handlers \<Rightarrow> ('r, 'e) req_env \<Rightarrow> 's handler" where
  "mux_ServeHTTP h env r d =
     (if rq_RequestURI r = ''*'' then (Some (http_Error (Plain []) 400), d)
      else let path = (if rq_Method r = ''CONNECT'' then rq_EscapedPath r else cleanPath (rq_EscapedPath r)) in
        if path \<noteq> rq_EscapedPath r then (Some \<lparr>rs_Status = en_redirect env, rs_ContentType = ''text/html; charset=utf-8'', rs_Body = Location path\<rparr>, d)
        else (case find (\<lambda>(pattern, _). pattern_matches pattern path) (routes h env (dm_AuditLog d \<noteq> None)) of
            None \<Rightarrow> (Some (http_Error (Plain ''404 page not found'') 404), d)
          | Some (_, handler) \<Rightarrow> handler r d))"

definition request_entry :: "('r, 'e) req_env \<Rightarrow> Request \<Rightarrow> AuditEntry" where
  "request_entry env r = zero_AuditEntry\<lparr>ae_Timestamp := en_Timestamp env, ae_Method := rq_Method r, ae_Path := rq_Path r,
     ae_StatusCode := 0, ae_DurationMs := en_DurationMs env\<rparr>"

text \<open>A handler that panics leaves the middleware before the entry is appended.\<close>

definition auditMiddleware :: "('r, 'e) req_env \<Rightarrow> 's handler \<Rightarrow> 's handler" where
  "auditMiddleware env next r d =
     (case next r d of
        (None, d1) \<Rightarrow> (None, d1)
      | (Some resp, d1) \<Rightarrow> (Some resp, d1\<lparr>dm_AuditLog := map_option (audit_Append (en_audit_io env) (request_entry env r)) (dm_AuditLog d1)\<rparr>))"

definition too_many_requests :: Response where
  "too_many_requests = http_JSON 429 (Plain (''{\"error\":\"rate_limit_exceeded\",\"message\":\"try again in 1 second\"}'' @ [CHR 0x0A]))"

definition RateLimitMiddleware :: "('r, 'e) req_env \<Rightarrow> 's handler \<Rightarrow> 's handler" where
  "RateLimitMiddleware env next r d =
     (case tb_Allow (en_float env) (en_arrival env) (dm_bucket d) of
        (False, tb) \<Rightarrow> (Some too_many_requests, d\<lparr>dm_bucket := tb\<rparr>)
      | (True, tb) \<Rightarrow> next r (d\<lparr>dm_bucket := tb\<rparr>))"

definition NewRouter :: "('s, 'r, 'e) Handlers \<Rightarrow> ('r, 'e) req_env \<Rightarrow> 's handler" where
  "NewRouter h env r d =
     RateLimitMiddleware env
       (if dm_AuditLog d \<noteq> None then auditMiddleware env (mux_ServeHTTP h env) else mux_ServeHTTP h env) r d"

text \<open>The state that \<open>NewRouter\<close> sets up: the bucket of 100 requests per second.\<close>

definition new_daemon :: "go_float \<Rightarrow> time \<Rightarrow> AuditLogger option \<Rightarrow> 's \<Rightarrow> 's daemon" where
  "new_daemon fe now auditLog s = \<lparr>dm_port = s, dm_AuditLog = auditLog, dm_bucket = NewTokenBucket fe 100 100 now\<rparr>"

text \<open>\<open>RateLimiter.Middleware\<close> of the limiter package around any handler.\<close>

definition rl_Middleware :: "go_float \<Rightarrow> time \<Rightarrow> (Request \<Rightarrow> 'd \<Rightarrow> Response option \<times> 'd) \<Rightarrow> Request \<Rightarrow> RateLimiter \<times> 'd \<Rightarrow>
    Response option \<times> RateLimiter \<times> 'd" where
  "rl_Middleware fe now next r st =
     (case st of (rl, d) \<Rightarrow>
        (case rl_Allow fe now rl of
           (False, rl1) \<Rightarrow> (Some (http_Error (Plain (''429 Too Many Requests'' @ [CHR 0x0A])) 429), rl1, d)
         | (True, rl1) \<Rightarrow> (case next r d of (resp, d1) \<Rightarrow> (resp, rl1, d1))))"

text \<open>A small daemon for examples.\<close>

definition demo_port :: "nat SandboxPort" where
  "demo_port = \<lparr>sp_Create = (\<lambda>cfg n. (Inr (Some (zero_Sandbox\<lparr>sb_ID := decimal n\<rparr>)), Suc n)), sp_Start = (\<lambda>_ n. (None, n)),
     sp_Stop = (\<lambda>_ _ n. (None, n)), sp_Delete = (\<lambda>_ n. (None, n)), sp_List = (\<lambda>n. (Inr [], n)), sp_Get = (\<lambda>_ n. (Inr None, n)),
     sp_Logs = (\<lambda>_ _ n. (Inr [], n)), sp_Exec = (\<lambda>_ _ n. (Inr [], n)), sp_PortForward = None\<rparr>"

definition demo_handlers :: "(nat, unit, unit) Handlers" where
  "demo_handlers = \<lparr>h_Port = demo_port, h_Token = Some \<lparr>mg_tokens = [''ab'']\<rparr>, h_JWTVerifier = None, h_Metrics = None\<rparr>"

definition demo_lib :: "(unit, unit) jwt_lib" where
  "demo_lib = \<lparr>lib_pem_Decode = (\<lambda>_. None), lib_ParsePKIXPublicKey = (\<lambda>_. Inl ErrNotExist), lib_ParsePKCS1PublicKey = (\<lambda>_. Inl ErrNotExist),
     lib_ParsePKCS1PrivateKey = (\<lambda>_. Inl ErrNotExist), lib_ParseECPrivateKey = (\<lambda>_. Inl ErrNotExist), lib_header = (\<lambda>_. Inl ErrNotExist),
     lib_claims = (\<lambda>_. Inl ErrNotExist), lib_sha256 = (\<lambda>_. []), lib_VerifyPKCS1v15 = (\<lambda>_ _ _. Some ErrNotExist), lib_VerifyASN1 = (\<lambda>_ _ _. False)\<rparr>"

definition demo_env :: "(unit, unit) req_env" where
  "demo_env = \<lparr>en_lib = demo_lib, en_float = \<lparr>fl_round = id, fl_fused = False\<rparr>, en_audit_io = sample_io, en_arrival = 0, en_unix = 0,
     en_now = 0, en_Timestamp = ''2026-01-01T00:00:00Z'', en_DurationMs = 1, en_config = (\<lambda>_. None), en_command = (\<lambda>_. None), en_ports = (\<lambda>_. None),
     en_redirect = 307\<rparr>"

definition demo_request :: "string \<Rightarrow> string \<Rightarrow> string \<Rightarrow> Request" where
  "demo_request method path authz = \<lparr>rq_Method = method, rq_RequestURI = path, rq_EscapedPath = path, rq_Query = (\<lambda>_. []),
     rq_Authorization = authz, rq_Body = [], rq_Claims = None\<rparr>"

section \<open>Only authorised requests reach the port\<close>

definition authorised :: "('s, 'r, 'e) Handlers \<Rightarrow> ('r, 'e) req_env \<Rightarrow> Request \<Rightarrow> bool" where
  "authorised h env r \<longleftrightarrow>
     (\<exists>tok. rq_Authorization r = ''Bearer '' @ tok \<and> tok \<noteq> [] \<and>
       (case h_JWTVerifier h of
          Some jv \<Rightarrow> \<exists>claims. Verify (en_lib env) (en_unix env) jv tok = Inr claims
        | None \<Rightarrow> \<exists>tm. h_Token h = Some tm \<and> Check tm tok = None))"

lemma longer_prefix_iff:
  "\<not> (length s \<le> length p \<or> take (length p) s \<noteq> p) \<longleftrightarrow> (\<exists>t. s = p @ t \<and> t \<noteq> [])" (is "?l \<longleftrightarrow> ?r")
proof
  assume ?l
  then have "s = p @ drop (length p) s" "drop (length p) s \<noteq> []" using append_take_drop_id [of "length p" s] by simp_all
  then show ?r by blast
qed auto

lemma auth_cases:
  obtains (refused) code b where "auth h env hdl r d = (Some (http_Error b code), d)" "code = 401 \<or> code = 403" "\<not> authorised h env r"
      "\<exists>t e. b = Plain t \<or> b = ErrText ''forbidden: '' e"
  | (admitted) claims where "auth h env hdl r d = hdl (r\<lparr>rq_Claims := claims\<rparr>) d" "authorised h env r"
      "h_JWTVerifier h = None \<longrightarrow> claims = rq_Claims r"
proof (cases "\<exists>tok. rq_Authorization r = ''Bearer '' @ tok \<and> tok \<noteq> []")
  case False
  then have "auth h env hdl r d = (Some (http_Error (Plain ''unauthorized'') 401), d)"
    using longer_prefix_iff [of "rq_Authorization r" "''Bearer ''"] unfolding auth_def Let_def by argo
  moreover have "\<not> authorised h env r" using False by (auto simp: authorised_def)
  ultimately show thesis using refused [of "Plain ''unauthorized''" 401] by blast
next
  case True
  then obtain tok where tok: "rq_Authorization r = ''Bearer '' @ tok" "tok \<noteq> []" by blast
  have a: "authorised h env r \<longleftrightarrow> (case h_JWTVerifier h of
          Some jv \<Rightarrow> \<exists>claims. Verify (en_lib env) (en_unix env) jv tok = Inr claims
        | None \<Rightarrow> \<exists>tm. h_Token h = Some tm \<and> Check tm tok = None)" using tok by (simp add: authorised_def)
  have e: "auth h env hdl r d = (case h_JWTVerifier h of
           Some jv \<Rightarrow> (case Verify (en_lib env) (en_unix env) jv tok of
               Inl err \<Rightarrow> (Some (http_Error (ErrText ''forbidden: '' err) 403), d)
             | Inr claims \<Rightarrow> hdl (r\<lparr>rq_Claims := Some claims\<rparr>) d)
         | None \<Rightarrow> (case h_Token h of
               None \<Rightarrow> (Some (http_Error (Plain ''auth required'') 401), d)
             | Some tm \<Rightarrow> (case Check tm tok of
                 Some err \<Rightarrow> (Some (http_Error (Plain ''forbidden'') 403), d)
               | None \<Rightarrow> hdl r d)))" using tok by (simp add: auth_def Let_def)
  show thesis
  proof (cases "h_JWTVerifier h")
    case None
    then show thesis using a e refused [of _ 401] refused [of _ 403] admitted [of "rq_Claims r"]
      by (cases "h_Token h"; cases "\<exists>tm. h_Token h = Some tm \<and> Check tm tok = None") auto
  next
    case (Some jv)
    then show thesis using a e refused [of _ 403] admitted by (cases "Verify (en_lib env) (en_unix env) jv tok") auto
  qed
qed

lemma routes_cases:
  assumes "(p, f) \<in> set (routes h env audited)"
  obtains (healthz) "f = handleHealthz" | (readyz) "f = handleReadyz" | (protected) g where "f = auth h env g"
  using assms unfolding routes_def by (auto split: if_splits)

lemma mux_cases:
  obtains (bad) resp where "mux_ServeHTTP h env r d = (Some resp, d)" "rs_Status resp = 400 \<or> rs_Status resp = 404 \<or> rs_Status resp = en_redirect env"
      "\<exists>b. rs_Body resp = Location b \<or> rs_Body resp = Plain b" "rs_ContentType resp \<noteq> json_type"
  | (route) p f where "(p, f) \<in> set (routes h env (dm_AuditLog d \<noteq> None))" "mux_ServeHTTP h env r d = f r d"
      "pattern_matches p (rq_EscapedPath r)"
proof -
  let ?esc = "rq_EscapedPath r" and ?rs = "routes h env (dm_AuditLog d \<noteq> None)"
  define path where "path = (if rq_Method r = ''CONNECT'' then ?esc else cleanPath ?esc)"
  consider "rq_RequestURI r = ''*''" | "rq_RequestURI r \<noteq> ''*''" "path \<noteq> ?esc"
    | "rq_RequestURI r \<noteq> ''*''" "path = ?esc" "find (\<lambda>(p, _). pattern_matches p path) ?rs = None"
    | p f where "rq_RequestURI r \<noteq> ''*''" "path = ?esc" "find (\<lambda>(p, _). pattern_matches p path) ?rs = Some (p, f)"
    by (cases "find (\<lambda>(p, _). pattern_matches p path) ?rs") auto
  then show thesis
  proof cases
    case 1
    then show thesis by (intro bad [of "http_Error (Plain []) 400"]) (simp_all add: mux_ServeHTTP_def http_Error_def)
  next
    case 2
    then show thesis
      by (intro bad [of "\<lparr>rs_Status = en_redirect env, rs_ContentType = ''text/html; charset=utf-8'', rs_Body = Location path\<rparr>"])
        (simp_all add: mux_ServeHTTP_def path_def Let_def)
  next
    case 3
    then show thesis by (intro bad [of "http_Error (Plain ''404 page not found'') 404"]) (simp_all add: mux_ServeHTTP_def path_def Let_def http_Error_def)
  next
    case 4
    then have "(p, f) \<in> set ?rs" "pattern_matches p ?esc" by (auto simp: find_Some_iff in_set_conv_nth)
    moreover have "mux_ServeHTTP h env r d = f r d" using 4 by (simp add: mux_ServeHTTP_def path_def Let_def)
    ultimately show thesis using route by blast
  qed
qed

text \<open>The bodies of refusals and of the two health endpoints.\<close>

definition harmless :: "int \<Rightarrow> Response \<Rightarrow> bool" where
  "harmless redirect resp \<longleftrightarrow>
     (rs_Status resp = 200 \<and> (rs_Body resp = Object [(''status'', JStr ''ok'')] \<or> rs_Body resp = Object [(''status'', JStr ''ready'')])) \<or>
     (list_ex (\<lambda>code. rs_Status resp = code) [400, 401, 403, 404, 405, 429, redirect] \<and>
       (\<exists>b e. rs_Body resp = Plain b \<or> rs_Body resp = Location b \<or> rs_Body resp = ErrText ''forbidden: '' e))"

lemma mux_unauthorised:
  assumes "\<not> authorised h env r"
  shows "\<exists>resp. mux_ServeHTTP h env r d = (Some resp, d) \<and> harmless (en_redirect env) resp"
proof (cases rule: mux_cases [where h = h and env = env and r = r and d = d])
  case (bad resp)
  then show ?thesis by (auto simp: harmless_def)
next
  case (route p f)
  from route(1) show ?thesis
  proof (cases rule: routes_cases)
    case healthz
    then show ?thesis using route(2) by (auto simp: handleHealthz_def harmless_def method_not_allowed_def http_Error_def http_JSON_def)
  next
    case readyz
    then show ?thesis using route(2) by (auto simp: handleReadyz_def harmless_def http_JSON_def)
  next
    case (protected g)
    show ?thesis
    proof (cases rule: auth_cases [where h = h and env = env and r = r and d = d and hdl = g])
      case (refused code b)
      then show ?thesis using route(2) protected by (auto simp: harmless_def http_Error_def)
    qed (use assms in simp)
  qed
qed

lemma NewRouter_cases:
  obtains (limited) tb where "NewRouter h env r d = (Some too_many_requests, d\<lparr>dm_bucket := tb\<rparr>)"
      "tb_Allow (en_float env) (en_arrival env) (dm_bucket d) = (False, tb)"
  | (served) tb where "tb_Allow (en_float env) (en_arrival env) (dm_bucket d) = (True, tb)"
      "NewRouter h env r d =
        (if dm_AuditLog d \<noteq> None then auditMiddleware env (mux_ServeHTTP h env) else mux_ServeHTTP h env) r (d\<lparr>dm_bucket := tb\<rparr>)"
proof -
  obtain ok tb where a: "tb_Allow (en_float env) (en_arrival env) (dm_bucket d) = (ok, tb)" by fastforce
  show thesis
    using a limited [of tb] served [of tb] by (cases ok) (simp_all add: NewRouter_def RateLimitMiddleware_def del: not_None_eq)
qed

text \<open>
  C2. Without valid credentials nothing happens: whatever the method, path, query and body, a request without an accepted bearer token
  leaves the port as it was and is answered by a refusal, a redirect, a 404 or one of the two constant health
  documents; no sandbox and no audit entry is disclosed.
\<close>

theorem unauthorised_untouched:
  assumes "\<not> authorised h env r"
  shows "\<exists>resp d'. NewRouter h env r d = (Some resp, d') \<and> dm_port d' = dm_port d \<and> harmless (en_redirect env) resp"
proof (cases rule: NewRouter_cases [where h = h and env = env and r = r and d = d])
  case (limited tb)
  then show ?thesis by (auto simp: harmless_def too_many_requests_def http_JSON_def)
next
  case (served tb)
  obtain resp where m: "mux_ServeHTTP h env r (d\<lparr>dm_bucket := tb\<rparr>) = (Some resp, d\<lparr>dm_bucket := tb\<rparr>)" "harmless (en_redirect env) resp"
    using mux_unauthorised [OF assms] by blast
  show ?thesis
    by (cases "dm_AuditLog d") (use m served(2) in \<open>auto simp: auditMiddleware_def\<close>)
qed

theorem unauthorised_untouched_witness:
  "\<exists>resp d'. NewRouter demo_handlers demo_env (demo_request ''DELETE'' ''/v1/sandboxes/7'' ''Bearer cd'')
       (new_daemon \<lparr>fl_round = id, fl_fused = False\<rparr> 0 None 3) = (Some resp, d') \<and>
     dm_port d' = 3 \<and> harmless 307 resp"
proof -
  have "\<not> authorised demo_handlers demo_env (demo_request ''DELETE'' ''/v1/sandboxes/7'' ''Bearer cd'')"
    by (simp add: authorised_def demo_handlers_def demo_request_def Check_iff)
  from unauthorised_untouched [OF this, of "new_daemon \<lparr>fl_round = id, fl_fused = False\<rparr> 0 None 3"] show ?thesis
    by (simp add: new_daemon_def demo_env_def)
qed

section \<open>The audit trail\<close>

text \<open>Handlers work on the port alone, and none of them answers as the rate limiter does.\<close>

definition handler_ok :: "'s handler \<Rightarrow> bool" where
  "handler_ok f \<longleftrightarrow> (\<forall>r d. dm_AuditLog (snd (f r d)) = dm_AuditLog d \<and> dm_bucket (snd (f r d)) = dm_bucket d \<and>
     fst (f r d) \<noteq> Some too_many_requests)"

named_theorems handler_rules \<open>the handlers touch the port only\<close>

lemma on_port_fields [simp]:
  "dm_AuditLog (snd (on_port f d)) = dm_AuditLog d" "dm_bucket (snd (on_port f d)) = dm_bucket d"
  "dm_port (snd (on_port f d)) = snd (f (dm_port d))" "fst (on_port f d) = fst (f (dm_port d))"
  by (simp_all add: on_port_def case_prod_beta)

lemma on_port_pair: "on_port f d = (a, d1) \<longleftrightarrow> (\<exists>s. f (dm_port d) = (a, s) \<and> d1 = d\<lparr>dm_port := s\<rparr>)"
  by (auto simp: on_port_def split: prod.splits)

lemmas response_defs = http_Error_def http_JSON_def method_not_allowed_def too_many_requests_def

lemma simple_handlers_ok [handler_rules]: "handler_ok handleHealthz" "handler_ok handleReadyz" "handler_ok handleModels" "handler_ok handleProxyDispatch"
    "handler_ok (handleMetrics h)" "handler_ok handleAudit"
  by (auto simp: handler_ok_def handleHealthz_def handleReadyz_def handleModels_def handleProxyDispatch_def handleMetrics_def handleAudit_def
      response_defs Let_def split: option.split)

lemma port_handlers_ok [handler_rules]: "handler_ok (handleStop h)" "handler_ok (handleListSandboxes h)" "handler_ok (handleExec h env i)"
    "handler_ok (handleLogs h i)" "handler_ok (handlePortForward h env i)"
  by (auto simp: handler_ok_def handleStop_def handleListSandboxes_def handleExec_def handleLogs_def handlePortForward_def
      response_defs Let_def on_port_pair split: option.split sum.split prod.split)

lemma handleDeploy_ok [handler_rules]: "handler_ok (handleDeploy h env)"
  by (auto simp: handler_ok_def handleDeploy_def response_defs Let_def on_port_pair split: option.split sum.split prod.split)

lemma handleSandboxByID_ok [handler_rules]: "handler_ok (handleSandboxByID h env)"
proof -
  have sub: "handler_ok (handleExec h env i)" "handler_ok (handleLogs h i)" "handler_ok (handlePortForward h env i)" for i
    by (rule handler_rules)+
  show ?thesis
    using sub unfolding handler_ok_def handleSandboxByID_def Let_def
    by (auto simp: response_defs on_port_pair split: option.split sum.split prod.split)
qed

lemma auth_ok [handler_rules]: "handler_ok f \<Longrightarrow> handler_ok (auth h env f)"
proof -
  assume f: "handler_ok f"
  have "dm_AuditLog (snd (auth h env f r d)) = dm_AuditLog d \<and> dm_bucket (snd (auth h env f r d)) = dm_bucket d \<and>
     fst (auth h env f r d) \<noteq> Some too_many_requests" for r d
  proof (cases rule: auth_cases [where h = h and env = env and r = r and d = d and hdl = f])
    case (refused code b)
    then show ?thesis by (auto simp: response_defs)
  next
    case (admitted claims)
    then show ?thesis using f by (simp add: handler_ok_def)
  qed
  then show "handler_ok (auth h env f)" by (simp add: handler_ok_def)
qed

lemma routes_ok: "(p, f) \<in> set (routes h env audited) \<Longrightarrow> handler_ok f"
  unfolding routes_def by (auto intro: handler_rules split: if_splits)

lemma mux_ok [handler_rules]: "handler_ok (mux_ServeHTTP h env)"
proof -
  have "dm_AuditLog (snd (mux_ServeHTTP h env r d)) = dm_AuditLog d \<and> dm_bucket (snd (mux_ServeHTTP h env r d)) = dm_bucket d \<and>
     fst (mux_ServeHTTP h env r d) \<noteq> Some too_many_requests" for r d
  proof (cases rule: mux_cases [where h = h and env = env and r = r and d = d])
    case (bad resp)
    then show ?thesis by (auto simp: response_defs)
  next
    case (route p f)
    then show ?thesis using routes_ok [OF route(1)] by (simp add: handler_ok_def)
  qed
  then show ?thesis by (simp add: handler_ok_def)
qed

text \<open>Requests one after the other, each with what its own environment supplies.\<close>

primrec serve :: "('s, 'r, 'e) Handlers \<Rightarrow> (('r, 'e) req_env \<times> Request) list \<Rightarrow> 's daemon \<Rightarrow> Response option list \<times> 's daemon" where
  "serve h [] d = ([], d)"
| "serve h (q # qs) d =
     (let (resp, d1) = NewRouter h (fst q) (snd q) d; (resps, d2) = serve h qs d1 in (resp # resps, d2))"

text \<open>The entries for the requests that the limiter let through and whose handler returned.\<close>

definition served_entries :: "(('r, 'e) req_env \<times> Request) list \<Rightarrow> Response option list \<Rightarrow> AuditEntry list" where
  "served_entries qs resps =
     map (\<lambda>(q, _). request_entry (fst q) (snd q)) (filter (\<lambda>(_, resp). resp \<noteq> None \<and> resp \<noteq> Some too_many_requests) (zip qs resps))"

lemma served_entries_Cons:
  "served_entries (q # qs) (resp # resps) =
     (if resp \<noteq> None \<and> resp \<noteq> Some too_many_requests then request_entry (fst q) (snd q) # served_entries qs resps else served_entries qs resps)"
  by (simp add: served_entries_def)

lemma take_append_take: "take n (xs @ take n ys) = take n (xs @ ys)"
  by (simp add: take_append)

lemma NewRouter_audit:
  assumes "NewRouter h env r d = (resp, d')" and "dm_AuditLog d = Some l"
  shows "dm_AuditLog d' = Some (if resp \<noteq> None \<and> resp \<noteq> Some too_many_requests then audit_Append (en_audit_io env) (request_entry env r) l else l)"
proof (cases rule: NewRouter_cases [where h = h and env = env and r = r and d = d])
  case (limited tb)
  then show ?thesis using assms by auto
next
  case (served tb)
  obtain resp1 d1 where m: "mux_ServeHTTP h env r (d\<lparr>dm_bucket := tb\<rparr>) = (resp1, d1)" by fastforce
  then have "dm_AuditLog d1 = Some l" "resp1 \<noteq> Some too_many_requests"
    using mux_ok [of h env] assms(2) by (auto simp: handler_ok_def dest!: spec [of _ r] spec [of _ "d\<lparr>dm_bucket := tb\<rparr>"])
  then show ?thesis using served(2) assms m by (cases resp1) (auto simp: auditMiddleware_def)
qed

lemma serve_audit:
  assumes "serve h qs d = (resps, d')" and "dm_AuditLog d = Some l" and "logger_ok l"
  shows "\<exists>l'. dm_AuditLog d' = Some l' \<and> logger_ok l' \<and> recent l' = take MaxInMemoryEntries (rev (served_entries qs resps) @ recent l)"
  using assms
proof (induction qs arbitrary: d l resps)
  case Nil
  then show ?case by (auto simp: served_entries_def recent_def logger_ok_def)
next
  case (Cons q qs)
  obtain resp d1 where n: "NewRouter h (fst q) (snd q) d = (resp, d1)" by fastforce
  obtain rs where r: "serve h qs d1 = (rs, d')" and resps: "resps = resp # rs" using Cons.prems(1) n by (auto split: prod.splits)
  let ?l1 = "if resp \<noteq> None \<and> resp \<noteq> Some too_many_requests then audit_Append (en_audit_io (fst q)) (request_entry (fst q) (snd q)) l else l"
  have "logger_ok ?l1" using Cons.prems(3) logger_ok_Append by auto
  from Cons.IH [OF r NewRouter_audit [OF n Cons.prems(2)] this]
  obtain l' where l': "dm_AuditLog d' = Some l'" "logger_ok l'" "recent l' = take MaxInMemoryEntries (rev (served_entries qs rs) @ recent ?l1)" by blast
  have "recent l' = take MaxInMemoryEntries (rev (served_entries (q # qs) resps) @ recent l)"
    using l'(3) recent_Append [OF Cons.prems(3)]
    by (cases "resp \<noteq> None \<and> resp \<noteq> Some too_many_requests")
      (simp_all only: resps served_entries_Cons if_True if_False take_append_take rev.simps append_assoc append_Cons append_Nil simp_thms)
  with l' show ?case by blast
qed

text \<open>The page that a query string asks for.\<close>

definition page_limit :: "(string \<Rightarrow> string) \<Rightarrow> int" where
  "page_limit q = (case atoi (q ''limit'') of Some v \<Rightarrow> if v > 0 \<and> v \<le> 500 then v else 50 | None \<Rightarrow> 50)"

definition page_offset :: "(string \<Rightarrow> string) \<Rightarrow> int" where
  "page_offset q = (case atoi (q ''offset'') of Some v \<Rightarrow> if v \<ge> 0 then v else 0 | None \<Rightarrow> 0)"



section \<open>Every request is answered\<close>

definition answers :: "'s handler \<Rightarrow> bool" where
  "answers f \<longleftrightarrow> (\<forall>r d. fst (f r d) \<noteq> None)"

named_theorems answer_rules \<open>handlers that always write a response\<close>

lemma handleAudit_answers [answer_rules]: "answers handleAudit"
proof -
  have n: "offset < 0" if "audit_Query l a b p i limit offset = None" for l a b p i limit offset
    using that by (auto simp: audit_Query_def Let_def split: if_splits)
  show ?thesis by (auto simp: answers_def handleAudit_def Let_def split: option.split dest!: n)
qed

lemma simple_handlers_answer [answer_rules]: "answers handleHealthz" "answers handleReadyz" "answers handleModels" "answers handleProxyDispatch"
    "answers (handleMetrics h)"
  by (simp_all add: answers_def handleHealthz_def handleReadyz_def handleModels_def handleProxyDispatch_def handleMetrics_def)

lemma port_handlers_answer [answer_rules]: "answers (handleStop h)" "answers (handleListSandboxes h)" "answers (handleExec h env i)"
    "answers (handleLogs h i)" "answers (handlePortForward h env i)"
  by (auto simp: answers_def handleStop_def handleListSandboxes_def handleExec_def handleLogs_def handlePortForward_def
      Let_def split: option.split sum.split prod.split)

lemma handleSandboxByID_answers [answer_rules]: "answers (handleSandboxByID h env)"
proof -
  have sub: "answers (handleExec h env i)" "answers (handleLogs h i)" "answers (handlePortForward h env i)" for i
    by (rule answer_rules)+
  then have n: "handleExec h env i r d \<noteq> (None, d')" "handleLogs h i r d \<noteq> (None, d')" "handlePortForward h env i r d \<noteq> (None, d')" for i r d d'
    unfolding answers_def by (metis fst_conv)+
  show ?thesis using sub
    by (auto simp: answers_def handleSandboxByID_def Let_def n split: option.split sum.split prod.split)
qed

lemma handleDeploy_answers [answer_rules]: "(\<And>cfg s. fst (sp_Create (h_Port h) cfg s) \<noteq> Inr None) \<Longrightarrow> answers (handleDeploy h env)"
proof -
  assume create: "\<And>cfg s. fst (sp_Create (h_Port h) cfg s) \<noteq> Inr None"
  have "on_port (sp_Create (h_Port h) cfg) d \<noteq> (Inr None, d')" for cfg d d'
    using create by (metis fst_conv on_port_fields(4))
  then show ?thesis by (auto simp: answers_def handleDeploy_def Let_def split: option.split sum.split prod.split)
qed

lemma auth_answers [answer_rules]: "answers f \<Longrightarrow> answers (auth h env f)"
  unfolding answers_def
proof (intro allI)
  fix r d
  assume f: "\<forall>r d. fst (f r d) \<noteq> None"
  show "fst (auth h env f r d) \<noteq> None"
    by (cases rule: auth_cases [where h = h and env = env and r = r and d = d and hdl = f]) (simp_all add: f)
qed

text \<open>The one thing the handlers rely on: \<open>Create\<close> returns a sandbox or an error, never neither.\<close>

locale answering_port =
  fixes port :: "'s SandboxPort"
  assumes create_not_nil: "fst (sp_Create port cfg s) \<noteq> Inr None"
begin

lemma mux_answers: "h_Port h = port \<Longrightarrow> fst (mux_ServeHTTP h env r d) \<noteq> None"
proof (cases rule: mux_cases [where h = h and env = env and r = r and d = d])
  case (route p f)
  assume "h_Port h = port"
  then have "answers f" using route(1) create_not_nil unfolding routes_def by (auto intro: answer_rules split: if_splits)
  with route(2) show ?thesis by (simp add: answers_def)
qed simp

lemma router_answers: "h_Port h = port \<Longrightarrow> \<exists>resp d'. NewRouter h env r d = (Some resp, d')"
proof (cases rule: NewRouter_cases [where h = h and env = env and r = r and d = d])
  case (limited tb)
  then show ?thesis by blast
next
  case (served tb)
  assume "h_Port h = port"
  then obtain resp d1 where "mux_ServeHTTP h env r (d\<lparr>dm_bucket := tb\<rparr>) = (Some resp, d1)"
    using mux_answers [of h env r "d\<lparr>dm_bucket := tb\<rparr>"] by (cases "mux_ServeHTTP h env r (d\<lparr>dm_bucket := tb\<rparr>)") auto
  then show ?thesis using served(2) by (cases "dm_AuditLog d") (auto simp: auditMiddleware_def)
qed

end



section \<open>Deployment\<close>

text \<open>
  A deployment is acknowledged with 201 exactly when the body decodes, the adapter created a sandbox that it does not call failed, and
  started it; the response then describes that sandbox as running, with a start time.
\<close>

lemma deploy_acknowledges_started:
  "(\<exists>resp. handleDeploy h env r d = (Some resp, d') \<and> rs_Status resp = 201 \<and> rs_Body resp = b) \<longleftrightarrow>
   (\<exists>cfg sb s1 s2. rq_Method r = ''POST'' \<and> en_config env (rq_Body r) = Some cfg \<and>
      sp_Create (h_Port h) cfg (dm_port d) = (Inr (Some sb), s1) \<and> sp_Start (h_Port h) (sb_ID sb) s1 = (None, s2) \<and>
      sb_Status sb \<noteq> SandboxStatusFailed \<and> d' = d\<lparr>dm_port := s2\<rparr> \<and>
      b = OneSandbox (Some (sb\<lparr>sb_Status := SandboxStatusRunning,
            sb_StartedAt := Some (case sb_StartedAt sb of None \<Rightarrow> en_now env | Some t \<Rightarrow> t)\<rparr>)))" (is "?l \<longleftrightarrow> ?r")
proof
  have ne: "SandboxStatusFailed \<noteq> SandboxStatusRunning" by code_simp
  assume ?l
  then obtain resp where resp: "handleDeploy h env r d = (Some resp, d')" "rs_Status resp = 201" "rs_Body resp = b" by blast
  then have post: "rq_Method r = ''POST''" by (auto simp: handleDeploy_def response_defs split: if_splits)
  obtain cfg where cfg: "en_config env (rq_Body r) = Some cfg" using resp by (auto simp: handleDeploy_def response_defs split: if_splits option.splits)
  obtain c s1 where c: "sp_Create (h_Port h) cfg (dm_port d) = (c, s1)" by fastforce
  obtain sb where sb: "c = Inr (Some sb)"
    using resp post cfg c by (auto simp: handleDeploy_def on_port_def response_defs split: option.splits sum.splits)
  obtain e s2 where s: "sp_Start (h_Port h) (sb_ID sb) s1 = (e, s2)" by fastforce
  have e: "e = None" using resp post cfg c sb s by (cases e) (auto simp: handleDeploy_def on_port_def response_defs Let_def)
  have st: "sb_Status sb \<noteq> SandboxStatusFailed" using resp post cfg c sb s e ne by (auto simp: handleDeploy_def on_port_def response_defs Let_def)
  have "d' = d\<lparr>dm_port := s2\<rparr>" "b = OneSandbox (Some (sb\<lparr>sb_Status := SandboxStatusRunning,
            sb_StartedAt := Some (case sb_StartedAt sb of None \<Rightarrow> en_now env | Some t \<Rightarrow> t)\<rparr>))"
    using resp post cfg c sb s e st by (auto simp: handleDeploy_def on_port_def response_defs Let_def split: if_splits option.splits)
  with post cfg c sb s e st show ?r by blast
next
  assume ?r
  then obtain cfg sb s1 s2 where r: "rq_Method r = ''POST''" "en_config env (rq_Body r) = Some cfg"
      "sp_Create (h_Port h) cfg (dm_port d) = (Inr (Some sb), s1)" "sp_Start (h_Port h) (sb_ID sb) s1 = (None, s2)"
      "sb_Status sb \<noteq> SandboxStatusFailed" "d' = d\<lparr>dm_port := s2\<rparr>"
      "b = OneSandbox (Some (sb\<lparr>sb_Status := SandboxStatusRunning, sb_StartedAt := Some (case sb_StartedAt sb of None \<Rightarrow> en_now env | Some t \<Rightarrow> t)\<rparr>))"
    by blast
  then show ?l by (cases "sb_StartedAt sb") (auto simp: handleDeploy_def on_port_def response_defs Let_def)
qed

text \<open>A sandbox that cannot be started is reported as failed and stays behind in the adapter.\<close>

lemma failed_start_leaves_sandbox:
  assumes "rq_Method r = ''POST''" and "en_config env (rq_Body r) = Some cfg"
    and "sp_Create (h_Port h) cfg (dm_port d) = (Inr (Some sb), s1)" and "sp_Start (h_Port h) (sb_ID sb) s1 = (Some err, s2)"
  shows "\<exists>resp. handleDeploy h env r d = (Some resp, d\<lparr>dm_port := s2\<rparr>) \<and> rs_Status resp = 500"
  using assms by (simp add: handleDeploy_def on_port_def response_defs Let_def)

end
