(* ===== verification/Podman_Adapter.thy ===== *)
theory Podman_Adapter
  imports Api_Router
begin

text \<open>
  The Podman adapter of the daemon (\<open>internal/adapters/podman/podman.go\<close>) as a \<open>SandboxPort\<close>. The engine behind the command
  line is a parameter: a function from the arguments and the world to the output, the error and the next world. The JSON
  decoder of \<open>inspect\<close> and \<open>stats\<close> and \<open>time.Parse\<close> are parameters too.
\<close>

section \<open>The adapter\<close>

record 'w engine =
  eng_LookPath :: "string \<Rightarrow> 'w \<Rightarrow> go_error option"
  eng_run :: "string \<Rightarrow> string list \<Rightarrow> 'w \<Rightarrow> (string \<times> go_error option) \<times> 'w" \<comment> \<open>\<open>CombinedOutput\<close>\<close>
  eng_stream :: "string \<Rightarrow> string list \<Rightarrow> 'w \<Rightarrow> string result \<times> 'w" \<comment> \<open>\<open>StdoutPipe\<close> and \<open>Start\<close>, with what the pipe yields\<close>

record inspected =
  ins_ID :: string
  ins_Name :: string
  ins_Created :: string
  ins_Status :: string
  ins_PID :: int
  ins_StartedAt :: string
  ins_Image :: string
  ins_Labels :: "(string, string) gomap"
  ins_Env :: "string list"
  ins_IPAddress :: string

record pod_lib =
  pl_inspected :: "string \<Rightarrow> inspected result"
  pl_Parse :: "string \<Rightarrow> string \<Rightarrow> time option" \<comment> \<open>\<open>time.Parse(layout, value)\<close>\<close>

text \<open>The world of the engine and the counter of \<open>domain.GenerateID\<close>.\<close>

record 'w pod_state =
  ps_world :: 'w
  ps_counter :: nat

record podman_Adapter =
  pa_binary :: string

definition podman_NewAdapter :: "(string \<Rightarrow> string) \<Rightarrow> podman_Adapter" where
  "podman_NewAdapter Getenv =
     (let binary = Getenv ''NVMS_PODMAN_BINARY'' in \<lparr>pa_binary = (if binary = [] then ''podman'' else binary)\<rparr>)"

definition podman_run :: "'w engine \<Rightarrow> podman_Adapter \<Rightarrow> string list \<Rightarrow> 'w pod_state \<Rightarrow> string result \<times> 'w pod_state" where
  "podman_run eng a args s =
     (case eng_run eng (pa_binary a) args (ps_world s) of
        ((out, Some err), w) \<Rightarrow> (Inl (Errorf ''podman %s: %w: %s'' [AStr (args ! 0), AWrap err, AStr (trimSpace out)]), s\<lparr>ps_world := w\<rparr>)
      | ((out, None), w) \<Rightarrow> (Inr out, s\<lparr>ps_world := w\<rparr>))"

definition podman_Probe :: "'w engine \<Rightarrow> podman_Adapter \<Rightarrow> 'w pod_state \<Rightarrow> go_error option \<times> 'w pod_state" where
  "podman_Probe eng a s =
     (case eng_LookPath eng (pa_binary a) (ps_world s) of
        Some err \<Rightarrow> (Some (Errorf ''podman: binary %q not found: %w'' [AStr (pa_binary a), AWrap err]), s)
      | None \<Rightarrow> (case podman_run eng a [''version'', ''--format'', ''{{.Version}}''] s of
          (Inl err, s1) \<Rightarrow> (Some (Errorf ''podman: runtime unavailable: %w'' [AWrap err]), s1)
        | (Inr _, s1) \<Rightarrow> (None, s1)))"

definition parseTime :: "pod_lib \<Rightarrow> string \<Rightarrow> time" where
  "parseTime lib v =
     (if v = [] \<or> v = ''0001-01-01T00:00:00Z'' then zero_time
      else case pl_Parse lib ''2006-01-02T15:04:05.999999999Z07:00'' v of
        Some parsed \<Rightarrow> parsed
      | None \<Rightarrow> (case pl_Parse lib ''2006-01-02 15:04:05 -0700 MST'' v of Some parsed \<Rightarrow> parsed | None \<Rightarrow> zero_time))"

definition podman_status :: "string \<Rightarrow> string" where
  "podman_status s =
     (let l = toLower s in
      if l = ''created'' \<or> l = ''configured'' \<or> l = ''initialized'' then SandboxStatusPending
      else if l = ''running'' then SandboxStatusRunning
      else if l = ''paused'' \<or> l = ''stopped'' \<or> l = ''exited'' \<or> l = ''dead'' \<or> l = ''removing'' then SandboxStatusStopped
      else SandboxStatusStopped)"

definition podman_inspect :: "pod_lib \<Rightarrow> 'w engine \<Rightarrow> podman_Adapter \<Rightarrow> string \<Rightarrow> 'w pod_state \<Rightarrow> Sandbox option result \<times> 'w pod_state" where
  "podman_inspect lib eng a i s =
     (case podman_run eng a [''inspect'', ''--format'', ''{{json .}}'', i] s of
        (Inl err, s1) \<Rightarrow> (Inl err, s1)
      | (Inr out, s1) \<Rightarrow> (case pl_inspected lib (trimSpace out) of
          Inl err \<Rightarrow> (Inl (Errorf ''podman inspect: decode: %w'' [AWrap err]), s1)
        | Inr c \<Rightarrow>
            let started = parseTime lib (ins_StartedAt c);
                name = trimPrefix (ins_Name c) ''/'';
                cfg = zero_SandboxConfig\<lparr>sc_Name := name, sc_Image := ins_Image c\<rparr>
            in (Inr (Some (zero_Sandbox\<lparr>sb_ID := ins_ID c, sb_Name := name, sb_Status := podman_status (ins_Status c),
                  sb_Type := SandboxTypeContainer, sb_Config := Some cfg, sb_PID := ins_PID c, sb_CreatedAt := parseTime lib (ins_Created c),
                  sb_StartedAt := (if IsZero started then None else Some started), sb_IPAddress := ins_IPAddress c\<rparr>)), s1)))"

text \<open>The arguments of \<open>podman create\<close>, up to a mount without source or target.\<close>

definition mount_volume :: "Mount \<Rightarrow> string list \<Rightarrow> string list result" where
  "mount_volume m args =
     (if mnt_Source m = [] \<or> mnt_Target m = [] then Inl (Errorf ''podman: mount source and target are required'' [])
      else let volume = mnt_Source m @ '':'' @ mnt_Target m @ (if mnt_ReadOnly m then '':ro'' else [])
           in Inr (args @ [''--volume'', volume]))"

definition podman_createArgs :: "string \<Rightarrow> SandboxConfig \<Rightarrow> string list result" where
  "podman_createArgs name cfg =
     (let args0 = [''create'', ''--name'', name] @
            concat (map (\<lambda>(k, v). [''--env'', k @ ''='' @ v]) (sc_Environment cfg)) @
            concat (map (\<lambda>(k, v). [''--label'', k @ ''='' @ v]) (sc_Labels cfg))
      in (case foldE mount_volume (sc_Mounts cfg) args0 of
            Inl err \<Rightarrow> Inl err
          | Inr args1 \<Rightarrow>
              Inr (args1 @ (if sc_WorkDir cfg \<noteq> [] then [''--workdir'', sc_WorkDir cfg] else []) @
                (if sc_ReadOnlyRootfs cfg then [''--read-only''] else []) @ (if sc_TmpfsTmp cfg then [''--tmpfs'', ''/tmp''] else []) @
                [sc_Image cfg] @ (case sc_NativeCommand cfg of None \<Rightarrow> [] | Some command \<Rightarrow> command))))"

definition podman_Create :: "pod_lib \<Rightarrow> 'w engine \<Rightarrow> podman_Adapter \<Rightarrow> SandboxConfig \<Rightarrow> 'w pod_state \<Rightarrow> Sandbox option result \<times> 'w pod_state" where
  "podman_Create lib eng a cfg s =
     (case podman_Probe eng a s of
        (Some err, s1) \<Rightarrow> (Inl err, s1)
      | (None, s1) \<Rightarrow>
          if trimSpace (sc_Image cfg) = [] then (Inl (Errorf ''podman: image is required'' []), s1)
          else
            let (name, s2) = (if trimSpace (sc_Name cfg) = []
                  then (case GenerateID (ps_counter s1) of (i, n) \<Rightarrow> (''nvms-'' @ i, s1\<lparr>ps_counter := n\<rparr>))
                  else (trimSpace (sc_Name cfg), s1))
            in (case podman_createArgs name cfg of
                 Inl err \<Rightarrow> (Inl err, s2)
               | Inr args \<Rightarrow> (case podman_run eng a args s2 of
                   (Inl err, s3) \<Rightarrow> (Inl err, s3)
                 | (Inr out, s3) \<Rightarrow>
                     if trimSpace out = [] then (Inl (Errorf ''podman create returned an empty container ID'' []), s3)
                     else podman_inspect lib eng a (trimSpace out) s3)))"

definition podman_Start :: "pod_lib \<Rightarrow> 'w engine \<Rightarrow> podman_Adapter \<Rightarrow> string \<Rightarrow> 'w pod_state \<Rightarrow> go_error option \<times> 'w pod_state" where
  "podman_Start lib eng a i s =
     (case podman_run eng a [''start'', i] s of
        (Inl err, s1) \<Rightarrow> (Some err, s1)
      | (Inr _, s1) \<Rightarrow> (case podman_inspect lib eng a i s1 of (Inl err, s2) \<Rightarrow> (Some err, s2) | (Inr _, s2) \<Rightarrow> (None, s2)))"

definition podman_Stop :: "'w engine \<Rightarrow> podman_Adapter \<Rightarrow> string \<Rightarrow> bool \<Rightarrow> 'w pod_state \<Rightarrow> go_error option \<times> 'w pod_state" where
  "podman_Stop eng a i force s =
     (case podman_run eng a [if force then ''kill'' else ''stop'', i] s of (Inl err, s1) \<Rightarrow> (Some err, s1) | (Inr _, s1) \<Rightarrow> (None, s1))"

definition podman_Delete :: "'w engine \<Rightarrow> podman_Adapter \<Rightarrow> string \<Rightarrow> 'w pod_state \<Rightarrow> go_error option \<times> 'w pod_state" where
  "podman_Delete eng a i s =
     (case podman_run eng a [''rm'', ''-f'', i] s of (Inl err, s1) \<Rightarrow> (Some err, s1) | (Inr _, s1) \<Rightarrow> (None, s1))"

fun inspect_all :: "pod_lib \<Rightarrow> 'w engine \<Rightarrow> podman_Adapter \<Rightarrow> string list \<Rightarrow> 'w pod_state \<Rightarrow> Sandbox list result \<times> 'w pod_state" where
  "inspect_all lib eng a [] s = (Inr [], s)"
| "inspect_all lib eng a (line # ls) s =
     (if trimSpace line = [] then inspect_all lib eng a ls s
      else (case podman_inspect lib eng a (trimSpace line) s of
         (Inl err, s1) \<Rightarrow> (Inl err, s1)
       | (Inr sb, s1) \<Rightarrow> (case inspect_all lib eng a ls s1 of
           (Inl err, s2) \<Rightarrow> (Inl err, s2)
         | (Inr sbs, s2) \<Rightarrow> (Inr (case sb of None \<Rightarrow> sbs | Some b \<Rightarrow> b # sbs), s2))))"

definition podman_List :: "pod_lib \<Rightarrow> 'w engine \<Rightarrow> podman_Adapter \<Rightarrow> 'w pod_state \<Rightarrow> Sandbox list result \<times> 'w pod_state" where
  "podman_List lib eng a s =
     (case podman_run eng a [''ps'', ''-a'', ''--format'', ''{{.ID}}''] s of
        (Inl err, s1) \<Rightarrow> (Inl err, s1)
      | (Inr out, s1) \<Rightarrow> inspect_all lib eng a (split_on (trimSpace out) (CHR 0x0A)) s1)"

definition podman_Logs :: "'w engine \<Rightarrow> podman_Adapter \<Rightarrow> string \<Rightarrow> bool \<Rightarrow> 'w pod_state \<Rightarrow> string result \<times> 'w pod_state" where
  "podman_Logs eng a i follow s =
     (case eng_stream eng (pa_binary a) ([''logs''] @ (if follow then [''--follow''] else []) @ [i]) (ps_world s) of
        (Inl err, w) \<Rightarrow> (Inl (Errorf ''podman logs: %w'' [AWrap err]), s\<lparr>ps_world := w\<rparr>)
      | (Inr out, w) \<Rightarrow> (Inr out, s\<lparr>ps_world := w\<rparr>))"

definition podman_Exec :: "'w engine \<Rightarrow> podman_Adapter \<Rightarrow> string \<Rightarrow> string list \<Rightarrow> 'w pod_state \<Rightarrow> string result \<times> 'w pod_state" where
  "podman_Exec eng a i command s =
     (if command = [] then (Inl (Errorf ''podman exec: command is required'' []), s)
      else (case eng_stream eng (pa_binary a) ([''exec'', i, ''--''] @ command) (ps_world s) of
         (Inl err, w) \<Rightarrow> (Inl (Errorf ''podman exec: %w'' [AWrap err]), s\<lparr>ps_world := w\<rparr>)
       | (Inr out, w) \<Rightarrow> (Inr out, s\<lparr>ps_world := w\<rparr>)))"

definition podman_parseBytes :: "'f float_ops \<Rightarrow> string \<Rightarrow> int" where
  "podman_parseBytes fo v =
     (case strings_Fields v of
        [] \<Rightarrow> 0
      | f # rest \<Rightarrow> (case fo_ParseFloat fo f of
          (_, False) \<Rightarrow> 0
        | (n, True) \<Rightarrow>
            let multiplier = (case rest of
                [] \<Rightarrow> 1
              | u # _ \<Rightarrow> if toUpper u = ''KB'' \<or> toUpper u = ''KIB'' then 1024
                  else if toUpper u = ''MB'' \<or> toUpper u = ''MIB'' then 1024 * 1024
                  else if toUpper u = ''GB'' \<or> toUpper u = ''GIB'' then 1024 * 1024 * 1024 else 1)
            in fo_int64 fo (fo_mul fo n (fo_of_nat fo multiplier))))"

text \<open>The decoded sample is the pair of \<open>CPU %\<close> and \<open>MemUsage\<close>.\<close>

definition podman_Metrics :: "'f float_ops \<Rightarrow> (string \<Rightarrow> (string \<times> string) result) \<Rightarrow> 'w engine \<Rightarrow> podman_Adapter \<Rightarrow> string \<Rightarrow>
    'w pod_state \<Rightarrow> 'f SandboxMetrics result \<times> 'w pod_state" where
  "podman_Metrics fo Unmarshal eng a i s =
     (case podman_run eng a [''stats'', ''--no-stream'', ''--format'', ''{{json .}}'', i] s of
        (Inl err, s1) \<Rightarrow> (Inl err, s1)
      | (Inr out, s1) \<Rightarrow> (case Unmarshal (trimSpace out) of
          Inl err \<Rightarrow> (Inl (Errorf ''podman stats: decode: %w'' [AWrap err]), s1)
        | Inr (CPU, Memory) \<Rightarrow>
            let cpu = trimSuffix (trimSpace CPU) ''%''
            in (Inr \<lparr>sm_SandboxID = i, sm_CPUUsage = (if cpu \<noteq> [] then fst (fo_ParseFloat fo cpu) else fo_of_nat fo 0),
                  sm_MemoryUsage = (case cut Memory (CHR ''/'') of Some (used, _) \<Rightarrow> podman_parseBytes fo (trimSpace used) | None \<Rightarrow> 0),
                  sm_DiskUsage = 0, sm_NetworkRx = 0, sm_NetworkTx = 0\<rparr>, s1)))"

text \<open>\<open>waitReadCloser.Close\<close>.\<close>

definition waitReadCloser_Close :: "go_error option \<Rightarrow> go_error option \<Rightarrow> go_error option" where
  "waitReadCloser_Close closeErr waitErr = (case closeErr of Some e \<Rightarrow> Some e | None \<Rightarrow> waitErr)"

definition podman_port :: "pod_lib \<Rightarrow> 'w engine \<Rightarrow> podman_Adapter \<Rightarrow> 'w pod_state SandboxPort" where
  "podman_port lib eng a = \<lparr>sp_Create = podman_Create lib eng a, sp_Start = podman_Start lib eng a, sp_Stop = podman_Stop eng a,
     sp_Delete = podman_Delete eng a, sp_List = podman_List lib eng a, sp_Get = podman_inspect lib eng a,
     sp_Logs = podman_Logs eng a, sp_Exec = podman_Exec eng a, sp_PortForward = None\<rparr>"

section \<open>From the request to the command line\<close>

text \<open>An identifier that needs no escape and is no path of its own.\<close>

definition plain_id :: "string \<Rightarrow> bool" where
  "plain_id i \<longleftrightarrow> i \<noteq> [] \<and> i \<noteq> ''.'' \<and> i \<noteq> ''..'' \<and> CHR ''/'' \<notin> set i \<and> CHR ''%'' \<notin> set i"

lemma percent_decode_plain: "CHR ''%'' \<notin> set s \<Longrightarrow> percent_decode s = Some s"
  by (induction s) auto

lemma pathUnescape_plain: "CHR ''%'' \<notin> set s \<Longrightarrow> pathUnescape s = s"
  by (simp add: pathUnescape_def percent_decode_plain)

lemma by_id_path:
  assumes "plain_id i" and "p = ''/v1/sandboxes/'' @ i"
  shows "cleanPath p = p" and "map pathUnescape (path_segments p) = [''v1'', ''sandboxes'', i]" and "pathUnescape p = p"
proof -
  have i: "i \<noteq> []" "i \<noteq> ''.''" "i \<noteq> ''..''" "CHR ''/'' \<notin> set i" "CHR ''%'' \<notin> set i" using assms(1) by (auto simp: plain_id_def)
  have "last i \<in> set i" using i(1) by simp
  then have "last i \<noteq> CHR ''/''" using i(4) by metis
  then have "last p \<noteq> CHR ''/''" using i(1) by (simp add: assms(2))
  moreover have "clean p = p"
    using i by (simp add: assms(2) clean_def isAbs_def clean_parts_def split_on_single clean_step_def)
  ultimately show "cleanPath p = p" by (simp add: cleanPath_def Let_def assms(2))
  show "map pathUnescape (path_segments p) = [''v1'', ''sandboxes'', i]"
    using i by (simp add: assms(2) path_segments_def split_on_single pathUnescape_plain)
  show "pathUnescape p = p" using i(5) by (intro pathUnescape_plain) (simp add: assms(2))
qed

lemma mux_below:
  assumes "cleanPath (rq_EscapedPath r) = rq_EscapedPath r" and "map pathUnescape (path_segments (rq_EscapedPath r)) = ''v1'' # ''sandboxes'' # i # rest"
    and "rq_RequestURI r \<noteq> ''*''"
  shows "mux_ServeHTTP h env r d = auth h env (handleSandboxByID h env) r d"
proof -
  have "find (\<lambda>(p, _). pattern_matches p (rq_EscapedPath r)) (routes h env audited) = Some (''/v1/sandboxes/'', auth h env (handleSandboxByID h env))" for audited
    unfolding routes_def by (simp add: pattern_matches_def assms(2)) (simp add: path_segments_def)
  then show ?thesis using assms(1,3) by (simp add: mux_ServeHTTP_def Let_def)
qed

lemma mux_by_id:
  assumes "plain_id i" and "rq_EscapedPath r = ''/v1/sandboxes/'' @ i" and "rq_RequestURI r \<noteq> ''*''"
  shows "mux_ServeHTTP h env r d = auth h env (handleSandboxByID h env) r d"
  by (rule mux_below [OF by_id_path(1,2) [OF assms(1,2)] assms(3)])

text \<open>The answer to an authorised request that the limiter lets through is the handler's.\<close>

lemma NewRouter_admitted:
  assumes "\<And>d. mux_ServeHTTP h env r d = auth h env hdl r d" and "authorised h env r"
    and "fst (tb_Allow (en_float env) (en_arrival env) (dm_bucket d))"
  obtains claims tb where "fst (NewRouter h env r d) = fst (hdl (r\<lparr>rq_Claims := claims\<rparr>) (d\<lparr>dm_bucket := tb\<rparr>))"
    "dm_port (snd (NewRouter h env r d)) = dm_port (snd (hdl (r\<lparr>rq_Claims := claims\<rparr>) (d\<lparr>dm_bucket := tb\<rparr>)))"
proof (cases rule: NewRouter_cases [where h = h and env = env and r = r and d = d])
  case (limited tb)
  then show ?thesis using assms(3) by simp
next
  case (served tb)
  let ?d = "d\<lparr>dm_bucket := tb\<rparr>"
  have "\<exists>claims. auth h env hdl r ?d = hdl (r\<lparr>rq_Claims := claims\<rparr>) ?d"
    by (cases rule: auth_cases [where h = h and env = env and r = r and d = ?d and hdl = hdl]) (use assms(2) in blast)+
  then obtain claims where a: "mux_ServeHTTP h env r ?d = hdl (r\<lparr>rq_Claims := claims\<rparr>) ?d" using assms(1) by auto
  show ?thesis
    using served(2) a by (intro that [of claims tb])
      (cases "dm_AuditLog d"; auto simp: auditMiddleware_def case_prod_beta split: option.split)+
qed

lemma NewRouter_by_id:
  assumes "plain_id i" and "rq_EscapedPath r = ''/v1/sandboxes/'' @ i" and "rq_RequestURI r \<noteq> ''*''" and "authorised h env r"
    and "fst (tb_Allow (en_float env) (en_arrival env) (dm_bucket d))" and "rq_Method r = ''DELETE''"
  shows "dm_port (snd (NewRouter h env r d)) = snd (sp_Delete (h_Port h) i (dm_port d))"
proof -
  obtain claims tb where n: "dm_port (snd (NewRouter h env r d)) = dm_port (snd (handleSandboxByID h env (r\<lparr>rq_Claims := claims\<rparr>) (d\<lparr>dm_bucket := tb\<rparr>)))"
    using NewRouter_admitted [OF mux_by_id [OF assms(1-3)] assms(4,5)] by metis
  have "drop (length ''/v1/sandboxes/'') (rq_Path (r\<lparr>rq_Claims := claims\<rparr>)) = i"
    using by_id_path(3) [OF assms(1,2)] by (simp add: rq_Path_def assms(2))
  then have "snd (handleSandboxByID h env (r\<lparr>rq_Claims := claims\<rparr>) (d\<lparr>dm_bucket := tb\<rparr>)) = snd (on_port (sp_Delete (h_Port h) i) (d\<lparr>dm_bucket := tb\<rparr>))"
    using assms(1,6) by (simp add: handleSandboxByID_def plain_id_def cut_None [THEN iffD2] Let_def case_prod_beta split: option.split)
  then show ?thesis by (simp add: n)
qed

text \<open>
  C39. The identifier of a request reaches the engine as it is: an authorised \<open>DELETE /v1/sandboxes/{id}\<close> that the limiter lets through
  runs \<open>podman rm -f {id}\<close> and nothing else, for every identifier without slashes and escapes, also one that begins with a
  dash, such as \<open>--all\<close>, which is an option of that command and no identifier.
\<close>

theorem delete_runs_rm:
  assumes "plain_id i" and "rq_EscapedPath r = ''/v1/sandboxes/'' @ i" and "rq_RequestURI r \<noteq> ''*''" and "rq_Method r = ''DELETE''"
    and "authorised h env r" and "fst (tb_Allow (en_float env) (en_arrival env) (dm_bucket d))" and "h_Port h = podman_port lib eng a"
  shows "ps_world (dm_port (snd (NewRouter h env r d))) = snd (eng_run eng (pa_binary a) [''rm'', ''-f'', i] (ps_world (dm_port d)))"
  using NewRouter_by_id [OF assms(1-3,5,6,4)] assms(7)
  by (simp add: podman_port_def podman_Delete_def podman_run_def case_prod_beta split: sum.split option.split)

text \<open>An engine whose world is the list of command lines it was given.\<close>

definition logging_engine :: "(string list) list engine" where
  "logging_engine = \<lparr>eng_LookPath = (\<lambda>_ _. None), eng_run = (\<lambda>_ args w. (([], None), w @ [args])), eng_stream = (\<lambda>_ args w. (Inr [], w @ [args]))\<rparr>"

definition demo_pod_lib :: pod_lib where
  "demo_pod_lib = \<lparr>pl_inspected = (\<lambda>_. Inl ErrNotExist), pl_Parse = (\<lambda>_ _. None)\<rparr>"

definition podman_daemon :: "((string list) list pod_state, unit, unit) Handlers" where
  "podman_daemon = \<lparr>h_Port = podman_port demo_pod_lib logging_engine \<lparr>pa_binary = ''podman''\<rparr>, h_Token = Some \<lparr>mg_tokens = [''ab'']\<rparr>,
     h_JWTVerifier = None, h_Metrics = None\<rparr>"

theorem delete_runs_rm_witness:
  "ps_world (dm_port (snd (NewRouter podman_daemon demo_env (demo_request ''DELETE'' ''/v1/sandboxes/--all'' ''Bearer ab'')
     (new_daemon \<lparr>fl_round = id, fl_fused = False\<rparr> 0 None \<lparr>ps_world = [], ps_counter = 0\<rparr>)))) = [[''rm'', ''-f'', ''--all'']]"
proof -
  let ?d = "new_daemon \<lparr>fl_round = id, fl_fused = False\<rparr> 0 None \<lparr>ps_world = [], ps_counter = 0\<rparr>"
  let ?r = "demo_request ''DELETE'' ''/v1/sandboxes/--all'' ''Bearer ab''"
  have "fst (tb_Allow (en_float demo_env) (en_arrival demo_env) (dm_bucket ?d))"
    by (simp add: demo_env_def new_daemon_def NewTokenBucket_def tb_Allow_def tb_refill_def Seconds_def quo_def time_Sub_def add_product_def)
  moreover have "authorised podman_daemon demo_env ?r"
    by (simp add: authorised_def podman_daemon_def demo_request_def Check_iff)
  moreover have "plain_id ''--all''" by code_simp
  ultimately show ?thesis
    using delete_runs_rm [of "''--all''" ?r podman_daemon demo_env ?d demo_pod_lib logging_engine "\<lparr>pa_binary = ''podman''\<rparr>"]
    by (simp add: podman_daemon_def demo_request_def logging_engine_def new_daemon_def)
qed

text \<open>A container that was created but cannot be inspected is left behind: nothing removes it.\<close>

lemma create_leaks_container:
  assumes "podman_Probe eng a s = (None, s1)" and "trimSpace (sc_Image cfg) \<noteq> []" and "trimSpace (sc_Name cfg) \<noteq> []"
    and "podman_createArgs (trimSpace (sc_Name cfg)) cfg = Inr args" and "podman_run eng a args s1 = (Inr out, s2)" and "trimSpace out \<noteq> []"
    and "podman_inspect lib eng a (trimSpace out) s2 = (Inl err, s3)"
  shows "podman_Create lib eng a cfg s = (Inl err, s3)"
  using assms by (simp add: podman_Create_def)

lemma podman_inspect_not_nil: "fst (podman_inspect lib eng a i s) \<noteq> Inr None"
  by (simp add: podman_inspect_def Let_def case_prod_beta split: sum.split prod.split)

lemma podman_Create_not_nil: "fst (podman_Create lib eng a cfg s) \<noteq> Inr None"
  by (auto simp: podman_Create_def Let_def podman_inspect_not_nil split: sum.split option.split prod.split)

interpretation podman: answering_port "podman_port lib eng a" for lib eng a
  by unfold_locales (simp add: podman_port_def podman_Create_not_nil)

end
