(* ===== verification/Native_Containers.thy ===== *)
theory Native_Containers
  imports Podman_Adapter
begin

text \<open>
  The adapter for native container command lines, Apple's and that of WSL
  (\<open>internal/adapters/containers/containers.go\<close>). The \<open>Runner\<close> is a parameter, as is the JSON decoder; decoded documents are
  values of \<open>json\<close>, with the members of an object in the order in which the map is iterated.
\<close>

section \<open>Decoded documents\<close>

datatype 'f json = JNull | JBool bool | JNum 'f | JString string | JArray "'f json list" | JObject "(string \<times> 'f json) list"

type_synonym 'f object = "(string \<times> 'f json) list"

definition as_string :: "'f json \<Rightarrow> string option" where
  "as_string v = (case v of JString s \<Rightarrow> Some s | _ \<Rightarrow> None)"

definition as_object :: "'f json \<Rightarrow> 'f object option" where
  "as_object v = (case v of JObject m \<Rightarrow> Some m | _ \<Rightarrow> None)"

definition as_array :: "'f json \<Rightarrow> 'f json list option" where
  "as_array v = (case v of JArray vs \<Rightarrow> Some vs | _ \<Rightarrow> None)"

text \<open>
  The two nested loops that all accessors share: keys in order, members in the order of the map, names compared
  without case; the first member that has the wanted type is returned.
\<close>

fun scan_members :: "('f json \<Rightarrow> 'a option) \<Rightarrow> string \<Rightarrow> 'f object \<Rightarrow> 'a option" where
  "scan_members sel key [] = None"
| "scan_members sel key ((actual, v) # ms) =
     (if equalFold actual key then (case sel v of Some x \<Rightarrow> Some x | None \<Rightarrow> scan_members sel key ms) else scan_members sel key ms)"

fun scan_keys :: "('f json \<Rightarrow> 'a option) \<Rightarrow> 'f object \<Rightarrow> string list \<Rightarrow> 'a option" where
  "scan_keys sel obj [] = None"
| "scan_keys sel obj (key # keys) = (case scan_members sel key obj of Some x \<Rightarrow> Some x | None \<Rightarrow> scan_keys sel obj keys)"

definition fieldObject :: "'f object \<Rightarrow> string list \<Rightarrow> 'f object option" where
  "fieldObject obj keys = scan_keys as_object obj keys"

definition fieldArray :: "'f object \<Rightarrow> string list \<Rightarrow> 'f json list" where
  "fieldArray obj keys = (case scan_keys as_array obj keys of None \<Rightarrow> [] | Some vs \<Rightarrow> vs)"

definition fieldString :: "'f object \<Rightarrow> string list \<Rightarrow> string" where
  "fieldString obj keys = (case scan_keys as_string obj keys of None \<Rightarrow> [] | Some s \<Rightarrow> s)"

definition string_members :: "'f object \<Rightarrow> (string, string) gomap" where
  "string_members m = List.map_filter (\<lambda>(k, v). map_option (Pair k) (as_string v)) m"

definition fieldMap :: "'f object \<Rightarrow> string list \<Rightarrow> (string, string) gomap" where
  "fieldMap obj keys = (case scan_keys (\<lambda>v. map_option string_members (as_object v)) obj keys of None \<Rightarrow> [] | Some m \<Rightarrow> m)"

definition number :: "'f float_ops \<Rightarrow> 'f object \<Rightarrow> string list \<Rightarrow> 'f" where
  "number fo obj keys =
     (case scan_keys (\<lambda>v. case v of JNum x \<Rightarrow> Some x | JString s \<Rightarrow> Some (fo_Sscanf_f fo (trimSuffix s ''%'')) | _ \<Rightarrow> None) obj keys of
        None \<Rightarrow> fo_of_nat fo 0 | Some x \<Rightarrow> x)"

definition integer :: "'f float_ops \<Rightarrow> 'f object \<Rightarrow> string list \<Rightarrow> int" where
  "integer fo obj keys =
     (case scan_keys (\<lambda>v. case v of JNum x \<Rightarrow> Some (fo_int64 fo x) | JString s \<Rightarrow> Some (fo_Sscanf_d fo s) | _ \<Rightarrow> None) obj keys of
        None \<Rightarrow> 0 | Some x \<Rightarrow> x)"

text \<open>A nil map has no members.\<close>

definition members :: "'f object option \<Rightarrow> 'f object" where
  "members m = (case m of None \<Rightarrow> [] | Some ms \<Rightarrow> ms)"

abbreviation ip_keys :: "string list" where "ip_keys \<equiv> [''ip_address'', ''IPAddress'', ''ipv4Address'', ''IPv4Address'']"

text \<open>The first address of the networks in an array.\<close>

fun network_address :: "'f json list \<Rightarrow> string" where
  "network_address [] = []"
| "network_address (n # ns) =
     (case as_object n of
        Some entry \<Rightarrow> if fieldString entry ip_keys \<noteq> [] then fieldString entry ip_keys else network_address ns
      | None \<Rightarrow> network_address ns)"

definition inspectIPAddress :: "'f object \<Rightarrow> 'f object option \<Rightarrow> 'f object option \<Rightarrow> string" where
  "inspectIPAddress obj status configuration =
     (if fieldString obj [''ip_address'', ''IPAddress'', ''ip''] \<noteq> [] then fieldString obj [''ip_address'', ''IPAddress'', ''ip'']
      else
        let candidates = [members status, members (fieldObject obj [''network_settings'', ''NetworkSettings''])];
            addresses = concat (map (\<lambda>c. [fieldString c ip_keys, network_address (fieldArray c [''networks'', ''Networks''])]) candidates) @
              [network_address (fieldArray (members configuration) [''networks'', ''Networks''])]
        in (case find (\<lambda>v. v \<noteq> []) addresses of Some v \<Rightarrow> v | None \<Rightarrow> []))"

definition nc_parseTime :: "pod_lib \<Rightarrow> string \<Rightarrow> time" where
  "nc_parseTime lib v =
     (if v = [] then zero_time
      else case pl_Parse lib ''2006-01-02T15:04:05.999999999Z07:00'' v of
        Some parsed \<Rightarrow> parsed
      | None \<Rightarrow> (case pl_Parse lib ''2006-01-02 15:04:05 -0700 MST'' v of Some parsed \<Rightarrow> parsed | None \<Rightarrow> zero_time))"

definition nc_state :: "string \<Rightarrow> string" where
  "nc_state status =
     (if status = ''running'' then SandboxStatusRunning
      else if status = ''created'' \<or> status = ''configured'' \<or> status = ''initialized'' \<or> status = ''pending'' then SandboxStatusPending
      else SandboxStatusStopped)"

definition first_of_array :: "string \<Rightarrow> 'f json \<Rightarrow> 'f json result" where
  "first_of_array msg raw = (case raw of JArray [] \<Rightarrow> Inl (Errorf msg []) | JArray (v # _) \<Rightarrow> Inr v | _ \<Rightarrow> Inr raw)"

definition sandbox_of_object :: "pod_lib \<Rightarrow> 'f object \<Rightarrow> Sandbox" where
  "sandbox_of_object lib obj =
     (let id0 = fieldString obj [''id'', ''Id'', ''ID''];
          name0 = trimPrefix (fieldString obj [''name'', ''Name'']) ''/'';
          i = (if id0 = [] then name0 else id0);
          name = (if name0 = [] then i else name0);
          status0 = toLower (fieldString obj [''status'', ''Status'']);
          status = (case fieldObject obj [''state'', ''State''] of
              Some stateObject \<Rightarrow> toLower (fieldString stateObject [''status'', ''Status''])
            | None \<Rightarrow> status0);
          state0 = nc_state status;
          configuration = fieldObject obj [''configuration'', ''Configuration''];
          config = fieldObject obj [''config'', ''Config''];
          labels0 = fieldMap obj [''labels'', ''Labels''];
          labels1 = (if labels0 = [] then fieldMap (members configuration) [''labels'', ''Labels''] else labels0);
          labels = (case config of Some c \<Rightarrow> if labels1 = [] then fieldMap c [''labels'', ''Labels''] else labels1 | None \<Rightarrow> labels1);
          image0 = fieldString obj [''image'', ''Image''];
          image1 = (case fieldObject (members configuration) [''image'', ''Image''] of
              Some imageObject \<Rightarrow> fieldString imageObject [''reference'', ''Reference'', ''name'', ''Name'']
            | None \<Rightarrow> image0);
          image = (case config of Some c \<Rightarrow> if image1 = [] then fieldString c [''image'', ''Image''] else image1 | None \<Rightarrow> image1);
          created = nc_parseTime lib (fieldString obj [''created'', ''Created'']);
          started0 = nc_parseTime lib (fieldString obj [''started_at'', ''StartedAt'', ''startedAt'']);
          statusObject = fieldObject obj [''status'', ''Status''];
          state = (case statusObject of
              Some so \<Rightarrow> if fieldString so [''state'', ''State''] \<noteq> [] then nc_state (toLower (fieldString so [''state'', ''State''])) else state0
            | None \<Rightarrow> state0);
          started = (case statusObject of
              Some so \<Rightarrow> if IsZero started0 then nc_parseTime lib (fieldString so [''startedDate'', ''started_at'', ''StartedAt'']) else started0
            | None \<Rightarrow> started0)
      in zero_Sandbox\<lparr>sb_ID := i, sb_Name := name, sb_Status := state, sb_Type := SandboxTypeContainer,
           sb_Config := Some (zero_SandboxConfig\<lparr>sc_Name := name, sc_Image := image, sc_Labels := labels\<rparr>),
           sb_CreatedAt := created, sb_StartedAt := (if IsZero started then None else Some started),
           sb_IPAddress := inspectIPAddress obj statusObject configuration\<rparr>)"

definition decodeSandbox :: "pod_lib \<Rightarrow> (string \<Rightarrow> 'f json result) \<Rightarrow> string \<Rightarrow> Sandbox option result" where
  "decodeSandbox lib Unmarshal out =
     (case Unmarshal (trimSpace out) of
        Inl err \<Rightarrow> Inl (Errorf ''native container inspect: decode: %w'' [AWrap err])
      | Inr raw \<Rightarrow> (case first_of_array ''native container inspect: empty result'' raw of
          Inl err \<Rightarrow> Inl err
        | Inr v \<Rightarrow> (case as_object v of
            None \<Rightarrow> Inl (Errorf ''native container inspect: expected object'' [])
          | Some obj \<Rightarrow> Inr (Some (sandbox_of_object lib obj)))))"

text \<open>\<open>json.Unmarshal\<close> into a slice accepts an array and null.\<close>

definition element_id :: "'f json \<Rightarrow> string" where
  "element_id v = (case v of JObject m \<Rightarrow> fieldString m [''id'', ''Id'', ''ID''] | JString s \<Rightarrow> s | _ \<Rightarrow> [])"

definition listIDs :: "(string \<Rightarrow> 'f json result) \<Rightarrow> string \<Rightarrow> string list" where
  "listIDs Unmarshal out =
     (let text = trimSpace out;
          ids_of = (\<lambda>vs. filter (\<lambda>i. i \<noteq> []) (map element_id vs)) in
      if text = [] then []
      else (case Unmarshal text of
         Inr (JArray vs) \<Rightarrow> ids_of vs
       | Inr JNull \<Rightarrow> ids_of []
       | _ \<Rightarrow> filter (\<lambda>i. i \<noteq> []) (map trimSpace (split_on text (CHR 0x0A)))))"

text \<open>\<open>None\<close> is the run-time panic of the index expression when no field stands before the first slash.\<close>

fun unit_suffix :: "string list \<Rightarrow> string \<Rightarrow> string \<times> string" where
  "unit_suffix [] upper = ([], upper)"
| "unit_suffix (c # cs) upper = (if hasSuffix upper c then (c, trimSpace (trimSuffix upper c)) else unit_suffix cs upper)"

definition unit_multiplier :: "string \<Rightarrow> nat" where
  "unit_multiplier u =
     (if u = ''KIB'' then 2 ^ 10 else if u = ''MIB'' then 2 ^ 20 else if u = ''GIB'' then 2 ^ 30 else if u = ''TIB'' then 2 ^ 40
      else if u = ''KB'' then 10 ^ 3 else if u = ''MB'' then 10 ^ 6 else if u = ''GB'' then 10 ^ 9 else if u = ''TB'' then 10 ^ 12 else 1)"

definition field_size :: "'f float_ops \<Rightarrow> string \<Rightarrow> int" where
  "field_size fo f =
     (if f = [] then 0
      else let (u, upper) = unit_suffix [''KIB'', ''MIB'', ''GIB'', ''TIB'', ''KB'', ''MB'', ''GB'', ''TB'', ''B''] (toUpper (trimSpace f))
           in (case fo_ParseFloat fo upper of
                (_, False) \<Rightarrow> 0
              | (n, True) \<Rightarrow> fo_int64 fo (fo_mul fo n (fo_of_nat fo (unit_multiplier u)))))"

definition nc_parseBytes :: "'f float_ops \<Rightarrow> string \<Rightarrow> int option" where
  "nc_parseBytes fo v =
     (let text = trimSpace v in
      if text = [] then Some 0
      else let before = (case cut text (CHR ''/'') of None \<Rightarrow> text | Some (b, _) \<Rightarrow> b) in
        (case strings_Fields before of [] \<Rightarrow> None | f # _ \<Rightarrow> Some (field_size fo f)))"

definition decodeMetrics :: "'f float_ops \<Rightarrow> (string \<Rightarrow> 'f json result) \<Rightarrow> string \<Rightarrow> string \<Rightarrow> 'f SandboxMetrics result option" where
  "decodeMetrics fo Unmarshal out i =
     (case Unmarshal (trimSpace out) of
        Inl err \<Rightarrow> Some (Inl (Errorf ''decode: %w'' [AWrap err]))
      | Inr raw \<Rightarrow> (case first_of_array ''empty result'' raw of
          Inl err \<Rightarrow> Some (Inl err)
        | Inr v \<Rightarrow> (case as_object v of
            None \<Rightarrow> Some (Inl (Errorf ''expected object'' []))
          | Some obj \<Rightarrow>
              (case nc_parseBytes fo (fieldString obj [''MemUsage'', ''memory_usage'', ''memory'']) of
                 None \<Rightarrow> None
               | Some m0 \<Rightarrow>
                   let memory = (if m0 = 0 then integer fo obj [''memory'', ''memory_usage'', ''mem_usage''] else m0) in
                   (case nc_parseBytes fo (fieldString obj [''network_rx'', ''NetInput'', ''rx_bytes'']) of
                      None \<Rightarrow> None
                    | Some rx \<Rightarrow> (case nc_parseBytes fo (fieldString obj [''network_tx'', ''NetOutput'', ''tx_bytes'']) of
                        None \<Rightarrow> None
                      | Some tx \<Rightarrow> Some (Inr \<lparr>sm_SandboxID = i, sm_CPUUsage = number fo obj [''cpu'', ''cpu_percent'', ''CPU %'', ''CPUPerc''],
                          sm_MemoryUsage = memory, sm_DiskUsage = 0, sm_NetworkRx = rx, sm_NetworkTx = tx\<rparr>)))))))"

section \<open>The adapter\<close>

definition KindApple :: string where "KindApple = ''apple-containers''"
definition KindWSL :: string where "KindWSL = ''wsl-containers''"

text \<open>
  The \<open>Runner\<close>: the output and error of a bounded run, and whether the context had passed its deadline; for a stream, what it
  yields. \<open>rn_lookup\<close> is the \<open>lookup\<close> function of the adapter.
\<close>

record 'w Runner =
  rn_Run :: "string \<Rightarrow> string list \<Rightarrow> 'w \<Rightarrow> (string \<times> go_error option \<times> bool) \<times> 'w"
  rn_Stream :: "string \<Rightarrow> string list \<Rightarrow> 'w \<Rightarrow> string result \<times> 'w"
  rn_lookup :: "string \<Rightarrow> 'w \<Rightarrow> go_error option"

record nc_Adapter =
  nc_kind :: string
  nc_binary :: string

definition NewAppleAdapter :: "string \<Rightarrow> nc_Adapter" where
  "NewAppleAdapter binary = \<lparr>nc_kind = KindApple, nc_binary = (if trimSpace binary = [] then ''container'' else binary)\<rparr>"

definition NewWSLAdapter :: "(string \<Rightarrow> string) \<Rightarrow> string \<Rightarrow> nc_Adapter" where
  "NewWSLAdapter Getenv binary =
     (let binary1 = (if trimSpace binary = [] then Getenv ''NVMS_WSLC_BINARY'' else binary)
      in \<lparr>nc_kind = KindWSL, nc_binary = (if trimSpace binary1 = [] then ''wslc.exe'' else binary1)\<rparr>)"

definition nc_command :: "nc_Adapter \<Rightarrow> string \<Rightarrow> string list \<Rightarrow> string list" where
  "nc_command a operation ids =
     (if nc_kind a = KindWSL then [''container'', if operation = ''delete'' then ''remove'' else operation] @ ids
      else [operation] @ ids)"

definition listArgs :: "nc_Adapter \<Rightarrow> string list" where
  "listArgs a = (if nc_kind a = KindWSL then [''container'', ''list'', ''--all'', ''--quiet''] else [''list'', ''--all'', ''--quiet''])"

definition nc_run :: "'w Runner \<Rightarrow> nc_Adapter \<Rightarrow> string list \<Rightarrow> 'w \<Rightarrow> string result \<times> 'w" where
  "nc_run rn a args w =
     (case rn_Run rn (nc_binary a) args w of
        ((out, Some err, late), w1) \<Rightarrow>
          if late then (Inl (Errorf ''%s %s timed out'' [AStr (nc_kind a), AStr (join args '' '')]), w1)
          else (Inl (Errorf ''%s %s: %w: %s'' [AStr (nc_kind a), AStr (join args '' ''), AWrap err, AStr (trimSpace out)]), w1)
      | ((out, None, _), w1) \<Rightarrow> (Inr out, w1))"

definition runDiscard :: "'w Runner \<Rightarrow> nc_Adapter \<Rightarrow> string list \<Rightarrow> 'w \<Rightarrow> go_error option \<times> 'w" where
  "runDiscard rn a args w = (case nc_run rn a args w of (Inl err, w1) \<Rightarrow> (Some err, w1) | (Inr _, w1) \<Rightarrow> (None, w1))"

definition nc_Probe :: "'w Runner \<Rightarrow> nc_Adapter \<Rightarrow> 'w \<Rightarrow> go_error option \<times> 'w" where
  "nc_Probe rn a w =
     (case rn_lookup rn (nc_binary a) w of
        Some err \<Rightarrow> (Some (Errorf ''%s: binary %q not found: %w'' [AStr (nc_kind a), AStr (nc_binary a), AWrap err]), w)
      | None \<Rightarrow>
          let args = (if nc_kind a = KindApple then [''system'', ''version'', ''--format'', ''json''] else [''version''])
          in (case rn_Run rn (nc_binary a) args w of
               ((_, Some err, late), w1) \<Rightarrow>
                 if late then (Some (Errorf ''%s: probe timed out'' [AStr (nc_kind a)]), w1)
                 else (Some (Errorf ''%s: probe failed: %w'' [AStr (nc_kind a), AWrap err]), w1)
             | ((_, None, _), w1) \<Rightarrow> (None, w1)))"

definition validateConfig :: "SandboxConfig \<Rightarrow> go_error option" where
  "validateConfig cfg =
     (if trimSpace (sc_Name cfg) = [] then Some (Errorf ''native container: name is required'' [])
      else if trimSpace (sc_Image cfg) = [] then Some (Errorf ''native container: image is required'' [])
      else checkE (\<lambda>m. if trimSpace (mnt_Source m) = [] \<or> trimSpace (mnt_Target m) = []
                       then Some (Errorf ''native container: mount source and target are required'' []) else None) (sc_Mounts cfg))"

definition defaultMountType :: "string \<Rightarrow> string" where
  "defaultMountType v = (if trimSpace v = [] then ''bind'' else v)"

definition sortedKeys :: "(string, string) gomap \<Rightarrow> string list" where
  "sortedKeys m = sort (map fst m)"

definition map_value :: "(string, string) gomap \<Rightarrow> string \<Rightarrow> string" where
  "map_value m k = (case map_of m k of None \<Rightarrow> [] | Some v \<Rightarrow> v)"

definition mount_args :: "Mount \<Rightarrow> string list" where
  "mount_args m =
     (if mnt_Source m = [] \<or> mnt_Target m = [] then []
      else [''--mount'', ''type='' @ defaultMountType (mnt_Type m) @ '',source='' @ mnt_Source m @ '',target='' @ mnt_Target m @
             (if mnt_ReadOnly m then '',readonly'' else [])])"

definition createArgs :: "nc_Adapter \<Rightarrow> SandboxConfig \<Rightarrow> string list result" where
  "createArgs a cfg =
     (if nc_kind a = KindWSL \<and> sc_ReadOnlyRootfs cfg
      then Inl (Errorf ''wsl-containers: read-only rootfs is unsupported by the installed CLI'' [])
      else Inr (nc_command a ''create'' [] @ [''--name'', sc_Name cfg] @
        concat (map (\<lambda>key. [''--env'', key @ ''='' @ map_value (sc_Environment cfg) key]) (sortedKeys (sc_Environment cfg))) @
        concat (map (\<lambda>key. [''--label'', key @ ''='' @ map_value (sc_Labels cfg) key]) (sortedKeys (sc_Labels cfg))) @
        concat (map mount_args (sc_Mounts cfg)) @
        (if sc_WorkDir cfg \<noteq> [] then [''--workdir'', sc_WorkDir cfg] else []) @
        (if sc_ReadOnlyRootfs cfg then [''--read-only''] else []) @
        (if sc_TmpfsTmp cfg then [''--tmpfs'', ''/tmp''] else []) @
        [sc_Image cfg] @ (case sc_NativeCommand cfg of None \<Rightarrow> [] | Some command \<Rightarrow> command)))"

type_synonym 'f nc_lib = "pod_lib \<times> (string \<Rightarrow> 'f json result)"

definition nc_Get :: "'f nc_lib \<Rightarrow> 'w Runner \<Rightarrow> nc_Adapter \<Rightarrow> string \<Rightarrow> 'w \<Rightarrow> Sandbox option result \<times> 'w" where
  "nc_Get lib rn a i w =
     (if trimSpace i = [] then (Inl (Errorf ''%s inspect: id is required'' [AStr (nc_kind a)]), w)
      else (case nc_run rn a (nc_command a ''inspect'' [i]) w of
         (Inl err, w1) \<Rightarrow> (Inl err, w1)
       | (Inr out, w1) \<Rightarrow> (decodeSandbox (fst lib) (snd lib) out, w1)))"

definition nc_Create :: "'f nc_lib \<Rightarrow> 'w Runner \<Rightarrow> nc_Adapter \<Rightarrow> SandboxConfig \<Rightarrow> 'w \<Rightarrow> Sandbox option result \<times> 'w" where
  "nc_Create lib rn a cfg w =
     (case validateConfig cfg of
        Some err \<Rightarrow> (Inl err, w)
      | None \<Rightarrow> (case nc_Probe rn a w of
          (Some err, w1) \<Rightarrow> (Inl err, w1)
        | (None, w1) \<Rightarrow> (case createArgs a cfg of
            Inl err \<Rightarrow> (Inl err, w1)
          | Inr args \<Rightarrow> (case nc_run rn a args w1 of
              (Inl err, w2) \<Rightarrow> (Inl err, w2)
            | (Inr out, w2) \<Rightarrow> nc_Get lib rn a (if trimSpace out = [] then sc_Name cfg else trimSpace out) w2))))"

text \<open>\<open>Get\<close> without an error always has a sandbox.\<close>

definition nc_Start :: "'f nc_lib \<Rightarrow> 'w Runner \<Rightarrow> nc_Adapter \<Rightarrow> string \<Rightarrow> 'w \<Rightarrow> go_error option \<times> 'w" where
  "nc_Start lib rn a i w =
     (if trimSpace i = [] then (Some (Errorf ''%s start: id is required'' [AStr (nc_kind a)]), w)
      else (case nc_Get lib rn a i w of
         (Inl err, w1) \<Rightarrow> (Some err, w1)
       | (Inr sb, w1) \<Rightarrow>
           if map_option sb_Status sb = Some SandboxStatusRunning then (None, w1)
           else runDiscard rn a (nc_command a ''start'' [i]) w1))"

definition nc_Stop :: "'w Runner \<Rightarrow> nc_Adapter \<Rightarrow> string \<Rightarrow> bool \<Rightarrow> 'w \<Rightarrow> go_error option \<times> 'w" where
  "nc_Stop rn a i force w =
     (if trimSpace i = [] then (Some (Errorf ''%s stop: id is required'' [AStr (nc_kind a)]), w)
      else runDiscard rn a (nc_command a (if force then ''kill'' else ''stop'') [i]) w)"

definition nc_Delete :: "'w Runner \<Rightarrow> nc_Adapter \<Rightarrow> string \<Rightarrow> 'w \<Rightarrow> go_error option \<times> 'w" where
  "nc_Delete rn a i w =
     (if trimSpace i = [] then (Some (Errorf ''%s delete: id is required'' [AStr (nc_kind a)]), w)
      else runDiscard rn a (nc_command a ''delete'' [''--force'', i]) w)"

fun get_all :: "'f nc_lib \<Rightarrow> 'w Runner \<Rightarrow> nc_Adapter \<Rightarrow> string list \<Rightarrow> 'w \<Rightarrow> Sandbox list result \<times> 'w" where
  "get_all lib rn a [] w = (Inr [], w)"
| "get_all lib rn a (i # is) w =
     (case nc_Get lib rn a i w of
        (Inl err, w1) \<Rightarrow> (Inl err, w1)
      | (Inr sb, w1) \<Rightarrow> (case get_all lib rn a is w1 of
          (Inl err, w2) \<Rightarrow> (Inl err, w2)
        | (Inr sbs, w2) \<Rightarrow> (Inr (case sb of None \<Rightarrow> sbs | Some b \<Rightarrow> b # sbs), w2)))"

definition nc_List :: "'f nc_lib \<Rightarrow> 'w Runner \<Rightarrow> nc_Adapter \<Rightarrow> 'w \<Rightarrow> Sandbox list result \<times> 'w" where
  "nc_List lib rn a w =
     (case nc_run rn a (listArgs a) w of
        (Inl err, w1) \<Rightarrow> (Inl err, w1)
      | (Inr out, w1) \<Rightarrow> get_all lib rn a (listIDs (snd lib) out) w1)"

definition nc_Logs :: "'w Runner \<Rightarrow> nc_Adapter \<Rightarrow> string \<Rightarrow> bool \<Rightarrow> 'w \<Rightarrow> string result \<times> 'w" where
  "nc_Logs rn a i follow w = rn_Stream rn (nc_binary a) (nc_command a ''logs'' [] @ (if follow then [''--follow''] else []) @ [i]) w"

definition nc_Exec :: "'w Runner \<Rightarrow> nc_Adapter \<Rightarrow> string \<Rightarrow> string list \<Rightarrow> 'w \<Rightarrow> string result \<times> 'w" where
  "nc_Exec rn a i command w =
     (if command = [] then (Inl (Errorf ''%s exec: command is required'' [AStr (nc_kind a)]), w)
      else rn_Stream rn (nc_binary a) (nc_command a ''exec'' [i] @ command) w)"

definition nc_Metrics :: "'f float_ops \<Rightarrow> 'f nc_lib \<Rightarrow> 'w Runner \<Rightarrow> nc_Adapter \<Rightarrow> string \<Rightarrow> 'w \<Rightarrow> 'f SandboxMetrics result option \<times> 'w" where
  "nc_Metrics fo lib rn a i w =
     (case nc_run rn a (nc_command a ''stats'' [''--format'', ''json'', ''--no-stream'', i]) w of
        (Inl err, w1) \<Rightarrow> (Some (Inl err), w1)
      | (Inr out, w1) \<Rightarrow> (case decodeMetrics fo (snd lib) out i of
          None \<Rightarrow> (None, w1)
        | Some (Inl err) \<Rightarrow> (Some (Inl (Errorf ''%s stats: %w'' [AStr (nc_kind a), AWrap err])), w1)
        | Some (Inr m) \<Rightarrow> (Some (Inr m), w1)))"

definition nc_port :: "'f nc_lib \<Rightarrow> 'w Runner \<Rightarrow> nc_Adapter \<Rightarrow> 'w SandboxPort" where
  "nc_port lib rn a = \<lparr>sp_Create = nc_Create lib rn a, sp_Start = nc_Start lib rn a, sp_Stop = nc_Stop rn a, sp_Delete = nc_Delete rn a,
     sp_List = nc_List lib rn a, sp_Get = nc_Get lib rn a, sp_Logs = nc_Logs rn a, sp_Exec = nc_Exec rn a, sp_PortForward = None\<rparr>"

section \<open>Arguments\<close>

lemma sortedKeys_perm: "mset m = mset m' \<Longrightarrow> sortedKeys m = sortedKeys m'"
  unfolding sortedKeys_def by (rule properties_for_sort) (simp_all add: mset_map [symmetric] del: mset_map, metis mset_map)

lemma map_value_perm: "go_map m \<Longrightarrow> mset m = mset m' \<Longrightarrow> map_value m = map_value m'"
proof -
  assume m: "go_map m" "mset m = mset m'"
  then have "go_map m'" "set m = set m'"
    by (auto simp: go_map_def dest: mset_eq_setD) (metis mset_eq_imp_distinct_iff mset_map)
  with m(1) have "map_of m = map_of m'" by (simp add: go_map_def map_of_inject_set)
  then show "map_value m = map_value m'" by (auto simp: map_value_def)
qed

text \<open>
  The command line of a create does not depend on the order in which Go iterates over the environment and the labels, and a
  validated configuration loses none of its mounts: each one is an argument of its own.
\<close>

lemma createArgs_canonical:
  assumes "go_map (sc_Environment cfg)" and "go_map (sc_Labels cfg)" and "mset (sc_Environment cfg) = mset environment" and "mset (sc_Labels cfg) = mset labels"
    and "validateConfig cfg = None" and "createArgs a cfg = Inr args"
  shows "createArgs a (cfg\<lparr>sc_Environment := environment, sc_Labels := labels\<rparr>) = Inr args \<and>
    list_all (\<lambda>m. \<exists>spec. mount_args m = [''--mount'', spec] \<and> spec \<in> set args) (sc_Mounts cfg)"
proof
  have "createArgs a (cfg\<lparr>sc_Environment := environment, sc_Labels := labels\<rparr>) = createArgs a cfg"
    by (simp add: createArgs_def sortedKeys_perm [OF assms(3)] sortedKeys_perm [OF assms(4)] map_value_perm [OF assms(1,3)] map_value_perm [OF assms(2,4)])
  with assms(6) show "createArgs a (cfg\<lparr>sc_Environment := environment, sc_Labels := labels\<rparr>) = Inr args" by simp
  have "\<exists>spec. mount_args m = [''--mount'', spec] \<and> spec \<in> set args" if m: "m \<in> set (sc_Mounts cfg)" for m
  proof -
    have "trimSpace [] = []" by code_simp
    then have "mnt_Source m \<noteq> []" "mnt_Target m \<noteq> []" using assms(5) m by (auto simp: validateConfig_def split: if_splits)
    then obtain spec where s: "mount_args m = [''--mount'', spec]" by (simp add: mount_args_def)
    then have "spec \<in> set (concat (map mount_args (sc_Mounts cfg)))" using m by force
    then have "spec \<in> set args" using assms(6) by (auto simp: createArgs_def simp del: set_concat split: if_splits)
    with s show ?thesis by blast
  qed
  then show "list_all (\<lambda>m. \<exists>spec. mount_args m = [''--mount'', spec] \<and> spec \<in> set args) (sc_Mounts cfg)" by (simp add: list_all_iff)
qed

section \<open>Documents\<close>

text \<open>The accessors do not see the order of the members when no two names differ in case only.\<close>

definition case_distinct :: "'f object \<Rightarrow> bool" where
  "case_distinct obj \<longleftrightarrow> distinct (map (toLower \<circ> fst) obj)"

lemma scan_members_eq:
  "case_distinct obj \<Longrightarrow> scan_members sel key obj = Some x \<longleftrightarrow> (\<exists>actual v. (actual, v) \<in> set obj \<and> equalFold actual key \<and> sel v = Some x)"
proof (induction obj)
  case (Cons m ms)
  obtain actual v where m: "m = (actual, v)" by fastforce
  have d: "case_distinct ms" and fresh: "toLower actual \<notin> toLower ` fst ` set ms" using Cons.prems by (auto simp: case_distinct_def m)
  have none: "\<not> equalFold actual' key" if "equalFold actual key" "(actual', v') \<in> set ms" for actual' v'
    using that fresh unfolding equalFold_def by (metis fst_conv image_eqI)
  have IH: "scan_members sel key ms = Some x \<longleftrightarrow> (\<exists>actual v. (actual, v) \<in> set ms \<and> equalFold actual key \<and> sel v = Some x)" by (rule Cons.IH [OF d])
  show ?case
  proof (cases "equalFold actual key")
    case True
    then have "scan_members sel key ms \<noteq> Some x" using IH none by blast
    with True none show ?thesis by (auto simp: m split: option.split)
  next
    case False
    with IH show ?thesis by (auto simp: m)
  qed
qed simp

lemma scan_keys_perm:
  assumes "case_distinct obj" and "mset obj = mset obj'"
  shows "scan_keys sel obj keys = scan_keys sel obj' keys"
proof -
  have d: "case_distinct obj'" using assms unfolding case_distinct_def by (metis mset_eq_imp_distinct_iff mset_map)
  have s: "set obj = set obj'" using assms(2) by (rule mset_eq_setD)
  have "scan_members sel key obj = Some x \<longleftrightarrow> scan_members sel key obj' = Some x" for key x
    by (simp add: scan_members_eq assms(1) d s)
  then have "scan_members sel key obj = scan_members sel key obj'" for key by (metis not_None_eq option.exhaust)
  then show ?thesis by (induction keys) (simp_all split: option.split)
qed

text \<open>
  Decoding an inspected container is deterministic for documents in which no two members of the container differ in letter case only: whatever order the
  members are iterated in, the sandbox is the same, and it carries an identifier and a name whenever either is given.
\<close>

lemma decode_order_insensitive:
  assumes "case_distinct obj" and "mset obj = mset obj'"
  shows "sandbox_of_object lib obj = sandbox_of_object lib obj' \<and>
    ((sb_ID (sandbox_of_object lib obj) = []) = (sb_Name (sandbox_of_object lib obj) = []))"
proof
  note perm = scan_keys_perm [OF assms]
  have "fieldString obj = fieldString obj'" "fieldObject obj = fieldObject obj'" "fieldMap obj = fieldMap obj'" "fieldArray obj = fieldArray obj'"
    by (auto simp: fieldString_def fieldObject_def fieldMap_def fieldArray_def perm)
  then show "sandbox_of_object lib obj = sandbox_of_object lib obj'" by (simp only: sandbox_of_object_def inspectIPAddress_def)
  show "(sb_ID (sandbox_of_object lib obj) = []) = (sb_Name (sandbox_of_object lib obj) = [])"
    by (simp add: sandbox_of_object_def Let_def)
qed

text \<open>With members that differ in case only, the result depends on the iteration order.\<close>

lemma decode_order_matters:
  "sb_ID (sandbox_of_object lib [(''id'', JString ''a''), (''ID'', JString ''b'')]) \<noteq> sb_ID (sandbox_of_object lib [(''ID'', JString ''b''), (''id'', JString ''a'')])"
proof -
  have "equalFold ''id'' ''id''" "equalFold ''ID'' ''id''" by code_simp+
  then show ?thesis by (simp add: sandbox_of_object_def Let_def fieldString_def as_string_def)
qed

section \<open>Metrics\<close>

lemma fields_from_nonempty: "acc \<noteq> [] \<Longrightarrow> fields_from acc s \<noteq> []"
  by (induction acc s rule: fields_from.induct) auto

lemma trimSpace_no_space: "space_len (trimSpace v) = 0"
proof -
  obtain k where "trimSpace v = take k (trimLeft v)" using trimRight_prefix [of "trimLeft v"] by (auto simp: trimSpace_def)
  then show ?thesis using space_len_take [OF trimLeft_stops] by simp
qed

text \<open>
  Reading a size panics exactly for the texts whose first character is a slash, such as \<open>/ 2GiB\<close>: the guard against an empty field comes
  after the index expression that fails.
\<close>

lemma parseBytes_panics_iff:
  "nc_parseBytes fo v = None \<longleftrightarrow> (\<exists>rest. trimSpace v = ''/'' @ rest)"
proof -
  let ?t = "trimSpace v"
  have fields: "strings_Fields (c # s) \<noteq> []" if "space_len (c # s) = 0" for c s
    using that fields_from_nonempty [of "[c]" s] by (simp add: strings_Fields_def)
  show ?thesis
  proof (cases ?t)
    case Nil
    then show ?thesis by (simp add: nc_parseBytes_def)
  next
    case (Cons c s)
    define before where "before = (case cut ?t (CHR ''/'') of None \<Rightarrow> ?t | Some (b, _) \<Rightarrow> b)"
    have p: "nc_parseBytes fo v = None \<longleftrightarrow> strings_Fields before = []"
      unfolding nc_parseBytes_def Let_def before_def [symmetric] using Cons by (simp split: list.split)
    have "\<exists>k. before = take k ?t"
    proof (cases "cut ?t (CHR ''/'')")
      case None
      then have "before = take (length ?t) ?t" by (simp add: before_def)
      then show ?thesis ..
    next
      case (Some bv)
      then obtain b v' where "cut ?t (CHR ''/'') = Some (b, v')" by (cases bv) auto
      then have "before = take (length b) ?t" using cut_SomeD by (fastforce simp: before_def)
      then show ?thesis ..
    qed
    then have "space_len before = 0" using space_len_take [OF trimSpace_no_space] by auto
    then have "strings_Fields before = [] \<longleftrightarrow> before = []" using fields by (cases before) (auto simp: strings_Fields_def)
    moreover have "before = [] \<longleftrightarrow> c = CHR ''/''" using Cons by (auto simp: before_def split: option.split)
    ultimately show ?thesis using p Cons by auto
  qed
qed

section \<open>The port\<close>

lemma decodeSandbox_not_nil: "decodeSandbox lib u out \<noteq> Inr None"
  by (simp add: decodeSandbox_def split: sum.split option.split)

lemma nc_Create_not_nil: "fst (nc_Create lib rn a cfg w) \<noteq> Inr None"
  by (auto simp: nc_Create_def nc_Get_def decodeSandbox_not_nil split: option.split sum.split prod.split)

interpretation containers: answering_port "nc_port lib rn a" for lib :: "'f nc_lib" and rn a
  by unfold_locales (simp add: nc_port_def nc_Create_not_nil)

end
