(* ===== verification/Validation.thy ===== *)
theory Validation
  imports Nvms_Config
begin

text \<open>
  The schema validator of configurations (\<open>pkg/validate/validate.go\<close>). Its regular expression is a value of \<open>rexp\<close> that is matched by
  derivatives. A message is the format and the arguments of the \<open>Sprintf\<close> that builds it.
\<close>

section \<open>Regular expressions\<close>

datatype rexp = Empty | Class "char \<Rightarrow> bool" | Cat rexp rexp | Opt rexp | Many rexp | Never

fun nullable :: "rexp \<Rightarrow> bool" where
  "nullable Empty = True"
| "nullable (Class P) = False"
| "nullable (Cat r s) = (nullable r \<and> nullable s)"
| "nullable (Opt r) = True"
| "nullable (Many r) = True"
| "nullable Never = False"

text \<open>What may follow a character: a list of alternatives.\<close>

fun after :: "char \<Rightarrow> rexp \<Rightarrow> rexp list" where
  "after c Empty = []"
| "after c (Class P) = (if P c then [Empty] else [])"
| "after c (Cat r s) = map (\<lambda>r'. Cat r' s) (after c r) @ (if nullable r then after c s else [])"
| "after c (Opt r) = after c r"
| "after c (Many r) = map (\<lambda>r'. Cat r' (Many r)) (after c r)"
| "after c Never = []"

fun matches :: "rexp list \<Rightarrow> string \<Rightarrow> bool" where
  "matches rs [] = list_ex nullable rs"
| "matches rs (c # s) = matches (concat (map (after c) rs)) s"

text \<open>The language of an expression.\<close>

inductive in_lang :: "rexp \<Rightarrow> string \<Rightarrow> bool" where
  empty: "in_lang Empty []"
| chars: "P c \<Longrightarrow> in_lang (Class P) [c]"
| cat: "in_lang r s \<Longrightarrow> in_lang q t \<Longrightarrow> in_lang (Cat r q) (s @ t)"
| opt_none: "in_lang (Opt r) []"
| opt_some: "in_lang r s \<Longrightarrow> in_lang (Opt r) s"
| many_none: "in_lang (Many r) []"
| many_some: "in_lang r s \<Longrightarrow> in_lang (Many r) t \<Longrightarrow> in_lang (Many r) (s @ t)"

inductive_cases in_lang_elims: "in_lang Empty s" "in_lang (Class P) s" "in_lang (Cat r q) s" "in_lang (Opt r) s" "in_lang Never s"
inductive_cases in_many: "in_lang (Many r) s"
inductive_simps in_lang_simps: "in_lang Empty s" "in_lang (Class P) s" "in_lang (Cat r q) s" "in_lang (Opt r) s" "in_lang Never s"

lemma cat_iff: "in_lang (Cat r q) s \<longleftrightarrow> (\<exists>u v. s = u @ v \<and> in_lang r u \<and> in_lang q v)"
  by (auto simp: in_lang_simps)

lemma class_cat_iff: "in_lang (Cat (Class P) q) s \<longleftrightarrow> (\<exists>c t. s = c # t \<and> P c \<and> in_lang q t)"
  by (auto simp: in_lang_simps) (metis append_Cons append_Nil)

lemma opt_iff: "in_lang (Opt r) s \<longleftrightarrow> s = [] \<or> in_lang r s"
  by (auto simp: in_lang_simps)

lemma nullable_iff: "nullable r \<longleftrightarrow> in_lang r []"
  by (induction r) (auto simp: in_lang_simps intro: in_lang.intros)

lemma in_many_Cons:
  assumes "in_lang (Many r) w" and "w = c # s"
  shows "\<exists>u v. s = u @ v \<and> in_lang r (c # u) \<and> in_lang (Many r) v"
  using assms
proof (induction "Many r" w arbitrary: s rule: in_lang.induct)
  case (many_some u v)
  then show ?case by (cases u) auto
qed simp

lemma after_iff: "in_lang r (c # s) \<longleftrightarrow> (\<exists>q \<in> set (after c r). in_lang q s)"
proof (induction r arbitrary: s)
  case (Class P)
  then show ?case by (auto simp: in_lang_simps)
next
  case (Cat r q)
  have "in_lang (Cat r q) (c # s) \<longleftrightarrow>
      (in_lang r [] \<and> in_lang q (c # s)) \<or> (\<exists>u v. s = u @ v \<and> in_lang r (c # u) \<and> in_lang q v)"
    by (auto simp: in_lang_simps Cons_eq_append_conv intro: in_lang.intros)
  also have "\<dots> \<longleftrightarrow> (\<exists>q' \<in> set (after c (Cat r q)). in_lang q' s)"
    unfolding Cat.IH nullable_iff [symmetric] by (cases "nullable r") (simp_all add: bex_Un cat_iff, blast+)
  finally show ?case .
next
  case (Many r)
  have "in_lang (Many r) (c # s) \<longleftrightarrow> (\<exists>u v. s = u @ v \<and> in_lang r (c # u) \<and> in_lang (Many r) v)"
    using in_many_Cons [OF _ refl] by (metis append_Cons in_lang.many_some)
  also have "\<dots> \<longleftrightarrow> (\<exists>q' \<in> set (after c (Many r)). in_lang q' s)" unfolding Many.IH by (simp add: cat_iff) blast
  finally show ?case .
qed (auto simp: in_lang_simps)

lemma matches_iff: "matches rs s \<longleftrightarrow> (\<exists>r \<in> set rs. in_lang r s)"
  by (induction rs s rule: matches.induct) (auto simp: list_ex_iff nullable_iff after_iff)

section \<open>Image references\<close>

definition is_alnum :: "char \<Rightarrow> bool" where
  "is_alnum c \<longleftrightarrow> 97 \<le> byte c \<and> byte c \<le> 122 \<or> 65 \<le> byte c \<and> byte c \<le> 90 \<or> is_digit c"

definition ref_char :: "char \<Rightarrow> bool" where
  "ref_char c \<longleftrightarrow> is_alnum c \<or> c = CHR ''.'' \<or> c = CHR ''_'' \<or> c = CHR ''-''"

definition one_or_more :: "rexp \<Rightarrow> rexp" where
  "one_or_more r = Cat r (Many r)"

definition imageRefPattern :: rexp where
  "imageRefPattern =
     Cat (Class is_alnum) (Cat (Many (Class ref_char)) (Cat (Many (Cat (Class ((=) (CHR ''/''))) (one_or_more (Class ref_char))))
       (Opt (Cat (Class ((=) (CHR '':''))) (one_or_more (Class ref_char))))))"

definition validateImageRef :: "string \<Rightarrow> go_error option" where
  "validateImageRef ref =
     (if ref = [] then Some (Errorf ''image reference is empty'' [])
      else if length ref > 255 then Some (Errorf ''image reference exceeds 255 characters'' [])
      else if \<not> matches [imageRefPattern] ref then Some (Errorf ''image reference contains invalid characters'' [])
      else None)"

lemma many_class: "in_lang (Many (Class P)) s \<longleftrightarrow> list_all P s"
proof
  show "in_lang (Many (Class P)) s \<Longrightarrow> list_all P s"
    by (induction "Many (Class P)" s rule: in_lang.induct) (auto elim: in_lang_elims)
  show "list_all P s \<Longrightarrow> in_lang (Many (Class P)) s"
  proof (induction s)
    case (Cons c s)
    then show ?case using in_lang.many_some [of "Class P" "[c]" s] in_lang.chars [of P c] by simp
  qed (rule in_lang.many_none)
qed

lemma one_or_more_class: "in_lang (one_or_more (Class P)) s \<longleftrightarrow> s \<noteq> [] \<and> list_all P s"
  by (cases s) (auto simp: one_or_more_def in_lang_simps many_class Cons_eq_append_conv intro: exI [of _ "[hd s]"])

text \<open>The parts after the first, each with its slash.\<close>

lemma many_parts:
  "in_lang (Many (Cat (Class ((=) d)) (one_or_more (Class P)))) s \<longleftrightarrow> (\<exists>ps. s = concat (map ((#) d) ps) \<and> list_all (\<lambda>p. p \<noteq> [] \<and> list_all P p) ps)"
proof
  assume "in_lang (Many (Cat (Class ((=) d)) (one_or_more (Class P)))) s"
  then show "\<exists>ps. s = concat (map ((#) d) ps) \<and> list_all (\<lambda>p. p \<noteq> [] \<and> list_all P p) ps"
  proof (induction "Many (Cat (Class ((=) d)) (one_or_more (Class P)))" s rule: in_lang.induct)
    case (many_some u v)
    then obtain ps where ps: "v = concat (map ((#) d) ps)" "list_all (\<lambda>p. p \<noteq> [] \<and> list_all P p) ps" by blast
    obtain p where "u = d # p" "p \<noteq> []" "list_all P p" using many_some(1) by (auto simp: in_lang_simps one_or_more_class)
    with ps show ?case by (intro exI [of _ "p # ps"]) simp
  qed (auto intro: exI [of _ "[]"])
next
  have part: "in_lang (Cat (Class ((=) d)) (one_or_more (Class P))) (d # p)" if "p \<noteq> []" "list_all P p" for p
    using in_lang.cat [OF in_lang.chars [of "(=) d" d] one_or_more_class [THEN iffD2], of p P] that by simp
  assume "\<exists>ps. s = concat (map ((#) d) ps) \<and> list_all (\<lambda>p. p \<noteq> [] \<and> list_all P p) ps"
  then obtain ps where "s = concat (map ((#) d) ps)" "list_all (\<lambda>p. p \<noteq> [] \<and> list_all P p) ps" by blast
  then show "in_lang (Many (Cat (Class ((=) d)) (one_or_more (Class P)))) s"
  proof (induction ps arbitrary: s)
    case Nil
    then show ?case by (simp add: in_lang.many_none)
  next
    case (Cons p ps)
    then show ?case using in_lang.many_some [OF part [of p] Cons.IH [OF refl]] by simp
  qed
qed

text \<open>
  The image references that \<open>validateImageRef\<close> accepts are the texts of at most 255 bytes that are a list of slash-separated parts, each a non-empty
  string of letters, digits, dots, underscores and dashes, the first one beginning with a letter or digit, and an optional tag of such characters after a colon: no option, no port and
  no digest passes.
\<close>

lemma validateImageRef_iff:
  "validateImageRef ref = None \<longleftrightarrow>
     length ref \<le> 255 \<and>
     (\<exists>c first parts tag. ref = c # first @ concat (map ((#) (CHR ''/'')) parts) @ tag \<and> is_alnum c \<and> list_all ref_char first \<and>
        list_all (\<lambda>p. p \<noteq> [] \<and> list_all ref_char p) parts \<and>
        (tag = [] \<or> (\<exists>t. tag = CHR '':'' # t \<and> t \<noteq> [] \<and> list_all ref_char t)))"
proof -
  have "in_lang imageRefPattern ref \<longleftrightarrow> (\<exists>c first parts tag. ref = c # first @ concat (map ((#) (CHR ''/'')) parts) @ tag \<and> is_alnum c \<and> list_all ref_char first \<and>
        list_all (\<lambda>p. p \<noteq> [] \<and> list_all ref_char p) parts \<and>
        (tag = [] \<or> (\<exists>t. tag = CHR '':'' # t \<and> t \<noteq> [] \<and> list_all ref_char t)))" (is "?l \<longleftrightarrow> ?r")
    unfolding imageRefPattern_def class_cat_iff cat_iff [of "Many (Class ref_char)"] cat_iff [of "Many r" for r] opt_iff many_class many_parts one_or_more_class
    by blast
  moreover have "validateImageRef ref = None \<longleftrightarrow> ref \<noteq> [] \<and> length ref \<le> 255 \<and> in_lang imageRefPattern ref"
    by (simp add: validateImageRef_def matches_iff)
  moreover have "ref \<noteq> []" if "in_lang imageRefPattern ref" using that by (auto simp: imageRefPattern_def class_cat_iff)
  ultimately show ?thesis by argo
qed

section \<open>The validator\<close>

record Schema =
  sch_RequiredFields :: "string list"
  sch_AllowedTiers :: "int list"
  sch_MinCPU :: int
  sch_MaxCPU :: int
  sch_MinMemory :: int
  sch_MaxMemory :: int
  sch_MinDisk :: int
  sch_MaxDisk :: int
  sch_AllowedImages :: "string list"

definition DefaultSchema :: Schema where
  "DefaultSchema = \<lparr>sch_RequiredFields = [''name'', ''image'', ''tier''], sch_AllowedTiers = [1, 2, 3], sch_MinCPU = 2, sch_MaxCPU = 64,
     sch_MinMemory = 64, sch_MaxMemory = 65536, sch_MinDisk = 0, sch_MaxDisk = 1048576, sch_AllowedImages = []\<rparr>"

record Validator =
  vd_schema :: Schema

definition NewValidator :: Validator where "NewValidator = \<lparr>vd_schema = DefaultSchema\<rparr>"

definition NewValidatorWithSchema :: "Schema \<Rightarrow> Validator" where "NewValidatorWithSchema schema = \<lparr>vd_schema = schema\<rparr>"

record Result =
  vr_Valid :: bool
  vr_Errors :: "go_error list"
  vr_Warnings :: "go_error list"

definition addError :: "go_error \<Rightarrow> Result \<Rightarrow> Result" where
  "addError msg r = r\<lparr>vr_Errors := vr_Errors r @ [msg]\<rparr>"

definition addWarning :: "go_error \<Rightarrow> Result \<Rightarrow> Result" where
  "addWarning msg r = r\<lparr>vr_Warnings := vr_Warnings r @ [msg]\<rparr>"

definition error_if :: "bool \<Rightarrow> go_error \<Rightarrow> Result \<Rightarrow> Result" where
  "error_if b msg r = (if b then addError msg r else r)"

definition required_field :: "NVMSConfig \<Rightarrow> string \<Rightarrow> Result \<Rightarrow> Result" where
  "required_field cfg field r =
     (if field = ''name'' then error_if (nc_Name cfg = []) (Errorf ''name is required'' []) r
      else if field = ''image'' then error_if (nc_Image cfg = []) (Errorf ''image is required'' []) r
      else if field = ''tier'' then error_if (nc_Tier cfg = 0) (Errorf ''tier is required'' []) r
      else r)"

definition check_image :: "Schema \<Rightarrow> string \<Rightarrow> Result \<Rightarrow> Result" where
  "check_image schema img r =
     (if img = [] then r
      else
        let r1 = (case validateImageRef img of Some err \<Rightarrow> addError (Errorf ''invalid image reference: %v'' [AErr err]) r | None \<Rightarrow> r)
        in if sch_AllowedImages schema \<noteq> [] \<and> img \<notin> set (sch_AllowedImages schema)
           then addWarning (Errorf ''image %s is not in the allowed list'' [AStr img]) r1 else r1)"

definition check_mount :: "nat \<times> Mount \<Rightarrow> Result \<Rightarrow> Result" where
  "check_mount im r =
     (case im of (i, m) \<Rightarrow>
        error_if (mnt_Target m = []) (Errorf ''mounts[%d].target is required'' [AInt (int i)])
          (error_if (mnt_Source m = []) (Errorf ''mounts[%d].source is required'' [AInt (int i)]) r))"

definition sandbox_types :: "string list" where
  "sandbox_types = [''vm'', ''container'', ''wasm'', ''process'', ''native'']"

definition validator_Validate :: "Validator \<Rightarrow> NVMSConfig \<Rightarrow> Result" where
  "validator_Validate v cfg =
     (let s = vd_schema v;
          r0 = \<lparr>vr_Valid = True, vr_Errors = [], vr_Warnings = []\<rparr>;
          r1 = fold (required_field cfg) (sch_RequiredFields s) r0;
          r2 = error_if (nc_Tier cfg \<notin> set (sch_AllowedTiers s))
                 (Errorf ''tier %d is not allowed; must be one of %v'' (AInt (nc_Tier cfg) # map AInt (sch_AllowedTiers s))) r1;
          r3 = error_if (nc_CPU cfg < sch_MinCPU s) (Errorf ''cpu must be at least %d'' [AInt (sch_MinCPU s)]) r2;
          r4 = error_if (nc_CPU cfg > sch_MaxCPU s) (Errorf ''cpu must be at most %d'' [AInt (sch_MaxCPU s)]) r3;
          r5 = error_if (nc_Memory cfg < sch_MinMemory s) (Errorf ''memory must be at least %d MB'' [AInt (sch_MinMemory s)]) r4;
          r6 = error_if (nc_Memory cfg > sch_MaxMemory s) (Errorf ''memory must be at most %d MB'' [AInt (sch_MaxMemory s)]) r5;
          r7 = error_if (nc_Disk cfg < sch_MinDisk s) (Errorf ''disk must be at least %d MB'' [AInt (sch_MinDisk s)]) r6;
          r8 = error_if (nc_Disk cfg > sch_MaxDisk s) (Errorf ''disk must be at most %d MB'' [AInt (sch_MaxDisk s)]) r7;
          r9 = check_image s (nc_Image cfg) r8;
          r10 = error_if (nc_SandboxType cfg \<noteq> [] \<and> nc_SandboxType cfg \<notin> set sandbox_types)
                 (Errorf ''sandbox type %s is not valid'' [AStr (nc_SandboxType cfg)]) r9;
          r11 = fold check_mount (enumerate 0 (nc_Mounts cfg)) r10
      in r11\<lparr>vr_Valid := (length (vr_Errors r11) = 0)\<rparr>)"

definition ValidateMinimal :: "NVMSConfig \<Rightarrow> Result" where
  "ValidateMinimal cfg =
     (let r1 = error_if (nc_Name cfg = []) (Errorf ''name is required'' []) \<lparr>vr_Valid = True, vr_Errors = [], vr_Warnings = []\<rparr>;
          r2 = error_if (nc_Image cfg = []) (Errorf ''image is required'' []) r1;
          r3 = error_if (nc_Tier cfg < 1 \<or> nc_Tier cfg > 3) (Errorf ''tier must be 1, 2, or 3'' []) r2
      in r3\<lparr>vr_Valid := (length (vr_Errors r3) = 0)\<rparr>)"

definition result_Error :: "Result \<Rightarrow> go_error" where
  "result_Error r =
     (if vr_Valid r then Errorf [] []
      else Errorf ''validation failed with %d errors: %s'' (AInt (int (length (vr_Errors r))) # map AErr (vr_Errors r)))"

subsection \<open>Both validators agree\<close>

lemma error_if_errors [simp]: "vr_Errors (error_if b msg r) = vr_Errors r @ (if b then [msg] else [])"
  by (simp add: error_if_def addError_def)

lemma check_image_errors: "vr_Errors (check_image s img r) = [] \<longleftrightarrow> vr_Errors r = [] \<and> (img = [] \<or> validateImageRef img = None)"
  by (auto simp: check_image_def Let_def addError_def addWarning_def split: option.split)

lemma check_mounts_errors:
  "vr_Errors (fold check_mount ims r) = [] \<longleftrightarrow> vr_Errors r = [] \<and> list_all (\<lambda>(i, m). mnt_Source m \<noteq> [] \<and> mnt_Target m \<noteq> []) ims"
proof -
  have step: "vr_Errors (check_mount im r) = [] \<longleftrightarrow> vr_Errors r = [] \<and> mnt_Source (snd im) \<noteq> [] \<and> mnt_Target (snd im) \<noteq> []" for im r
    by (simp add: check_mount_def case_prod_beta)
  show ?thesis by (induction ims arbitrary: r) (simp_all add: step case_prod_beta)
qed

text \<open>
  C25. The default schema refines the validation of the loader: a configuration is valid under it exactly when \<open>NVMSConfig.Validate\<close> accepts it and, in addition, memory and disk are within the
  schema's limits, the image is a well-formed reference, the sandbox type is empty or known and no mount lacks its source or target. What is valid
  also passes the minimal check.
\<close>

theorem default_schema_refines:
  "vr_Valid (validator_Validate NewValidator cfg) =
     (config_Validate cfg = None \<and> nc_Memory cfg \<le> 65536 \<and> 0 \<le> nc_Disk cfg \<and> nc_Disk cfg \<le> 1048576 \<and> validateImageRef (nc_Image cfg) = None \<and>
      nc_SandboxType cfg \<in> set ([] # sandbox_types) \<and> list_all (\<lambda>m. mnt_Source m \<noteq> [] \<and> mnt_Target m \<noteq> []) (nc_Mounts cfg)) \<and>
   (if vr_Valid (validator_Validate NewValidator cfg) then vr_Valid (ValidateMinimal cfg) else True)"
proof -
  have mounts: "list_all (\<lambda>(i, m). mnt_Source m \<noteq> [] \<and> mnt_Target m \<noteq> []) (enumerate 0 (nc_Mounts cfg)) \<longleftrightarrow>
      list_all (\<lambda>m. mnt_Source m \<noteq> [] \<and> mnt_Target m \<noteq> []) (nc_Mounts cfg)"
    by (auto simp: list_all_length nth_enumerate_eq)
  have tier: "nc_Tier cfg \<in> set [1, 2, 3] \<longleftrightarrow> 1 \<le> nc_Tier cfg \<and> nc_Tier cfg \<le> 3" by auto
  have "vr_Valid (validator_Validate NewValidator cfg) \<longleftrightarrow>
     nc_Name cfg \<noteq> [] \<and> nc_Image cfg \<noteq> [] \<and> nc_Tier cfg \<noteq> 0 \<and> nc_Tier cfg \<in> set [1, 2, 3] \<and> 2 \<le> nc_CPU cfg \<and> nc_CPU cfg \<le> 64 \<and>
     64 \<le> nc_Memory cfg \<and> nc_Memory cfg \<le> 65536 \<and> 0 \<le> nc_Disk cfg \<and> nc_Disk cfg \<le> 1048576 \<and> validateImageRef (nc_Image cfg) = None \<and>
     nc_SandboxType cfg \<in> set ([] # sandbox_types) \<and> list_all (\<lambda>m. mnt_Source m \<noteq> [] \<and> mnt_Target m \<noteq> []) (nc_Mounts cfg)"
    unfolding validator_Validate_def Let_def NewValidator_def DefaultSchema_def
    by (simp add: check_mounts_errors check_image_errors required_field_def mounts)
  moreover have "config_Validate cfg = None \<longleftrightarrow> nc_Name cfg \<noteq> [] \<and> nc_Image cfg \<noteq> [] \<and> 1 \<le> nc_Tier cfg \<and> nc_Tier cfg \<le> 3 \<and>
      2 \<le> nc_CPU cfg \<and> nc_CPU cfg \<le> 64 \<and> 64 \<le> nc_Memory cfg"
    by (auto simp: config_Validate_def)
  moreover have "vr_Valid (ValidateMinimal cfg) \<longleftrightarrow> nc_Name cfg \<noteq> [] \<and> nc_Image cfg \<noteq> [] \<and> 1 \<le> nc_Tier cfg \<and> nc_Tier cfg \<le> 3"
    by (auto simp: ValidateMinimal_def Let_def)
  ultimately show ?thesis using tier by auto
qed

end
