(* ===== verification/Host.thy ===== *)
theory Host
  imports Sandbox_Ports
begin

text \<open>
  The host as the adapters see it: programs on the search path, files, environment variables, and commands that run in a
  world of type \<open>'w\<close>. A command is its argument vector with the program first. Everything here is a parameter of the
  adapters, one field per function of the Go library (\<open>os\<close>, \<open>os/exec\<close>, \<open>time\<close>) that they call.
\<close>

record 'w host =
  ho_GOOS :: string
  ho_LookupEnv :: "string \<Rightarrow> string option"
  ho_Now :: "'w \<Rightarrow> time"
  ho_LookPath :: "string \<Rightarrow> 'w \<Rightarrow> string result"
  ho_Stat :: "string \<Rightarrow> 'w \<Rightarrow> go_error option"
  ho_OpenRW :: "string \<Rightarrow> 'w \<Rightarrow> go_error option" \<comment> \<open>\<open>OpenFile\<close> for reading and writing, closed again\<close>
  ho_Open :: "string \<Rightarrow> 'w \<Rightarrow> go_error option"
  ho_FileSize :: "string \<Rightarrow> 'w \<Rightarrow> int result" \<comment> \<open>\<open>Stat\<close> of the open file\<close>
  ho_ReadFile :: "string \<Rightarrow> 'w \<Rightarrow> string result"
  ho_Output :: "string list \<Rightarrow> 'w \<Rightarrow> (string \<times> go_error option) \<times> 'w"
  ho_CombinedOutput :: "string list \<Rightarrow> 'w \<Rightarrow> (string \<times> go_error option) \<times> 'w"
  ho_CombinedOutputWithin :: "int \<Rightarrow> string list \<Rightarrow> 'w \<Rightarrow> ((string \<times> go_error option) \<times> bool) \<times> 'w"
    \<comment> \<open>under a deadline in seconds, with whether the context has ended\<close>
  ho_Run :: "string list \<Rightarrow> 'w \<Rightarrow> go_error option \<times> 'w"
  ho_Start :: "string list \<Rightarrow> 'w \<Rightarrow> int result \<times> 'w" \<comment> \<open>the process identifier\<close>
  ho_StdoutPipe :: "string list \<Rightarrow> 'w \<Rightarrow> go_error option"
  ho_Stream :: "string list \<Rightarrow> 'w \<Rightarrow> string result \<times> 'w" \<comment> \<open>\<open>Start\<close> with a pipe, and what the pipe yields\<close>

definition Getenv :: "'w host \<Rightarrow> string \<Rightarrow> string" where
  "Getenv h name = (case ho_LookupEnv h name of None \<Rightarrow> [] | Some v \<Rightarrow> v)"

text \<open>The first of several programs that is on the search path.\<close>

fun first_on_path :: "'w host \<Rightarrow> string list \<Rightarrow> 'w \<Rightarrow> string option" where
  "first_on_path h [] w = None"
| "first_on_path h (p # ps) w = (case ho_LookPath h p w of Inr found \<Rightarrow> Some found | Inl _ \<Rightarrow> first_on_path h ps w)"

text \<open>A pipe on the standard output of a command, with the error texts of its two failures.\<close>

definition stream_command :: "'w host \<Rightarrow> string \<Rightarrow> string list \<Rightarrow> 'w \<Rightarrow> string result \<times> 'w" where
  "stream_command h failed argv w =
     (case ho_StdoutPipe h argv w of
        Some err \<Rightarrow> (Inl (Errorf ''failed to pipe stdout: %w'' [AWrap err]), w)
      | None \<Rightarrow> (case ho_Stream h argv w of
          (Inl err, w1) \<Rightarrow> (Inl (Errorf failed [AWrap err]), w1)
        | (Inr out, w1) \<Rightarrow> (Inr out, w1)))"

text \<open>
  A host for examples: its world is the log of the commands that ran, every program is on the path, every command
  succeeds with the output \<open>out\<close>.
\<close>

definition logging_host :: "string \<Rightarrow> string \<Rightarrow> string list list host" where
  "logging_host goos out = \<lparr>ho_GOOS = goos, ho_LookupEnv = (\<lambda>_. None), ho_Now = (\<lambda>_. 0), ho_LookPath = (\<lambda>p _. Inr (''/bin/'' @ p)),
     ho_Stat = (\<lambda>_ _. None), ho_OpenRW = (\<lambda>_ _. None), ho_Open = (\<lambda>_ _. None), ho_FileSize = (\<lambda>_ _. Inr 0), ho_ReadFile = (\<lambda>_ _. Inr out),
     ho_Output = (\<lambda>argv w. ((out, None), w @ [argv])),
     ho_CombinedOutput = (\<lambda>argv w. ((out, None), w @ [argv])), ho_CombinedOutputWithin = (\<lambda>_ argv w. (((out, None), False), w @ [argv])),
     ho_Run = (\<lambda>argv w. (None, w @ [argv])), ho_Start = (\<lambda>argv w. (Inr 42, w @ [argv])), ho_StdoutPipe = (\<lambda>_ _. None),
     ho_Stream = (\<lambda>argv w. (Inr out, w @ [argv]))\<rparr>"

end
