(* ===== verification/Platform_Adapters.thy ===== *)
theory Platform_Adapters
  imports Host
begin

text \<open>
  The adapters of Linux and macOS hosts: \<open>internal/adapters/linux\<close> (namespaces, microVMs, Wasm) and \<open>internal/adapters/mac\<close>
  (lima or colima, HyperKit, Firecracker). They keep no
  state; an operation is the commands it runs in the world of the host. Streams that are handed through to a command are
  part of the world.
\<close>

section \<open>Linux\<close>

datatype linux_type = Native | MicroVM | WASM | OtherType int

record linux_Adapter =
  la_sandboxType :: linux_type
  la_rootless :: bool

definition linux_New :: "linux_type \<Rightarrow> bool \<Rightarrow> linux_Adapter" where
  "linux_New sandboxType rootless = \<lparr>la_sandboxType = sandboxType, la_rootless = rootless\<rparr>"

definition linux_Name :: "linux_Adapter \<Rightarrow> string" where
  "linux_Name a = (case la_sandboxType a of
     Native \<Rightarrow> if la_rootless a then ''linux-rootless'' else ''linux-native''
   | MicroVM \<Rightarrow> ''linux-microvm'' | WASM \<Rightarrow> ''linux-wasm'' | OtherType _ \<Rightarrow> ''linux-unknown'')"

definition initializeNative :: "'w host \<Rightarrow> 'w \<Rightarrow> go_error option" where
  "initializeNative h w =
     checkE (\<lambda>tool. case ho_LookPath h tool w of
         Inl err \<Rightarrow> Some (Errorf ''required tool %s not found: %w'' [AStr tool, AWrap err]) | Inr _ \<Rightarrow> None) [''ip'', ''unshare'', ''mount'']"

definition initializeMicroVM :: "'w host \<Rightarrow> 'w \<Rightarrow> go_error option" where
  "initializeMicroVM h w =
     (case (ho_LookPath h ''firecracker'' w, ho_LookPath h ''cloud-hypervisor'' w) of
        (Inl _, Inl _) \<Rightarrow> Some (Errorf ''neither firecracker nor cloud-hypervisor found'' []) | _ \<Rightarrow> None)"

definition initializeWASM :: "'w host \<Rightarrow> 'w \<Rightarrow> go_error option" where
  "initializeWASM h w = (case ho_LookPath h ''wasmtime'' w of Inl err \<Rightarrow> Some (Errorf ''wasmtime not found: %w'' [AWrap err]) | Inr _ \<Rightarrow> None)"

definition Initialize :: "'w host \<Rightarrow> linux_Adapter \<Rightarrow> 'w \<Rightarrow> go_error option" where
  "Initialize h a w = (case la_sandboxType a of
     Native \<Rightarrow> initializeNative h w | MicroVM \<Rightarrow> initializeMicroVM h w | WASM \<Rightarrow> initializeWASM h w | OtherType _ \<Rightarrow> None)"

text \<open>The configuration is a string; another type panics.\<close>

definition createNative :: "'w host \<Rightarrow> linux_Adapter \<Rightarrow> string \<Rightarrow> 'w \<Rightarrow> string result \<times> 'w" where
  "createNative h a config w =
     (let name = ''devenv-'' @ config in
      if \<not> la_rootless a then
        (case ho_Start h [''unshare'', ''--mount'', ''--ipc'', ''--pid'', ''--fork'', ''bash'', ''-c'', ''sleep infinity''] w of
           (Inl err, w1) \<Rightarrow> (Inl (Errorf ''failed to create namespace: %w'' [AWrap err]), w1)
         | (Inr _, w1) \<Rightarrow> (Inr name, w1))
      else
        (case ho_Start h [''unshare'', ''--user'', ''--map-root-user'', ''sleep'', ''infinity''] w of
           (Inl err, w1) \<Rightarrow> (Inl (Errorf ''failed to create user namespace: %w'' [AWrap err]), w1)
         | (Inr _, w1) \<Rightarrow> (Inr name, w1)))"

definition createMicroVM :: "'w host \<Rightarrow> string \<Rightarrow> 'w \<Rightarrow> string result \<times> 'w" where
  "createMicroVM h config w =
     (case first_on_path h [''firecracker'', ''cloud-hypervisor''] w of
        None \<Rightarrow> (Inl (Errorf ''no microVM hypervisor found'' []), w)
      | Some _ \<Rightarrow> (Inr (''devenv-microvm-'' @ config), w))"

definition createWASM :: "string \<Rightarrow> 'w \<Rightarrow> string result \<times> 'w" where
  "createWASM config w = (Inr (''devenv-wasm-'' @ config), w)"

abbreviation unsupported_type :: go_error where "unsupported_type \<equiv> Errorf ''unsupported sandbox type'' []"

definition linux_Create :: "'w host \<Rightarrow> linux_Adapter \<Rightarrow> string \<Rightarrow> 'w \<Rightarrow> string result \<times> 'w" where
  "linux_Create h a config w = (case la_sandboxType a of
     Native \<Rightarrow> createNative h a config w | MicroVM \<Rightarrow> createMicroVM h config w | WASM \<Rightarrow> createWASM config w
   | OtherType _ \<Rightarrow> (Inl unsupported_type, w))"

text \<open>\<open>startMicroVM\<close> does nothing.\<close>

definition linux_Start :: "linux_Adapter \<Rightarrow> string \<Rightarrow> 'w \<Rightarrow> go_error option \<times> 'w" where
  "linux_Start a i w = (case la_sandboxType a of OtherType _ \<Rightarrow> (Some unsupported_type, w) | _ \<Rightarrow> (None, w))"

definition stopMicroVM :: "'w host \<Rightarrow> string \<Rightarrow> 'w \<Rightarrow> go_error option \<times> 'w" where
  "stopMicroVM h i = ho_Run h [''pkill'', ''-f'', i]"

definition linux_Stop :: "'w host \<Rightarrow> linux_Adapter \<Rightarrow> string \<Rightarrow> 'w \<Rightarrow> go_error option \<times> 'w" where
  "linux_Stop h a i w = (case la_sandboxType a of
     Native \<Rightarrow> ho_Run h [''pkill'', ''-f'', i] w | MicroVM \<Rightarrow> stopMicroVM h i w | WASM \<Rightarrow> (None, w)
   | OtherType _ \<Rightarrow> (Some unsupported_type, w))"

definition linux_Delete :: "'w host \<Rightarrow> linux_Adapter \<Rightarrow> string \<Rightarrow> 'w \<Rightarrow> go_error option \<times> 'w" where
  "linux_Delete h a i w = linux_Stop h a i w"

definition execNative :: "'w host \<Rightarrow> string \<Rightarrow> string list \<Rightarrow> 'w \<Rightarrow> go_error option \<times> 'w" where
  "execNative h i cmd w =
     (case cmd of
        [] \<Rightarrow> (Some (Errorf ''no command provided'' []), w)
      | c # cs \<Rightarrow>
          if hasPrefix i ''devenv-wasm-'' then ho_Run h ([''wasmtime'', ''--dir'', ''/''] @ cmd) w
          else if contains i ''devenv-'' then
            ho_Run h ([''unshare'', ''--user'', ''--map-root-user'', ''--mount'', ''--ipc'', ''--pid'', ''--fork'', c] @ cs) w
          else ho_Run h (c # cs) w)"

definition execMicroVM :: "'w host \<Rightarrow> string \<Rightarrow> string list \<Rightarrow> 'w \<Rightarrow> go_error option \<times> 'w" where
  "execMicroVM h i cmd w = (case cmd of [] \<Rightarrow> (Some (Errorf ''no command provided for microVM'' []), w) | _ # _ \<Rightarrow> ho_Run h cmd w)"

definition execWASM :: "'w host \<Rightarrow> string \<Rightarrow> string list \<Rightarrow> 'w \<Rightarrow> go_error option \<times> 'w" where
  "execWASM h i cmd = ho_Run h (''wasmtime'' # cmd)"

definition linux_Exec :: "'w host \<Rightarrow> linux_Adapter \<Rightarrow> string \<Rightarrow> string list \<Rightarrow> 'w \<Rightarrow> go_error option \<times> 'w" where
  "linux_Exec h a i cmd w = (case la_sandboxType a of
     Native \<Rightarrow> execNative h i cmd w | MicroVM \<Rightarrow> execMicroVM h i cmd w | WASM \<Rightarrow> execWASM h i cmd w
   | OtherType _ \<Rightarrow> (Some unsupported_type, w))"

definition linux_Pull :: "string \<Rightarrow> go_error option" where "linux_Pull img = None"
definition linux_ListImages :: "string list" where "linux_ListImages = []"

definition ApplySandboxProfile :: "string \<Rightarrow> string \<Rightarrow> go_error option" where
  "ApplySandboxProfile i profile = Some (Errorf ''seccomp profile application not yet implemented (profile=%s)'' [AStr profile])"

section \<open>macOS\<close>

record mac_Adapter =
  ma_limaPath :: string
  ma_hyperkitPath :: string
  ma_firecrackerPath :: string

definition path_or_empty :: "'w host \<Rightarrow> string list \<Rightarrow> 'w \<Rightarrow> string" where
  "path_or_empty h progs w = (case first_on_path h progs w of Some p \<Rightarrow> p | None \<Rightarrow> [])"

definition mac_NewAdapter :: "'w host \<Rightarrow> 'w \<Rightarrow> mac_Adapter result" where
  "mac_NewAdapter h w =
     (let a = \<lparr>ma_limaPath = path_or_empty h [''limactl'', ''colima''] w, ma_hyperkitPath = path_or_empty h [''hyperkit''] w,
               ma_firecrackerPath = path_or_empty h [''firecracker''] w\<rparr> in
      if ma_limaPath a = [] \<and> ma_hyperkitPath a = [] \<and> ma_firecrackerPath a = []
      then Inl (Errorf ''no macOS runtime found: install lima/colima, hyperkit, or firecracker'' []) else Inr a)"

definition mac_Name :: "mac_Adapter \<Rightarrow> string" where
  "mac_Name a =
     (if ma_firecrackerPath a \<noteq> [] then ''firecracker''
      else if ma_hyperkitPath a \<noteq> [] then ''hyperkit''
      else if ma_limaPath a \<noteq> [] then (if contains (ma_limaPath a) ''colima'' then ''colima'' else ''lima'')
      else ''unknown'')"

definition VMTierNative :: string where "VMTierNative = ''native''"
definition VMTierLimaVZ :: string where "VMTierLimaVZ = ''lima''"
definition VMTierMicroVM :: string where "VMTierMicroVM = ''microvm''"

definition SupportedTiers :: "mac_Adapter \<Rightarrow> string list" where
  "SupportedTiers a = (if ma_hyperkitPath a \<noteq> [] then [VMTierNative] else []) @ (if ma_limaPath a \<noteq> [] then [VMTierLimaVZ] else []) @
     (if ma_firecrackerPath a \<noteq> [] then [VMTierMicroVM] else [])"

text \<open>The downloads of the two installers go to the output of the command and no further.\<close>

definition applySandboxLayer :: "'w host \<Rightarrow> mac_Adapter \<Rightarrow> string \<Rightarrow> string \<Rightarrow> 'w \<Rightarrow> go_error option \<times> 'w" where
  "applySandboxLayer h a i layer w =
     (if layer = ''gvisor'' then
        (case ho_Run h [''which'', ''runsc''] w of
           (None, w1) \<Rightarrow> (None, w1)
         | (Some _, w1) \<Rightarrow> (case ho_Run h [''curl'', ''-fsSL'', ''https://gvisor.dev/install.sh''] w1 of
             (Some err, w2) \<Rightarrow> (Some (Errorf ''failed to install gVisor: %w'' [AWrap err]), w2)
           | (None, w2) \<Rightarrow> (None, w2)))
      else if layer = ''sRAMP'' then ho_Run h [ma_limaPath a, ''shell'', i, ''sysctl'', ''-w'', ''kernel.yama.ptrace_scope=2''] w
      else if layer = ''wasmtime'' then
        (case ho_Run h [''which'', ''wasmtime''] w of
           (None, w1) \<Rightarrow> (None, w1)
         | (Some _, w1) \<Rightarrow> ho_Run h [''curl'', ''-fsSL'', ''https://wasmtime.dev/install.sh''] w1)
      else if layer = [] then (None, w)
      else (Some (Errorf ''unsupported sandbox layer: %s'' [AStr layer]), w))"

definition mac_create_command :: "mac_Adapter \<Rightarrow> string \<Rightarrow> string \<Rightarrow> string list result" where
  "mac_create_command a tier name =
     (if tier = VMTierNative then
        (if ma_hyperkitPath a = [] then Inl (Errorf ''hyperkit not available'' [])
         else Inr [ma_hyperkitPath a, ''create'', ''--config'', ''/tmp/'' @ name @ ''.json''])
      else if tier = VMTierMicroVM then
        (if ma_firecrackerPath a = [] then Inl (Errorf ''firecracker not available'' [])
         else Inr [ma_firecrackerPath a, ''--config'', ''/tmp/'' @ name @ ''.json''])
      else if ma_limaPath a = [] then Inl (Errorf ''lima/colima not available'' [])
      else Inr [ma_limaPath a, ''create'', name, ''--tty=false'', ''--vm-type=vz'', ''--volumes-from=devenv-templates''])"

definition mac_Create :: "'w host \<Rightarrow> mac_Adapter \<Rightarrow> SandboxConfig \<Rightarrow> 'w \<times> nat \<Rightarrow> Sandbox result \<times> 'w \<times> nat" where
  "mac_Create h a config st =
     (let (w, counter) = st;
          (name, counter1) = (if sc_Name config = [] then (case GenerateID counter of (i, c) \<Rightarrow> (''devenv-'' @ i, c)) else (sc_Name config, counter)) in
      (case mac_create_command a (sc_VMTier config) name of
         Inl err \<Rightarrow> (Inl err, w, counter1)
       | Inr argv \<Rightarrow> (case ho_Run h argv w of
           (Some err, w1) \<Rightarrow> (Inl (Errorf ''create failed: %w'' [AWrap err]), w1, counter1)
         | (None, w1) \<Rightarrow>
             (case (if sc_SandboxLayer config \<noteq> [] then applySandboxLayer h a name (sc_SandboxLayer config) w1 else (None, w1)) of
                (Some err, w2) \<Rightarrow> (Inl (Errorf ''failed to apply sandbox layer: %w'' [AWrap err]), w2, counter1)
              | (None, w2) \<Rightarrow> (Inr (zero_Sandbox\<lparr>sb_ID := name, sb_Name := name, sb_Status := ''created'', sb_Config := Some config,
                  sb_VMTier := sc_VMTier config, sb_SandboxLayer := sc_SandboxLayer config\<rparr>), w2, counter1)))))"

definition mac_Start :: "'w host \<Rightarrow> mac_Adapter \<Rightarrow> string \<Rightarrow> 'w \<Rightarrow> go_error option \<times> 'w" where
  "mac_Start h a i =
     (if mac_Name a = ''firecracker'' then ho_Run h [ma_firecrackerPath a, ''--api-sock'', ''/tmp/'' @ i @ ''.sock'']
      else if mac_Name a = ''hyperkit'' then ho_Run h [ma_hyperkitPath a, ''start'', i]
      else ho_Run h [ma_limaPath a, ''start'', i])"

definition mac_Stop :: "'w host \<Rightarrow> mac_Adapter \<Rightarrow> string \<Rightarrow> 'w \<Rightarrow> go_error option \<times> 'w" where
  "mac_Stop h a i =
     (if mac_Name a = ''firecracker'' then ho_Run h [''curl'', ''-X'', ''PUT'', ''--unix-socket'', ''/tmp/'' @ i @ ''.sock'', ''http://localhost/actions'']
      else if mac_Name a = ''hyperkit'' then ho_Run h [ma_hyperkitPath a, ''stop'', i]
      else ho_Run h [ma_limaPath a, ''stop'', i])"

definition mac_Delete :: "'w host \<Rightarrow> mac_Adapter \<Rightarrow> string \<Rightarrow> 'w \<Rightarrow> go_error option \<times> 'w" where
  "mac_Delete h a i =
     (if mac_Name a = ''firecracker'' then ho_Run h [ma_hyperkitPath a, ''delete'', i]
      else if mac_Name a = ''hyperkit'' then ho_Run h [ma_hyperkitPath a, ''delete'', i]
      else ho_Run h [ma_limaPath a, ''delete'', i, ''--force''])"

definition ParseStatus :: "string \<Rightarrow> string" where
  "ParseStatus s = (if s = ''created'' \<or> s = ''starting'' \<or> s = ''running'' \<or> s = ''stopping'' \<or> s = ''stopped'' \<or> s = ''failed'' then s else ''unknown'')"

text \<open>\<open>json.Unmarshal\<close> of the list gives names and states.\<close>

definition lima_list :: "'w host \<Rightarrow> (string \<Rightarrow> (string \<times> string) list result) \<Rightarrow> mac_Adapter \<Rightarrow> 'w \<Rightarrow> (string \<times> string) list result \<times> 'w" where
  "lima_list h unmarshal a w =
     (case ho_Output h [ma_limaPath a, ''list'', ''--json''] w of
        ((_, Some err), w1) \<Rightarrow> (Inl err, w1) | ((out, None), w1) \<Rightarrow> (unmarshal out, w1))"

definition mac_Status :: "'w host \<Rightarrow> (string \<Rightarrow> (string \<times> string) list result) \<Rightarrow> mac_Adapter \<Rightarrow> string \<Rightarrow> 'w \<Rightarrow> (string \<times> go_error option) \<times> 'w" where
  "mac_Status h unmarshal a i w =
     (if mac_Name a = ''firecracker'' then
        (case ho_Run h [''curl'', ''-S'', ''--unix-socket'', ''/tmp/'' @ i @ ''.sock'', ''http://localhost/''] w of
           (Some err, w1) \<Rightarrow> ((''unknown'', Some err), w1) | (None, w1) \<Rightarrow> ((''running'', None), w1))
      else if mac_Name a = ''hyperkit'' then
        (case ho_Run h [ma_hyperkitPath a, ''status'', i] w of
           (Some err, w1) \<Rightarrow> ((''stopped'', None), w1) | (None, w1) \<Rightarrow> ((''running'', None), w1))
      else
        (case lima_list h unmarshal a w of
           (Inl err, w1) \<Rightarrow> ((''unknown'', Some err), w1)
         | (Inr vms, w1) \<Rightarrow>
             ((case find (\<lambda>vm. fst vm = i) vms of
                 Some vm \<Rightarrow> (ParseStatus (snd vm), None) | None \<Rightarrow> (''unknown'', Some (Errorf ''sandbox not found: %s'' [AStr i]))), w1)))"

definition mac_Exec :: "'w host \<Rightarrow> mac_Adapter \<Rightarrow> string \<Rightarrow> string list \<Rightarrow> 'w \<Rightarrow> go_error option \<times> 'w" where
  "mac_Exec h a i cmd w =
     (case cmd of
        [] \<Rightarrow> (Some (Errorf ''no command provided for exec'' []), w)
      | c # cs \<Rightarrow>
          if mac_Name a = ''firecracker'' then
            ho_Run h ([''ssh'', ''-o'', ''StrictHostKeyChecking=no'', ''-o'', ''UserKnownHostsFile=/dev/null'', ''root@localhost'', ''-p'', ''22'', c] @ cs) w
          else if mac_Name a = ''hyperkit'' then ho_Run h ([ma_hyperkitPath a, ''exec'', i, ''--''] @ cmd) w
          else ho_Run h ([ma_limaPath a, ''shell'', i] @ cmd) w)"

definition mac_Pull :: "string \<Rightarrow> go_error option" where "mac_Pull img = None"

definition listed :: "string \<Rightarrow> string \<Rightarrow> Sandbox" where
  "listed name status = zero_Sandbox\<lparr>sb_ID := name, sb_Name := name, sb_Status := status\<rparr>"

definition listLimaVMs :: "'w host \<Rightarrow> (string \<Rightarrow> (string \<times> string) list result) \<Rightarrow> mac_Adapter \<Rightarrow> 'w \<Rightarrow> Sandbox list result \<times> 'w" where
  "listLimaVMs h unmarshal a w =
     (case lima_list h unmarshal a w of
        (Inl err, w1) \<Rightarrow> (Inl err, w1) | (Inr vms, w1) \<Rightarrow> (Inr (map (\<lambda>(n, st). listed n (ParseStatus st)) vms), w1))"

definition hyperkit_line :: "string \<Rightarrow> Sandbox list" where
  "hyperkit_line line =
     (if hasPrefix line ''VM:'' then (let parts = split_on line (CHR '' '') in if length parts \<ge> 2 then [listed (parts ! 1) ''running''] else []) else [])"

definition listHyperKitVMs :: "'w host \<Rightarrow> mac_Adapter \<Rightarrow> 'w \<Rightarrow> Sandbox list result \<times> 'w" where
  "listHyperKitVMs h a w =
     (case ho_Output h [ma_hyperkitPath a, ''list''] w of
        ((_, Some err), w1) \<Rightarrow> (Inl err, w1) | ((out, None), w1) \<Rightarrow> (Inr (concat (map hyperkit_line (split_on out (CHR 0x0A)))), w1))"

definition socket_line :: "string \<Rightarrow> Sandbox list" where
  "socket_line sock = (if hasSuffix sock ''.sock'' then [listed (trimSuffix sock ''.sock'') ''running''] else [])"

definition listFirecrackerVMs :: "'w host \<Rightarrow> 'w \<Rightarrow> Sandbox list result \<times> 'w" where
  "listFirecrackerVMs h w =
     (case ho_Output h [''ls'', ''/var/run/firecracker/''] w of
        ((_, Some err), w1) \<Rightarrow> (Inr [], w1) | ((out, None), w1) \<Rightarrow> (Inr (concat (map socket_line (split_on out (CHR 0x0A)))), w1))"

definition mac_List :: "'w host \<Rightarrow> (string \<Rightarrow> (string \<times> string) list result) \<Rightarrow> mac_Adapter \<Rightarrow> 'w \<Rightarrow> Sandbox list result \<times> 'w" where
  "mac_List h unmarshal a =
     (if mac_Name a = ''firecracker'' then listFirecrackerVMs h else if mac_Name a = ''hyperkit'' then listHyperKitVMs h a else listLimaVMs h unmarshal a)"

section \<open>Sandboxes over their life\<close>

text \<open>
  A host whose world is the command lines that are running: \<open>Start\<close> adds one, \<open>pkill -f\<close> ends those that contain its pattern and fails
  when there is none, other commands end at once.
\<close>

definition cmdline :: "string list \<Rightarrow> string" where
  "cmdline argv = concat (map (\<lambda>a. a @ '' '') argv)"

definition pkill :: "string \<Rightarrow> string list list \<Rightarrow> go_error option \<times> string list list" where
  "pkill pattern running =
     (let rest = filter (\<lambda>argv. \<not> contains (cmdline argv) pattern) running in
      (if rest = running then Some (Errorf ''exit status 1'' []) else None, rest))"

definition process_host :: "string list list host" where
  "process_host = (logging_host ''linux'' [])\<lparr>
     ho_Start := \<lambda>argv w. (Inr 42, w @ [argv]),
     ho_Run := \<lambda>argv w. (case argv of [prog, flag, pattern] \<Rightarrow> if prog = ''pkill'' \<and> flag = ''-f'' then pkill pattern w else (None, w) | _ \<Rightarrow> (None, w))\<rparr>"

lemma hasPrefix_shorter: "hasPrefix s (p @ q) \<Longrightarrow> hasPrefix s p"
  unfolding hasPrefix_def by (metis append_eq_conv_conj append_take_drop_id append_assoc)

lemma contains_prefix: "contains s (p @ q) \<Longrightarrow> contains s p"
  by (induction s) (auto dest: hasPrefix_shorter)

lemma pkill_nothing: "list_all (\<lambda>argv. \<not> contains (cmdline argv) ''devenv-'') running \<Longrightarrow>
    pkill (''devenv-'' @ name) running = (Some (Errorf ''exit status 1'' []), running)"
proof -
  assume *: "list_all (\<lambda>argv. \<not> contains (cmdline argv) ''devenv-'') running"
  have "filter (\<lambda>argv. \<not> contains (cmdline argv) (''devenv-'' @ name)) running = running"
    using * contains_prefix unfolding filter_id_conv list_all_iff by blast
  then show ?thesis unfolding pkill_def Let_def by simp
qed

lemma namespace_commands:
  "\<not> contains (cmdline [''unshare'', ''--mount'', ''--ipc'', ''--pid'', ''--fork'', ''bash'', ''-c'', ''sleep infinity'']) ''devenv-''"
  "\<not> contains (cmdline [''unshare'', ''--user'', ''--map-root-user'', ''sleep'', ''infinity'']) ''devenv-''"
  by (simp_all add: cmdline_def hasPrefix_def)

text \<open>
  A namespace sandbox cannot be stopped: \<open>Create\<close> starts a sleeping process whose command line does not mention the sandbox, and \<open>Stop\<close>
  and \<open>Delete\<close> look for the identifier in command lines, so on a host without another such process they fail and the process stays.
\<close>

lemma namespace_survives_stop:
  assumes "la_sandboxType a = Native" and "linux_Create process_host a config [] = (Inr i, running)"
  shows "running \<noteq> []" and "linux_Stop process_host a i running = (Some (Errorf ''exit status 1'' []), running)"
    and "linux_Delete process_host a i running = (Some (Errorf ''exit status 1'' []), running)"
proof -
  have i: "i = ''devenv-'' @ config" and r: "running \<noteq> []" "list_all (\<lambda>argv. \<not> contains (cmdline argv) ''devenv-'') running"
    using assms namespace_commands
    by (auto simp: linux_Create_def createNative_def process_host_def Let_def simp del: contains.simps split: if_splits)
  have "linux_Stop process_host a i running = pkill i running"
    using assms(1) by (simp add: linux_Stop_def process_host_def del: contains.simps)
  then show "linux_Stop process_host a i running = (Some (Errorf ''exit status 1'' []), running)"
    unfolding i pkill_nothing [OF r(2)] .
  then show "linux_Delete process_host a i running = (Some (Errorf ''exit status 1'' []), running)" by (simp only: linux_Delete_def)
  show "running \<noteq> []" by (rule r(1))
qed

text \<open>An adapter that was made supports a tier, and creates sandboxes of every tier it supports.\<close>

lemma mac_supports: "mac_NewAdapter h w = Inr a \<Longrightarrow> SupportedTiers a \<noteq> []"
  by (auto simp: mac_NewAdapter_def SupportedTiers_def Let_def split: if_splits)

lemma supported_tier_creates: "tier \<in> set (SupportedTiers a) \<Longrightarrow> \<exists>args. mac_create_command a tier name =
    Inr ((if tier = VMTierNative then ma_hyperkitPath a else if tier = VMTierMicroVM then ma_firecrackerPath a else ma_limaPath a) # args)"
  by (auto simp: SupportedTiers_def mac_create_command_def VMTierNative_def VMTierLimaVZ_def VMTierMicroVM_def split: if_splits)

text \<open>
  \<open>Create\<close> follows the tier of the configuration, the other operations the name of the adapter: with Firecracker and lima installed, a lima
  machine is created and Firecracker is asked to start it; \<open>Delete\<close> runs HyperKit, by an empty path when it is missing.
\<close>

lemma mac_start_other_runtime:
  assumes "ma_firecrackerPath a \<noteq> []" and "ma_limaPath a \<noteq> []"
  shows "mac_create_command a VMTierLimaVZ name = Inr [ma_limaPath a, ''create'', name, ''--tty=false'', ''--vm-type=vz'', ''--volumes-from=devenv-templates'']"
    and "mac_Start h a name = ho_Run h [ma_firecrackerPath a, ''--api-sock'', ''/tmp/'' @ name @ ''.sock'']"
    and "mac_Delete h a name = ho_Run h [ma_hyperkitPath a, ''delete'', name]"
  using assms by (simp_all add: mac_create_command_def VMTierNative_def VMTierLimaVZ_def VMTierMicroVM_def mac_Start_def mac_Delete_def mac_Name_def)

text \<open>The gVisor layer counts as applied when its installer was downloaded; nothing runs the installer.\<close>

lemma gvisor_layer_only_downloads:
  assumes "ho_Run h [''which'', ''runsc''] w = (Some err, w1)" and "ho_Run h [''curl'', ''-fsSL'', ''https://gvisor.dev/install.sh''] w1 = (None, w2)"
  shows "applySandboxLayer h a i ''gvisor'' w = (None, w2)"
  using assms by (simp add: applySandboxLayer_def)

end
