(* ===== verification/Windows_Adapter.thy ===== *)
theory Windows_Adapter
  imports Host Validation
begin

text \<open>
  The adapter of Windows hosts (\<open>internal/adapters/windows/windows.go\<close>): Hyper-V or Windows Sandbox, WSL with gVisor, Cloud
  Hypervisor. An operation is the commands it runs in the world of the host; the option functions of \<open>Create\<close> are functions on the
  configuration. The section on injection considers a client that makes any sequence of calls on a host that records its commands.
\<close>

section \<open>The adapter\<close>

text \<open>The class of \<open>^[a-zA-Z0-9_-]+$\<close>, which Go matches against the whole text.\<close>

definition vm_char :: "char \<Rightarrow> bool" where
  "vm_char c \<longleftrightarrow> is_alnum c \<or> c = CHR ''_'' \<or> c = CHR ''-''"

definition validateVMName :: "string \<Rightarrow> go_error option" where
  "validateVMName name =
     (if \<not> matches [one_or_more (Class vm_char)] name
      then Some (Errorf ''invalid VM name %q: must contain only alphanumeric characters, hyphens, or underscores'' [AStr name]) else None)"

definition WindowsTierNative :: string where "WindowsTierNative = ''native''"
definition WindowsTierWSL :: string where "WindowsTierWSL = ''wsl''"
definition WindowsTierMicroVM :: string where "WindowsTierMicroVM = ''microvm''"

record win_Adapter =
  wa_wslPath :: string
  wa_hyperVPath :: string
  wa_microVMPath :: string
  wa_defaultTier :: string

record win_Config =
  wc_WorkDir :: string
  wc_Memory :: string
  wc_CPUs :: int
  wc_Tier :: string

definition WithWorkDir :: "string \<Rightarrow> win_Config \<Rightarrow> win_Config" where "WithWorkDir dir c = c\<lparr>wc_WorkDir := dir\<rparr>"
definition WithMemory :: "string \<Rightarrow> win_Config \<Rightarrow> win_Config" where "WithMemory mem c = c\<lparr>wc_Memory := mem\<rparr>"
definition WithCPUs :: "int \<Rightarrow> win_Config \<Rightarrow> win_Config" where "WithCPUs cpus c = c\<lparr>wc_CPUs := cpus\<rparr>"
definition WithTier :: "string \<Rightarrow> win_Config \<Rightarrow> win_Config" where "WithTier tier c = c\<lparr>wc_Tier := tier\<rparr>"

definition found_path :: "'w host \<Rightarrow> string \<Rightarrow> 'w \<Rightarrow> string" where
  "found_path h prog w = (case ho_LookPath h prog w of Inr p \<Rightarrow> p | Inl _ \<Rightarrow> [])"

definition win_New :: "'w host \<Rightarrow> 'w \<Rightarrow> win_Adapter result" where
  "win_New h w =
     (let a = \<lparr>wa_wslPath = found_path h ''wsl.exe'' w, wa_hyperVPath = found_path h ''hvlaunch.exe'' w,
               wa_microVMPath = found_path h ''cloud-hypervisor.exe'' w, wa_defaultTier = WindowsTierWSL\<rparr> in
      if wa_wslPath a = [] \<and> wa_hyperVPath a = [] \<and> wa_microVMPath a = []
      then Inl (Errorf ''no Windows virtualization found (wsl2, hyper-v, or cloud hypervisor)'' []) else Inr a)"

definition NewWithTier :: "'w host \<Rightarrow> string \<Rightarrow> 'w \<Rightarrow> win_Adapter result" where
  "NewWithTier h tier w =
     (case win_New h w of
        Inl err \<Rightarrow> Inl err
      | Inr a \<Rightarrow>
          if tier = WindowsTierNative \<and> wa_hyperVPath a = [] then Inl (Errorf ''hyper-v not available on this Windows installation'' [])
          else if tier = WindowsTierWSL \<and> wa_wslPath a = [] then Inl (Errorf ''wsl2 not installed: https://docs.microsoft.com/en-us/windows/wsl/'' [])
          else if tier = WindowsTierMicroVM \<and> wa_microVMPath a = [] then Inl (Errorf ''cloud hypervisor not installed'' [])
          else Inr (a\<lparr>wa_defaultTier := tier\<rparr>))"

definition win_Name :: "win_Adapter \<Rightarrow> string" where "win_Name a = ''windows-'' @ wa_defaultTier a"
definition win_Tier :: "win_Adapter \<Rightarrow> string" where "win_Tier a = wa_defaultTier a"

abbreviation powershell :: "string \<Rightarrow> string list" where
  "powershell script \<equiv> [''powershell.exe'', ''-NoProfile'', ''-Command'', script]"

definition createWindowsSandbox :: "'w host \<Rightarrow> string \<Rightarrow> 'w \<Rightarrow> string result \<times> 'w" where
  "createWindowsSandbox h name w =
     (case ho_Run h [''wsandbox.exe'', ''create'', ''--name'', name] w of
        (Some err, w1) \<Rightarrow> (Inl (Errorf ''failed to create Windows Sandbox: %w'' [AWrap err]), w1)
      | (None, w1) \<Rightarrow> (Inr name, w1))"

text \<open>The sandbox configuration with the mapped folder is built and handed on, and \<open>createWindowsSandbox\<close> does not use it.\<close>

definition new_vm_script :: "string \<Rightarrow> string" where
  "new_vm_script name =
     ''New-VM -Name '' @ [CHR 0x27] @ name @ [CHR 0x27] @ '' -MemoryStartupBytes 4GB -BootDevice VHD -Generation 2; Start-VM -Name '' @
     [CHR 0x27] @ name @ [CHR 0x27]"

definition createNativeSandbox :: "'w host \<Rightarrow> string \<Rightarrow> 'w \<Rightarrow> string result \<times> 'w" where
  "createNativeSandbox h name w =
     (let sandboxName = ''devenv-'' @ name in
      case validateVMName sandboxName of
        Some err \<Rightarrow> (Inl (Errorf ''invalid sandbox name: %w'' [AWrap err]), w)
      | None \<Rightarrow> (case ho_Run h (powershell (new_vm_script sandboxName)) w of
          (Some err, w1) \<Rightarrow> createWindowsSandbox h sandboxName w1
        | (None, w1) \<Rightarrow> (Inr sandboxName, w1)))"

definition install_script :: string where
  "install_script = ''curl -fsSL https://gvisor.dev/archive.key | sudo apt-key add - && '' @
     ''sudo add-apt-repository deb https://packages.cloud.google.com/apt gvisor-$(uname -m) main && '' @
     ''sudo apt-get update && sudo apt-get install -y runsc''"

definition runtime_script :: string where
  "runtime_script = ''echo '' @ [CHR 0x27] @ ''export GRICD_OPTS=--gvisor-default'' @ [CHR 0x27] @ '' >> ~/.bashrc''"

definition createWSLSandbox :: "'w host \<Rightarrow> win_Adapter \<Rightarrow> string \<Rightarrow> 'w \<Rightarrow> string result \<times> 'w" where
  "createWSLSandbox h a name w =
     (let wslName = ''devenv-'' @ name in
      case ho_Run h [wa_wslPath a, ''--'', ''ubuntu'', ''run'', ''echo'', ''Sandbox initialized''] w of
        (Some err, w1) \<Rightarrow> (Inl (Errorf ''failed to create WSL sandbox: %w'' [AWrap err]), w1)
      | (None, w1) \<Rightarrow>
          (let w2 = snd (ho_Run h [wa_wslPath a, ''-d'', wslName, ''--'', ''bash'', ''-c'', install_script] w1);
               w3 = snd (ho_Run h [wa_wslPath a, ''-d'', wslName, ''--'', ''bash'', ''-c'', runtime_script] w2)
           in (Inr wslName, w3)))"

definition createMicroVMSandbox :: "'w host \<Rightarrow> win_Adapter \<Rightarrow> string \<Rightarrow> 'w \<Rightarrow> string result \<times> 'w" where
  "createMicroVMSandbox h a name w =
     (let vmName = ''devenv-'' @ name in
      case ho_Run h [wa_microVMPath a, ''--name'', vmName, ''--kernel'', ''/var/lib/cloud-hypervisor/vmlinux'',
          ''--initramfs'', ''/var/lib/cloud-hypervisor/initrd'', ''--memory'', ''size=4G'', ''--vcpus'', ''2''] w of
        (Some err, w1) \<Rightarrow> (Inl (Errorf ''failed to create Cloud Hypervisor VM: %w'' [AWrap err]), w1)
      | (None, w1) \<Rightarrow> (Inr vmName, w1))"

definition create_config :: "win_Adapter \<Rightarrow> (win_Config \<Rightarrow> win_Config) list \<Rightarrow> win_Config" where
  "create_config a opts =
     (let config = fold (\<lambda>opt. opt) opts \<lparr>wc_WorkDir = [], wc_Memory = [], wc_CPUs = 0, wc_Tier = []\<rparr> in
      if wc_Tier config = [] then config\<lparr>wc_Tier := wa_defaultTier a\<rparr> else config)"

definition win_Create :: "'w host \<Rightarrow> win_Adapter \<Rightarrow> string \<Rightarrow> (win_Config \<Rightarrow> win_Config) list \<Rightarrow> 'w \<Rightarrow> string result \<times> 'w" where
  "win_Create h a name opts w =
     (let tier = wc_Tier (create_config a opts) in
      if tier = WindowsTierNative then createNativeSandbox h name w
      else if tier = WindowsTierWSL then createWSLSandbox h a name w
      else if tier = WindowsTierMicroVM then createMicroVMSandbox h a name w
      else (Inl (Errorf ''unsupported Windows tier: %s'' [AStr tier]), w))"

text \<open>\<open>Start\<close>, \<open>Stop\<close> and \<open>Delete\<close> check the name and run one command per tier.\<close>

definition vm_script :: "string \<Rightarrow> string \<Rightarrow> string \<Rightarrow> string" where
  "vm_script verb name flag = verb @ '' -Name '' @ [CHR 0x27] @ name @ [CHR 0x27] @ flag"

definition by_tier :: "'w host \<Rightarrow> win_Adapter \<Rightarrow> string \<Rightarrow> string list \<Rightarrow> string list \<Rightarrow> string list \<Rightarrow> 'w \<Rightarrow> go_error option \<times> 'w" where
  "by_tier h a name hyperv wsl microvm w =
     (case validateVMName name of
        Some err \<Rightarrow> (Some err, w)
      | None \<Rightarrow>
          if wa_defaultTier a = WindowsTierNative then ho_Run h hyperv w
          else if wa_defaultTier a = WindowsTierWSL then ho_Run h wsl w
          else if wa_defaultTier a = WindowsTierMicroVM then ho_Run h microvm w
          else (Some (Errorf ''unknown tier: %s'' [AStr (wa_defaultTier a)]), w))"

definition win_Start :: "'w host \<Rightarrow> win_Adapter \<Rightarrow> string \<Rightarrow> 'w \<Rightarrow> go_error option \<times> 'w" where
  "win_Start h a name = by_tier h a name (powershell (vm_script ''Start-VM'' name [])) [wa_wslPath a, ''-d'', name]
     [wa_microVMPath a, ''--name'', name, ''start'']"

definition win_Stop :: "'w host \<Rightarrow> win_Adapter \<Rightarrow> string \<Rightarrow> 'w \<Rightarrow> go_error option \<times> 'w" where
  "win_Stop h a name = by_tier h a name (powershell (vm_script ''Stop-VM'' name '' -Force'')) [wa_wslPath a, ''--'', ''--terminate'', name]
     [wa_microVMPath a, ''--name'', name, ''stop'']"

definition win_Delete :: "'w host \<Rightarrow> win_Adapter \<Rightarrow> string \<Rightarrow> 'w \<Rightarrow> go_error option \<times> 'w" where
  "win_Delete h a name = by_tier h a name (powershell (vm_script ''Remove-VM'' name '' -Force'')) [wa_wslPath a, ''--'', ''--unregister'', name]
     [wa_microVMPath a, ''--name'', name, ''delete'']"

definition win_Exec :: "'w host \<Rightarrow> win_Adapter \<Rightarrow> string \<Rightarrow> string list \<Rightarrow> 'w \<Rightarrow> go_error option \<times> 'w" where
  "win_Exec h a name cmd w =
     (case cmd of
        [] \<Rightarrow> (Some (Errorf ''no command provided for exec'' []), w)
      | c # cs \<Rightarrow>
          if wa_defaultTier a = WindowsTierWSL then ho_Run h ([wa_wslPath a, ''-d'', name, ''--'', c] @ cs) w
          else if wa_defaultTier a = WindowsTierMicroVM then ho_Run h [wa_microVMPath a, ''--name'', name, ''console''] w
          else (Some (Errorf ''exec not supported for tier: %s'' [AStr (wa_defaultTier a)]), w))"

definition win_Pull :: "string \<Rightarrow> go_error option" where
  "win_Pull img = None"

definition layer_script :: "string \<Rightarrow> string option" where
  "layer_script sandboxType =
     (if sandboxType = ''gvisor'' \<or> sandboxType = ''runsc''
      then Some (''echo '' @ [CHR 0x27] @ ''runtime: runsc'' @ [CHR 0x27] @ '' >> /etc/containerd/config.toml && systemctl restart containerd'')
      else if sandboxType = ''landlock'' then Some ''echo 1 > /proc/sys/kernel/landlock_restricted''
      else if sandboxType = ''seccomp''
      then Some (''mkdir -p /etc/containerd && echo '' @ [CHR 0x27] @ ''SecurityProfile: seccomp'' @ [CHR 0x27] @ '' >> /etc/containerd/config.toml'')
      else None)"

definition ApplySandbox :: "'w host \<Rightarrow> win_Adapter \<Rightarrow> string \<Rightarrow> string \<Rightarrow> 'w \<Rightarrow> go_error option \<times> 'w" where
  "ApplySandbox h a name sandboxType w =
     (if wa_defaultTier a \<noteq> WindowsTierWSL then (Some (Errorf ''sandbox application only supported on WSL tier'' []), w)
      else case layer_script sandboxType of
        Some script \<Rightarrow> ho_Run h [wa_wslPath a, ''-d'', name, ''--'', ''bash'', ''-c'', script] w
      | None \<Rightarrow> (Some (Errorf ''unsupported sandbox type: %s'' [AStr sandboxType]), w))"

section \<open>No injection into PowerShell\<close>

lemma validateVMName_iff: "validateVMName name = None \<longleftrightarrow> name \<noteq> [] \<and> list_all vm_char name"
  by (simp add: validateVMName_def matches_iff one_or_more_class)

lemma validateVMName_prefix [simp]: "validateVMName (''devenv-'' @ name) = None \<longleftrightarrow> list_all vm_char name"
  by (simp add: validateVMName_iff vm_char_def is_alnum_def byte_def)

text \<open>The calls a client can make, and the commands that stay after any sequence of them.\<close>

datatype win_call = CallCreate string "(win_Config \<Rightarrow> win_Config) list" | CallStart string | CallStop string | CallDelete string
  | CallExec string "string list" | CallApply string string

fun win_step :: "'w host \<Rightarrow> win_Adapter \<Rightarrow> win_call \<Rightarrow> 'w \<Rightarrow> 'w" where
  "win_step h a (CallCreate name opts) w = snd (win_Create h a name opts w)"
| "win_step h a (CallStart name) w = snd (win_Start h a name w)"
| "win_step h a (CallStop name) w = snd (win_Stop h a name w)"
| "win_step h a (CallDelete name) w = snd (win_Delete h a name w)"
| "win_step h a (CallExec name cmd) w = snd (win_Exec h a name cmd w)"
| "win_step h a (CallApply name layer) w = snd (ApplySandbox h a name layer w)"

text \<open>A host whose world is the log of its commands; \<open>outcome\<close> decides, from what ran before, which commands fail.\<close>

definition recording_host :: "string list list host \<Rightarrow> (string list list \<Rightarrow> string list \<Rightarrow> go_error option) \<Rightarrow> string list list host" where
  "recording_host h outcome = h\<lparr>ho_Run := \<lambda>argv w. (outcome w argv, w @ [argv])\<rparr>"

lemma recording_run [simp]: "ho_Run (recording_host h outcome) argv w = (outcome w argv, w @ [argv])"
  by (simp add: recording_host_def)

text \<open>
  A command is harmless_command when it is a program of the adapter or the Windows Sandbox, or a PowerShell script that applies a fixed verb to
  a quoted name without quotes, blanks or any other character that PowerShell interprets.
\<close>

definition verb_script :: "string \<Rightarrow> string \<Rightarrow> bool" where
  "verb_script name script \<longleftrightarrow> script = new_vm_script name \<or> script = vm_script ''Start-VM'' name [] \<or>
     script = vm_script ''Stop-VM'' name '' -Force'' \<or> script = vm_script ''Remove-VM'' name '' -Force''"

definition harmless_command :: "win_Adapter \<Rightarrow> string list \<Rightarrow> bool" where
  "harmless_command a argv \<longleftrightarrow> hd argv = wa_wslPath a \<or> hd argv = wa_microVMPath a \<or> hd argv = ''wsandbox.exe'' \<or>
     (\<exists>name script. list_all vm_char name \<and> verb_script name script \<and> argv = powershell script)"

lemma harmless_rules [simp]:
  "harmless_command a (wa_wslPath a # args)" "harmless_command a (wa_microVMPath a # args)" "harmless_command a (''wsandbox.exe'' # args)"
  by (simp_all add: harmless_command_def)

lemma harmless_script: "list_all vm_char name \<Longrightarrow> verb_script name script \<Longrightarrow> harmless_command a (powershell script)"
  unfolding harmless_command_def by blast

lemma devenv_chars: "list_all vm_char name \<Longrightarrow> list_all vm_char (''devenv-'' @ name)"
  by (simp add: vm_char_def is_alnum_def byte_def)

lemma by_tier_harmless:
  assumes "list_all (harmless_command a) w" and "verb_script name script" and "harmless_command a wsl" and "harmless_command a microvm"
  shows "list_all (harmless_command a) (snd (by_tier (recording_host h outcome) a name (powershell script) wsl microvm w))"
  using assms by (auto simp: by_tier_def validateVMName_iff harmless_script split: option.split)

lemma create_harmless:
  assumes "list_all (harmless_command a) w"
  shows "list_all (harmless_command a) (snd (win_Create (recording_host h outcome) a name opts w))"
proof -
  have "list_all (harmless_command a) (snd (createNativeSandbox (recording_host h outcome) name w))"
  proof (cases "list_all vm_char name")
    case True
    then have "harmless_command a (powershell (new_vm_script (''devenv-'' @ name)))" using harmless_script devenv_chars unfolding verb_script_def by blast
    with True assms show ?thesis unfolding createNativeSandbox_def createWindowsSandbox_def Let_def validateVMName_prefix [THEN iffD2, OF True]
      by (simp split: option.split)
  next
    case False
    then obtain err where "validateVMName (''devenv-'' @ name) = Some err" using validateVMName_prefix by blast
    with assms show ?thesis unfolding createNativeSandbox_def Let_def by (simp only: option.case snd_conv)
  qed
  with assms show ?thesis
    by (simp add: win_Create_def createWSLSandbox_def createMicroVMSandbox_def Let_def split: option.split)
qed

lemma step_harmless: "list_all (harmless_command a) w \<Longrightarrow> list_all (harmless_command a) (win_step (recording_host h outcome) a call w)"
  by (cases call)
    (simp_all add: create_harmless win_Start_def win_Stop_def win_Delete_def by_tier_harmless verb_script_def win_Exec_def ApplySandbox_def
      split: list.split option.split)

text \<open>
  C22. No injection into PowerShell: whatever names, options, commands and layers a client passes in any sequence of calls to the Windows
  adapter, and whichever commands fail on the way, each command that ran is the configured WSL or Cloud Hypervisor program, the Windows
  Sandbox, or PowerShell with one of the four fixed scripts around a quoted name of letters, digits, dashes and underscores.
\<close>

theorem powershell_name_safe:
  "list_all (harmless_command a) (fold (win_step (recording_host h outcome) a) calls [])"
proof -
  have "list_all (harmless_command a) (fold (win_step (recording_host h outcome) a) calls w)" if "list_all (harmless_command a) w" for w
    using that by (induction calls arbitrary: w) (simp_all add: step_harmless)
  then show ?thesis by simp
qed

text \<open>
  \<open>New\<close> accepts a host that has only Hyper-V, and still makes WSL the default tier: the first command of \<open>Create\<close> then has no program.
\<close>

lemma default_tier_without_wsl:
  assumes "found_path h ''wsl.exe'' w = []" and "found_path h ''hvlaunch.exe'' w \<noteq> []"
  shows "\<exists>a. win_New h w = Inr a \<and> win_Tier a = WindowsTierWSL \<and> wa_wslPath a = []"
  using assms by (simp add: win_New_def win_Tier_def)

text \<open>A Hyper-V name is checked when the machine is created, a WSL name is not: such a sandbox is created and can then be neither started nor deleted.\<close>

lemma wsl_name_unmanageable:
  assumes "wa_defaultTier a = WindowsTierWSL" and "\<not> list_all vm_char name"
    and run: "ho_Run h [wa_wslPath a, ''--'', ''ubuntu'', ''run'', ''echo'', ''Sandbox initialized''] w = (None, w1)"
  shows "fst (win_Create h a name [] w) = Inr (''devenv-'' @ name)" and "fst (win_Start h a (''devenv-'' @ name) v) \<noteq> None"
    and "fst (win_Delete h a (''devenv-'' @ name) v) \<noteq> None"
proof -
  show "fst (win_Create h a name [] w) = Inr (''devenv-'' @ name)"
    using assms(1) run by (simp add: win_Create_def create_config_def createWSLSandbox_def WindowsTierNative_def WindowsTierWSL_def Let_def)
  obtain err where "validateVMName (''devenv-'' @ name) = Some err" using assms(2) validateVMName_prefix by blast
  then show "fst (win_Start h a (''devenv-'' @ name) v) \<noteq> None" and "fst (win_Delete h a (''devenv-'' @ name) v) \<noteq> None"
    unfolding win_Start_def win_Delete_def by_tier_def by (simp_all only: option.case fst_conv option.distinct not_False_eq_True)
qed

end
