(* ===== verification/Plugins.thy ===== *)
theory Plugins
  imports Go_Prelude
begin

text \<open>
  The plugin registry (\<open>internal/plugin/plugin.go\<close>). A plugin is the record of its methods on a world of type \<open>'w\<close>; the
  registry is the list of plugins in the order of their registration. Its lock makes each operation one step.
\<close>

record plugin_Info =
  pi_ID :: string
  pi_Name :: string
  pi_Version :: string

record 'w Plugin =
  pn_Info :: plugin_Info
  pn_Init :: "'w \<Rightarrow> go_error option \<times> 'w"
  pn_Shutdown :: "'w \<Rightarrow> go_error option \<times> 'w"
  pn_Health :: "'w \<Rightarrow> go_error option \<times> 'w"

type_synonym 'w plugins = "'w Plugin list"

definition plugin_NewRegistry :: "'w plugins" where
  "plugin_NewRegistry = []"

definition plugin_Register :: "'w Plugin option \<Rightarrow> 'w plugins \<times> 'w \<Rightarrow> go_error option \<times> 'w plugins \<times> 'w" where
  "plugin_Register p st =
     (case (p, st) of
        (None, _) \<Rightarrow> (Some (Errorf ''plugin: nil'' []), st)
      | (Some pl, ps, w) \<Rightarrow> (case pn_Init pl w of
          (Some err, w1) \<Rightarrow> (Some (Errorf ''plugin %s init: %w'' [AStr (pi_ID (pn_Info pl)), AWrap err]), ps, w1)
        | (None, w1) \<Rightarrow> (None, ps @ [pl], w1)))"

text \<open>The loop counts down from the last plugin.\<close>

fun shutdown_from :: "'w plugins \<Rightarrow> nat \<Rightarrow> 'w \<Rightarrow> 'w" where
  "shutdown_from ps 0 w = w"
| "shutdown_from ps (Suc i) w = shutdown_from ps i (snd (pn_Shutdown (ps ! i) w))"

definition UnregisterAll :: "'w plugins \<times> 'w \<Rightarrow> 'w plugins \<times> 'w" where
  "UnregisterAll st = (case st of (ps, w) \<Rightarrow> ([], shutdown_from ps (length ps) w))"

fun plugin_Find :: "string \<Rightarrow> 'w plugins \<Rightarrow> 'w Plugin option" where
  "plugin_Find i [] = None"
| "plugin_Find i (p # ps) = (if pi_ID (pn_Info p) = i then Some p else plugin_Find i ps)"

definition plugin_List :: "'w plugins \<Rightarrow> plugin_Info list" where
  "plugin_List ps = map pn_Info ps"

definition plugin_Len :: "'w plugins \<Rightarrow> nat" where
  "plugin_Len ps = length ps"

section \<open>Lifecycles\<close>

lemma shutdown_from_rev: "i \<le> length ps \<Longrightarrow> shutdown_from ps i w = fold (\<lambda>p. snd \<circ> pn_Shutdown p) (rev (take i ps)) w"
  by (induction i arbitrary: w) (simp_all add: take_Suc_conv_app_nth)

text \<open>The same plugins with a journal of what they are asked to do.\<close>

datatype plugin_event = Inited string bool | ShutDown string

definition journaled :: "'w Plugin \<Rightarrow> (plugin_event list \<times> 'w) Plugin" where
  "journaled p = (let i = pi_ID (pn_Info p) in
     \<lparr>pn_Info = pn_Info p,
      pn_Init = (\<lambda>(j, w). case pn_Init p w of (r, w1) \<Rightarrow> (r, j @ [Inited i (r = None)], w1)),
      pn_Shutdown = (\<lambda>(j, w). case pn_Shutdown p w of (r, w1) \<Rightarrow> (r, j @ [ShutDown i], w1)),
      pn_Health = (\<lambda>(j, w). case pn_Health p w of (r, w1) \<Rightarrow> (r, j, w1))\<rparr>)"

definition register_all :: "'w Plugin option list \<Rightarrow> (plugin_event list \<times> 'w) plugins \<times> plugin_event list \<times> 'w \<Rightarrow>
    (plugin_event list \<times> 'w) plugins \<times> plugin_event list \<times> 'w" where
  "register_all ps st = fold (\<lambda>p st. snd (plugin_Register (map_option journaled p) st)) ps st"

definition started_ids :: "plugin_event list \<Rightarrow> string list" where
  "started_ids j = concat (map (\<lambda>e. case e of Inited i ok \<Rightarrow> if ok then [i] else [] | ShutDown _ \<Rightarrow> []) j)"

lemma started_ids_append [simp]: "started_ids (j @ k) = started_ids j @ started_ids k"
  by (simp add: started_ids_def)

definition is_journaled :: "(plugin_event list \<times> 'w) Plugin \<Rightarrow> bool" where
  "is_journaled q \<longleftrightarrow> (\<exists>p. q = journaled p)"

lemma register_step:
  assumes "plugin_Register (map_option journaled p) (qs, j, w) = (r, qs', j', w')" and "list_all is_journaled qs"
    and "map (\<lambda>p. pi_ID (pn_Info p)) qs = started_ids j"
  shows "list_all is_journaled qs' \<and> map (\<lambda>p. pi_ID (pn_Info p)) qs' = started_ids j'"
proof (cases p)
  case (Some pl)
  obtain r1 w1 where i: "pn_Init pl w = (r1, w1)" by fastforce
  then show ?thesis using assms Some
    by (cases r1) (auto simp: plugin_Register_def journaled_def is_journaled_def started_ids_def Let_def)
qed (use assms in \<open>simp add: plugin_Register_def\<close>)

lemma register_all_invariant:
  assumes "register_all ps (qs, j, w) = (qs', j', w')" and "list_all is_journaled qs" and "map (\<lambda>p. pi_ID (pn_Info p)) qs = started_ids j"
  shows "list_all is_journaled qs' \<and> map (\<lambda>p. pi_ID (pn_Info p)) qs' = started_ids j'"
  using assms
proof (induction ps arbitrary: qs j w)
  case (Cons p ps)
  obtain r qs1 j1 w1 where s: "plugin_Register (map_option journaled p) (qs, j, w) = (r, qs1, j1, w1)" by (metis prod_cases4)
  then show ?case using Cons.IH [of qs1 j1 w1] Cons.prems(1) register_step [OF s Cons.prems(2,3)] by (simp add: register_all_def)
qed (simp add: register_all_def)

lemma journaled_shutdowns:
  assumes "list_all is_journaled qs"
  shows "\<exists>w'. fold (\<lambda>p. snd \<circ> pn_Shutdown p) qs (j, w) = (j @ map (\<lambda>p. ShutDown (pi_ID (pn_Info p))) qs, w')"
  using assms
proof (induction qs arbitrary: j w)
  case (Cons q qs)
  then obtain p where q: "q = journaled p" by (auto simp: is_journaled_def)
  obtain r w1 where s: "pn_Shutdown p w = (r, w1)" by fastforce
  then show ?case using Cons.IH [of "j @ [ShutDown (pi_ID (pn_Info p))]" w1] Cons.prems by (simp add: q journaled_def Let_def)
qed simp

text \<open>
  C23. Plugins end in the reverse of the order in which they started: after any sequence of registrations, also of nil plugins and of
  plugins whose \<open>Init\<close> fails, \<open>UnregisterAll\<close> shuts down each plugin whose \<open>Init\<close> succeeded, once and last in first out, even when
  a \<open>Shutdown\<close> fails, touches no other plugin, and leaves the registry empty.
\<close>

theorem plugins_shut_down_lifo:
  "case register_all ps (plugin_NewRegistry, [], w) of (qs, j, w1) \<Rightarrow>
     \<exists>w2. UnregisterAll (qs, j, w1) = (plugin_NewRegistry, j @ map ShutDown (rev (started_ids j)), w2)"
proof -
  obtain qs j w1 where r: "register_all ps (plugin_NewRegistry, [], w) = (qs, j, w1)" by (metis prod_cases3)
  then have ok: "list_all is_journaled qs" "map (\<lambda>p. pi_ID (pn_Info p)) qs = started_ids j"
    using register_all_invariant [OF r] by (simp_all add: plugin_NewRegistry_def started_ids_def)
  from ok(1) have "list_all is_journaled (rev qs)" by (simp add: list_all_iff)
  from journaled_shutdowns [OF this, of j w1] obtain w2 where
    "fold (\<lambda>p. snd \<circ> pn_Shutdown p) (rev qs) (j, w1) = (j @ map ShutDown (map (\<lambda>p. pi_ID (pn_Info p)) (rev qs)), w2)" by (auto simp: comp_def)
  also have "map (\<lambda>p. pi_ID (pn_Info p)) (rev qs) = rev (started_ids j)" by (simp only: rev_map [symmetric] ok(2))
  finally have "UnregisterAll (qs, j, w1) = (plugin_NewRegistry, j @ map ShutDown (rev (started_ids j)), w2)"
    by (simp add: UnregisterAll_def shutdown_from_rev plugin_NewRegistry_def comp_def)
  then show ?thesis by (simp only: r prod.case) blast
qed

text \<open>An identifier that is registered twice is found as the plugin that came first.\<close>

lemma plugin_Find_first: "plugin_Find i ps = find (\<lambda>p. pi_ID (pn_Info p) = i) ps"
  by (induction i ps rule: plugin_Find.induct) simp_all

lemma second_registration_hidden:
  assumes "plugin_Find (pi_ID (pn_Info q)) ps = Some p" and "plugin_Register (Some q) (ps, w) = (None, ps', w')"
  shows "plugin_Find (pi_ID (pn_Info q)) ps' = Some p" and "plugin_Len ps' = Suc (plugin_Len ps)"
proof -
  have ps': "ps' = ps @ [q]" using assms(2) by (auto simp: plugin_Register_def split: option.splits prod.splits)
  show "plugin_Find (pi_ID (pn_Info q)) ps' = Some p"
    using assms(1) unfolding ps' by (induction ps) (auto split: if_splits)
  show "plugin_Len ps' = Suc (plugin_Len ps)" by (simp add: ps' plugin_Len_def)
qed

end
