(* ===== verification/Metrics.thy ===== *)
theory Metrics
  imports Go_Prelude
begin

text \<open>
  The metrics collector (\<open>pkg/metrics/metrics.go\<close>). The order of the association list is the order in which a range over the Go
  map enumerates it. The printing of floats (\<open>%g\<close>), of quoted strings (\<open>%q\<close>) and \<open>Duration.Seconds\<close> are parameters.
\<close>

record 'f metrics_SandboxMetrics =
  sm_CPU :: 'f
  sm_MemoryMB :: 'f
  sm_Uptime :: duration
  sm_Status :: string

type_synonym 'f MetricsCollector = "(string, 'f metrics_SandboxMetrics) gomap"

record 'f fmt_lib =
  fm_g :: "'f \<Rightarrow> string"
  fm_q :: "string \<Rightarrow> string"
  fm_Seconds :: "duration \<Rightarrow> 'f"
  fm_zero :: 'f
  fm_one :: 'f

definition NewMetricsCollector :: "'f MetricsCollector" where
  "NewMetricsCollector = []"

definition RecordSandbox :: "string \<Rightarrow> 'f metrics_SandboxMetrics \<Rightarrow> 'f MetricsCollector \<Rightarrow> 'f MetricsCollector" where
  "RecordSandbox i metrics m = (if i = [] then m else AList.update i metrics m)"

definition GetSandbox :: "string \<Rightarrow> 'f MetricsCollector \<Rightarrow> 'f metrics_SandboxMetrics option" where
  "GetSandbox i m = map_of m i"

definition AllMetrics :: "'f MetricsCollector \<Rightarrow> (string, 'f metrics_SandboxMetrics) gomap" where
  "AllMetrics m = fold (\<lambda>(k, v) out. AList.update k v out) m []"

definition RemoveSandbox :: "string \<Rightarrow> 'f MetricsCollector \<Rightarrow> 'f MetricsCollector" where
  "RemoveSandbox i m = AList.delete i m"

definition metrics_Count :: "'f MetricsCollector \<Rightarrow> nat" where
  "metrics_Count m = length m"

definition nl :: string where "nl = [CHR 0x0A]"

definition metric_head :: "string \<Rightarrow> string \<Rightarrow> string" where
  "metric_head name help = ''# HELP '' @ name @ '' '' @ help @ nl @ ''# TYPE '' @ name @ '' gauge'' @ nl"

definition metric_line :: "'f fmt_lib \<Rightarrow> string \<Rightarrow> string \<Rightarrow> 'f \<Rightarrow> string" where
  "metric_line F name i v = name @ ''{sandbox='' @ fm_q F i @ ''} '' @ fm_g F v @ nl"

definition status_line :: "'f fmt_lib \<Rightarrow> string \<Rightarrow> 'f metrics_SandboxMetrics \<Rightarrow> string" where
  "status_line F i sm = ''nvms_sandbox_status{sandbox='' @ fm_q F i @ '', status='' @ fm_q F (sm_Status sm) @ ''} '' @
     fm_g F (if equalFold (sm_Status sm) ''running'' then fm_one F else fm_zero F) @ nl"

definition ToPrometheus :: "'f fmt_lib \<Rightarrow> 'f MetricsCollector \<Rightarrow> string" where
  "ToPrometheus F m =
     (let ids = sort (map fst m); sm = (\<lambda>i. the (map_of m i)) in
      metric_head ''nvms_sandbox_cpu_percent'' ''CPU usage percentage per sandbox.'' @
      concat (map (\<lambda>i. metric_line F ''nvms_sandbox_cpu_percent'' i (sm_CPU (sm i))) ids) @
      metric_head ''nvms_sandbox_memory_mb'' ''Memory usage in megabytes per sandbox.'' @
      concat (map (\<lambda>i. metric_line F ''nvms_sandbox_memory_mb'' i (sm_MemoryMB (sm i))) ids) @
      metric_head ''nvms_sandbox_uptime_seconds'' ''Uptime in seconds per sandbox.'' @
      concat (map (\<lambda>i. metric_line F ''nvms_sandbox_uptime_seconds'' i (fm_Seconds F (sm_Uptime (sm i)))) ids) @
      metric_head ''nvms_sandbox_status'' ''Status code per sandbox (1=running, 0=stopped).'' @
      concat (map (\<lambda>i. status_line F i (sm i)) ids) @
      metric_head ''nvms_sandbox_total'' ''Total number of tracked sandboxes.'' @
      ''nvms_sandbox_total '' @ decimal (length ids) @ nl)"

section \<open>Laws\<close>

text \<open>The collector: a Go map without an entry for the empty identifier.\<close>

definition collector_ok :: "'f MetricsCollector \<Rightarrow> bool" where
  "collector_ok m \<longleftrightarrow> go_map m \<and> [] \<notin> fst ` set m"

lemma collector_ok_New: "collector_ok NewMetricsCollector"
  by (simp add: collector_ok_def go_map_def NewMetricsCollector_def)

lemma collector_ok_Record: "collector_ok m \<Longrightarrow> collector_ok (RecordSandbox i sm m)"
  by (auto simp: collector_ok_def RecordSandbox_def dom_update)

lemma collector_ok_Remove: "collector_ok m \<Longrightarrow> collector_ok (RemoveSandbox i m)"
  by (auto simp: collector_ok_def RemoveSandbox_def AList.delete_eq image_iff)

lemma GetSandbox_Record: "GetSandbox j (RecordSandbox i sm m) = (if i \<noteq> [] \<and> j = i then Some sm else GetSandbox j m)"
  by (simp add: GetSandbox_def RecordSandbox_def update_conv')

lemma GetSandbox_Remove: "GetSandbox j (RemoveSandbox i m) = (if j = i then None else GetSandbox j m)"
  by (simp add: GetSandbox_def RemoveSandbox_def delete_conv')

lemma update_all: "go_map m \<Longrightarrow> map_of (fold (\<lambda>(k, v) out. AList.update k v out) m acc) = map_of acc ++ map_of m"
  by (induction m arbitrary: acc) (auto simp: go_map_def update_conv' map_of_eq_None_iff map_add_upd_left dom_map_of_conv_image_fst)

lemma AllMetrics_copy: "go_map m \<Longrightarrow> map_of (AllMetrics m) = map_of m"
  by (simp add: AllMetrics_def update_all)

text \<open>The exposition does not depend on the order in which the map is enumerated.\<close>

lemma ToPrometheus_deterministic:
  assumes "go_map m" and "go_map m'" and "map_of m = map_of m'"
  shows "ToPrometheus F m = ToPrometheus F m'"
proof -
  have "set (map fst m) = set (map fst m')" using assms(3) by (metis dom_map_of_conv_image_fst set_map)
  then have "sort (map fst m) = sort (map fst m')"
    using assms(1,2) unfolding go_map_def by (metis set_eq_iff_mset_eq_distinct sorted_list_of_multiset_mset)
  then show ?thesis by (simp only: ToPrometheus_def assms(3))
qed

end
