(* ===== verification/Daemon_Client.thy ===== *)
theory Daemon_Client
  imports Podman_Adapter
begin

text \<open>
  The client of the daemon (\<open>internal/sandbox/client.go\<close>) and its composition with the router. \<open>http.Client.Do\<close> is a function
  \<open>do\<close> on the state \<open>'d\<close> of the other side; JSON and the parser of URLs are parameters. \<open>deliver\<close> is the \<open>do\<close> that hands the
  request to the router; the paths of the theorems are not redirected.
\<close>

section \<open>The client\<close>

record SandboxInfo =
  si_ID :: string
  si_Name :: string
  si_Status :: string
  si_Type :: string

record Client =
  cl_socketPath :: string
  cl_token :: string

record http_request =
  hr_Method :: string
  hr_URL :: string
  hr_Authorization :: string \<comment> \<open>empty when the header is not set\<close>
  hr_ContentType :: string
  hr_Body :: "string option"

record client_lib =
  cb_NewRequest :: "string \<Rightarrow> string \<Rightarrow> go_error option" \<comment> \<open>the error of \<open>http.NewRequestWithContext\<close> for a method and a URL\<close>
  cb_command :: "string list \<Rightarrow> string" \<comment> \<open>\<open>json.Marshal\<close> of the two request bodies\<close>
  cb_ports :: "int \<Rightarrow> int \<Rightarrow> string"
  cb_sandboxes :: "resp_body \<Rightarrow> SandboxInfo list result" \<comment> \<open>the JSON decoder for the two response bodies\<close>
  cb_address :: "resp_body \<Rightarrow> string result"

type_synonym 'd round_trip = "http_request \<Rightarrow> 'd \<Rightarrow> Response result \<times> 'd"

definition newClient :: "(string \<Rightarrow> string) \<Rightarrow> string \<Rightarrow> string \<Rightarrow> Client" where
  "newClient env socketPath tok =
     (let runDir = (if env ''XDG_RUNTIME_DIR'' = [] then ''/tmp'' else env ''XDG_RUNTIME_DIR'') in
      \<lparr>cl_socketPath = (if socketPath = [] then runDir @ ''/nanovms/routed.sock'' else socketPath), cl_token = tok\<rparr>)"

definition NewClient :: "(string \<Rightarrow> string) \<Rightarrow> string \<Rightarrow> Client" where
  "NewClient env socketPath = newClient env socketPath []"

definition NewClientWithToken :: "(string \<Rightarrow> string) \<Rightarrow> string \<Rightarrow> string \<Rightarrow> Client" where
  "NewClientWithToken env socketPath tok = newClient env socketPath tok"

definition newRequest :: "client_lib \<Rightarrow> Client \<Rightarrow> string \<Rightarrow> string \<Rightarrow> string option \<Rightarrow> http_request result" where
  "newRequest lib c method path body =
     (case cb_NewRequest lib method (''http://nvms'' @ path) of
        Some err \<Rightarrow> Inl err
      | None \<Rightarrow> Inr \<lparr>hr_Method = method, hr_URL = ''http://nvms'' @ path,
          hr_Authorization = (if cl_token c \<noteq> [] then ''Bearer '' @ cl_token c else []),
          hr_ContentType = (if body \<noteq> None then ''application/json'' else []), hr_Body = body\<rparr>)"

definition client_ListSandboxes :: "client_lib \<Rightarrow> 'd round_trip \<Rightarrow> Client \<Rightarrow> 'd \<Rightarrow> SandboxInfo list result \<times> 'd" where
  "client_ListSandboxes lib do c d =
     (case newRequest lib c ''GET'' ''/v1/sandboxes'' None of
        Inl err \<Rightarrow> (Inl err, d)
      | Inr req \<Rightarrow> (case do req d of
          (Inl err, d1) \<Rightarrow> (Inl (Errorf ''list sandboxes: %w'' [AWrap err]), d1)
        | (Inr resp, d1) \<Rightarrow>
            (if rs_Status resp \<noteq> 200 then (Inl (Errorf ''list sandboxes: HTTP %d'' [AInt (rs_Status resp)]), d1)
             else (case cb_sandboxes lib (rs_Body resp) of
                 Inl err \<Rightarrow> (Inl (Errorf ''decode response: %w'' [AWrap err]), d1) | Inr sbs \<Rightarrow> (Inr sbs, d1)))))"

text \<open>Marshalling a list of strings does not fail.\<close>

definition client_Exec :: "client_lib \<Rightarrow> 'd round_trip \<Rightarrow> Client \<Rightarrow> string \<Rightarrow> string list \<Rightarrow> 'd \<Rightarrow> resp_body result \<times> 'd" where
  "client_Exec lib do c i cmd d =
     (case newRequest lib c ''POST'' (''/v1/sandboxes/'' @ i @ ''/exec'') (Some (cb_command lib cmd)) of
        Inl err \<Rightarrow> (Inl err, d)
      | Inr req \<Rightarrow> (case do req d of
          (Inl err, d1) \<Rightarrow> (Inl (Errorf ''exec %s: %w'' [AStr i, AWrap err]), d1)
        | (Inr resp, d1) \<Rightarrow>
            (if rs_Status resp \<noteq> 200 then (Inl (Errorf ''exec %s: HTTP %d'' [AStr i, AInt (rs_Status resp)]), d1) else (Inr (rs_Body resp), d1))))"

definition client_Logs :: "client_lib \<Rightarrow> 'd round_trip \<Rightarrow> Client \<Rightarrow> string \<Rightarrow> bool \<Rightarrow> 'd \<Rightarrow> resp_body result \<times> 'd" where
  "client_Logs lib do c i follow d =
     (case newRequest lib c ''GET'' (''/v1/sandboxes/'' @ i @ ''/logs?follow='' @ (if follow then ''true'' else ''false'')) None of
        Inl err \<Rightarrow> (Inl err, d)
      | Inr req \<Rightarrow> (case do req d of
          (Inl err, d1) \<Rightarrow> (Inl (Errorf ''logs %s: %w'' [AStr i, AWrap err]), d1)
        | (Inr resp, d1) \<Rightarrow>
            (if rs_Status resp \<noteq> 200 then (Inl (Errorf ''logs %s: HTTP %d'' [AStr i, AInt (rs_Status resp)]), d1) else (Inr (rs_Body resp), d1))))"

definition client_PortForward :: "client_lib \<Rightarrow> 'd round_trip \<Rightarrow> Client \<Rightarrow> string \<Rightarrow> int \<Rightarrow> int \<Rightarrow> 'd \<Rightarrow> string result \<times> 'd" where
  "client_PortForward lib do c i localPort remotePort d =
     (case newRequest lib c ''POST'' (''/v1/sandboxes/'' @ i @ ''/port-forward'') (Some (cb_ports lib localPort remotePort)) of
        Inl err \<Rightarrow> (Inl err, d)
      | Inr req \<Rightarrow> (case do req d of
          (Inl err, d1) \<Rightarrow> (Inl (Errorf ''port-forward %s: %w'' [AStr i, AWrap err]), d1)
        | (Inr resp, d1) \<Rightarrow> (case cb_address lib (rs_Body resp) of
            Inl err \<Rightarrow> (Inl (Errorf ''decode response: %w'' [AWrap err]), d1) | Inr addr \<Rightarrow> (Inr addr, d1))))"

section \<open>The client and the daemon\<close>

text \<open>How the server sees a URL: the request target, the escaped path and the query.\<close>

record url_view =
  uv_RequestURI :: string
  uv_EscapedPath :: string
  uv_Query :: "string \<Rightarrow> string"

definition received :: "(string \<Rightarrow> url_view) \<Rightarrow> http_request \<Rightarrow> Request" where
  "received url q = (let u = url (hr_URL q) in
     \<lparr>rq_Method = hr_Method q, rq_RequestURI = uv_RequestURI u, rq_EscapedPath = uv_EscapedPath u, rq_Query = uv_Query u,
      rq_Authorization = hr_Authorization q, rq_Body = (case hr_Body q of None \<Rightarrow> [] | Some b \<Rightarrow> b), rq_Claims = None\<rparr>)"

definition deliver :: "('s, 'r, 'e) Handlers \<Rightarrow> ('r, 'e) req_env \<Rightarrow> (string \<Rightarrow> url_view) \<Rightarrow> 's daemon round_trip" where
  "deliver h env url q d =
     (case NewRouter h env (received url q) d of
        (None, d1) \<Rightarrow> (Inl (Errorf ''EOF'' []), d1) | (Some resp, d1) \<Rightarrow> (Inr resp, d1))"

text \<open>What the parser says of the URLs of the client: documented behaviour of \<open>net/url\<close> for identifiers without special characters.\<close>

definition splits_url :: "(string \<Rightarrow> url_view) \<Rightarrow> string \<Rightarrow> string \<Rightarrow> bool" where
  "splits_url url target path \<longleftrightarrow> uv_RequestURI (url (''http://nvms'' @ target)) = target \<and> uv_EscapedPath (url (''http://nvms'' @ target)) = path"

subsection \<open>Paths of sub-resources\<close>

lemma sub_path:
  assumes "plain_id i" and "plain_id sub" and "p = ''/v1/sandboxes/'' @ i @ ''/'' @ sub"
  shows "cleanPath p = p" and "map pathUnescape (path_segments p) = [''v1'', ''sandboxes'', i, sub]" and "pathUnescape p = p"
    and "cut (drop (length ''/v1/sandboxes/'') p) (CHR ''/'') = Some (i, sub)"
proof -
  have i: "i \<noteq> []" "i \<noteq> ''.''" "i \<noteq> ''..''" "CHR ''/'' \<notin> set i" "CHR ''%'' \<notin> set i"
    and s: "sub \<noteq> []" "sub \<noteq> ''.''" "sub \<noteq> ''..''" "CHR ''/'' \<notin> set sub" "CHR ''%'' \<notin> set sub"
    using assms(1,2) by (auto simp: plain_id_def)
  have split: "split_on (i @ CHR ''/'' # sub) (CHR ''/'') = [i, sub]" using i(4) s(4) by (simp add: split_on_single split_on_append)
  have "last sub \<in> set sub" using s(1) by simp
  then have "last sub \<noteq> CHR ''/''" using s(4) by metis
  then have "last p \<noteq> CHR ''/''" using s(1) by (simp add: assms(3))
  moreover have "clean p = p"
    using i s split by (simp add: assms(3) clean_def isAbs_def clean_parts_def clean_step_def)
  ultimately show "cleanPath p = p" by (simp add: cleanPath_def Let_def assms(3))
  show "map pathUnescape (path_segments p) = [''v1'', ''sandboxes'', i, sub]"
    using i s split by (simp add: assms(3) path_segments_def pathUnescape_plain)
  show "pathUnescape p = p" using i(5) s(5) by (intro pathUnescape_plain) (simp add: assms(3))
  show "cut (drop (length ''/v1/sandboxes/'') p) (CHR ''/'') = Some (i, sub)"
    using i(4) by (simp add: assms(3) cut_append)
qed

lemma mux_sub:
  assumes "plain_id i" and "plain_id sub" and "rq_EscapedPath r = ''/v1/sandboxes/'' @ i @ ''/'' @ sub" and "rq_RequestURI r \<noteq> ''*''"
  shows "mux_ServeHTTP h env r d = auth h env (handleSandboxByID h env) r d"
  by (rule mux_below [OF sub_path(1,2) [OF assms(1-3)] assms(4)])

lemma mux_list:
  assumes "rq_EscapedPath r = ''/v1/sandboxes''" and "rq_RequestURI r \<noteq> ''*''"
  shows "mux_ServeHTTP h env r d = auth h env (handleListSandboxes h) r d"
proof -
  have "cleanPath ''/v1/sandboxes'' = ''/v1/sandboxes''" by code_simp
  moreover have "find (\<lambda>(p, _). pattern_matches p ''/v1/sandboxes'') (routes h env audited) = Some (''/v1/sandboxes'', auth h env (handleListSandboxes h))" for audited
    unfolding routes_def by (simp add: pattern_matches_def path_segments_def pathUnescape_plain)
  ultimately show ?thesis using assms by (simp add: mux_ServeHTTP_def Let_def)
qed

lemma byID_sub:
  assumes "plain_id i" and "plain_id sub" and "rq_EscapedPath r = ''/v1/sandboxes/'' @ i @ ''/'' @ sub"
  shows "handleSandboxByID h env r d =
    (if sub = ''exec'' then handleExec h env i r d else if sub = ''logs'' then handleLogs h i r d
     else if sub = ''port-forward'' then handlePortForward h env i r d else (Some (http_Error (Plain ''unknown sub-resource'') 404), d))"
proof -
  have "cut (drop (length ''/v1/sandboxes/'') (rq_Path r)) (CHR ''/'') = Some (i, sub)"
    using sub_path(3,4) [OF assms(1-3)] by (simp add: rq_Path_def)
  then show ?thesis using assms(1,2) unfolding handleSandboxByID_def plain_id_def Let_def by simp
qed

subsection \<open>With a token and without\<close>

lemma plain_subs: "plain_id ''exec''" "plain_id ''logs''" "plain_id ''port-forward''"
  by (simp_all add: plain_id_def)

text \<open>
  C17. A client with an accepted token runs commands through the whole daemon: for an identifier without slashes and escapes, \<open>Exec\<close> of the
  client, sent through the rate limiter, the audit middleware, the multiplexer, authentication and the handler, makes exactly the call
  \<open>Exec\<close> of the sandbox port with that identifier and that command, and returns its output, or \<open>HTTP 500\<close> when the port fails.
\<close>

theorem client_exec_reaches_port:
  assumes "plain_id i" and "cl_token c \<noteq> []" and "h_JWTVerifier h = None" and "h_Token h = Some tm" and "Check tm (cl_token c) = None"
    and "fst (tb_Allow (en_float env) (en_arrival env) (dm_bucket d))"
    and url: "splits_url url (''/v1/sandboxes/'' @ i @ ''/exec'') (''/v1/sandboxes/'' @ i @ ''/exec'')"
    and "cb_NewRequest lib ''POST'' (''http://nvms/v1/sandboxes/'' @ i @ ''/exec'') = None" and json: "en_command env (cb_command lib cmd) = Some cmd"
  shows "map_prod (\<lambda>r. r) dm_port (client_Exec lib (deliver h env url) c i cmd d) =
    (case sp_Exec (h_Port h) i cmd (dm_port d) of
       (Inl err, s) \<Rightarrow> (Inl (Errorf ''exec %s: HTTP %d'' [AStr i, AInt 500]), s) | (Inr out, s) \<Rightarrow> (Inr (Plain out), s))"
proof -
  let ?q = "\<lparr>hr_Method = ''POST'', hr_URL = ''http://nvms/v1/sandboxes/'' @ i @ ''/exec'', hr_Authorization = ''Bearer '' @ cl_token c,
    hr_ContentType = ''application/json'', hr_Body = Some (cb_command lib cmd)\<rparr>"
  define r where "r = received url ?q"
  have r: "rq_EscapedPath r = ''/v1/sandboxes/'' @ i @ ''/'' @ ''exec''" "rq_RequestURI r \<noteq> ''*''" "rq_Method r = ''POST''" "rq_Body r = cb_command lib cmd"
    "rq_Authorization r = ''Bearer '' @ cl_token c"
    using url by (simp_all add: r_def received_def splits_url_def Let_def)
  have "authorised h env r" using assms(2-5) r(5) by (simp add: authorised_def)
  from NewRouter_admitted [OF mux_sub [OF assms(1) plain_subs(1) r(1,2)] this assms(6)] obtain claims tb where
    n: "fst (NewRouter h env r d) = fst (handleSandboxByID h env (r\<lparr>rq_Claims := claims\<rparr>) (d\<lparr>dm_bucket := tb\<rparr>))"
      "dm_port (snd (NewRouter h env r d)) = dm_port (snd (handleSandboxByID h env (r\<lparr>rq_Claims := claims\<rparr>) (d\<lparr>dm_bucket := tb\<rparr>)))" by metis
  have "handleSandboxByID h env (r\<lparr>rq_Claims := claims\<rparr>) (d\<lparr>dm_bucket := tb\<rparr>) = handleExec h env i (r\<lparr>rq_Claims := claims\<rparr>) (d\<lparr>dm_bucket := tb\<rparr>)"
    using byID_sub [OF assms(1) plain_subs(1), of "r\<lparr>rq_Claims := claims\<rparr>"] r(1) by simp
  with n have n': "fst (NewRouter h env r d) = fst (handleExec h env i (r\<lparr>rq_Claims := claims\<rparr>) (d\<lparr>dm_bucket := tb\<rparr>))"
      "dm_port (snd (NewRouter h env r d)) = dm_port (snd (handleExec h env i (r\<lparr>rq_Claims := claims\<rparr>) (d\<lparr>dm_bucket := tb\<rparr>)))" by simp_all
  obtain res s where x: "sp_Exec (h_Port h) i cmd (dm_port d) = (res, s)" by fastforce
  let ?resp = "case res of Inl err \<Rightarrow> http_Error (ErrText [] err) 500
      | Inr out \<Rightarrow> \<lparr>rs_Status = 200, rs_ContentType = ''application/x-ndjson'', rs_Body = Plain out\<rparr>"
  have req: "newRequest lib c ''POST'' (''/v1/sandboxes/'' @ i @ ''/exec'') (Some (cb_command lib cmd)) = Inr ?q"
    using assms(2,8) by (simp add: newRequest_def)
  have "fst (NewRouter h env r d) = Some ?resp" and s: "dm_port (snd (NewRouter h env r d)) = s"
    using n' r json x by (cases res; simp add: handleExec_def on_port_def)+
  then have "deliver h env url ?q d = (Inr ?resp, snd (NewRouter h env r d))"
    unfolding deliver_def r_def [symmetric] by (metis (no_types, lifting) option.case(2) prod.case prod.collapse)
  then show ?thesis unfolding client_Exec_def req sum.case prod.case x by (cases res) (simp_all add: s http_Error_def)
qed

text \<open>For examples: the view of a URL without special characters, and a library whose JSON knows one command.\<close>

definition plain_url :: "string \<Rightarrow> url_view" where
  "plain_url s = (let target = drop (length ''http://nvms'') s in
     \<lparr>uv_RequestURI = target, uv_EscapedPath = takeWhile (\<lambda>c. c \<noteq> CHR ''?'') target, uv_Query = (\<lambda>_. [])\<rparr>)"

definition demo_client_lib :: client_lib where
  "demo_client_lib = \<lparr>cb_NewRequest = (\<lambda>_ _. None), cb_command = (\<lambda>cmd. concat cmd), cb_ports = (\<lambda>_ _. []), cb_sandboxes = (\<lambda>_. Inr []), cb_address = (\<lambda>_. Inr [])\<rparr>"

theorem client_exec_reaches_port_witness:
  "map_prod (\<lambda>r. r) dm_port (client_Exec demo_client_lib (deliver demo_handlers (demo_env\<lparr>en_command := \<lambda>b. Some [b]\<rparr>) plain_url)
     \<lparr>cl_socketPath = ''/tmp/s'', cl_token = ''ab''\<rparr> ''7'' [''ls''] (new_daemon \<lparr>fl_round = id, fl_fused = False\<rparr> 0 None 3)) = (Inr (Plain []), 3)"
proof -
  let ?d = "new_daemon \<lparr>fl_round = id, fl_fused = False\<rparr> 0 None 3" and ?env = "demo_env\<lparr>en_command := \<lambda>b. Some [b]\<rparr>"
  have "fst (tb_Allow (en_float ?env) (en_arrival ?env) (dm_bucket ?d))"
    by (simp add: demo_env_def new_daemon_def NewTokenBucket_def tb_Allow_def tb_refill_def Seconds_def quo_def time_Sub_def add_product_def)
  moreover have "splits_url plain_url (''/v1/sandboxes/'' @ ''7'' @ ''/exec'') (''/v1/sandboxes/'' @ ''7'' @ ''/exec'')" by code_simp
  moreover have "Check \<lparr>mg_tokens = [''ab'']\<rparr> ''ab'' = None" by (simp add: Check_iff)
  ultimately show ?thesis
    using client_exec_reaches_port [of "''7''" "\<lparr>cl_socketPath = ''/tmp/s'', cl_token = ''ab''\<rparr>" demo_handlers "\<lparr>mg_tokens = [''ab'']\<rparr>" ?env ?d plain_url
        demo_client_lib "[''ls'']"]
    by (simp add: demo_handlers_def demo_port_def demo_client_lib_def plain_id_def new_daemon_def)
qed

text \<open>Without a token the answer is 401, or 429 from the limiter, and the port is not called.\<close>

lemma NewRouter_refused:
  assumes "\<And>d. mux_ServeHTTP h env r d = auth h env hdl r d" and "rq_Authorization r = []"
  shows "\<exists>resp d'. NewRouter h env r d = (Some resp, d') \<and> dm_port d' = dm_port d \<and> (rs_Status resp = 401 \<or> rs_Status resp = 429)"
proof (cases rule: NewRouter_cases [where h = h and env = env and r = r and d = d])
  case (limited tb)
  then show ?thesis by (simp add: too_many_requests_def http_JSON_def)
next
  case (served tb)
  have "mux_ServeHTTP h env r (d\<lparr>dm_bucket := tb\<rparr>) = (Some (http_Error (Plain ''unauthorized'') 401), d\<lparr>dm_bucket := tb\<rparr>)"
    using assms by (simp add: auth_def Let_def)
  then show ?thesis using served(2) by (cases "dm_AuditLog d") (simp_all add: auditMiddleware_def http_Error_def)
qed

text \<open>The three calls that look at the status of the response.\<close>

datatype client_call = ListCall | ExecCall string "string list" | LogsCall string bool

fun call_target :: "client_call \<Rightarrow> string" where
  "call_target ListCall = ''/v1/sandboxes''"
| "call_target (ExecCall i cmd) = ''/v1/sandboxes/'' @ i @ ''/exec''"
| "call_target (LogsCall i follow) = ''/v1/sandboxes/'' @ i @ ''/logs?follow='' @ (if follow then ''true'' else ''false'')"

fun call_path :: "client_call \<Rightarrow> string" where
  "call_path ListCall = ''/v1/sandboxes''"
| "call_path (ExecCall i cmd) = ''/v1/sandboxes/'' @ i @ ''/exec''"
| "call_path (LogsCall i follow) = ''/v1/sandboxes/'' @ i @ ''/logs''"

fun call_plain :: "client_call \<Rightarrow> bool" where
  "call_plain ListCall = True"
| "call_plain (ExecCall i cmd) = plain_id i"
| "call_plain (LogsCall i follow) = plain_id i"

fun perform :: "client_lib \<Rightarrow> 'd round_trip \<Rightarrow> Client \<Rightarrow> client_call \<Rightarrow> 'd \<Rightarrow> bool \<times> 'd" where
  "perform lib do c ListCall d = map_prod (\<lambda>r. \<not> isl r) (\<lambda>s. s) (client_ListSandboxes lib do c d)"
| "perform lib do c (ExecCall i cmd) d = map_prod (\<lambda>r. \<not> isl r) (\<lambda>s. s) (client_Exec lib do c i cmd d)"
| "perform lib do c (LogsCall i follow) d = map_prod (\<lambda>r. \<not> isl r) (\<lambda>s. s) (client_Logs lib do c i follow d)"

lemma deliver_refused:
  assumes "call_plain call" and "splits_url url (call_target call) (call_path call)"
    and "hr_URL q = ''http://nvms'' @ call_target call" and "hr_Authorization q = []"
  shows "\<exists>resp d'. deliver h env url q d = (Inr resp, d') \<and> dm_port d' = dm_port d \<and> rs_Status resp \<noteq> 200"
proof -
  let ?r = "received url q"
  have r: "rq_EscapedPath ?r = call_path call" "rq_RequestURI ?r = call_target call" "rq_Authorization ?r = []"
    using assms(2-4) by (simp_all add: received_def splits_url_def Let_def)
  have "rq_RequestURI ?r \<noteq> ''*''" by (cases call) (simp_all add: r(2))
  with r(1) assms(1) mux_list mux_sub [OF _ plain_subs(1)] mux_sub [OF _ plain_subs(2)]
  have "\<exists>hdl. \<forall>d. mux_ServeHTTP h env ?r d = auth h env hdl ?r d" by (cases call) (simp_all, blast+)
  then obtain hdl where "\<And>d. mux_ServeHTTP h env ?r d = auth h env hdl ?r d" by blast
  from NewRouter_refused [OF this r(3), of d] show ?thesis by (auto simp: deliver_def)
qed

lemma tokenless_call_refused:
  assumes "cl_token c = []" and "call_plain call" and "splits_url url (call_target call) (call_path call)"
  shows "\<exists>d'. perform lib (deliver h env url) c call d = (False, d') \<and> dm_port d' = dm_port d"
proof -
  have "\<exists>resp d'. deliver h env url q d = (Inr resp, d') \<and> dm_port d' = dm_port d \<and> rs_Status resp \<noteq> 200"
    if "hr_URL q = ''http://nvms'' @ call_target call" "hr_Authorization q = []" for q
    using deliver_refused [OF assms(2,3) that] .
  note refused = this
  show ?thesis
  proof (cases call)
    case ListCall
    obtain r where r: "newRequest lib c ''GET'' ''/v1/sandboxes'' None = r" by blast
    then show ?thesis using refused [of "projr r"] assms(1) ListCall
      by (cases r) (auto simp: client_ListSandboxes_def newRequest_def split: option.splits)
  next
    case (ExecCall i cmd)
    obtain r where r: "newRequest lib c ''POST'' (''/v1/sandboxes/'' @ i @ ''/exec'') (Some (cb_command lib cmd)) = r" by blast
    then show ?thesis using refused [of "projr r"] assms(1) ExecCall
      by (cases r) (auto simp: client_Exec_def newRequest_def split: option.splits)
  next
    case (LogsCall i follow)
    obtain r where r: "newRequest lib c ''GET'' (call_target (LogsCall i follow)) None = r" by blast
    then show ?thesis using refused [of "projr r"] assms(1) LogsCall
      by (cases r) (auto simp: client_Logs_def newRequest_def split: option.splits)
  qed
qed

text \<open>
  \<open>PortForward\<close> does not look at the status: when the body of an error decodes as an object without an address, such as that of the rate
  limiter, it reports an empty address and no error.
\<close>

lemma port_forward_ignores_status:
  assumes "newRequest lib c ''POST'' (''/v1/sandboxes/'' @ i @ ''/port-forward'') (Some (cb_ports lib l r)) = Inr req"
    and "do req d = (Inr too_many_requests, d')" and "cb_address lib (rs_Body too_many_requests) = Inr []"
  shows "client_PortForward lib do c i l r d = (Inr [], d')"
  by (simp only: client_PortForward_def assms sum.case prod.case)

end
