(* ===== verification/Native_Sandbox.thy ===== *)
theory Native_Sandbox
  imports Host Api_Router
begin

text \<open>
  The sandbox isolation adapters of \<open>internal/adapters/sandbox\<close>: the table of sandboxes (\<open>adapter.go\<close>, \<open>sandbox.go\<close>), the
  native tools bwrap, firejail and unshare (\<open>native.go\<close>), Landlock (\<open>landlock.go\<close>, \<open>landlock_linux.go\<close>,
  \<open>landlock_export.go\<close>), seccomp and wasmtime, and the helpers they share (\<open>helpers.go\<close>). The host, the system calls
  of Landlock and the source of random bytes are parameters.
\<close>

section \<open>Identifiers, logs, commands and samples\<close>

text \<open>\<open>io.ReadFull\<close> on the random reader gives 16 bytes or fails.\<close>

record 'w id_source =
  is_ReadFull :: "'w \<Rightarrow> nat list option \<times> 'w"
  is_UnixNano :: "'w \<Rightarrow> int"
  is_Getpid :: int

definition generateID :: "'w id_source \<Rightarrow> 'w \<Rightarrow> string \<times> 'w" where
  "generateID src w =
     (case is_ReadFull src w of
        (None, w1) \<Rightarrow> (''sandbox-'' @ itoa (is_UnixNano src w1) @ ''-'' @ itoa (is_Getpid src), w1)
      | (Some b, w1) \<Rightarrow>
          (''sandbox-'' @ hexEncode (take 4 b) @ ''-'' @ hexEncode (take 2 (drop 4 b)) @ ''-'' @ hexEncode (take 2 (drop 6 b)) @ ''-'' @
           hexEncode (take 2 (drop 8 b)) @ ''-'' @ hexEncode (drop 10 b), w1))"

definition logsForSandbox :: "'w host \<Rightarrow> Sandbox option \<Rightarrow> 'w \<Rightarrow> string result \<times> 'w" where
  "logsForSandbox h sb w =
     (case sb of
        None \<Rightarrow> (Inl (Errorf ''sandbox is nil'' []), w)
      | Some s \<Rightarrow>
          if sb_PID s \<le> 0 then (Inl (Errorf ''sandbox PID not available (sandbox may not be running)'' []), w)
          else stream_command h ''failed to start journalctl: %w''
            [''journalctl'', ''--no-pager'', ''-p'', ''info'', ''_PID='' @ itoa (sb_PID s), ''--since'', ''1 hour ago''] w)"

definition execInSandbox :: "'w host \<Rightarrow> Sandbox option \<Rightarrow> string list \<Rightarrow> 'w \<Rightarrow> string result \<times> 'w" where
  "execInSandbox h sb cmdArgs w =
     (case sb of
        None \<Rightarrow> (Inl (Errorf ''sandbox is nil'' []), w)
      | Some s \<Rightarrow>
          if sb_PID s \<le> 0 then (Inl (Errorf ''sandbox PID not available (sandbox may not be running)'' []), w)
          else stream_command h ''failed to start nsenter: %w''
            ([''nsenter'', ''-t'', itoa (sb_PID s), ''-m'', ''-u'', ''-i'', ''-p'', ''--''] @ cmdArgs) w)"

text \<open>\<open>fmt.Sscanf\<close> with a format is a parameter; it gives 0 when nothing matches. \<open>ticks\<close> is the quotient by 100.0.\<close>

definition vm_rss :: "(string \<Rightarrow> string \<Rightarrow> int) \<Rightarrow> string list \<Rightarrow> int \<Rightarrow> int" where
  "vm_rss scan ls m0 =
     fold (\<lambda>line m. if hasPrefix line ''VmRSS:'' then scan line ''VmRSS: %d kB'' * 1024 else m) ls m0"

definition metricsForSandbox :: "'w host \<Rightarrow> (string \<Rightarrow> string \<Rightarrow> int) \<Rightarrow> (int \<Rightarrow> 'f) \<Rightarrow> 'f \<Rightarrow> Sandbox option \<Rightarrow> 'w \<Rightarrow> 'f SandboxMetrics result" where
  "metricsForSandbox h scan ticks zero sb w =
     (case sb of
        None \<Rightarrow> Inl (Errorf ''sandbox is nil'' [])
      | Some s \<Rightarrow>
          let metrics = \<lparr>sm_SandboxID = sb_ID s, sm_CPUUsage = zero, sm_MemoryUsage = 0, sm_DiskUsage = 0, sm_NetworkRx = 0, sm_NetworkTx = 0\<rparr> in
          if sb_PID s \<le> 0 then Inr metrics
          else (case ho_ReadFile h (''/proc/'' @ itoa (sb_PID s) @ ''/status'') w of
              Inl _ \<Rightarrow> Inr metrics
            | Inr statusData \<Rightarrow>
                let metrics1 = metrics\<lparr>sm_MemoryUsage := vm_rss scan (split_on statusData (CHR 0x0A)) 0\<rparr> in
                (case ho_ReadFile h (''/proc/'' @ itoa (sb_PID s) @ ''/stat'') w of
                   Inl _ \<Rightarrow> Inr metrics1
                 | Inr statData \<Rightarrow>
                     let fields = split_on statData (CHR '' '') in
                     Inr (if length fields > 21 then metrics1\<lparr>sm_CPUUsage := ticks (scan (fields ! 13) ''%d'' + scan (fields ! 14) ''%d'')\<rparr>
                          else metrics1))))"

section \<open>The table of sandboxes\<close>

text \<open>
  The state of an adapter: the world of the host, its sandboxes by identifier, and what \<open>sync.OnceValue\<close> remembers of the
  Landlock probe, which is per process.
\<close>

record 'w ns_state =
  ns_world :: 'w
  ns_sandboxes :: "(string, Sandbox) gomap"
  ns_once :: "bool option"

definition sba_NewAdapter :: "'w \<Rightarrow> bool option \<Rightarrow> 'w ns_state" where
  "sba_NewAdapter w once = \<lparr>ns_world = w, ns_sandboxes = [], ns_once = once\<rparr>"

definition sba_Create :: "'w id_source \<Rightarrow> 'w host \<Rightarrow> SandboxConfig \<Rightarrow> 'w ns_state \<Rightarrow> Sandbox option result \<times> 'w ns_state" where
  "sba_Create src h config s =
     (let (i, w) = generateID src (ns_world s);
          sandbox = zero_Sandbox\<lparr>sb_ID := i, sb_Name := sc_Name config, sb_Status := SandboxStatusPending, sb_VMFlavor := sc_VMType config,
            sb_CreatedAt := ho_Now h w\<rparr>
      in (Inr (Some sandbox), s\<lparr>ns_world := w, ns_sandboxes := AList.update i sandbox (ns_sandboxes s)\<rparr>))"

abbreviation sandbox_not_found :: "string \<Rightarrow> go_error" where
  "sandbox_not_found i \<equiv> Errorf ''sandbox not found: %s'' [AStr i]"

definition sba_Start :: "'w host \<Rightarrow> string \<Rightarrow> 'w ns_state \<Rightarrow> go_error option \<times> 'w ns_state" where
  "sba_Start h i s =
     (case map_of (ns_sandboxes s) i of
        None \<Rightarrow> (Some (sandbox_not_found i), s)
      | Some sandbox \<Rightarrow>
          (None, s\<lparr>ns_sandboxes := AList.update i (sandbox\<lparr>sb_Status := SandboxStatusRunning, sb_StartedAt := Some (ho_Now h (ns_world s))\<rparr>)
             (ns_sandboxes s)\<rparr>))"

definition sba_Stop :: "string \<Rightarrow> bool \<Rightarrow> 'w ns_state \<Rightarrow> go_error option \<times> 'w ns_state" where
  "sba_Stop i force s =
     (case map_of (ns_sandboxes s) i of
        None \<Rightarrow> (Some (sandbox_not_found i), s)
      | Some sandbox \<Rightarrow> (None, s\<lparr>ns_sandboxes := AList.update i (sandbox\<lparr>sb_Status := SandboxStatusStopped\<rparr>) (ns_sandboxes s)\<rparr>))"

definition sba_Delete :: "string \<Rightarrow> 'w ns_state \<Rightarrow> go_error option \<times> 'w ns_state" where
  "sba_Delete i s = (None, s\<lparr>ns_sandboxes := AList.delete i (ns_sandboxes s)\<rparr>)"

definition sba_List :: "'w ns_state \<Rightarrow> Sandbox list result \<times> 'w ns_state" where
  "sba_List s = (Inr (map snd (ns_sandboxes s)), s)"

definition sba_Get :: "string \<Rightarrow> 'w ns_state \<Rightarrow> Sandbox option result \<times> 'w ns_state" where
  "sba_Get i s = ((case map_of (ns_sandboxes s) i of None \<Rightarrow> Inl (sandbox_not_found i) | Some sb \<Rightarrow> Inr (Some sb)), s)"

definition sba_Logs :: "'w host \<Rightarrow> string \<Rightarrow> bool \<Rightarrow> 'w ns_state \<Rightarrow> string result \<times> 'w ns_state" where
  "sba_Logs h i follow s =
     (case map_of (ns_sandboxes s) i of
        None \<Rightarrow> (Inl (sandbox_not_found i), s)
      | Some sb \<Rightarrow> (case logsForSandbox h (Some sb) (ns_world s) of (r, w) \<Rightarrow> (r, s\<lparr>ns_world := w\<rparr>)))"

definition sba_Exec :: "'w host \<Rightarrow> string \<Rightarrow> string list \<Rightarrow> 'w ns_state \<Rightarrow> string result \<times> 'w ns_state" where
  "sba_Exec h i cmd s =
     (case map_of (ns_sandboxes s) i of
        None \<Rightarrow> (Inl (sandbox_not_found i), s)
      | Some sb \<Rightarrow> (case execInSandbox h (Some sb) cmd (ns_world s) of (r, w) \<Rightarrow> (r, s\<lparr>ns_world := w\<rparr>)))"

definition sba_Metrics :: "'w host \<Rightarrow> (string \<Rightarrow> string \<Rightarrow> int) \<Rightarrow> (int \<Rightarrow> 'f) \<Rightarrow> 'f \<Rightarrow> string \<Rightarrow> 'w ns_state \<Rightarrow> 'f SandboxMetrics result" where
  "sba_Metrics h scan ticks zero i s =
     (case map_of (ns_sandboxes s) i of
        None \<Rightarrow> Inl (sandbox_not_found i)
      | Some sb \<Rightarrow> metricsForSandbox h scan ticks zero (Some sb) (ns_world s))"

definition sba_port :: "'w id_source \<Rightarrow> 'w host \<Rightarrow> 'w ns_state SandboxPort" where
  "sba_port src h = \<lparr>sp_Create = sba_Create src h, sp_Start = sba_Start h, sp_Stop = sba_Stop, sp_Delete = sba_Delete, sp_List = sba_List,
     sp_Get = sba_Get, sp_Logs = sba_Logs h, sp_Exec = sba_Exec h, sp_PortForward = None\<rparr>"

section \<open>Landlock\<close>

text \<open>
  The system calls with the arguments as they are passed: the address of the attribute (0 is the null pointer), its size
  and the flags for \<open>landlock_create_ruleset\<close>; the descriptor, the bytes at the address, the fourth argument for
  \<open>landlock_add_rule\<close>. A call gives its result and the error number, 0 for success. \<open>k_linux\<close> is the build tag.
\<close>

record 'w kernel =
  k_linux :: bool
  k_create_ruleset :: "int \<Rightarrow> int \<Rightarrow> int \<Rightarrow> 'w \<Rightarrow> (int \<times> int) \<times> 'w"
  k_add_rule :: "int \<Rightarrow> string \<Rightarrow> string list \<Rightarrow> 'w \<Rightarrow> int \<times> 'w" \<comment> \<open>the access rights by name\<close>
  k_no_new_privs :: "'w \<Rightarrow> int \<times> 'w"
  k_restrict_self :: "int \<Rightarrow> 'w \<Rightarrow> int \<times> 'w"
  k_close :: "int \<Rightarrow> 'w \<Rightarrow> 'w"

abbreviation ENOSYS :: int where "ENOSYS \<equiv> 38"

abbreviation (input) LANDLOCK_CREATE_RULESET_VERSION :: int where "LANDLOCK_CREATE_RULESET_VERSION \<equiv> 1"

text \<open>The constant that names the flag is passed in the place of the size.\<close>

definition kernelSupportsLandlock :: "'w kernel \<Rightarrow> 'w ns_state \<Rightarrow> bool \<times> 'w ns_state" where
  "kernelSupportsLandlock k s =
     (if \<not> k_linux k then (False, s)
      else case ns_once s of
        Some supported \<Rightarrow> (supported, s)
      | None \<Rightarrow> (case k_create_ruleset k 0 LANDLOCK_CREATE_RULESET_VERSION 0 (ns_world s) of
          ((fd, errno), w) \<Rightarrow>
            if errno = 0 \<and> fd \<ge> 0 then (True, s\<lparr>ns_world := k_close k fd w, ns_once := Some True\<rparr>)
            else (errno \<noteq> ENOSYS, s\<lparr>ns_world := w, ns_once := Some (errno \<noteq> ENOSYS)\<rparr>)))"

definition read_access :: "string list" where
  "read_access = [''READ_FILE'', ''READ_DIR'']"

definition write_access :: "string list" where
  "write_access = [''READ_FILE'', ''WRITE_FILE'', ''READ_DIR'', ''REMOVE_FILE'', ''REMOVE_DIR'', ''MAKE_CHAR'', ''MAKE_DIR'', ''MAKE_REG'',
     ''MAKE_SOCK'', ''MAKE_FIFO'', ''MAKE_BLOCK'', ''MAKE_SYM'']"

text \<open>The closure \<open>addPath\<close> in its loop: the first path that is refused ends it and closes the rule set.\<close>

fun add_paths :: "'w kernel \<Rightarrow> int \<Rightarrow> string list \<Rightarrow> string list \<Rightarrow> 'w \<Rightarrow> go_error option \<times> 'w" where
  "add_paths k fd access [] w = (None, w)"
| "add_paths k fd access (p # ps) w =
     (case k_add_rule k fd (p @ [CHR 0x00]) access w of
        (errno, w1) \<Rightarrow> if errno \<noteq> 0 then (Some (Errorf ''landlock_add_rule(%s): %v'' [AStr p, AInt errno]), k_close k fd w1)
          else add_paths k fd access ps w1)"

definition buildLandlockRuleset :: "'w kernel \<Rightarrow> string list \<Rightarrow> string list \<Rightarrow> 'w \<Rightarrow> int result \<times> 'w" where
  "buildLandlockRuleset k readOnlyPaths readWritePaths w =
     (if \<not> k_linux k then (Inl (Errorf ''landlock: not supported on this platform (Linux only)'' []), w)
      else case k_create_ruleset k 0 LANDLOCK_CREATE_RULESET_VERSION 0 w of
        ((probeFd, errno), w1) \<Rightarrow>
          if errno \<noteq> 0 then (Inl (Errorf ''landlock_create_ruleset: %v'' [AInt errno]), w1)
          else (case k_create_ruleset k 0 0 0 (k_close k probeFd w1) of
            ((rulesetFd, errno2), w2) \<Rightarrow>
              if errno2 \<noteq> 0 then (Inl (Errorf ''landlock_create_ruleset (no attr): %v'' [AInt errno2]), w2)
              else (case add_paths k rulesetFd read_access readOnlyPaths w2 of
                  (Some err, w3) \<Rightarrow> (Inl err, w3)
                | (None, w3) \<Rightarrow> (case add_paths k rulesetFd write_access readWritePaths w3 of
                    (Some err, w4) \<Rightarrow> (Inl err, w4)
                  | (None, w4) \<Rightarrow> (Inr rulesetFd, w4)))))"

definition landlockRestrictSelf :: "'w kernel \<Rightarrow> int \<Rightarrow> 'w \<Rightarrow> go_error option \<times> 'w" where
  "landlockRestrictSelf k rulesetFd w =
     (if \<not> k_linux k then (Some (Errorf ''landlock: not supported on this platform (Linux only)'' []), w)
      else case k_no_new_privs k w of
        (errno, w1) \<Rightarrow>
          if errno \<noteq> 0 then (Some (Errorf ''PR_SET_NO_NEW_PRIVS: %v'' [AInt errno]), w1)
          else (case k_restrict_self k rulesetFd w1 of
            (errno2, w2) \<Rightarrow> ((if errno2 \<noteq> 0 then Some (Errorf ''landlock_restrict_self: %v'' [AInt errno2]) else None), w2)))"

definition BuildLandlockRulesetDefault :: "'w kernel \<Rightarrow> 'w \<Rightarrow> int result \<times> 'w" where
  "BuildLandlockRulesetDefault k w =
     (if \<not> k_linux k then (Inl (Errorf ''landlock: not supported on this platform'' []), w)
      else buildLandlockRuleset k [''/''] [''/tmp''] w)"

text \<open>The deferred \<open>Close\<close> runs on every path; the error of \<open>unix.Prctl\<close> is the error number.\<close>

definition LandlockRestrictSelf :: "'w kernel \<Rightarrow> int \<Rightarrow> 'w \<Rightarrow> go_error option \<times> 'w" where
  "LandlockRestrictSelf k rulesetFd w =
     (if \<not> k_linux k then (Some (Errorf ''landlock: not supported on this platform'' []), w)
      else case k_no_new_privs k w of
        (errno, w1) \<Rightarrow>
          if errno \<noteq> 0 then (Some (Errorf ''errno %d'' [AInt errno]), k_close k rulesetFd w1)
          else (case landlockRestrictSelf k rulesetFd w1 of (err, w2) \<Rightarrow> (err, k_close k rulesetFd w2)))"

definition SandboxStatusCreating :: string where "SandboxStatusCreating = ''starting''"

text \<open>The descriptor that the \<open>Create\<close> of the layer adapters returns and does not keep.\<close>

definition layer_sandbox :: "string \<Rightarrow> string \<Rightarrow> SandboxConfig \<Rightarrow> Sandbox" where
  "layer_sandbox kind i config = zero_Sandbox\<lparr>sb_ID := i, sb_Type := kind, sb_Config := Some config, sb_PID := - 1,
     sb_Status := SandboxStatusCreating, sb_Mounts := sc_Mounts config, sb_Environment := sc_Environment config\<rparr>"

definition layer_Create :: "'w id_source \<Rightarrow> string \<Rightarrow> SandboxConfig \<Rightarrow> 'w ns_state \<Rightarrow> Sandbox option result \<times> 'w ns_state" where
  "layer_Create src kind config s =
     (case generateID src (ns_world s) of (i, w) \<Rightarrow> (Inr (Some (layer_sandbox kind i config)), s\<lparr>ns_world := w\<rparr>))"

definition landlock_Create :: "'w id_source \<Rightarrow> SandboxConfig \<Rightarrow> 'w ns_state \<Rightarrow> Sandbox option result \<times> 'w ns_state" where
  "landlock_Create src = layer_Create src ''landlock''"

definition landlock_read_only :: "string list" where
  "landlock_read_only = [''/usr'', ''/usr/lib'', ''/usr/lib64'', ''/usr/share'', ''/lib'', ''/lib64'', ''/etc'', ''/etc/ssl'', ''/etc/resolv.conf'',
     ''/bin'', ''/sbin'', ''/var/lib/dpkg'', ''/var/lib/rpm'']"

definition landlock_Start :: "'w kernel \<Rightarrow> string \<Rightarrow> 'w ns_state \<Rightarrow> go_error option \<times> 'w ns_state" where
  "landlock_Start k i s =
     (case kernelSupportsLandlock k s of
        (False, s1) \<Rightarrow>
          (Some (Errorf ''landlock: kernel does not support landlock (need Linux >= 5.13); refusing to start sandbox %q'' [AStr i]), s1)
      | (True, s1) \<Rightarrow> (case buildLandlockRuleset k landlock_read_only [''/tmp''] (ns_world s1) of
          (Inl err, w) \<Rightarrow> (Some (Errorf ''landlock: build ruleset: %w'' [AWrap err]), s1\<lparr>ns_world := w\<rparr>)
        | (Inr rulesetFd, w) \<Rightarrow> (case landlockRestrictSelf k rulesetFd w of
            (Some err, w1) \<Rightarrow> (Some (Errorf ''landlock: restrict_self: %w'' [AWrap err]), s1\<lparr>ns_world := w1\<rparr>)
          | (None, w1) \<Rightarrow> (None, s1\<lparr>ns_world := w1\<rparr>))))"

text \<open>The journal of a layer adapter.\<close>

definition layer_journal :: "'w host \<Rightarrow> string \<Rightarrow> bool \<Rightarrow> 'w ns_state \<Rightarrow> string result \<times> 'w ns_state" where
  "layer_journal h tag follow s =
     (case stream_command h ''failed to start journalctl: %w'' ([''journalctl'', ''-t'', tag] @ (if follow then [''-f''] else [])) (ns_world s) of
        (r, w) \<Rightarrow> (r, s\<lparr>ns_world := w\<rparr>))"

text \<open>Operations that change nothing: \<open>Stop\<close> and \<open>Delete\<close> of the layers, and an empty \<open>List\<close>.\<close>

definition no_effect :: "'s \<Rightarrow> go_error option \<times> 's" where "no_effect s = (None, s)"

definition landlock_port :: "'w id_source \<Rightarrow> 'w host \<Rightarrow> 'w kernel \<Rightarrow> 'w ns_state SandboxPort" where
  "landlock_port src h k = \<lparr>sp_Create = landlock_Create src, sp_Start = landlock_Start k, sp_Stop = (\<lambda>i force. no_effect),
     sp_Delete = (\<lambda>i. no_effect), sp_List = (\<lambda>s. (Inr [], s)),
     sp_Get = (\<lambda>i s. (Inl (Errorf ''landlock sandbox must be tracked externally by PID for id=%s'' [AStr i]), s)),
     sp_Logs = (\<lambda>i. layer_journal h (''landlock-'' @ i)),
     sp_Exec = (\<lambda>i cmd s. (Inl (Errorf ''landlock sandbox exec requires external PID tracking; use nsenter with known PID for id=%s'' [AStr i]), s)),
     sp_PortForward = None\<rparr>"

section \<open>Seccomp and wasmtime\<close>

definition seccomp_port :: "'w id_source \<Rightarrow> 'w host \<Rightarrow> 'w ns_state SandboxPort" where
  "seccomp_port src h = \<lparr>sp_Create = layer_Create src ''seccomp'', sp_Start = (\<lambda>i. no_effect), sp_Stop = (\<lambda>i force. no_effect),
     sp_Delete = (\<lambda>i. no_effect), sp_List = (\<lambda>s. (Inr [], s)),
     sp_Get = (\<lambda>i s. (Inl (Errorf ''seccomp sandbox tracked externally; use container runtime for id=%s'' [AStr i]), s)),
     sp_Logs = (\<lambda>i. layer_journal h (''seccomp-'' @ i)),
     sp_Exec = (\<lambda>i cmd s. (Inl (Errorf ''seccomp sandbox exec requires container runtime; use runc exec for id=%s'' [AStr i]), s)),
     sp_PortForward = None\<rparr>"

definition wasmtime_Exec :: "'w host \<Rightarrow> string list \<Rightarrow> 'w ns_state \<Rightarrow> string result \<times> 'w ns_state" where
  "wasmtime_Exec h cmdArgs s =
     (case stream_command h ''failed to start wasmtime: %w'' (''wasmtime'' # cmdArgs) (ns_world s) of (r, w) \<Rightarrow> (r, s\<lparr>ns_world := w\<rparr>))"

definition wasmtime_port :: "'w id_source \<Rightarrow> 'w host \<Rightarrow> 'w ns_state SandboxPort" where
  "wasmtime_port src h = \<lparr>sp_Create = layer_Create src ''wasmtime'', sp_Start = (\<lambda>i. no_effect), sp_Stop = (\<lambda>i force. no_effect),
     sp_Delete = (\<lambda>i. no_effect), sp_List = (\<lambda>s. (Inr [], s)),
     sp_Get = (\<lambda>i s. (Inl (Errorf ''WASM sandbox state tracked by caller; use wasmtime instance API for id=%s'' [AStr i]), s)),
     sp_Logs = (\<lambda>i follow s. (Inl (Errorf ''WASM logs must be captured by the calling runtime; use wasmtime with --dir for id=%s'' [AStr i]), s)),
     sp_Exec = (\<lambda>i. wasmtime_Exec h), sp_PortForward = None\<rparr>"

section \<open>Runtimes on this host\<close>

record SandboxRuntime =
  sr_Name :: string
  sr_Type :: string
  sr_SubType :: string
  sr_Path :: string
  sr_Version :: string

definition getVersion :: "'w host \<Rightarrow> string \<Rightarrow> 'w \<Rightarrow> string \<times> 'w" where
  "getVersion h path w =
     (case ho_Output h [path, ''--version''] w of
        ((_, Some err), w1) \<Rightarrow> (''unknown'', w1)
      | ((out, None), w1) \<Rightarrow> (trimSpace out, w1))"

text \<open>A program that is on the path, with its version.\<close>

definition probe_program :: "'w host \<Rightarrow> string \<Rightarrow> string \<Rightarrow> string \<Rightarrow> string \<Rightarrow> 'w ns_state \<Rightarrow> SandboxRuntime list \<times> 'w ns_state" where
  "probe_program h prog name kind sub s =
     (case ho_LookPath h prog (ns_world s) of
        Inl _ \<Rightarrow> ([], s)
      | Inr path \<Rightarrow> (case getVersion h path (ns_world s) of
          (v, w) \<Rightarrow> ([\<lparr>sr_Name = name, sr_Type = kind, sr_SubType = sub, sr_Path = path, sr_Version = v\<rparr>], s\<lparr>ns_world := w\<rparr>)))"

definition checkLandlockSupport :: "'w host \<Rightarrow> 'w kernel \<Rightarrow> 'w ns_state \<Rightarrow> bool \<times> 'w ns_state" where
  "checkLandlockSupport h k s =
     (case kernelSupportsLandlock k s of
        (True, s1) \<Rightarrow> (True, s1)
      | (False, s1) \<Rightarrow>
          (ho_Stat h ''/sys/kernel/landlock_restrict_self'' (ns_world s1) = None \<or> ho_Stat h ''/sys/kernel/security/landlock'' (ns_world s1) = None, s1))"

definition landlock_runtime :: SandboxRuntime where
  "landlock_runtime = \<lparr>sr_Name = ''Landlock'', sr_Type = ''landlock'', sr_SubType = [], sr_Path = ''kernel-native'', sr_Version = ''kernel-supported''\<rparr>"

definition ListRuntimes :: "'w host \<Rightarrow> 'w kernel \<Rightarrow> 'w ns_state \<Rightarrow> SandboxRuntime list \<times> 'w ns_state" where
  "ListRuntimes h k s =
     (let (gvisor, s1) = probe_program h ''runsc'' ''gVisor'' ''gvisor'' [] s;
          (supported, s2) = checkLandlockSupport h k s1;
          (wasmtime, s3) = probe_program h ''wasmtime'' ''Wasmtime'' ''wasmtime'' [] s2
      in (gvisor @ (if supported then [landlock_runtime] else []) @ wasmtime, s3))"

definition ListNativeSandboxes :: "'w host \<Rightarrow> 'w ns_state \<Rightarrow> SandboxRuntime list \<times> 'w ns_state" where
  "ListNativeSandboxes h s =
     (let (bwrap, s1) = probe_program h ''bwrap'' ''Bubblewrap (bwrap)'' ''native'' ''bwrap'' s;
          (firejail, s2) = probe_program h ''firejail'' ''Firejail'' ''native'' ''firejail'' s1;
          (unshare, s3) = probe_program h ''unshare'' ''Linux Namespaces (unshare)'' ''native'' ''unshare'' s2
      in (bwrap @ firejail @ unshare, s3))"

section \<open>Native tools\<close>

record nativeSandboxAdapter =
  na_tool :: string
  na_userNS :: bool
  na_mountNS :: bool
  na_pidNS :: bool
  na_netNS :: bool

text \<open>The constructor sets the tool; the four namespace fields keep their zero value.\<close>

definition NewNativeSandbox :: "string \<Rightarrow> nativeSandboxAdapter" where
  "NewNativeSandbox tool = \<lparr>na_tool = tool, na_userNS = False, na_mountNS = False, na_pidNS = False, na_netNS = False\<rparr>"

definition native_Create :: "'w id_source \<Rightarrow> 'w host \<Rightarrow> nativeSandboxAdapter \<Rightarrow> SandboxConfig \<Rightarrow> 'w ns_state \<Rightarrow> Sandbox option result \<times> 'w ns_state" where
  "native_Create src h a config s =
     (case generateID src (ns_world s) of
        (i, w) \<Rightarrow> (case ho_LookPath h (na_tool a) w of
            Inl err \<Rightarrow> (Inl (Errorf ''%s not found: %w'' [AStr (na_tool a), AWrap err]), s\<lparr>ns_world := w\<rparr>)
          | Inr path \<Rightarrow>
              let sandbox = layer_sandbox ''native'' i (config\<lparr>sc_RuntimePath := path\<rparr>)
              in (Inr (Some sandbox), s\<lparr>ns_world := w, ns_sandboxes := AList.update i sandbox (ns_sandboxes s)\<rparr>)))"

definition resolveExecCommand :: "SandboxConfig option \<Rightarrow> string list" where
  "resolveExecCommand config =
     (case config of
        Some c \<Rightarrow> (case sc_NativeCommand c of Some (x # xs) \<Rightarrow> x # xs | _ \<Rightarrow> [''/bin/sh''])
      | None \<Rightarrow> [''/bin/sh''])"

definition bwrap_mount :: "Mount \<Rightarrow> string list" where
  "bwrap_mount m = [(if mnt_ReadOnly m then ''--ro-bind'' else ''--bind''), mnt_Source m, mnt_Target m]"

text \<open>The sandbox and its configuration, which \<open>Create\<close> always sets; a nil one panics where it is read.\<close>

definition startBwrap :: "nativeSandboxAdapter \<Rightarrow> Sandbox \<Rightarrow> SandboxConfig \<Rightarrow> string list" where
  "startBwrap a sandbox config =
     [''bwrap'', ''--share-net''] @
     (if na_mountNS a then [''--unshare-mount''] else []) @ (if na_pidNS a then [''--unshare-pid''] else []) @
     (if na_userNS a then [''--unshare-user''] else []) @
     (if sc_ReadOnlyRootfs config then [''--ro-bind'', ''/'', ''/''] else [''--bind'', ''/'', ''/'']) @
     (if sc_TmpfsTmp config then [''--tmpfs'', ''/tmp''] else []) @
     concat (map bwrap_mount (sb_Mounts sandbox)) @
     (if sc_SeccompProfile config \<noteq> [] then [''--seccomp'', sc_SeccompProfile config] else []) @
     (if sc_WorkDir config \<noteq> [] then [''--chdir'', sc_WorkDir config] else []) @
     ''--'' # resolveExecCommand (Some config)"

definition firejail_mount :: "Mount \<Rightarrow> string" where
  "firejail_mount m = (if mnt_ReadOnly m then ''--read-only='' @ mnt_Source m else ''--bind='' @ mnt_Source m @ ''='' @ mnt_Target m)"

definition startFirejail :: "nativeSandboxAdapter \<Rightarrow> Sandbox \<Rightarrow> SandboxConfig \<Rightarrow> string list" where
  "startFirejail a sandbox config =
     [''firejail''] @ (if \<not> na_netNS a then [''--net=none''] else []) @ (if na_pidNS a then [''--private=pid''] else []) @
     (if sc_FirejailProfile config \<noteq> [] then [''--profile='' @ sc_FirejailProfile config] else []) @
     map firejail_mount (sb_Mounts sandbox) @ resolveExecCommand (Some config)"

definition startUnshare :: "nativeSandboxAdapter \<Rightarrow> Sandbox \<Rightarrow> SandboxConfig \<Rightarrow> string list" where
  "startUnshare a sandbox config =
     [''unshare''] @ (if na_userNS a then [''--user''] else []) @ (if na_mountNS a then [''--mount''] else []) @
     (if na_pidNS a then [''--pid''] else []) @ (if na_netNS a then [''--net''] else []) @
     (if na_userNS a then [''--map-root-user''] else []) @ resolveExecCommand (Some config)"

definition native_command :: "nativeSandboxAdapter \<Rightarrow> Sandbox \<Rightarrow> SandboxConfig \<Rightarrow> string list result" where
  "native_command a sandbox config =
     (if na_tool a = ''bwrap'' then Inr (startBwrap a sandbox config)
      else if na_tool a = ''firejail'' then Inr (startFirejail a sandbox config)
      else if na_tool a = ''unshare'' then Inr (startUnshare a sandbox config)
      else Inl (Errorf ''unsupported native sandbox tool: %s'' [AStr (na_tool a)]))"

definition native_Start :: "'w host \<Rightarrow> nativeSandboxAdapter \<Rightarrow> string \<Rightarrow> 'w ns_state \<Rightarrow> go_error option \<times> 'w ns_state" where
  "native_Start h a i s =
     (case map_of (ns_sandboxes s) i of
        None \<Rightarrow> (Some (sandbox_not_found i), s)
      | Some sandbox \<Rightarrow> (case native_command a sandbox (case sb_Config sandbox of Some c \<Rightarrow> c | None \<Rightarrow> zero_SandboxConfig) of
          Inl err \<Rightarrow> (Some err, s)
        | Inr argv \<Rightarrow> (case ho_Start h argv (ns_world s) of
            (Inl err, w) \<Rightarrow> (Some (Errorf ''failed to start native sandbox: %w'' [AWrap err]), s\<lparr>ns_world := w\<rparr>)
          | (Inr pid, w) \<Rightarrow> (None, s\<lparr>ns_world := w,
              ns_sandboxes := AList.update i (sandbox\<lparr>sb_PID := pid, sb_Status := SandboxStatusRunning\<rparr>) (ns_sandboxes s)\<rparr>))))"

definition native_Stop :: "'w host \<Rightarrow> string \<Rightarrow> bool \<Rightarrow> 'w ns_state \<Rightarrow> go_error option \<times> 'w ns_state" where
  "native_Stop h i force s =
     (case map_of (ns_sandboxes s) i of
        None \<Rightarrow> (Some (sandbox_not_found i), s)
      | Some sandbox \<Rightarrow>
          (case (if sb_PID sandbox > 0
                 then ho_Run h [''kill'', ''-'' @ (if force then ''SIGKILL'' else ''SIGTERM''), itoa (sb_PID sandbox)] (ns_world s)
                 else (None, ns_world s)) of
             (Some err, w) \<Rightarrow> (Some (Errorf ''failed to stop native sandbox: %w'' [AWrap err]), s\<lparr>ns_world := w\<rparr>)
           | (None, w) \<Rightarrow> (None, s\<lparr>ns_world := w,
               ns_sandboxes := AList.update i (sandbox\<lparr>sb_Status := SandboxStatusStopped\<rparr>) (ns_sandboxes s)\<rparr>)))"

text \<open>The remaining methods repeat those of the table of sandboxes.\<close>

definition native_Delete :: "string \<Rightarrow> 'w ns_state \<Rightarrow> go_error option \<times> 'w ns_state" where
  "native_Delete = sba_Delete"

definition native_List :: "'w ns_state \<Rightarrow> Sandbox list result \<times> 'w ns_state" where
  "native_List = sba_List"

definition native_Get :: "string \<Rightarrow> 'w ns_state \<Rightarrow> Sandbox option result \<times> 'w ns_state" where
  "native_Get = sba_Get"

definition native_Logs :: "'w host \<Rightarrow> string \<Rightarrow> bool \<Rightarrow> 'w ns_state \<Rightarrow> string result \<times> 'w ns_state" where
  "native_Logs = sba_Logs"

definition native_Exec :: "'w host \<Rightarrow> string \<Rightarrow> string list \<Rightarrow> 'w ns_state \<Rightarrow> string result \<times> 'w ns_state" where
  "native_Exec = sba_Exec"

definition native_Metrics :: "'f \<Rightarrow> string \<Rightarrow> 'w ns_state \<Rightarrow> 'f SandboxMetrics result" where
  "native_Metrics zero i s =
     (case map_of (ns_sandboxes s) i of
        None \<Rightarrow> Inl (sandbox_not_found i)
      | Some sb \<Rightarrow> Inr \<lparr>sm_SandboxID = sb_ID sb, sm_CPUUsage = zero, sm_MemoryUsage = 0, sm_DiskUsage = 0, sm_NetworkRx = 0, sm_NetworkTx = 0\<rparr>)"

definition native_port :: "'w id_source \<Rightarrow> 'w host \<Rightarrow> nativeSandboxAdapter \<Rightarrow> 'w ns_state SandboxPort" where
  "native_port src h a = \<lparr>sp_Create = native_Create src h a, sp_Start = native_Start h a, sp_Stop = native_Stop h, sp_Delete = native_Delete,
     sp_List = native_List, sp_Get = native_Get, sp_Logs = native_Logs h, sp_Exec = native_Exec h, sp_PortForward = None\<rparr>"

section \<open>All five answer the router\<close>

lemma generateID_nonempty: "generateID src w = (i, w') \<Longrightarrow> i \<noteq> []"
  by (auto simp: generateID_def split: prod.splits option.splits)

interpretation table: answering_port "sba_port src h" for src :: "'w id_source" and h :: "'w host"
  by unfold_locales (simp add: sba_port_def sba_Create_def Let_def split: prod.splits)

interpretation landlock: answering_port "landlock_port src h k" for src :: "'w id_source" and h :: "'w host" and k :: "'w kernel"
  by unfold_locales (simp add: landlock_port_def landlock_Create_def layer_Create_def split: prod.splits)

interpretation seccomp: answering_port "seccomp_port src h" for src :: "'w id_source" and h :: "'w host"
  by unfold_locales (simp add: seccomp_port_def layer_Create_def split: prod.splits)

interpretation wasmtime: answering_port "wasmtime_port src h" for src :: "'w id_source" and h :: "'w host"
  by unfold_locales (simp add: wasmtime_port_def layer_Create_def split: prod.splits)

interpretation native: answering_port "native_port src h a" for src :: "'w id_source" and h :: "'w host" and a
  by unfold_locales (simp add: native_port_def native_Create_def Let_def split: prod.splits sum.splits)

section \<open>Landlock never confines\<close>

text \<open>
  The manual page \<open>landlock_create_ruleset(2)\<close>: without the version flag, an attribute that is no valid address is an
  error (\<open>EFAULT\<close>, or \<open>EINVAL\<close> for the size), and a kernel without Landlock has no such call (\<open>ENOSYS\<close>). A call that fails
  creates nothing.
\<close>

definition null_attr_rejected :: "'w kernel \<Rightarrow> bool" where
  "null_attr_rejected k \<longleftrightarrow> (\<forall>n w. snd (k_create_ruleset k 0 n 0 w) = w \<and> snd (fst (k_create_ruleset k 0 n 0 w)) \<noteq> 0)"

lemma null_attr_rejectedE:
  assumes "null_attr_rejected k"
  obtains r e where "k_create_ruleset k 0 n 0 w = ((r, e), w)" and "e \<noteq> 0"
proof -
  have "snd (k_create_ruleset k 0 n 0 w) = w" "snd (fst (k_create_ruleset k 0 n 0 w)) \<noteq> 0"
    using assms by (auto simp: null_attr_rejected_def)
  then show thesis by (intro that [of "fst (fst (k_create_ruleset k 0 n 0 w))"]) (auto simp: prod_eq_iff)
qed

lemma build_fails:
  assumes "null_attr_rejected k"
  shows "\<exists>err. buildLandlockRuleset k ro rw w = (Inl err, w)"
  using assms by (rule null_attr_rejectedE [where n = LANDLOCK_CREATE_RULESET_VERSION and w = w])
    (simp add: buildLandlockRuleset_def)

lemma support_probe_harmless:
  assumes "null_attr_rejected k"
  shows "ns_world (snd (kernelSupportsLandlock k s)) = ns_world s"
  using assms by (rule null_attr_rejectedE [where n = LANDLOCK_CREATE_RULESET_VERSION and w = "ns_world s"])
    (simp add: kernelSupportsLandlock_def split: option.split)

text \<open>A kernel that has the call but was booted without Landlock counts as one that supports it.\<close>

lemma support_overstated:
  assumes "k_linux k" and "ns_once s = None" and "k_create_ruleset k 0 LANDLOCK_CREATE_RULESET_VERSION 0 (ns_world s) = ((r, e), w)"
    and "e \<noteq> 0" and "e \<noteq> ENOSYS"
  shows "fst (kernelSupportsLandlock k s)"
  using assms by (simp add: kernelSupportsLandlock_def)

text \<open>
  C36. No Landlock sandbox ever starts, and none ever runs unconfined under that name. On every kernel that rejects a
  rule set without attributes, as the manual page says every kernel does, the adapter's \<open>Start\<close> and the rule set that the
  tier of the same name builds both fail for every sandbox and in every state, and the process is left exactly as it was:
  no rule set exists, no descriptor is closed and no restriction is applied. (The support probe and the builder pass the
  constant of the version flag as the size of a null attribute.)
\<close>

theorem landlock_never_confines:
  assumes "null_attr_rejected k"
  shows "(\<exists>err s'. landlock_Start k i s = (Some err, s') \<and> ns_world s' = ns_world s) \<and> (\<exists>err. BuildLandlockRulesetDefault k w = (Inl err, w))"
proof
  obtain b s1 where s1: "kernelSupportsLandlock k s = (b, s1)" by (cases "kernelSupportsLandlock k s")
  obtain err where "buildLandlockRuleset k landlock_read_only [''/tmp''] (ns_world s1) = (Inl err, ns_world s1)"
    using build_fails [OF assms] by blast
  with s1 support_probe_harmless [OF assms, of s] show "\<exists>err s'. landlock_Start k i s = (Some err, s') \<and> ns_world s' = ns_world s"
    by (cases b) (simp_all add: landlock_Start_def)
  show "\<exists>err. BuildLandlockRulesetDefault k w = (Inl err, w)"
    using build_fails [OF assms] by (simp add: BuildLandlockRulesetDefault_def)
qed

text \<open>A Linux kernel over a list of open descriptors.\<close>

definition sample_kernel :: "int list kernel" where
  "sample_kernel = \<lparr>k_linux = True,
     k_create_ruleset = (\<lambda>attr size flags w. if attr = 0 \<and> size = 0 \<and> flags = 1 then ((4, 0), w) else if attr = 0 then ((- 1, 14), w) else ((7, 0), 7 # w)),
     k_add_rule = (\<lambda>fd p access w. (22, w)), k_no_new_privs = (\<lambda>w. (0, w)), k_restrict_self = (\<lambda>fd w. (0, w)), k_close = removeAll\<rparr>"

theorem landlock_never_confines_witness:
  "null_attr_rejected sample_kernel \<and> fst (kernelSupportsLandlock sample_kernel (sba_NewAdapter [0, 1, 2] None)) \<and>
     (\<exists>err s'. landlock_Start sample_kernel ''sandbox-1'' (sba_NewAdapter [0, 1, 2] None) = (Some err, s') \<and> ns_world s' = [0, 1, 2])"
proof -
  have ok: "null_attr_rejected sample_kernel" by (simp add: null_attr_rejected_def sample_kernel_def)
  have "fst (kernelSupportsLandlock sample_kernel (sba_NewAdapter [0, 1, 2] None))"
    by (simp add: kernelSupportsLandlock_def sample_kernel_def sba_NewAdapter_def)
  with ok landlock_never_confines [OF ok, of "''sandbox-1''" "sba_NewAdapter [0, 1, 2] None"] show ?thesis
    by (simp add: sba_NewAdapter_def)
qed

section \<open>The native tools\<close>

text \<open>What the tools are told by an adapter that its constructor made: no option that creates a namespace.\<close>

lemma unshare_shares_all:
  "native_command (NewNativeSandbox ''unshare'') sandbox config = Inr (''unshare'' # resolveExecCommand (Some config))"
  by (simp add: native_command_def NewNativeSandbox_def startUnshare_def)

lemma bwrap_shares_all:
  assumes "native_command (NewNativeSandbox ''bwrap'') sandbox config = Inr argv"
  obtains opts where "argv = opts @ ''--'' # resolveExecCommand (Some config)" and "take 2 opts = [''bwrap'', ''--share-net'']"
    and "\<And>x. x \<in> set opts \<Longrightarrow> x \<in> {''bwrap'', ''--share-net'', ''--ro-bind'', ''--bind'', ''--tmpfs'', ''--seccomp'', ''--chdir'', ''/'', ''/tmp'',
        sc_SeccompProfile config, sc_WorkDir config} \<union> mnt_Source ` set (sb_Mounts sandbox) \<union> mnt_Target ` set (sb_Mounts sandbox)"
proof -
  have "argv = startBwrap (NewNativeSandbox ''bwrap'') sandbox config"
    using assms by (simp add: native_command_def NewNativeSandbox_def)
  then show thesis
    by (intro that [of "[''bwrap'', ''--share-net''] @
      (if sc_ReadOnlyRootfs config then [''--ro-bind'', ''/'', ''/''] else [''--bind'', ''/'', ''/'']) @
      (if sc_TmpfsTmp config then [''--tmpfs'', ''/tmp''] else []) @ concat (map bwrap_mount (sb_Mounts sandbox)) @
      (if sc_SeccompProfile config \<noteq> [] then [''--seccomp'', sc_SeccompProfile config] else []) @
      (if sc_WorkDir config \<noteq> [] then [''--chdir'', sc_WorkDir config] else [])"])
      (auto simp: startBwrap_def NewNativeSandbox_def bwrap_mount_def split: if_splits)
qed

text \<open>A second \<open>Stop\<close> signals the same process identifier again, whoever has it by then.\<close>

lemma stop_signals_again:
  fixes s :: "string list list ns_state"
  assumes "map_of (ns_sandboxes s) i = Some sandbox" and "sb_PID sandbox > 0"
  shows "ns_world (snd (native_Stop (logging_host goos out) i force (snd (native_Stop (logging_host goos out) i force s)))) =
    ns_world s @ replicate 2 [''kill'', ''-'' @ (if force then ''SIGKILL'' else ''SIGTERM''), itoa (sb_PID sandbox)]"
  using assms by (simp add: native_Stop_def logging_host_def map_rules numeral_2_eq_2)

end
