(* ===== verification/Wasm_Adapter.thy ===== *)
theory Wasm_Adapter
  imports Host "HOL-Library.Word"
begin

text \<open>
  The WebAssembly adapter, \<open>internal/adapters/wasm/wasm.go\<close>: compilation, instantiation and execution through the command
  lines of wasmtime, wasmer and WAVM. Memory sizes are 64-bit words; the product with 1.5 is a parameter, as is the
  rendering of arguments with \<open>%v\<close>, which are strings here.
\<close>

definition WASMRuntimeWasmtime :: string where "WASMRuntimeWasmtime = ''wasmtime''"
definition WASMRuntimeWasmer :: string where "WASMRuntimeWasmer = ''wasmer''"
definition WASMRuntimeWAVM :: string where "WASMRuntimeWAVM = ''wavm''"

lemmas wasm_runtimes = WASMRuntimeWasmtime_def WASMRuntimeWasmer_def WASMRuntimeWAVM_def

record CompileOpts =
  co_OptimizeLevel :: int
  co_Streaming :: bool
  co_MaxMemoryPages :: int

record WASMInstance =
  wi_ID :: string
  wi_Memory :: "64 word"
  wi_State :: string

abbreviation unsupported_runtime :: "string \<Rightarrow> go_error" where
  "unsupported_runtime rt \<equiv> Errorf ''unsupported WASM runtime: %s'' [AStr rt]"

text \<open>A tool that answers \<open>--version\<close> and then runs; \<open>Output\<close> hands its error on.\<close>

definition checked_output :: "'w host \<Rightarrow> string \<Rightarrow> string \<Rightarrow> string list \<Rightarrow> 'w \<Rightarrow> string result \<times> 'w" where
  "checked_output h tool missing args w =
     (case ho_Run h [tool, ''--version''] w of
        (Some err, w1) \<Rightarrow> (Inl (Errorf missing [AWrap err]), w1)
      | (None, w1) \<Rightarrow> (case ho_Output h (tool # args) w1 of
          ((_, Some err), w2) \<Rightarrow> (Inl err, w2)
        | ((out, None), w2) \<Rightarrow> (Inr out, w2)))"

definition compileWasmtime :: "'w host \<Rightarrow> string \<Rightarrow> CompileOpts \<Rightarrow> 'w \<Rightarrow> string result \<times> 'w" where
  "compileWasmtime h source opts =
     checked_output h ''wat2wasm'' ''wat2wasm not found: %w''
       ((if co_OptimizeLevel opts > 0 then [''-O''] else []) @ [source, ''-o'', ''/dev/stdout''])"

definition compileWasmer :: "'w host \<Rightarrow> string \<Rightarrow> CompileOpts \<Rightarrow> 'w \<Rightarrow> string result \<times> 'w" where
  "compileWasmer h source opts =
     checked_output h ''wasmer'' ''wasmer not found: %w''
       ([''compile'', source] @ (if co_OptimizeLevel opts > 0 then [''--optimize''] else []) @ [''-o'', ''/dev/stdout''])"

definition compileWAVM :: "'w host \<Rightarrow> string \<Rightarrow> CompileOpts \<Rightarrow> 'w \<Rightarrow> string result \<times> 'w" where
  "compileWAVM h source opts =
     checked_output h ''wavm'' ''wavm not found: %w''
       ([''compile'', source] @ (if co_OptimizeLevel opts > 0 then [''-O''] else []) @ [''-o'', ''/dev/stdout''])"

definition wasm_Compile :: "'w host \<Rightarrow> string \<Rightarrow> string \<Rightarrow> CompileOpts \<Rightarrow> 'w \<Rightarrow> string result \<times> 'w" where
  "wasm_Compile h rt source opts w =
     (if rt = WASMRuntimeWasmtime then compileWasmtime h source opts w
      else if rt = WASMRuntimeWasmer then compileWasmer h source opts w
      else if rt = WASMRuntimeWAVM then compileWAVM h source opts w
      else (Inl (unsupported_runtime rt), w))"

definition Instantiate :: "(64 word \<Rightarrow> 64 word) \<Rightarrow> string \<Rightarrow> string \<Rightarrow> WASMInstance" where
  "Instantiate half_more rt bytecode =
     (let inst = \<lparr>wi_ID = ''wasm-'' @ decimal (length bytecode), wi_Memory = of_nat (length bytecode), wi_State = ''instantiated''\<rparr> in
      if rt = WASMRuntimeWasmtime then inst\<lparr>wi_Memory := wi_Memory inst * 2\<rparr>
      else if rt = WASMRuntimeWasmer then inst\<lparr>wi_Memory := half_more (wi_Memory inst)\<rparr>
      else if rt = WASMRuntimeWAVM then inst\<lparr>wi_Memory := wi_Memory inst * 4\<rparr>
      else inst)"

text \<open>The three execution methods differ in the program and the prefix of the error.\<close>

definition execute_with :: "'w host \<Rightarrow> string \<Rightarrow> WASMInstance \<Rightarrow> string \<Rightarrow> string list \<Rightarrow> 'w \<Rightarrow> string result \<times> 'w" where
  "execute_with h tool inst f args w =
     (case ho_CombinedOutput h ([tool, ''run'', ''--invoke'', f] @ args) w of
        ((out, Some err), w1) \<Rightarrow> (Inl (Errorf (tool @ '' execution failed: %w, output: %s'') [AWrap err, AStr out]), w1)
      | ((out, None), w1) \<Rightarrow> (Inr (trimSpace out), w1))"

definition executeWasmtime :: "'w host \<Rightarrow> WASMInstance \<Rightarrow> string \<Rightarrow> string list \<Rightarrow> 'w \<Rightarrow> string result \<times> 'w" where
  "executeWasmtime h = execute_with h ''wasmtime''"

definition executeWasmer :: "'w host \<Rightarrow> WASMInstance \<Rightarrow> string \<Rightarrow> string list \<Rightarrow> 'w \<Rightarrow> string result \<times> 'w" where
  "executeWasmer h = execute_with h ''wasmer''"

definition executeWAVM :: "'w host \<Rightarrow> WASMInstance \<Rightarrow> string \<Rightarrow> string list \<Rightarrow> 'w \<Rightarrow> string result \<times> 'w" where
  "executeWAVM h = execute_with h ''wavm''"

definition wasm_Execute :: "'w host \<Rightarrow> string \<Rightarrow> WASMInstance \<Rightarrow> string \<Rightarrow> string list \<Rightarrow> 'w \<Rightarrow> string result \<times> 'w" where
  "wasm_Execute h rt inst f args w =
     (if rt = WASMRuntimeWasmtime then executeWasmtime h inst f args w
      else if rt = WASMRuntimeWasmer then executeWasmer h inst f args w
      else if rt = WASMRuntimeWAVM then executeWAVM h inst f args w
      else (Inl (unsupported_runtime rt), w))"

text \<open>\<open>Terminate\<close> sets the state of its own copy of the instance: the caller's is the second component.\<close>

definition Terminate :: "WASMInstance \<Rightarrow> go_error option \<times> WASMInstance" where
  "Terminate inst = (let local = inst\<lparr>wi_State := ''terminated''\<rparr> in (None, inst))"

definition wasm_Probe :: "'w host \<Rightarrow> string \<Rightarrow> 'w \<Rightarrow> go_error option \<times> 'w" where
  "wasm_Probe h rt w =
     (if rt = WASMRuntimeWasmtime \<or> rt = WASMRuntimeWasmer \<or> rt = WASMRuntimeWAVM
      then (case ho_Run h [rt, ''--version''] w of
          (Some err, w1) \<Rightarrow> (Some (Errorf ''WASM runtime %s not available: %w'' [AStr rt, AWrap err]), w1)
        | (None, w1) \<Rightarrow> (None, w1))
      else (Some (unsupported_runtime rt), w))"

definition wasm_CompileOpts :: "string \<Rightarrow> CompileOpts" where
  "wasm_CompileOpts rt =
     (let opts = \<lparr>co_OptimizeLevel = 2, co_Streaming = False, co_MaxMemoryPages = 0\<rparr> in
      if rt = WASMRuntimeWasmtime then opts\<lparr>co_Streaming := True, co_MaxMemoryPages := 32768\<rparr>
      else if rt = WASMRuntimeWasmer then opts\<lparr>co_Streaming := False, co_MaxMemoryPages := 65536\<rparr>
      else if rt = WASMRuntimeWAVM then opts\<lparr>co_Streaming := True, co_MaxMemoryPages := 16384\<rparr>
      else opts)"

text \<open>What is executed does not depend on the module that was instantiated, and termination leaves the instance as it is.\<close>

lemma Execute_ignores_instance: "wasm_Execute h rt inst f args w = wasm_Execute h rt inst' f args w"
  by (simp add: wasm_Execute_def executeWasmtime_def executeWasmer_def executeWAVM_def execute_with_def)

lemma Terminate_keeps_instance: "snd (Terminate inst) = inst"
  by (simp add: Terminate_def Let_def)

text \<open>Instances of modules of the same length cannot be told apart.\<close>

lemma Instantiate_by_length: "length b = length b' \<Longrightarrow> Instantiate hm rt b = Instantiate hm rt b'"
  by (simp add: Instantiate_def Let_def)

text \<open>The memory of a module that fits is not wrapped.\<close>

lemma Instantiate_memory:
  assumes "4 * length bytecode < 2 ^ 64"
  shows "unat (wi_Memory (Instantiate hm rt bytecode)) =
    (if rt = WASMRuntimeWasmtime then 2 * length bytecode
     else if rt = WASMRuntimeWasmer then unat (hm (of_nat (length bytecode)))
     else if rt = WASMRuntimeWAVM then 4 * length bytecode else length bytecode)"
proof -
  have "unat (of_nat (length bytecode) * of_nat k :: 64 word) = length bytecode * k" if "k \<le> 4" for k
  proof -
    have "length bytecode * k \<le> length bytecode * 4" using that by (rule mult_le_mono2)
    also have "\<dots> < 2 ^ 64" using assms by simp
    finally have "length bytecode * k < 2 ^ 64" .
    then show ?thesis by (simp only: of_nat_mult [symmetric] unat_of_nat) simp
  qed
  from this [of 2] this [of 4] this [of 1] show ?thesis
    by (simp add: Instantiate_def Let_def wasm_runtimes mult.commute)
qed

end
