(* ===== verification/Tier_Policy.thy ===== *)
theory Tier_Policy
  imports Tier_Registry "HOL-Library.Product_Lexorder"
begin

text \<open>
  Tier selection, \<open>pkg/tier/policy.go\<close>: the default policy over a fixed table of tiers, the policy
  driven by environment variables and the named profiles. \<open>getenv\<close> is \<open>osGetenv\<close> (empty when unset)
  and \<open>goos\<close> is \<open>runtime.GOOS\<close>.
\<close>

definition SecurityLow :: string where "SecurityLow = ''low''"
definition SecurityMedium :: string where "SecurityMedium = ''medium''"
definition SecurityHigh :: string where "SecurityHigh = ''high''"
definition SecurityUntrusted :: string where "SecurityUntrusted = ''untrusted''"

definition PlatformLinux :: string where "PlatformLinux = ''linux''"
definition PlatformMacOS :: string where "PlatformMacOS = ''macos''"
definition PlatformWindows :: string where "PlatformWindows = ''windows''"

definition WorkloadCLI :: string where "WorkloadCLI = ''cli''"
definition WorkloadTool :: string where "WorkloadTool = ''tool''"

record SelectionConfig =
  cfg_Security :: string
  cfg_StartupBudget :: int
  cfg_Platform :: string
  cfg_Workload :: string
  cfg_TrustedCode :: bool

section \<open>The table\<close>

definition tier_info :: "string \<Rightarrow> int \<Rightarrow> int \<Rightarrow> string \<Rightarrow> string list \<Rightarrow> string list \<Rightarrow> TierInfo" where
  "tier_info name startup mem security platforms workloads =
     zero_TierInfo\<lparr>ti_Name := name, ti_StartupMS := startup, ti_MemoryMB := mem, ti_Security := security,
       ti_Platforms := platforms, ti_Workloads := workloads\<rparr>"

definition allTiers :: "TierInfo list" where
  "allTiers =
     [
      tier_info ''wasm'' 1 1 ''low'' [''linux'', ''macos'', ''windows''] [''tool'', ''cli''],
      tier_info ''gvisor'' 90 50 ''medium'' [''linux'', ''macos''] [''browser'', ''code'', ''tool''],
      tier_info ''firecracker'' 125 128 ''high'' [''linux''] [''code'', ''browser'', ''tool''],
      tier_info ''landlock'' 1 2 ''low'' [''linux''] [''tool'', ''cli''],
      tier_info ''seccomp'' 1 1 ''low'' [''linux''] [''tool'', ''cli''],
      tier_info ''native'' 0 0 ''low'' [''linux'', ''macos'', ''windows''] [''cli'', ''tool''],
      tier_info ''docker'' 600 50 ''medium'' [''linux'', ''macos'', ''windows''] [''code'', ''tool'', ''cli''],
      tier_info ''podman'' 700 50 ''medium'' [''linux'', ''macos'', ''windows''] [''code'', ''tool'', ''cli''],
      tier_info ''hyperkit'' 400 256 ''high'' [''macos''] [''code'', ''tool''],
      tier_info ''applevz'' 250 256 ''high'' [''macos''] [''code'', ''browser'', ''tool''],
      tier_info ''lima'' 3000 512 ''high'' [''macos'', ''windows''] [''code'', ''tool'', ''browser''],
      tier_info ''kvm'' 150 128 ''high'' [''linux''] [''code'', ''browser'', ''tool''],
      tier_info ''qemu'' 2000 256 ''high'' [''linux'', ''macos'', ''windows''] [''code'', ''browser'', ''tool''],
      tier_info ''cloudhv'' 180 128 ''high'' [''linux''] [''code'', ''browser'', ''tool''],
      tier_info ''crosvm'' 200 128 ''high'' [''linux''] [''code'', ''tool''],
      tier_info ''kata'' 250 256 ''high'' [''linux''] [''code'', ''tool'', ''browser''],
      tier_info ''youki'' 30 30 ''medium'' [''linux''] [''code'', ''tool'', ''cli''],
      tier_info ''systemdnspawn'' 100 40 ''medium'' [''linux''] [''code'', ''tool'', ''cli''],
      tier_info ''nitrorekf'' 5000 64 ''untrusted'' [''linux''] [''code'', ''tool''],
      tier_info ''sev'' 500 256 ''untrusted'' [''linux''] [''code'', ''tool''],
      tier_info ''tdx'' 600 256 ''untrusted'' [''linux''] [''code'', ''tool''],
      tier_info ''kubevirt'' 2000 512 ''high'' [''linux''] [''code'', ''tool'', ''browser''],
      tier_info ''virtcontainers'' 200 128 ''medium'' [''linux''] [''code'', ''tool''],
      tier_info ''jail'' 50 16 ''medium'' [''freebsd''] [''code'', ''tool'', ''cli''],
      tier_info ''pledge'' 1 1 ''low'' [''openbsd''] [''tool'', ''cli''],
      tier_info ''sandboxexec'' 5 2 ''low'' [''macos''] [''tool'', ''cli''],
      tier_info ''gvisordocker'' 600 50 ''medium'' [''linux'', ''macos''] [''code'', ''tool'', ''browser''],
      tier_info ''wolfi'' 50 10 ''medium'' [''linux''] [''code'', ''tool'', ''cli''],
      tier_info ''distroless'' 80 20 ''high'' [''linux'', ''macos'', ''windows''] [''code'', ''tool'', ''cli''],
      tier_info ''userns'' 1 1 ''low'' [''linux''] [''tool'', ''cli'']
     ]"

definition CanonicalTierNames :: "string list" where
  "CanonicalTierNames = sort (map ti_Name allTiers)"

definition JoinNames :: "string list \<Rightarrow> string" where
  "JoinNames names = join names '', ''"

text \<open>The two nested switches of \<open>defaultCandidates\<close>; a security level that no case names leaves the order empty.\<close>

definition platform_order :: "string \<Rightarrow> string \<Rightarrow> string list" where
  "platform_order security platform =
     (if platform = PlatformMacOS then
        (if security = SecurityLow then [''native'', ''sandboxexec'', ''applevz'', ''qemu'']
         else if security = SecurityMedium then [''applevz'', ''gvisor'', ''lima'', ''qemu'', ''gvisordocker'', ''distroless'']
         else if security = SecurityHigh then [''applevz'', ''lima'', ''qemu'', ''distroless'']
         else if security = SecurityUntrusted then [''applevz'', ''qemu'', ''lima''] else [])
      else if platform = PlatformWindows then
        (if security = SecurityLow then [''native'', ''qemu'']
         else if security = SecurityMedium then [''qemu'', ''gvisor'', ''distroless'']
         else if security = SecurityHigh then [''qemu'', ''distroless'']
         else if security = SecurityUntrusted then [''qemu''] else [])
      else
        (if security = SecurityLow then [''native'', ''landlock'', ''seccomp'', ''userns'', ''wasm'']
         else if security = SecurityMedium then [''landlock'', ''seccomp'', ''userns'', ''gvisor'', ''youki'', ''systemdnspawn'',
           ''wolfi'', ''wasm'', ''docker'', ''podman'', ''gvisordocker'']
         else if security = SecurityHigh then [''firecracker'', ''cloudhv'', ''crosvm'', ''qemu'', ''kata'', ''kubevirt'',
           ''distroless'', ''virtcontainers'']
         else if security = SecurityUntrusted then [''firecracker'', ''qemu'', ''cloudhv'', ''sev'', ''tdx'', ''nitrorekf'', ''kubevirt'']
         else []))"

definition defaultCandidates :: "string \<Rightarrow> string \<Rightarrow> string \<Rightarrow> bool \<Rightarrow> TierInfo list" where
  "defaultCandidates security platform workload trusted =
     (let byName = map_of (rev (map (\<lambda>t. (ti_Name t, t)) allTiers));
          order = platform_order security platform;
          order' = (if trusted \<and> (workload = WorkloadCLI \<or> workload = WorkloadTool) then [''wasm'', ''native''] @ order else order)
      in List.map_filter byName order')"

section \<open>The policies\<close>

definition DefaultPolicy_Select :: "SelectionConfig \<Rightarrow> 'a Registry option \<Rightarrow> string result" where
  "DefaultPolicy_Select cfg registry =
     (case registry of
        None \<Rightarrow> Inl (Errorf ''tier: nil registry'' [])
      | Some r \<Rightarrow>
        (let platform = (if cfg_Platform cfg = [] then PlatformLinux else cfg_Platform cfg);
             security = (if cfg_Security cfg = [] then SecurityMedium else cfg_Security cfg);
             candidates = defaultCandidates security platform (cfg_Workload cfg) (cfg_TrustedCode cfg);
             filtered = filter (\<lambda>c. registry_Has r (ti_Name c) \<and> platformMatches (ti_Platforms c) platform) candidates in
         if filtered = []
         then Inl (Errorf ''tier: no candidate matches security=%q platform=%q workload=%q''
                [AStr security, AStr platform, AStr (cfg_Workload cfg)])
         else
           let within = (if cfg_StartupBudget cfg > 0
                         then filter (\<lambda>c. ti_StartupMS c \<le> cfg_StartupBudget cfg) filtered else filtered) in
           if within = []
           then Inl (Errorf ''tier: no tier fits startup budget %dms (best: %s @ %dms)''
                  [AInt (cfg_StartupBudget cfg), AStr (ti_Name (hd filtered)), AInt (ti_StartupMS (hd filtered))])
           else Inr (ti_Name (hd (sort_key (\<lambda>c. (ti_StartupMS c, ti_Name c)) within)))))"

definition platformFromRuntime :: "string \<Rightarrow> string" where
  "platformFromRuntime goos =
     (if goos = ''darwin'' then PlatformMacOS else if goos = ''windows'' then PlatformWindows else PlatformLinux)"

definition applyEnvOverrides :: "(string \<Rightarrow> string) \<Rightarrow> string \<Rightarrow> SelectionConfig \<Rightarrow> SelectionConfig" where
  "applyEnvOverrides getenv goos cfg =
     (let out1 = (if getenv ''NVMS_SECURITY'' \<noteq> [] then cfg\<lparr>cfg_Security := toLower (getenv ''NVMS_SECURITY'')\<rparr> else cfg);
          out2 = (if getenv ''NVMS_PLATFORM'' \<noteq> [] then out1\<lparr>cfg_Platform := toLower (getenv ''NVMS_PLATFORM'')\<rparr>
                  else if cfg_Platform out1 = [] then out1\<lparr>cfg_Platform := platformFromRuntime goos\<rparr> else out1) in
      case atoi (getenv ''NVMS_STARTUP_BUDGET_MS'') of
        None \<Rightarrow> out2
      | Some n \<Rightarrow> if n > 0 then out2\<lparr>cfg_StartupBudget := n\<rparr> else out2)"

text \<open>\<open>None\<close>: the variable did not drive the decision.\<close>

definition envExactTier :: "(string \<Rightarrow> string) \<Rightarrow> SelectionConfig \<Rightarrow> 'a Registry \<Rightarrow> string result option" where
  "envExactTier getenv cfg r =
     (let raw = getenv ''NVMS_TIER'' in
      if raw = [] \<or> equalFold raw ''auto'' then None
      else let name = toLower raw in
        if \<not> registry_Has r name
        then Some (Inl (Errorf ''tier: NVMS_TIER=%q not registered (available: %s)''
               [AStr name, AStr (JoinNames (registry_Names r))]))
        else case DefaultPolicy_Select (cfg\<lparr>cfg_TrustedCode := False\<rparr>) (Some r) of
          Inl selErr \<Rightarrow> Some (Inl (Errorf ''tier: NVMS_TIER=%q fails filters: %w'' [AStr name, AWrap selErr]))
        | Inr _ \<Rightarrow> Some (Inr name))"

definition AutoPolicy_Select ::
  "(string \<Rightarrow> string) \<Rightarrow> string \<Rightarrow> SelectionConfig \<Rightarrow> 'a Registry \<Rightarrow> string result" where
  "AutoPolicy_Select getenv goos cfg r =
     (let envCfg = applyEnvOverrides getenv goos cfg in
      case envExactTier getenv envCfg r of
        Some out \<Rightarrow> out
      | None \<Rightarrow> DefaultPolicy_Select envCfg (Some r))"

definition selection :: "string \<Rightarrow> int \<Rightarrow> SelectionConfig" where
  "selection security budget = \<lparr>cfg_Security = security, cfg_StartupBudget = budget, cfg_Platform = PlatformLinux,
     cfg_Workload = [], cfg_TrustedCode = False\<rparr>"

definition profileSelection :: "string \<Rightarrow> SelectionConfig" where
  "profileSelection p =
     (if p = ''dev'' then selection SecurityLow 5000
      else if p = ''ci'' then selection SecurityMedium 10000
      else if p = ''ci-secure'' then selection SecurityMedium 10000
      else if p = ''ci-fast'' then selection SecurityLow 2000
      else if p = ''prod-secure'' then selection SecurityUntrusted 0
      else if p = ''prod-fast'' then selection SecurityHigh 1000
      else if p = ''airgapped'' then selection SecurityHigh 0
      else (selection [] 0)\<lparr>cfg_Platform := []\<rparr>)"

definition KnownProfiles :: "string list" where
  "KnownProfiles = [''dev'', ''ci'', ''ci-secure'', ''ci-fast'', ''prod-secure'', ''prod-fast'', ''airgapped'']"

definition ProfilePolicy_Select :: "(string \<Rightarrow> string) \<Rightarrow> SelectionConfig \<Rightarrow> 'a Registry option \<Rightarrow> string result" where
  "ProfilePolicy_Select getenv cfg r =
     (let name = getenv ''NVMS_PROFILE'' in
      if name = [] then DefaultPolicy_Select cfg r
      else DefaultPolicy_Select ((profileSelection (toLower name))\<lparr>cfg_Workload := cfg_Workload cfg,
             cfg_TrustedCode := cfg_TrustedCode cfg\<rparr>) r)"

section \<open>The choice is the fastest admissible tier\<close>

text \<open>A candidate that the filters let through.\<close>

definition admissible :: "SelectionConfig \<Rightarrow> 'a Registry \<Rightarrow> TierInfo list" where
  "admissible cfg r =
     (let platform = (if cfg_Platform cfg = [] then PlatformLinux else cfg_Platform cfg);
          security = (if cfg_Security cfg = [] then SecurityMedium else cfg_Security cfg) in
      filter (\<lambda>c. registry_Has r (ti_Name c) \<and> platformMatches (ti_Platforms c) platform \<and>
                  (cfg_StartupBudget cfg > 0 \<longrightarrow> ti_StartupMS c \<le> cfg_StartupBudget cfg))
        (defaultCandidates security platform (cfg_Workload cfg) (cfg_TrustedCode cfg)))"

definition startup_key :: "TierInfo \<Rightarrow> int \<times> string" where
  "startup_key c = (ti_StartupMS c, ti_Name c)"

lemma hd_sort_key_least:
  assumes "xs \<noteq> []"
  shows "hd (sort_key f xs) \<in> set xs" and "\<forall>x \<in> set xs. f (hd (sort_key f xs)) \<le> f x"
proof -
  have "sort_key f xs \<noteq> []" using assms by (metis length_0_conv length_sort)
  then obtain y ys where y: "sort_key f xs = y # ys" by (cases "sort_key f xs") auto
  have "set (y # ys) = set xs" using y by (metis set_sort)
  moreover have "sorted (map f (y # ys))" using y by (metis sorted_sort_key)
  ultimately show "hd (sort_key f xs) \<in> set xs" and "\<forall>x \<in> set xs. f (hd (sort_key f xs)) \<le> f x" using y by auto
qed

lemma DefaultPolicy_Select_admissible:
  "(DefaultPolicy_Select cfg (Some r) = Inr n \<longleftrightarrow>
      admissible cfg r \<noteq> [] \<and> n = ti_Name (hd (sort_key startup_key (admissible cfg r))))"
  by (auto simp: DefaultPolicy_Select_def admissible_def startup_key_def [abs_def] Let_def conj_assoc filter_empty_conv)


section \<open>Isolation of untrusted workloads\<close>

text \<open>What \<open>defaultCandidates\<close> offers for untrusted code, on every platform.\<close>

definition shortcut :: "SelectionConfig \<Rightarrow> bool" where
  "shortcut cfg \<longleftrightarrow> cfg_TrustedCode cfg \<and> (cfg_Workload cfg = WorkloadCLI \<or> cfg_Workload cfg = WorkloadTool)"

lemma map_filter_member: "y \<in> set (List.map_filter f xs) \<Longrightarrow> \<exists>x. f x = Some y"
  by (induction xs) (auto simp: List.map_filter_simps split: option.splits)

lemma candidates_in_table: "c \<in> set (defaultCandidates security platform workload trusted) \<Longrightarrow> c \<in> set allTiers"
  by (auto simp: defaultCandidates_def Let_def dest!: map_filter_member map_of_SomeD)

lemma untrusted_candidates:
  assumes "\<not> (trusted \<and> (workload = WorkloadCLI \<or> workload = WorkloadTool))"
  shows "list_all (\<lambda>t. ti_Security t = SecurityHigh \<or> ti_Security t = SecurityUntrusted)
    (defaultCandidates SecurityUntrusted platform workload trusted)"
proof -
  let ?ok = "list_all (\<lambda>t. ti_Security t = SecurityHigh \<or> ti_Security t = SecurityUntrusted)"
  have "?ok (defaultCandidates SecurityUntrusted PlatformMacOS [] False)" by code_simp
  moreover have "?ok (defaultCandidates SecurityUntrusted PlatformWindows [] False)" by code_simp
  moreover have "?ok (defaultCandidates SecurityUntrusted PlatformLinux [] False)" by code_simp
  moreover have "platform_order SecurityUntrusted platform \<in> platform_order SecurityUntrusted ` {PlatformMacOS, PlatformWindows, PlatformLinux}"
    by (simp add: platform_order_def PlatformMacOS_def PlatformWindows_def PlatformLinux_def)
  ultimately show ?thesis using assms by (auto simp: defaultCandidates_def Let_def)
qed


definition sample_registry :: "string Registry" where
  "sample_registry = \<lparr>reg_adapters = [(''firecracker'', []), (''distroless'', []), (''hyperkit'', []), (''virtcontainers'', [])],
     reg_infoByName = []\<rparr>"


section \<open>What the comments promise\<close>

text \<open>
  Three choices that differ from the comments of the source. The order of the candidates does not matter, so
  high security on Linux prefers the distroless container to every hypervisor; medium security can give a tier
  whose own security is low; and \<open>NVMS_TIER\<close> is honoured for a tier that does not run on the platform.
\<close>

lemma high_security_prefers_container:
  "DefaultPolicy_Select (selection SecurityHigh 1000) (Some sample_registry) = Inr ''distroless''"
  by code_simp

lemma medium_security_gives_low:
  "DefaultPolicy_Select (selection SecurityMedium 0) (Some \<lparr>reg_adapters = [(''landlock'', ()), (''gvisor'', ())], reg_infoByName = []\<rparr>) =
     Inr ''landlock'' \<and> (\<exists>t \<in> set allTiers. ti_Name t = ''landlock'' \<and> ti_Security t = SecurityLow)"
  by code_simp

lemma exact_tier_ignores_platform:
  "AutoPolicy_Select (\<lambda>v. if v = ''NVMS_TIER'' then ''hyperkit'' else []) ''linux'' (selection SecurityHigh 0) sample_registry =
     Inr ''hyperkit'' \<and> (\<forall>t \<in> set allTiers. ti_Name t = ''hyperkit'' \<longrightarrow> \<not> platformMatches (ti_Platforms t) PlatformLinux)"
  by code_simp

end
