(* ===== verification/Tier_Adapters.thy ===== *)
theory Tier_Adapters
  imports Native_Sandbox Wasm_Adapter Tier_Policy
begin

text \<open>
  The adapters of the thirty tiers, one file of \<open>pkg/tier\<close> each, behind the interface \<open>tier.Adapter\<close>. An adapter is the
  record of its methods; what they share (a command whose output goes into the error, a program that must be on the
  path, a descriptor after a successful probe) is defined once. The host and the kernel are parameters.
\<close>

section \<open>The interface and its helpers\<close>

text \<open>
  The state: the world of the host, the process-wide counter, what is remembered of the Landlock probe, and the one field
  that a method of an adapter sets (\<open>FirecrackerAdapter.path\<close>).
\<close>

record 'w tier_state =
  ts_world :: 'w
  ts_counter :: nat
  ts_once :: "bool option"
  ts_fcPath :: string

type_synonym 'w tier_op = "'w tier_state \<Rightarrow> go_error option \<times> 'w tier_state"

record 'w Adapter =
  ad_Info :: TierInfo
  ad_Deploy :: "SandboxConfig \<Rightarrow> 'w tier_state \<Rightarrow> Sandbox result \<times> 'w tier_state"
  ad_Start :: "string \<Rightarrow> 'w tier_op"
  ad_Stop :: "string \<Rightarrow> 'w tier_op"
  ad_Delete :: "string \<Rightarrow> 'w tier_op"
  ad_GetStartupTime :: duration
  ad_Probe :: "'w tier_op"

definition SandboxTypeVM :: string where "SandboxTypeVM = ''vm''"
definition SandboxTypeProcess :: string where "SandboxTypeProcess = ''process''"
definition VMFlavorNative :: string where "VMFlavorNative = ''native''"
definition VMFlavorLima :: string where "VMFlavorLima = ''lima''"
definition VMFlavorMicroVM :: string where "VMFlavorMicroVM = ''microvm''"

definition probeOverride :: "'w host \<Rightarrow> string \<Rightarrow> string" where
  "probeOverride h name = (case ho_LookupEnv h name of None \<Rightarrow> [] | Some v \<Rightarrow> v)"

definition on_world :: "('w \<Rightarrow> 'r \<times> 'w) \<Rightarrow> 'w tier_state \<Rightarrow> 'r \<times> 'w tier_state" where
  "on_world f s = (case f (ts_world s) of (r, w) \<Rightarrow> (r, s\<lparr>ts_world := w\<rparr>))"

definition refuse :: "go_error \<Rightarrow> 'w tier_op" where "refuse err s = (Some err, s)"

definition reject_if :: "bool \<Rightarrow> go_error \<Rightarrow> 'w tier_op \<Rightarrow> 'w tier_op" where
  "reject_if c err f s = (if c then (Some err, s) else f s)"

definition and_then :: "'w tier_op \<Rightarrow> 'w tier_op \<Rightarrow> 'w tier_op" where
  "and_then f g s = (case f s of (Some err, s1) \<Rightarrow> (Some err, s1) | (None, s1) \<Rightarrow> g s1)"

definition need_path :: "'w host \<Rightarrow> string \<Rightarrow> go_arg list \<Rightarrow> string \<Rightarrow> 'w tier_op" where
  "need_path h msg args bin s =
     ((case ho_LookPath h bin (ts_world s) of Inl err \<Rightarrow> Some (Errorf msg (args @ [AWrap err])) | Inr _ \<Rightarrow> None), s)"

definition need_file :: "'w host \<Rightarrow> string \<Rightarrow> string \<Rightarrow> 'w tier_op" where
  "need_file h msg path s = (map_option (\<lambda>err. Errorf msg [AStr path, AWrap err]) (ho_Stat h path (ts_world s)), s)"

definition need_device :: "'w host \<Rightarrow> string \<Rightarrow> go_arg list \<Rightarrow> string \<Rightarrow> 'w tier_op" where
  "need_device h msg args path s = (map_option (\<lambda>err. Errorf msg (args @ [AWrap err])) (ho_OpenRW h path (ts_world s)), s)"

text \<open>\<open>CombinedOutput\<close> with an error that names the sandbox and shows the output; \<open>Run\<close>; \<open>Start\<close>.\<close>

definition cli :: "'w host \<Rightarrow> string \<Rightarrow> string \<Rightarrow> string list \<Rightarrow> 'w tier_op" where
  "cli h msg i argv s =
     (case ho_CombinedOutput h argv (ts_world s) of
        ((out, Some err), w) \<Rightarrow> (Some (Errorf msg [AStr i, AWrap err, AStr out]), s\<lparr>ts_world := w\<rparr>)
      | ((out, None), w) \<Rightarrow> (None, s\<lparr>ts_world := w\<rparr>))"

definition run_cmd :: "'w host \<Rightarrow> string list \<Rightarrow> 'w tier_op" where
  "run_cmd h argv = on_world (ho_Run h argv)"

definition start_cmd :: "'w host \<Rightarrow> string list \<Rightarrow> 'w tier_op" where
  "start_cmd h argv s = (case ho_Start h argv (ts_world s) of (Inl err, w) \<Rightarrow> (Some err, s\<lparr>ts_world := w\<rparr>) | (Inr _, w) \<Rightarrow> (None, s\<lparr>ts_world := w\<rparr>))"

definition with_binary :: "('w \<Rightarrow> string result) \<Rightarrow> (string \<Rightarrow> 'w tier_op) \<Rightarrow> 'w tier_op" where
  "with_binary resolve f s = (case resolve (ts_world s) of Inl err \<Rightarrow> (Some err, s) | Inr bin \<Rightarrow> f bin s)"

definition newSandbox :: "'w host \<Rightarrow> string \<Rightarrow> string \<Rightarrow> string \<Rightarrow> string \<Rightarrow> SandboxConfig \<Rightarrow> 'w tier_state \<Rightarrow> Sandbox \<times> 'w tier_state" where
  "newSandbox h tier name kind flavor config s =
     (case GenerateID (ts_counter s) of
        (i, counter) \<Rightarrow> (zero_Sandbox\<lparr>sb_ID := tier @ ''-'' @ i, sb_Name := name, sb_Status := SandboxStatusRunning, sb_Type := kind,
           sb_VMFlavor := flavor, sb_Config := Some config, sb_CreatedAt := ho_Now h (ts_world s)\<rparr>, s\<lparr>ts_counter := counter\<rparr>))"

text \<open>The descriptor of the three tiers that do not use \<open>newSandbox\<close>.\<close>

definition bare_sandbox :: "string \<Rightarrow> string \<Rightarrow> SandboxConfig \<Rightarrow> 'w tier_state \<Rightarrow> Sandbox result \<times> 'w tier_state" where
  "bare_sandbox prefix kind config s =
     (case GenerateID (ts_counter s) of
        (i, counter) \<Rightarrow> (Inr (zero_Sandbox\<lparr>sb_ID := prefix @ i, sb_Name := sc_Name config, sb_Status := SandboxStatusRunning, sb_Type := kind,
           sb_Config := Some config\<rparr>), s\<lparr>ts_counter := counter\<rparr>))"

text \<open>\<open>Deploy\<close> of the other tiers: the probe, the image where the tier needs one, the descriptor.\<close>

definition deploy_with :: "'w host \<Rightarrow> 'w tier_op \<Rightarrow> string option \<Rightarrow> string \<Rightarrow> string \<Rightarrow> string \<Rightarrow> SandboxConfig \<Rightarrow> 'w tier_state \<Rightarrow>
    Sandbox result \<times> 'w tier_state" where
  "deploy_with h probe image_error tier kind flavor config s =
     (case probe s of
        (Some err, s1) \<Rightarrow> (Inl err, s1)
      | (None, s1) \<Rightarrow>
          (case (if sc_Image config = [] then image_error else None) of
             Some msg \<Rightarrow> (Inl (Errorf msg []), s1)
           | None \<Rightarrow> (case newSandbox h tier (sc_Name config) kind flavor config s1 of (sb, s2) \<Rightarrow> (Inr sb, s2))))"

section \<open>The first three tiers\<close>

text \<open>\<open>pkg/tier/wasm.go\<close>, \<open>gvisor.go\<close>, \<open>firecracker.go\<close>. The adapter of the Wasm tier is always set.\<close>

definition wasm_tier_Probe :: "'w host \<Rightarrow> 'w tier_op" where
  "wasm_tier_Probe h = reject_if (probeOverride h ''NVMS_REQUIRE_WASM'' = ''1'') (Errorf ''wasm: probe disabled via NVMS_REQUIRE_WASM=1'' []) (on_world (wasm_Probe h WASMRuntimeWasmtime))"

definition wasm_Deploy :: "'w host \<Rightarrow> SandboxConfig \<Rightarrow> 'w tier_state \<Rightarrow> Sandbox result \<times> 'w tier_state" where
  "wasm_Deploy h config s =
     (case on_world (wasm_Probe h WASMRuntimeWasmtime) s of
        (Some err, s1) \<Rightarrow> (Inl (Errorf ''WASM runtime not available: %w'' [AWrap err]), s1)
      | (None, s1) \<Rightarrow> bare_sandbox ''wasm-'' ''wasm'' config s1)"

definition NewWASMAdapter :: "'w host \<Rightarrow> 'w Adapter" where
  "NewWASMAdapter h =
     \<lparr>ad_Info = \<lparr>ti_Name = ''wasm'', ti_Number = 1, ti_DisplayName = ''WASM (wasmtime)'',
       ti_Description = ''Wasmtime-based lightweight sandbox for trusted code (~1ms startup)'',
       ti_StartupMS = 1, ti_MemoryMB = 1, ti_Security = ''low'', ti_Platforms = [''linux'', ''macos'', ''windows''], ti_Workloads = [''tool'', ''cli'']\<rparr>,
      ad_Deploy = wasm_Deploy h,
      ad_Start = (\<lambda>i. no_effect),
      ad_Stop = (\<lambda>i. no_effect),
      ad_Delete = (\<lambda>i. no_effect),
      ad_GetStartupTime = millis 1, ad_Probe = wasm_tier_Probe h\<rparr>"

definition gvisor_Probe :: "'w host \<Rightarrow> 'w tier_op" where
  "gvisor_Probe h = reject_if (probeOverride h ''NVMS_REQUIRE_GVISOR'' = ''1'') (Errorf ''gvisor: probe disabled via NVMS_REQUIRE_GVISOR=1'' [])
     (need_path h ''gvisor: %s binary not found: %w'' [AStr ''runsc''] ''runsc'')"

definition gvisor_Deploy :: "'w host \<Rightarrow> SandboxConfig \<Rightarrow> 'w tier_state \<Rightarrow> Sandbox result \<times> 'w tier_state" where
  "gvisor_Deploy h config s =
     (case need_path h ''gVisor runtime (%s) not found: %w'' [AStr ''runsc''] ''runsc'' s of
        (Some err, s1) \<Rightarrow> (Inl err, s1)
      | (None, s1) \<Rightarrow> bare_sandbox ''gvisor-'' ''gvisor'' config s1)"

definition gvisor_Start :: "'w host \<Rightarrow> string \<Rightarrow> 'w tier_op" where
  "gvisor_Start h i s =
     (case ho_LookPath h ''runsc'' (ts_world s) of
        Inl err \<Rightarrow> (Some (Errorf ''gVisor runtime (%s) not found: %w'' [AStr ''runsc'', AWrap err]), s)
      | Inr path \<Rightarrow> start_cmd h [path, ''run'', ''--id'', i] s)"

definition NewGVisorAdapter :: "'w host \<Rightarrow> 'w Adapter" where
  "NewGVisorAdapter h =
     \<lparr>ad_Info = \<lparr>ti_Name = ''gvisor'', ti_Number = 2, ti_DisplayName = ''gVisor runsc'',
       ti_Description = ''User-space kernel intercepting syscalls (~90ms startup, ~50MB)'',
       ti_StartupMS = 90, ti_MemoryMB = 50, ti_Security = ''medium'', ti_Platforms = [''linux'', ''macos''], ti_Workloads = [''browser'', ''code'', ''tool'']\<rparr>,
      ad_Deploy = gvisor_Deploy h,
      ad_Start = gvisor_Start h,
      ad_Stop = (\<lambda>i. run_cmd h [''pkill'', ''-f'', ''runsc.*'' @ i]),
      ad_Delete = (\<lambda>i. no_effect),
      ad_GetStartupTime = millis 90, ad_Probe = gvisor_Probe h\<rparr>"

definition firecracker_Probe :: "'w host \<Rightarrow> 'w tier_op" where
  "firecracker_Probe h = reject_if (probeOverride h ''NVMS_REQUIRE_FIRECRACKER'' = ''1'') (Errorf ''firecracker: probe disabled via NVMS_REQUIRE_FIRECRACKER=1'' [])
     (need_path h ''firecracker: binary not found on PATH: %w'' [] ''firecracker'')"

definition firecracker_Deploy :: "'w host \<Rightarrow> SandboxConfig \<Rightarrow> 'w tier_state \<Rightarrow> Sandbox result \<times> 'w tier_state" where
  "firecracker_Deploy h config s =
     (case firecracker_Probe h s of
        (Some err, s1) \<Rightarrow> (Inl err, s1)
      | (None, s1) \<Rightarrow> (case ho_LookPath h ''firecracker'' (ts_world s1) of
          Inl err \<Rightarrow> (Inl (Errorf ''firecracker binary not found: %w'' [AWrap err]), s1)
        | Inr path \<Rightarrow> (case bare_sandbox ''fc-'' SandboxTypeVM config (s1\<lparr>ts_fcPath := path\<rparr>) of
            (Inr sb, s2) \<Rightarrow> (Inr (sb\<lparr>sb_VMFlavor := VMFlavorMicroVM, sb_CreatedAt := ho_Now h (ts_world s2)\<rparr>), s2)
          | (Inl err, s2) \<Rightarrow> (Inl err, s2))))"

definition firecracker_Start :: "'w host \<Rightarrow> string \<Rightarrow> 'w tier_op" where
  "firecracker_Start h i s =
     (if ts_fcPath s = [] then (Some (Errorf ''firecracker path not set'' []), s)
      else start_cmd h [ts_fcPath s, ''--api-sock'', ''/tmp/firecracker-api.sock'', ''--id'', i] s)"

definition firecracker_Stop :: "'w host \<Rightarrow> string \<Rightarrow> 'w tier_op" where
  "firecracker_Stop h i = run_cmd h [''pkill'', ''-f'', ''firecracker.*'' @ i]"

definition firecracker_Delete :: "'w host \<Rightarrow> string \<Rightarrow> 'w tier_op" where
  "firecracker_Delete h i s =
     (case firecracker_Stop h i s of
        (Some err, s1) \<Rightarrow> (Some (Errorf ''failed to stop vm %s: %w'' [AStr i, AWrap err]), s1)
      | (None, s1) \<Rightarrow> (None, s1))"

definition NewFirecrackerAdapter :: "'w host \<Rightarrow> 'w Adapter" where
  "NewFirecrackerAdapter h =
     \<lparr>ad_Info = \<lparr>ti_Name = ''firecracker'', ti_Number = 3, ti_DisplayName = ''Firecracker microVM'',
       ti_Description = ''KVM-backed microVM with minimal guest kernel (~125ms startup, ~128MB)'',
       ti_StartupMS = 125, ti_MemoryMB = 128, ti_Security = ''high'', ti_Platforms = [''linux''], ti_Workloads = [''code'', ''browser'', ''tool'']\<rparr>,
      ad_Deploy = firecracker_Deploy h,
      ad_Start = firecracker_Start h,
      ad_Stop = firecracker_Stop h,
      ad_Delete = firecracker_Delete h,
      ad_GetStartupTime = millis 125, ad_Probe = firecracker_Probe h\<rparr>"

section \<open>Process-level tiers\<close>

text \<open>\<open>landlock.go\<close>, \<open>seccomp.go\<close>, \<open>native.go\<close>, \<open>userns.go\<close>, \<open>pledge.go\<close>, \<open>sandboxexec.go\<close>.\<close>

definition landlock_Probe :: "'w host \<Rightarrow> 'w kernel \<Rightarrow> 'w tier_op" where
  "landlock_Probe h k s =
     (if probeOverride h ''NVMS_REQUIRE_LANDLOCK'' = ''0'' then (None, s)
      else case ListRuntimes h k (sba_NewAdapter (ts_world s) (ts_once s)) of
        (rts, n) \<Rightarrow>
          let s1 = s\<lparr>ts_world := ns_world n, ts_once := ns_once n\<rparr> in
          if \<exists>r \<in> set rts. sr_Type r = ''landlock'' then (None, s1)
          else (Some (Errorf ''landlock: kernel does not advertise Landlock support (need Linux >= 5.13)'' []), s1))"

definition landlock_tier_Start :: "'w kernel \<Rightarrow> string \<Rightarrow> 'w tier_op" where
  "landlock_tier_Start k i s =
     (case BuildLandlockRulesetDefault k (ts_world s) of
        (Inl err, w) \<Rightarrow> (Some (Errorf ''landlock: failed to build ruleset: %w'' [AWrap err]), s\<lparr>ts_world := w\<rparr>)
      | (Inr rulesetFd, w) \<Rightarrow> (case LandlockRestrictSelf k rulesetFd w of
          (Some err, w1) \<Rightarrow> (Some (Errorf ''landlock: failed to restrict self: %w'' [AWrap err]), s\<lparr>ts_world := w1\<rparr>)
        | (None, w1) \<Rightarrow> (None, s\<lparr>ts_world := w1\<rparr>)))"

definition NewLandlockAdapter :: "'w host \<Rightarrow> 'w kernel \<Rightarrow> 'w Adapter" where
  "NewLandlockAdapter h k =
     \<lparr>ad_Info = \<lparr>ti_Name = ''landlock'', ti_Number = 4, ti_DisplayName = ''Landlock (path-based)'',
       ti_Description = ''Linux Landlock LSM providing path-based filesystem isolation (~1ms, ~2MB)'',
       ti_StartupMS = 1, ti_MemoryMB = 2, ti_Security = ''low'', ti_Platforms = [''linux''], ti_Workloads = [''tool'', ''cli'']\<rparr>,
      ad_Deploy = deploy_with h (landlock_Probe h k) None ''landlock'' ''landlock'' [],
      ad_Start = landlock_tier_Start k,
      ad_Stop = (\<lambda>i. no_effect),
      ad_Delete = (\<lambda>i. no_effect),
      ad_GetStartupTime = millis 1, ad_Probe = landlock_Probe h k\<rparr>"

definition seccomp_Probe :: "'w host \<Rightarrow> 'w tier_op" where
  "seccomp_Probe h s =
     (if probeOverride h ''NVMS_REQUIRE_SECCOMP'' = ''0'' then (None, s)
      else let v = probeOverride h ''NVMS_PLATFORM'' in
        if v \<noteq> [] \<and> v \<noteq> ''linux'' then (Some (Errorf ''seccomp: platform %q not supported (linux-only)'' [AStr v]), s) else (None, s))"

definition NewSeccompAdapter :: "'w host \<Rightarrow> 'w Adapter" where
  "NewSeccompAdapter h =
     \<lparr>ad_Info = \<lparr>ti_Name = ''seccomp'', ti_Number = 5, ti_DisplayName = ''Seccomp (syscall filter)'',
       ti_Description = ''Linux seccomp BPF syscall filter (~0.2ms startup, ~1MB)'',
       ti_StartupMS = 1, ti_MemoryMB = 1, ti_Security = ''low'', ti_Platforms = [''linux''], ti_Workloads = [''tool'', ''cli'']\<rparr>,
      ad_Deploy = deploy_with h (seccomp_Probe h) None ''seccomp'' ''seccomp'' [],
      ad_Start = (\<lambda>i. refuse (Errorf ''seccomp: BPF filter compilation not yet implemented; tier disabled for safety'' [])),
      ad_Stop = (\<lambda>i. no_effect),
      ad_Delete = (\<lambda>i. no_effect),
      ad_GetStartupTime = millis 1, ad_Probe = seccomp_Probe h\<rparr>"

definition NewNativeAdapter :: "'w host \<Rightarrow> 'w Adapter" where
  "NewNativeAdapter h =
     \<lparr>ad_Info = \<lparr>ti_Name = ''native'', ti_Number = 6, ti_DisplayName = ''Native (no isolation)'',
       ti_Description = ''Run the workload directly in the calling process; zero overhead baseline'',
       ti_StartupMS = 0, ti_MemoryMB = 0, ti_Security = ''low'', ti_Platforms = [''linux'', ''macos'', ''windows''], ti_Workloads = [''cli'', ''tool'']\<rparr>,
      ad_Deploy = deploy_with h no_effect None ''native'' ''native'' [],
      ad_Start = (\<lambda>i. no_effect),
      ad_Stop = (\<lambda>i. no_effect),
      ad_Delete = (\<lambda>i. no_effect),
      ad_GetStartupTime = 0, ad_Probe = no_effect\<rparr>"

definition userns_Probe :: "'w host \<Rightarrow> 'w tier_op" where
  "userns_Probe h s =
     (if ho_GOOS h \<noteq> ''linux'' then (Some (Errorf ''userns: platform %q not supported (linux-only)'' [AStr (ho_GOOS h)]), s)
      else case ho_Open h ''/proc/self/uid_map'' (ts_world s) of
        Some err \<Rightarrow> (Some (Errorf ''userns: %s not readable: %w'' [AStr ''/proc/self/uid_map'', AWrap err]), s)
      | None \<Rightarrow> (case ho_FileSize h ''/proc/self/uid_map'' (ts_world s) of
          Inl err \<Rightarrow> (Some (Errorf ''userns: %s stat failed: %w'' [AStr ''/proc/self/uid_map'', AWrap err]), s)
        | Inr n \<Rightarrow>
            if n = 0 then (Some (Errorf ''userns: %s is empty (kernel.unprivileged_userns_clone disabled)'' [AStr ''/proc/self/uid_map'']), s)
            else (None, s)))"

definition NewUserNSAdapter :: "'w host \<Rightarrow> 'w Adapter" where
  "NewUserNSAdapter h =
     \<lparr>ad_Info = \<lparr>ti_Name = ''userns'', ti_Number = 30, ti_DisplayName = ''Linux user namespaces'',
       ti_Description = ''Linux user namespaces (unprivileged uid/gid mapping, ~1ms startup)'',
       ti_StartupMS = 1, ti_MemoryMB = 1, ti_Security = ''low'', ti_Platforms = [''linux''], ti_Workloads = [''tool'', ''cli'']\<rparr>,
      ad_Deploy = deploy_with h (userns_Probe h) None ''userns'' SandboxTypeProcess [],
      ad_Start = (\<lambda>i. no_effect),
      ad_Stop = (\<lambda>i. no_effect),
      ad_Delete = (\<lambda>i. no_effect),
      ad_GetStartupTime = millis 1, ad_Probe = userns_Probe h\<rparr>"

definition pledge_Probe :: "'w host \<Rightarrow> 'w tier_op" where
  "pledge_Probe h = need_file h ''pledge: %s not found (need OpenBSD): %w'' ''/usr/bin/pledge''"

definition NewPledgeAdapter :: "'w host \<Rightarrow> 'w Adapter" where
  "NewPledgeAdapter h =
     \<lparr>ad_Info = \<lparr>ti_Name = ''pledge'', ti_Number = 25, ti_DisplayName = ''OpenBSD pledge'',
       ti_Description = ''OpenBSD pledge(2): syscall capability groups (~1ms, ~1MB)'',
       ti_StartupMS = 1, ti_MemoryMB = 1, ti_Security = ''low'', ti_Platforms = [''openbsd''], ti_Workloads = [''tool'', ''cli'']\<rparr>,
      ad_Deploy = deploy_with h (pledge_Probe h) None ''pledge'' SandboxTypeProcess [],
      ad_Start = (\<lambda>i. no_effect),
      ad_Stop = (\<lambda>i. run_cmd h [''pkill'', ''-f'', i]),
      ad_Delete = (\<lambda>i. no_effect),
      ad_GetStartupTime = millis 1, ad_Probe = pledge_Probe h\<rparr>"

definition sandboxexec_Probe :: "'w host \<Rightarrow> 'w tier_op" where
  "sandboxexec_Probe h = need_file h ''sandboxexec: %s not found: %w'' ''/usr/bin/sandbox-exec''"

definition NewSandboxExecAdapter :: "'w host \<Rightarrow> 'w Adapter" where
  "NewSandboxExecAdapter h =
     \<lparr>ad_Info = \<lparr>ti_Name = ''sandboxexec'', ti_Number = 26, ti_DisplayName = ''macOS sandbox-exec'',
       ti_Description = ''macOS sandbox-exec with SBPL profile (~5ms startup, ~2MB)'',
       ti_StartupMS = 5, ti_MemoryMB = 2, ti_Security = ''low'', ti_Platforms = [''macos''], ti_Workloads = [''tool'', ''cli'']\<rparr>,
      ad_Deploy = deploy_with h (sandboxexec_Probe h) None ''sandboxexec'' SandboxTypeProcess [],
      ad_Start = (\<lambda>i. cli h ''sandbox-exec start %s: %w: %s'' i [''/usr/bin/sandbox-exec'', ''-p'', ''(version 1)(deny default)(allow process-exec)(allow stdio)'', ''/bin/sh'', ''-c'', i]),
      ad_Stop = (\<lambda>i. run_cmd h [''pkill'', ''-f'', ''sandbox-exec.*'' @ i]),
      ad_Delete = (\<lambda>i. no_effect),
      ad_GetStartupTime = millis 5, ad_Probe = sandboxexec_Probe h\<rparr>"

section \<open>Containers\<close>

text \<open>\<open>docker.go\<close>, \<open>podman.go\<close>, \<open>gvisordocker.go\<close>, \<open>distroless.go\<close>, \<open>wolfi.go\<close>, \<open>youki.go\<close>, \<open>systemdnspawn.go\<close>, \<open>jail.go\<close>, \<open>kata.go\<close>, \<open>virtcontainers.go\<close>.\<close>

definition docker_Probe :: "'w host \<Rightarrow> 'w tier_op" where
  "docker_Probe h = and_then (need_path h ''docker: binary %q not found: %w'' [AStr ''docker''] ''docker'')
     (\<lambda>s. case ho_CombinedOutput h [''docker'', ''version'', ''--format'', ''{{.Server.Version}}''] (ts_world s) of
        ((out, Some err), w) \<Rightarrow> (Some (Errorf ''docker: daemon not reachable: %w (%s)'' [AWrap err, AStr out]), s\<lparr>ts_world := w\<rparr>)
      | ((out, None), w) \<Rightarrow> (None, s\<lparr>ts_world := w\<rparr>))"

definition NewDockerAdapter :: "'w host \<Rightarrow> 'w Adapter" where
  "NewDockerAdapter h =
     \<lparr>ad_Info = \<lparr>ti_Name = ''docker'', ti_Number = 7, ti_DisplayName = ''Docker (OCI)'',
       ti_Description = ''Docker CLI driving an OCI container (~600ms startup, ~50MB)'',
       ti_StartupMS = 600, ti_MemoryMB = 50, ti_Security = ''medium'', ti_Platforms = [''linux'', ''macos'', ''windows''], ti_Workloads = [''code'', ''tool'', ''cli'']\<rparr>,
      ad_Deploy = deploy_with h (docker_Probe h) (Some ''docker: image is required in SandboxConfig'') ''docker'' SandboxTypeContainer [],
      ad_Start = (\<lambda>i. cli h ''docker start %s: %w: %s'' i [''docker'', ''start'', i]),
      ad_Stop = (\<lambda>i. cli h ''docker stop %s: %w: %s'' i [''docker'', ''stop'', i]),
      ad_Delete = (\<lambda>i. cli h ''docker rm %s: %w: %s'' i [''docker'', ''rm'', ''-f'', i]),
      ad_GetStartupTime = millis 600, ad_Probe = docker_Probe h\<rparr>"

definition podman_tier_Probe :: "'w host \<Rightarrow> 'w tier_op" where
  "podman_tier_Probe h = and_then (need_path h ''podman: binary %q not found: %w'' [AStr ''podman''] ''podman'')
     (\<lambda>s. case ho_CombinedOutputWithin h 10 [''podman'', ''ps'', ''--all'', ''--noheading''] (ts_world s) of
        (((out, Some err), ended), w) \<Rightarrow>
          (Some (if ended then Errorf ''podman: probe timed out after 10s'' []
                 else Errorf ''podman: not functional: %w (%s)'' [AWrap err, AStr out]), s\<lparr>ts_world := w\<rparr>)
      | (((out, None), ended), w) \<Rightarrow> (None, s\<lparr>ts_world := w\<rparr>))"

definition NewPodmanAdapter :: "'w host \<Rightarrow> 'w Adapter" where
  "NewPodmanAdapter h =
     \<lparr>ad_Info = \<lparr>ti_Name = ''podman'', ti_Number = 8, ti_DisplayName = ''Podman (rootless OCI)'',
       ti_Description = ''Podman rootless OCI containers (~700ms startup, ~50MB)'',
       ti_StartupMS = 700, ti_MemoryMB = 50, ti_Security = ''medium'', ti_Platforms = [''linux'', ''macos'', ''windows''], ti_Workloads = [''code'', ''tool'', ''cli'']\<rparr>,
      ad_Deploy = deploy_with h (podman_tier_Probe h) (Some ''podman: image is required in SandboxConfig'') ''podman'' SandboxTypeContainer [],
      ad_Start = (\<lambda>i. cli h ''podman start %s: %w: %s'' i [''podman'', ''start'', i]),
      ad_Stop = (\<lambda>i. cli h ''podman stop %s: %w: %s'' i [''podman'', ''stop'', i]),
      ad_Delete = (\<lambda>i. cli h ''podman rm %s: %w: %s'' i [''podman'', ''rm'', ''-f'', i]),
      ad_GetStartupTime = millis 700, ad_Probe = podman_tier_Probe h\<rparr>"

definition gvisordocker_Probe :: "'w host \<Rightarrow> 'w tier_op" where
  "gvisordocker_Probe h = and_then (need_path h ''gvisordocker: docker binary not found: %w'' [] ''docker'')
     (need_path h ''gvisordocker: runsc binary not found (install gVisor and register runsc as a docker runtime): %w'' [] ''runsc'')"

definition NewGVisorDockerAdapter :: "'w host \<Rightarrow> 'w Adapter" where
  "NewGVisorDockerAdapter h =
     \<lparr>ad_Info = \<lparr>ti_Name = ''gvisordocker'', ti_Number = 27, ti_DisplayName = ''gVisor via Docker'',
       ti_Description = ''gVisor runsc registered as a Docker runtime (~600ms, ~50MB)'',
       ti_StartupMS = 600, ti_MemoryMB = 50, ti_Security = ''medium'', ti_Platforms = [''linux'', ''macos''], ti_Workloads = [''code'', ''tool'', ''browser'']\<rparr>,
      ad_Deploy = deploy_with h (gvisordocker_Probe h) (Some ''gvisordocker: image is required in SandboxConfig'') ''gvisordocker'' SandboxTypeContainer [],
      ad_Start = (\<lambda>i. cli h ''gvisordocker start %s: %w: %s'' i [''docker'', ''start'', i]),
      ad_Stop = (\<lambda>i. cli h ''gvisordocker stop %s: %w: %s'' i [''docker'', ''stop'', i]),
      ad_Delete = (\<lambda>i. cli h ''gvisordocker rm %s: %w: %s'' i [''docker'', ''rm'', ''-f'', i]),
      ad_GetStartupTime = millis 600, ad_Probe = gvisordocker_Probe h\<rparr>"

definition distroless_Probe :: "'w host \<Rightarrow> 'w tier_op" where
  "distroless_Probe h = need_path h ''distroless: docker binary %q not found: %w'' [AStr ''docker''] ''docker''"

definition NewDistrolessAdapter :: "'w host \<Rightarrow> 'w Adapter" where
  "NewDistrolessAdapter h =
     \<lparr>ad_Info = \<lparr>ti_Name = ''distroless'', ti_Number = 29, ti_DisplayName = ''Distroless (Google)'',
       ti_Description = ''Google Distroless: no shell, no package manager, ~20MB image'',
       ti_StartupMS = 80, ti_MemoryMB = 20, ti_Security = ''high'', ti_Platforms = [''linux'', ''macos'', ''windows''], ti_Workloads = [''code'', ''tool'', ''cli'']\<rparr>,
      ad_Deploy = deploy_with h (distroless_Probe h) (Some ''distroless: image is required in SandboxConfig'') ''distroless'' SandboxTypeContainer [],
      ad_Start = (\<lambda>i. no_effect),
      ad_Stop = (\<lambda>i. no_effect),
      ad_Delete = (\<lambda>i. no_effect),
      ad_GetStartupTime = millis 80, ad_Probe = distroless_Probe h\<rparr>"

definition wolfi_Probe :: "'w host \<Rightarrow> 'w tier_op" where
  "wolfi_Probe h s =
     (case ho_ReadFile h ''/etc/os-release'' (ts_world s) of
        Inl err \<Rightarrow> (Some (Errorf ''wolfi: %s not readable: %w'' [AStr ''/etc/os-release'', AWrap err]), s)
      | Inr body \<Rightarrow>
          let contents = take 4096 body in
          if \<not> contains (toLower contents) ''id=wolfi'' \<and> \<not> contains (toLower contents) ''id_like=wolfi''
          then (Some (Errorf ''wolfi: /etc/os-release does not advertise a Wolfi ID'' []), s) else (None, s))"

definition NewWolfiAdapter :: "'w host \<Rightarrow> 'w Adapter" where
  "NewWolfiAdapter h =
     \<lparr>ad_Info = \<lparr>ti_Name = ''wolfi'', ti_Number = 28, ti_DisplayName = ''Wolfi Linux (apk-based)'',
       ti_Description = ''Wolfi Linux: Chainguard'' @ [CHR 0x27] @ ''s minimal apk-based distroless (~50ms, ~10MB)'',
       ti_StartupMS = 50, ti_MemoryMB = 10, ti_Security = ''medium'', ti_Platforms = [''linux''], ti_Workloads = [''code'', ''tool'', ''cli'']\<rparr>,
      ad_Deploy = deploy_with h (wolfi_Probe h) None ''wolfi'' SandboxTypeContainer [],
      ad_Start = (\<lambda>i. no_effect),
      ad_Stop = (\<lambda>i. no_effect),
      ad_Delete = (\<lambda>i. no_effect),
      ad_GetStartupTime = millis 50, ad_Probe = wolfi_Probe h\<rparr>"

definition youki_Probe :: "'w host \<Rightarrow> 'w tier_op" where
  "youki_Probe h = need_path h ''youki: binary %q not found: %w'' [AStr ''youki''] ''youki''"

definition NewYoukiAdapter :: "'w host \<Rightarrow> 'w Adapter" where
  "NewYoukiAdapter h =
     \<lparr>ad_Info = \<lparr>ti_Name = ''youki'', ti_Number = 17, ti_DisplayName = ''youki (Rust OCI runtime)'',
       ti_Description = ''youki: Rust-based OCI runtime, drop-in runc replacement (~30ms, ~30MB)'',
       ti_StartupMS = 30, ti_MemoryMB = 30, ti_Security = ''medium'', ti_Platforms = [''linux''], ti_Workloads = [''code'', ''tool'', ''cli'']\<rparr>,
      ad_Deploy = deploy_with h (youki_Probe h) (Some ''youki: image is required in SandboxConfig'') ''youki'' SandboxTypeContainer [],
      ad_Start = (\<lambda>i. cli h ''youki start %s: %w: %s'' i [''youki'', ''run'', ''--bundle'', ''/run/youki/'' @ i, i]),
      ad_Stop = (\<lambda>i. cli h ''youki kill %s: %w: %s'' i [''youki'', ''kill'', i]),
      ad_Delete = (\<lambda>i. cli h ''youki delete %s: %w: %s'' i [''youki'', ''delete'', i]),
      ad_GetStartupTime = millis 30, ad_Probe = youki_Probe h\<rparr>"

definition systemdnspawn_Probe :: "'w host \<Rightarrow> 'w tier_op" where
  "systemdnspawn_Probe h = need_path h ''systemd-nspawn: binary %q not found: %w'' [AStr ''systemd-nspawn''] ''systemd-nspawn''"

definition NewSystemdNspawnAdapter :: "'w host \<Rightarrow> 'w Adapter" where
  "NewSystemdNspawnAdapter h =
     \<lparr>ad_Info = \<lparr>ti_Name = ''systemdnspawn'', ti_Number = 18, ti_DisplayName = ''systemd-nspawn'',
       ti_Description = ''systemd-nspawn namespace container engine (~100ms, ~40MB)'',
       ti_StartupMS = 100, ti_MemoryMB = 40, ti_Security = ''medium'', ti_Platforms = [''linux''], ti_Workloads = [''code'', ''tool'', ''cli'']\<rparr>,
      ad_Deploy = deploy_with h (systemdnspawn_Probe h) None ''systemdnspawn'' SandboxTypeContainer [],
      ad_Start = (\<lambda>i. cli h ''systemd-nspawn start %s: %w: %s'' i [''systemd-nspawn'', ''--boot'', ''--machine'', i, ''--directory'', ''/var/lib/machines/'' @ i]),
      ad_Stop = (\<lambda>i. cli h ''systemd-nspawn stop %s: %w: %s'' i [''machinectl'', ''poweroff'', i]),
      ad_Delete = (\<lambda>i. no_effect),
      ad_GetStartupTime = millis 100, ad_Probe = systemdnspawn_Probe h\<rparr>"

definition jail_Probe :: "'w host \<Rightarrow> 'w tier_op" where
  "jail_Probe h = need_path h ''jail: binary %q not found: %w'' [AStr ''jail''] ''jail''"

definition NewJailAdapter :: "'w host \<Rightarrow> 'w Adapter" where
  "NewJailAdapter h =
     \<lparr>ad_Info = \<lparr>ti_Name = ''jail'', ti_Number = 24, ti_DisplayName = ''FreeBSD jail'',
       ti_Description = ''FreeBSD jail: kernel-level filesystem + network + user isolation (~50ms)'',
       ti_StartupMS = 50, ti_MemoryMB = 16, ti_Security = ''medium'', ti_Platforms = [''freebsd''], ti_Workloads = [''code'', ''tool'', ''cli'']\<rparr>,
      ad_Deploy = deploy_with h (jail_Probe h) None ''jail'' SandboxTypeContainer [],
      ad_Start = (\<lambda>i. cli h ''jail start %s: %w: %s'' i [''jail'', ''-c'', ''name='' @ i, ''path=/usr/jail/'' @ i, ''command=/bin/sh'']),
      ad_Stop = (\<lambda>i. cli h ''jail stop %s: %w: %s'' i [''jail'', ''-r'', i]),
      ad_Delete = (\<lambda>i. no_effect),
      ad_GetStartupTime = millis 50, ad_Probe = jail_Probe h\<rparr>"

definition kata_Probe :: "'w host \<Rightarrow> 'w tier_op" where
  "kata_Probe h = reject_if (probeOverride h ''NVMS_REQUIRE_KATA'' = ''1'') (Errorf ''kata: probe disabled via NVMS_REQUIRE_KATA=1'' [])
     (need_path h ''kata: shim %q not found on $PATH: %w'' [AStr ''containerd-shim-kata-v2''] ''containerd-shim-kata-v2'')"

definition NewKataAdapter :: "'w host \<Rightarrow> 'w Adapter" where
  "NewKataAdapter h =
     \<lparr>ad_Info = \<lparr>ti_Name = ''kata'', ti_Number = 16, ti_DisplayName = ''Kata Containers'',
       ti_Description = ''Kata Containers: per-pod hardware-virtualized sandbox (~250ms, ~256MB)'',
       ti_StartupMS = 250, ti_MemoryMB = 256, ti_Security = ''high'', ti_Platforms = [''linux''], ti_Workloads = [''code'', ''tool'', ''browser'']\<rparr>,
      ad_Deploy = deploy_with h (kata_Probe h) None ''kata'' SandboxTypeContainer [],
      ad_Start = (\<lambda>i. no_effect),
      ad_Stop = (\<lambda>i. no_effect),
      ad_Delete = (\<lambda>i. no_effect),
      ad_GetStartupTime = millis 250, ad_Probe = kata_Probe h\<rparr>"

definition virtcontainers_Probe :: "'w host \<Rightarrow> 'w tier_op" where
  "virtcontainers_Probe h = need_path h ''virtcontainers: binary %q not found (archived in 2019; use Kata): %w'' [AStr ''virtcontainers''] ''virtcontainers''"

definition NewVirtContainersAdapter :: "'w host \<Rightarrow> 'w Adapter" where
  "NewVirtContainersAdapter h =
     \<lparr>ad_Info = \<lparr>ti_Name = ''virtcontainers'', ti_Number = 23, ti_DisplayName = ''Intel Clear Containers (virtcontainers)'',
       ti_Description = ''virtcontainers: legacy Intel Clear Containers (~200ms, ~128MB)'',
       ti_StartupMS = 200, ti_MemoryMB = 128, ti_Security = ''medium'', ti_Platforms = [''linux''], ti_Workloads = [''code'', ''tool'']\<rparr>,
      ad_Deploy = deploy_with h (virtcontainers_Probe h) None ''virtcontainers'' SandboxTypeContainer [],
      ad_Start = (\<lambda>i. cli h ''virtcontainers start %s: %w: %s'' i [''virtcontainers'', ''run'', ''--id'', i]),
      ad_Stop = (\<lambda>i. run_cmd h [''pkill'', ''-f'', ''virtcontainers.*'' @ i]),
      ad_Delete = (\<lambda>i. no_effect),
      ad_GetStartupTime = millis 200, ad_Probe = virtcontainers_Probe h\<rparr>"

section \<open>Virtual machines\<close>

text \<open>\<open>hyperkit.go\<close>, \<open>applevz.go\<close>, \<open>lima.go\<close>, \<open>kvm.go\<close>, \<open>qemu.go\<close>, \<open>cloudhv.go\<close>, \<open>crosvm.go\<close>, \<open>nitrorekf.go\<close>, \<open>sev.go\<close>, \<open>tdx.go\<close>, \<open>kubevirt.go\<close>. A \<open>Delete\<close> that calls \<open>Stop\<close> repeats its command.\<close>

definition hyperkit_Probe :: "'w host \<Rightarrow> 'w tier_op" where
  "hyperkit_Probe h = reject_if (ho_GOOS h \<noteq> ''darwin'') (Errorf ''hyperkit: platform %q not supported (macos-only)'' [AStr (ho_GOOS h)])
     (need_path h ''hyperkit: binary %q not found: %w'' [AStr ''hyperkit''] ''hyperkit'')"

definition NewHyperKitAdapter :: "'w host \<Rightarrow> 'w Adapter" where
  "NewHyperKitAdapter h =
     \<lparr>ad_Info = \<lparr>ti_Name = ''hyperkit'', ti_Number = 9, ti_DisplayName = ''HyperKit (deprecated)'',
       ti_Description = ''macOS-native VM via the (now-deprecated) hyperkit CLI (~400ms startup)'',
       ti_StartupMS = 400, ti_MemoryMB = 256, ti_Security = ''high'', ti_Platforms = [''macos''], ti_Workloads = [''code'', ''tool'']\<rparr>,
      ad_Deploy = deploy_with h (hyperkit_Probe h) None ''hyperkit'' SandboxTypeVM VMFlavorNative,
      ad_Start = (\<lambda>i. cli h ''hyperkit start %s: %w: %s'' i [''hyperkit'', ''-D'', i, ''/dev/null'']),
      ad_Stop = (\<lambda>i. run_cmd h [''pkill'', ''-f'', ''hyperkit.*'' @ i]),
      ad_Delete = (\<lambda>i. run_cmd h [''pkill'', ''-f'', ''hyperkit.*'' @ i]),
      ad_GetStartupTime = millis 400, ad_Probe = hyperkit_Probe h\<rparr>"

definition applevz_Probe :: "'w host \<Rightarrow> 'w tier_op" where
  "applevz_Probe h = reject_if (ho_GOOS h \<noteq> ''darwin'') (Errorf ''applevz: platform %q not supported (macos-only)'' [AStr (ho_GOOS h)])
     (\<lambda>s. case ho_Output h [''sysctl'', ''-n'', ''kern.hv_vmm_present''] (ts_world s) of
        ((out, Some err), w) \<Rightarrow> (Some (Errorf ''applevz: sysctl kern.hv_vmm_present: %w'' [AWrap err]), s\<lparr>ts_world := w\<rparr>)
      | ((out, None), w) \<Rightarrow>
          ((if trimSpace out \<noteq> ''1'' then Some (Errorf ''applevz: kern.hv_vmm_present != 1 (Hypervisor.framework not exposed)'' []) else None),
           s\<lparr>ts_world := w\<rparr>))"

definition NewAppleVZAdapter :: "'w host \<Rightarrow> 'w Adapter" where
  "NewAppleVZAdapter h =
     \<lparr>ad_Info = \<lparr>ti_Name = ''applevz'', ti_Number = 10, ti_DisplayName = ''Apple Virtualization.framework'',
       ti_Description = ''macOS Virtualization.framework VM (~250ms startup, ~256MB)'',
       ti_StartupMS = 250, ti_MemoryMB = 256, ti_Security = ''high'', ti_Platforms = [''macos''], ti_Workloads = [''code'', ''browser'', ''tool'']\<rparr>,
      ad_Deploy = deploy_with h (applevz_Probe h) None ''applevz'' SandboxTypeVM VMFlavorNative,
      ad_Start = (\<lambda>i. no_effect),
      ad_Stop = (\<lambda>i. no_effect),
      ad_Delete = (\<lambda>i. no_effect),
      ad_GetStartupTime = millis 250, ad_Probe = applevz_Probe h\<rparr>"

definition lima_resolveBinary :: "'w host \<Rightarrow> 'w \<Rightarrow> string result" where
  "lima_resolveBinary h w =
     (case first_on_path h [''limactl'', ''colima''] w of
        Some p \<Rightarrow> Inr p | None \<Rightarrow> Inl (Errorf ''lima: neither limactl nor colima found on $PATH'' []))"

definition lima_Probe :: "'w host \<Rightarrow> 'w tier_op" where
  "lima_Probe h s = ((case lima_resolveBinary h (ts_world s) of Inl err \<Rightarrow> Some err | Inr _ \<Rightarrow> None), s)"

definition NewLimaAdapter :: "'w host \<Rightarrow> 'w Adapter" where
  "NewLimaAdapter h =
     \<lparr>ad_Info = \<lparr>ti_Name = ''lima'', ti_Number = 11, ti_DisplayName = ''Lima (Linux VM)'',
       ti_Description = ''Lima-managed Linux VM (~3s startup, ~512MB) on macOS/Windows'',
       ti_StartupMS = 3000, ti_MemoryMB = 512, ti_Security = ''high'', ti_Platforms = [''macos'', ''windows''], ti_Workloads = [''code'', ''tool'', ''browser'']\<rparr>,
      ad_Deploy = deploy_with h (lima_Probe h) None ''lima'' SandboxTypeVM VMFlavorLima,
      ad_Start = (\<lambda>i. with_binary (lima_resolveBinary h) (\<lambda>bin. cli h ''lima start %s: %w: %s'' i [bin, ''start'', i])),
      ad_Stop = (\<lambda>i. with_binary (lima_resolveBinary h) (\<lambda>bin. cli h ''lima stop %s: %w: %s'' i [bin, ''stop'', i])),
      ad_Delete = (\<lambda>i. with_binary (lima_resolveBinary h) (\<lambda>bin. cli h ''lima delete %s: %w: %s'' i [bin, ''delete'', ''-f'', i])),
      ad_GetStartupTime = millis 3000, ad_Probe = lima_Probe h\<rparr>"

definition kvm_Probe :: "'w host \<Rightarrow> 'w tier_op" where
  "kvm_Probe h = reject_if (ho_GOOS h \<noteq> ''linux'') (Errorf ''kvm: platform %q not supported (linux-only)'' [AStr (ho_GOOS h)])
     (need_device h ''kvm: /dev/kvm not accessible: %w'' [] ''/dev/kvm'')"

definition NewKVMAdapter :: "'w host \<Rightarrow> 'w Adapter" where
  "NewKVMAdapter h =
     \<lparr>ad_Info = \<lparr>ti_Name = ''kvm'', ti_Number = 12, ti_DisplayName = ''KVM (Linux hypervisor)'',
       ti_Description = ''Linux KVM (/dev/kvm) direct hypervisor access (~150ms startup, ~128MB)'',
       ti_StartupMS = 150, ti_MemoryMB = 128, ti_Security = ''high'', ti_Platforms = [''linux''], ti_Workloads = [''code'', ''browser'', ''tool'']\<rparr>,
      ad_Deploy = (\<lambda>config s. (Inl (Errorf ''kvm: guest deployment is not implemented: %w'' [AWrap (Sentinel ''unsupported operation'')]), s)),
      ad_Start = (\<lambda>i. refuse (Errorf ''kvm: guest startup is not implemented: %w'' [AWrap (Sentinel ''unsupported operation'')])),
      ad_Stop = (\<lambda>i. no_effect),
      ad_Delete = (\<lambda>i. no_effect),
      ad_GetStartupTime = millis 150, ad_Probe = kvm_Probe h\<rparr>"

definition qemu_resolveBinary :: "'w host \<Rightarrow> 'w \<Rightarrow> string result" where
  "qemu_resolveBinary h w =
     (case first_on_path h [''qemu-system-x86_64'', ''qemu-system-aarch64'', ''qemu-kvm''] w of
        Some p \<Rightarrow> Inr p | None \<Rightarrow> Inl (Errorf ''qemu: no qemu-system-* binary found on $PATH'' []))"

definition qemu_Probe :: "'w host \<Rightarrow> 'w tier_op" where
  "qemu_Probe h s = ((case qemu_resolveBinary h (ts_world s) of Inl err \<Rightarrow> Some err | Inr _ \<Rightarrow> None), s)"

definition NewQEMUAdapter :: "'w host \<Rightarrow> 'w Adapter" where
  "NewQEMUAdapter h =
     \<lparr>ad_Info = \<lparr>ti_Name = ''qemu'', ti_Number = 13, ti_DisplayName = ''QEMU (full system emulator)'',
       ti_Description = ''QEMU full-system emulation (~2s startup, ~256MB); supports x86_64/aarch64/riscv64'',
       ti_StartupMS = 2000, ti_MemoryMB = 256, ti_Security = ''high'', ti_Platforms = [''linux'', ''macos'', ''windows''], ti_Workloads = [''code'', ''browser'', ''tool'']\<rparr>,
      ad_Deploy = deploy_with h (qemu_Probe h) None ''qemu'' SandboxTypeVM VMFlavorNative,
      ad_Start = (\<lambda>i. with_binary (qemu_resolveBinary h) (\<lambda>bin. cli h ''qemu start %s: %w: %s'' i
          [bin, ''-name'', i, ''-daemonize'', ''-nographic'', ''-m'', ''512''])),
      ad_Stop = (\<lambda>i. run_cmd h [''pkill'', ''-f'', ''qemu.*-name '' @ i]),
      ad_Delete = (\<lambda>i. run_cmd h [''pkill'', ''-f'', ''qemu.*-name '' @ i]),
      ad_GetStartupTime = millis 2000, ad_Probe = qemu_Probe h\<rparr>"

definition cloudhv_Probe :: "'w host \<Rightarrow> 'w tier_op" where
  "cloudhv_Probe h = reject_if (ho_GOOS h \<noteq> ''linux'') (Errorf ''cloudhv: platform %q not supported (linux-only)'' [AStr (ho_GOOS h)])
     (need_path h ''cloudhv: binary %q not found: %w'' [AStr ''cloud-hypervisor''] ''cloud-hypervisor'')"

definition NewCloudHypervisorAdapter :: "'w host \<Rightarrow> 'w Adapter" where
  "NewCloudHypervisorAdapter h =
     \<lparr>ad_Info = \<lparr>ti_Name = ''cloudhv'', ti_Number = 14, ti_DisplayName = ''Cloud Hypervisor (Rust VMM)'',
       ti_Description = ''Cloud Hypervisor Rust VMM with KVM backend (~180ms startup, ~128MB)'',
       ti_StartupMS = 180, ti_MemoryMB = 128, ti_Security = ''high'', ti_Platforms = [''linux''], ti_Workloads = [''code'', ''browser'', ''tool'']\<rparr>,
      ad_Deploy = deploy_with h (cloudhv_Probe h) None ''cloudhv'' SandboxTypeVM VMFlavorNative,
      ad_Start = (\<lambda>i. cli h ''cloud-hypervisor start %s: %w: %s'' i [''cloud-hypervisor'', ''--api-socket'', ''/tmp/'' @ i @ ''.sock'', ''&'']),
      ad_Stop = (\<lambda>i. run_cmd h [''pkill'', ''-f'', ''cloud-hypervisor.*'' @ i]),
      ad_Delete = (\<lambda>i. run_cmd h [''pkill'', ''-f'', ''cloud-hypervisor.*'' @ i]),
      ad_GetStartupTime = millis 180, ad_Probe = cloudhv_Probe h\<rparr>"

definition crosvm_Probe :: "'w host \<Rightarrow> 'w tier_op" where
  "crosvm_Probe h = reject_if (ho_GOOS h \<noteq> ''linux'') (Errorf ''crosvm: platform %q not supported (linux-only)'' [AStr (ho_GOOS h)])
     (need_path h ''crosvm: binary %q not found: %w'' [AStr ''crosvm''] ''crosvm'')"

definition NewCrosvmAdapter :: "'w host \<Rightarrow> 'w Adapter" where
  "NewCrosvmAdapter h =
     \<lparr>ad_Info = \<lparr>ti_Name = ''crosvm'', ti_Number = 15, ti_DisplayName = ''crosvm (ChromeOS VMM)'',
       ti_Description = ''ChromeOS crosvm VMM with virtio devices (~200ms startup, ~128MB)'',
       ti_StartupMS = 200, ti_MemoryMB = 128, ti_Security = ''high'', ti_Platforms = [''linux''], ti_Workloads = [''code'', ''tool'']\<rparr>,
      ad_Deploy = deploy_with h (crosvm_Probe h) None ''crosvm'' SandboxTypeVM VMFlavorNative,
      ad_Start = (\<lambda>i. cli h ''crosvm start %s: %w: %s'' i [''crosvm'', ''run'', ''-s'', ''/tmp/'' @ i @ ''.serial'', ''--rwdisk'', ''/tmp/'' @ i @ ''.img'']),
      ad_Stop = (\<lambda>i. run_cmd h [''pkill'', ''-f'', ''crosvm.*'' @ i]),
      ad_Delete = (\<lambda>i. run_cmd h [''pkill'', ''-f'', ''crosvm.*'' @ i]),
      ad_GetStartupTime = millis 200, ad_Probe = crosvm_Probe h\<rparr>"

definition nitrorekf_Probe :: "'w host \<Rightarrow> 'w tier_op" where
  "nitrorekf_Probe h = reject_if (ho_GOOS h \<noteq> ''linux'') (Errorf ''nitrorekf: platform %q not supported (linux-only)'' [AStr (ho_GOOS h)])
     (need_device h ''nitrorekf: %s not accessible: %w'' [AStr ''/dev/nitro_enclaves''] ''/dev/nitro_enclaves'')"

definition NewNitroEnclavesAdapter :: "'w host \<Rightarrow> 'w Adapter" where
  "NewNitroEnclavesAdapter h =
     \<lparr>ad_Info = \<lparr>ti_Name = ''nitrorekf'', ti_Number = 19, ti_DisplayName = ''AWS Nitro Enclaves'',
       ti_Description = ''AWS Nitro Enclaves hardware-isolated execution (~5s startup, ~64MB)'',
       ti_StartupMS = 5000, ti_MemoryMB = 64, ti_Security = ''untrusted'', ti_Platforms = [''linux''], ti_Workloads = [''code'', ''tool'']\<rparr>,
      ad_Deploy = deploy_with h (nitrorekf_Probe h) None ''nitrorekf'' SandboxTypeVM VMFlavorMicroVM,
      ad_Start = (\<lambda>i. no_effect),
      ad_Stop = (\<lambda>i. no_effect),
      ad_Delete = (\<lambda>i. no_effect),
      ad_GetStartupTime = millis 5000, ad_Probe = nitrorekf_Probe h\<rparr>"

definition sev_Probe :: "'w host \<Rightarrow> 'w tier_op" where
  "sev_Probe h = reject_if (ho_GOOS h \<noteq> ''linux'') (Errorf ''sev: platform %q not supported (linux-only)'' [AStr (ho_GOOS h)])
     (need_device h ''sev: %s not accessible (need AMD EPYC with SEV + sev driver loaded): %w'' [AStr ''/dev/sev''] ''/dev/sev'')"

definition NewSEVAdapter :: "'w host \<Rightarrow> 'w Adapter" where
  "NewSEVAdapter h =
     \<lparr>ad_Info = \<lparr>ti_Name = ''sev'', ti_Number = 20, ti_DisplayName = ''AMD SEV (memory encryption)'',
       ti_Description = ''AMD SEV memory-encrypted VM (~500ms startup, ~256MB, attestation)'',
       ti_StartupMS = 500, ti_MemoryMB = 256, ti_Security = ''untrusted'', ti_Platforms = [''linux''], ti_Workloads = [''code'', ''tool'']\<rparr>,
      ad_Deploy = deploy_with h (sev_Probe h) None ''sev'' SandboxTypeVM VMFlavorNative,
      ad_Start = (\<lambda>i. no_effect),
      ad_Stop = (\<lambda>i. no_effect),
      ad_Delete = (\<lambda>i. no_effect),
      ad_GetStartupTime = millis 500, ad_Probe = sev_Probe h\<rparr>"

definition tdx_Probe :: "'w host \<Rightarrow> 'w tier_op" where
  "tdx_Probe h = reject_if (ho_GOOS h \<noteq> ''linux'') (Errorf ''tdx: platform %q not supported (linux-only)'' [AStr (ho_GOOS h)])
     (need_device h ''tdx: %s not accessible (need 4th-gen Xeon Scalable + tdx driver loaded): %w'' [AStr ''/dev/tdx-guest''] ''/dev/tdx-guest'')"

definition NewTDXAdapter :: "'w host \<Rightarrow> 'w Adapter" where
  "NewTDXAdapter h =
     \<lparr>ad_Info = \<lparr>ti_Name = ''tdx'', ti_Number = 21, ti_DisplayName = ''Intel TDX (Trust Domain)'',
       ti_Description = ''Intel TDX Trust Domain Extension (~600ms startup, ~256MB, attested)'',
       ti_StartupMS = 600, ti_MemoryMB = 256, ti_Security = ''untrusted'', ti_Platforms = [''linux''], ti_Workloads = [''code'', ''tool'']\<rparr>,
      ad_Deploy = deploy_with h (tdx_Probe h) None ''tdx'' SandboxTypeVM VMFlavorNative,
      ad_Start = (\<lambda>i. no_effect),
      ad_Stop = (\<lambda>i. no_effect),
      ad_Delete = (\<lambda>i. no_effect),
      ad_GetStartupTime = millis 600, ad_Probe = tdx_Probe h\<rparr>"

definition kubevirt_Probe :: "'w host \<Rightarrow> 'w tier_op" where
  "kubevirt_Probe h = need_file h ''kubevirt: socket %s not found (kubevirt operator not installed): %w'' ''/var/run/kubevirt''"

definition NewKubeVirtAdapter :: "'w host \<Rightarrow> 'w Adapter" where
  "NewKubeVirtAdapter h =
     \<lparr>ad_Info = \<lparr>ti_Name = ''kubevirt'', ti_Number = 22, ti_DisplayName = ''KubeVirt (k8s VMs)'',
       ti_Description = ''KubeVirt: Kubernetes-managed VMs via virt-launcher (~2s, ~512MB)'',
       ti_StartupMS = 2000, ti_MemoryMB = 512, ti_Security = ''high'', ti_Platforms = [''linux''], ti_Workloads = [''code'', ''tool'', ''browser'']\<rparr>,
      ad_Deploy = deploy_with h (kubevirt_Probe h) None ''kubevirt'' SandboxTypeVM VMFlavorNative,
      ad_Start = (\<lambda>i. no_effect),
      ad_Stop = (\<lambda>i. no_effect),
      ad_Delete = (\<lambda>i. no_effect),
      ad_GetStartupTime = millis 2000, ad_Probe = kubevirt_Probe h\<rparr>"

end
