(* ===== verification/Tier_Fleet.thy ===== *)
theory Tier_Fleet
  imports Tier_Adapters
begin

text \<open>
  The thirty adapters together: the table that \<open>registerDefaultTiers\<close> (\<open>pkg/tier/defaults.go\<close>) wires into the registry, its
  agreement with the table of the selection policy, the identifiers of deployed sandboxes, and what the container tiers
  do with them.
\<close>

section \<open>The table\<close>

definition default_adapters :: "'w host \<Rightarrow> 'w kernel \<Rightarrow> (string \<times> 'w Adapter) list" where
  "default_adapters h k =
     [(''wasm'', NewWASMAdapter h), (''gvisor'', NewGVisorAdapter h), (''firecracker'', NewFirecrackerAdapter h),
      (''landlock'', NewLandlockAdapter h k), (''seccomp'', NewSeccompAdapter h), (''native'', NewNativeAdapter h),
      (''docker'', NewDockerAdapter h), (''podman'', NewPodmanAdapter h),
      (''hyperkit'', NewHyperKitAdapter h), (''applevz'', NewAppleVZAdapter h), (''lima'', NewLimaAdapter h),
      (''kvm'', NewKVMAdapter h), (''qemu'', NewQEMUAdapter h), (''cloudhv'', NewCloudHypervisorAdapter h), (''crosvm'', NewCrosvmAdapter h),
      (''kata'', NewKataAdapter h), (''youki'', NewYoukiAdapter h), (''systemdnspawn'', NewSystemdNspawnAdapter h),
      (''nitrorekf'', NewNitroEnclavesAdapter h), (''sev'', NewSEVAdapter h), (''tdx'', NewTDXAdapter h),
      (''kubevirt'', NewKubeVirtAdapter h), (''virtcontainers'', NewVirtContainersAdapter h),
      (''jail'', NewJailAdapter h), (''pledge'', NewPledgeAdapter h), (''sandboxexec'', NewSandboxExecAdapter h),
      (''gvisordocker'', NewGVisorDockerAdapter h), (''wolfi'', NewWolfiAdapter h), (''distroless'', NewDistrolessAdapter h),
      (''userns'', NewUserNSAdapter h)]"

definition tier_of_name :: "'w host \<Rightarrow> 'w kernel \<Rightarrow> string \<Rightarrow> 'w Adapter" where
  "tier_of_name h k name = the (map_of (default_adapters h k) name)"

lemmas constructors =
  NewWASMAdapter_def NewGVisorAdapter_def NewFirecrackerAdapter_def NewLandlockAdapter_def NewSeccompAdapter_def NewNativeAdapter_def
  NewDockerAdapter_def NewPodmanAdapter_def NewHyperKitAdapter_def NewAppleVZAdapter_def NewLimaAdapter_def NewKVMAdapter_def
  NewQEMUAdapter_def NewCloudHypervisorAdapter_def NewCrosvmAdapter_def NewKataAdapter_def NewYoukiAdapter_def
  NewSystemdNspawnAdapter_def NewNitroEnclavesAdapter_def NewSEVAdapter_def NewTDXAdapter_def NewKubeVirtAdapter_def
  NewVirtContainersAdapter_def NewJailAdapter_def NewPledgeAdapter_def NewSandboxExecAdapter_def NewGVisorDockerAdapter_def
  NewWolfiAdapter_def NewDistrolessAdapter_def NewUserNSAdapter_def

text \<open>What the policy keeps of the metadata of a tier.\<close>

definition policy_view :: "TierInfo \<Rightarrow> TierInfo" where
  "policy_view i = tier_info (ti_Name i) (ti_StartupMS i) (ti_MemoryMB i) (ti_Security i) (ti_Platforms i) (ti_Workloads i)"

lemma policy_views: "map (\<lambda>(n, a). policy_view (ad_Info a)) (default_adapters h k) = allTiers"
  by (simp add: default_adapters_def constructors policy_view_def allTiers_def)

lemma adapter_names: "map fst (default_adapters h k) = map ti_Name allTiers"
  by (simp add: default_adapters_def allTiers_def tier_info_def)

lemma startup_times:
  "list_all (\<lambda>(n, a). ti_Name (ad_Info a) = n \<and> ad_GetStartupTime a = millis (word_of_int (ti_StartupMS (ad_Info a)))) (default_adapters h k)"
  by (simp add: default_adapters_def constructors millis_def)

lemma tier_numbers: "map (\<lambda>(n, a). ti_Number (ad_Info a)) (default_adapters h k) = [1..30]"
  by (simp add: default_adapters_def constructors upto.simps)

lemma names_distinct: "distinct (map fst (default_adapters h k))"
  by (simp add: default_adapters_def)

lemma default_names_known: "set (default_tier_names goos) \<subseteq> fst ` set (default_adapters h k)"
  by (auto simp: default_tier_names_def os_gated_tiers_def default_adapters_def split: if_splits)

lemma tier_of_name_in: "n \<in> fst ` set (default_adapters h k) \<Longrightarrow> (n, tier_of_name h k n) \<in> set (default_adapters h k)"
  using names_distinct [of h k] by (auto simp: tier_of_name_def map_of_eq_Some_iff)

text \<open>The entry of the policy's table under the name of an adapter is what the policy keeps of its metadata.\<close>

lemma policy_entry:
  assumes "(n, a) \<in> set (default_adapters h k)"
  shows "find (\<lambda>t. ti_Name t = n) allTiers = Some (policy_view (ad_Info a))"
proof -
  have "find (\<lambda>t. ti_Name t = n) (map (\<lambda>(n, a). policy_view (ad_Info a)) xs) = Some (policy_view (ad_Info a))"
    if "(n, a) \<in> set xs" "distinct (map fst xs)" "list_all (\<lambda>(n, a). ti_Name (ad_Info a) = n) xs" for xs :: "(string \<times> 'a Adapter) list"
    using that by (induction xs) (auto simp: policy_view_def tier_info_def rev_image_eqI)
  moreover have "list_all (\<lambda>(n, a). ti_Name (ad_Info a) = n) (default_adapters h k)"
    using startup_times [of h k] by (auto simp: list_all_iff)
  ultimately show ?thesis using assms names_distinct [of h k] policy_views [of h k] by metis
qed


section \<open>Identifiers\<close>

text \<open>
  A tier that issues identifiers: a deployment that succeeds takes the next value of the counter into its identifier, after a
  prefix of its own, and marks the sandbox as running; one that fails takes nothing.
\<close>

locale issuing =
  fixes deploy :: "SandboxConfig \<Rightarrow> 'w tier_state \<Rightarrow> Sandbox result \<times> 'w tier_state"
    and prefix :: string
  assumes issues: "deploy config s = (Inr sb, s') \<Longrightarrow>
      ts_counter s' = Suc (ts_counter s) \<and> sb_ID sb = prefix @ ''-'' @ decimal (ts_counter s') \<and> sb_Status sb = SandboxStatusRunning"
    and keeps: "deploy config s = (Inl err, s') \<Longrightarrow> ts_counter s' = ts_counter s"
begin

lemma counter_grows: "deploy config s = (r, s') \<Longrightarrow> ts_counter s \<le> ts_counter s'"
  using issues keeps by (cases r) (force, fastforce)

lemma id_number: "deploy config s = (Inr sb, s') \<Longrightarrow> \<exists>n. ts_counter s < n \<and> n \<le> ts_counter s' \<and> sb_ID sb = prefix @ ''-'' @ decimal n"
  using issues by fastforce

end

text \<open>Operations that leave the counter alone, among them every probe.\<close>

definition quiet :: "'w tier_op \<Rightarrow> bool" where
  "quiet f \<longleftrightarrow> (\<forall>s. ts_counter (snd (f s)) = ts_counter s)"

lemma quietD: "quiet f \<Longrightarrow> f s = (e, s') \<Longrightarrow> ts_counter s' = ts_counter s"
  by (auto simp: quiet_def dest: spec [of _ s])

named_theorems quiet_rules \<open>operations that leave the counter alone\<close>

lemma quiet_no_effect [quiet_rules]: "quiet no_effect" by (simp add: quiet_def no_effect_def)
lemma quiet_refuse [quiet_rules]: "quiet (refuse e)" by (simp add: quiet_def refuse_def)
lemma quiet_on_world [quiet_rules]: "quiet (on_world f)" by (simp add: quiet_def on_world_def split: prod.split)
lemma quiet_need_path [quiet_rules]: "quiet (need_path h m args b)" by (simp add: quiet_def need_path_def)
lemma quiet_need_file [quiet_rules]: "quiet (need_file h m p)" by (simp add: quiet_def need_file_def)
lemma quiet_need_device [quiet_rules]: "quiet (need_device h m args p)" by (simp add: quiet_def need_device_def)
lemma quiet_reject_if [quiet_rules]: "quiet f \<Longrightarrow> quiet (reject_if c e f)" by (simp add: quiet_def reject_if_def)
lemma quiet_and_then [quiet_rules]: "quiet f \<Longrightarrow> quiet g \<Longrightarrow> quiet (and_then f g)"
  unfolding quiet_def [of "and_then f g"]
  by (auto simp: and_then_def quiet_def [of g] dest: quietD split: prod.split option.split)

lemma deploy_with_issues: "quiet probe \<Longrightarrow> issuing (deploy_with h probe img tier kind flavor) tier"
  by unfold_locales
    (auto simp: deploy_with_def newSandbox_def GenerateID_def dest: quietD split: prod.splits option.splits if_splits)

lemma quiet_docker [quiet_rules]: "quiet (docker_Probe h)"
  unfolding docker_Probe_def by (intro quiet_rules) (auto simp: quiet_def split: prod.splits option.splits)

lemma quiet_podman [quiet_rules]: "quiet (podman_tier_Probe h)"
  unfolding podman_tier_Probe_def by (intro quiet_rules) (auto simp: quiet_def split: prod.splits option.splits)

lemma quiet_applevz [quiet_rules]: "quiet (applevz_Probe h)"
  unfolding applevz_Probe_def by (intro quiet_rules) (auto simp: quiet_def split: prod.splits option.splits)

lemma quiet_landlock [quiet_rules]: "quiet (landlock_Probe h k)"
  by (auto simp: quiet_def landlock_Probe_def Let_def split: prod.splits)

lemma quiet_reads [quiet_rules]: "quiet (seccomp_Probe h)" "quiet (userns_Probe h)" "quiet (wolfi_Probe h)" "quiet (lima_Probe h)" "quiet (qemu_Probe h)"
  by (simp_all add: quiet_def seccomp_Probe_def userns_Probe_def wolfi_Probe_def lima_Probe_def qemu_Probe_def Let_def split: option.split sum.split)

lemma quiet_finds [quiet_rules]:
  "quiet (firecracker_Probe h)" "quiet (gvisor_Probe h)" "quiet (gvisordocker_Probe h)" "quiet (distroless_Probe h)" "quiet (youki_Probe h)"
  "quiet (systemdnspawn_Probe h)" "quiet (jail_Probe h)" "quiet (kata_Probe h)" "quiet (virtcontainers_Probe h)" "quiet (hyperkit_Probe h)"
  "quiet (cloudhv_Probe h)" "quiet (crosvm_Probe h)" "quiet (kvm_Probe h)" "quiet (nitrorekf_Probe h)" "quiet (sev_Probe h)" "quiet (tdx_Probe h)"
  "quiet (kubevirt_Probe h)" "quiet (pledge_Probe h)" "quiet (sandboxexec_Probe h)"
  unfolding firecracker_Probe_def gvisor_Probe_def gvisordocker_Probe_def distroless_Probe_def youki_Probe_def systemdnspawn_Probe_def jail_Probe_def
    kata_Probe_def virtcontainers_Probe_def hyperkit_Probe_def cloudhv_Probe_def crosvm_Probe_def kvm_Probe_def nitrorekf_Probe_def sev_Probe_def
    tdx_Probe_def kubevirt_Probe_def pledge_Probe_def sandboxexec_Probe_def
  by (intro quiet_rules)+

interpretation wasm_ids: issuing "wasm_Deploy h" "''wasm''" for h :: "'w host"
  by unfold_locales (auto simp: wasm_Deploy_def bare_sandbox_def GenerateID_def on_world_def split: prod.splits option.splits)

interpretation gvisor_ids: issuing "gvisor_Deploy h" "''gvisor''" for h :: "'w host"
  by unfold_locales (auto simp: gvisor_Deploy_def bare_sandbox_def GenerateID_def need_path_def split: prod.splits option.splits sum.splits)

interpretation firecracker_ids: issuing "firecracker_Deploy h" "''fc''" for h :: "'w host"
  by unfold_locales
    (auto simp: firecracker_Deploy_def bare_sandbox_def GenerateID_def dest: quietD [OF quiet_finds(1)] split: prod.splits option.splits sum.splits)

interpretation kvm_ids: issuing "ad_Deploy (NewKVMAdapter h)" "''kvm''" for h :: "'w host"
  by unfold_locales (auto simp: NewKVMAdapter_def)

interpretation docker_ids: issuing "ad_Deploy (NewDockerAdapter h)" "''docker''" for h :: "'w host"
  unfolding NewDockerAdapter_def by (simp add: deploy_with_issues quiet_rules)

lemma all_issue:
  assumes "(n, a) \<in> set (default_adapters h k)"
  shows "\<exists>prefix. issuing (ad_Deploy a) prefix"
proof -
  have "list_all (\<lambda>(n, a). \<exists>prefix. issuing (ad_Deploy a) prefix) (default_adapters h k)"
    unfolding default_adapters_def list.pred_inject prod.case
    by (intro conjI TrueI)
      (simp_all add: constructors, (blast intro: wasm_ids.issuing_axioms gvisor_ids.issuing_axioms firecracker_ids.issuing_axioms
         deploy_with_issues quiet_rules kvm_ids.issuing_axioms [unfolded NewKVMAdapter_def, simplified])+)
  with assms show ?thesis by (auto simp: list_all_iff)
qed

text \<open>Deployments through any tiers, one after the other; \<open>None\<close> for a name that no adapter has.\<close>

fun deploy_run :: "'w host \<Rightarrow> 'w kernel \<Rightarrow> (string \<times> SandboxConfig) list \<Rightarrow> 'w tier_state \<Rightarrow> Sandbox list \<times> 'w tier_state" where
  "deploy_run h k [] s = ([], s)"
| "deploy_run h k ((name, config) # jobs) s =
     (case map_of (default_adapters h k) name of
        None \<Rightarrow> deploy_run h k jobs s
      | Some a \<Rightarrow> (case ad_Deploy a config s of
          (Inl err, s1) \<Rightarrow> deploy_run h k jobs s1
        | (Inr sb, s1) \<Rightarrow> (case deploy_run h k jobs s1 of (sbs, s2) \<Rightarrow> (sb # sbs, s2))))"

text \<open>The number in an identifier is what follows its last dash.\<close>

lemma decimal_no_dash: "CHR ''-'' \<notin> set (decimal n)"
  using decimal_digits [of n] by (auto simp: list_all_iff is_digit_def byte_def)

lemma id_number_unique: "p @ ''-'' @ decimal m = q @ ''-'' @ decimal n \<Longrightarrow> m = n"
proof -
  assume "p @ ''-'' @ decimal m = q @ ''-'' @ decimal n"
  then have "takeWhile (\<lambda>c. c \<noteq> CHR ''-'') (rev (p @ ''-'' @ decimal m)) = takeWhile (\<lambda>c. c \<noteq> CHR ''-'') (rev (q @ ''-'' @ decimal n))"
    by simp
  moreover have "takeWhile (\<lambda>c. c \<noteq> CHR ''-'') (rev (p @ ''-'' @ decimal i)) = rev (decimal i)" for p i
    using decimal_no_dash [of i] by (subst rev_append, subst rev_append, subst append_assoc, subst takeWhile_append2) auto
  ultimately show "m = n" by (metis decimal_inject rev_rev_ident)
qed

lemma deploy_run_ids:
  assumes "deploy_run h k jobs s = (sbs, s')"
  shows "ts_counter s \<le> ts_counter s' \<and> distinct (map sb_ID sbs) \<and>
    (\<forall>sb \<in> set sbs. sb_Status sb = SandboxStatusRunning \<and> (\<exists>p n. ts_counter s < n \<and> n \<le> ts_counter s' \<and> sb_ID sb = p @ ''-'' @ decimal n))"
  using assms
proof (induction jobs arbitrary: s sbs s')
  case (Cons job jobs)
  obtain name config where job: "job = (name, config)" by (cases job)
  show ?case
  proof (cases "map_of (default_adapters h k) name")
    case None
    with Cons job show ?thesis by simp
  next
    case (Some a)
    obtain r s1 where d: "ad_Deploy a config s = (r, s1)" by (cases "ad_Deploy a config s")
    from all_issue [OF map_of_SomeD [OF Some]] obtain prefix where i: "issuing (ad_Deploy a) prefix" ..
    show ?thesis
    proof (cases r)
      case (Inl err)
      with Cons.prems job Some d have "deploy_run h k jobs s1 = (sbs, s')" by simp
      from Cons.IH [OF this] issuing.keeps [OF i, of config s err s1] Inl d show ?thesis by simp
    next
      case (Inr sb)
      with Cons.prems job Some d obtain rest where rest: "deploy_run h k jobs s1 = (rest, s')" "sbs = sb # rest"
        by (auto split: prod.splits)
      note ih = Cons.IH [OF rest(1)]
      have sb: "ts_counter s1 = Suc (ts_counter s)" "sb_ID sb = prefix @ ''-'' @ decimal (ts_counter s1)" "sb_Status sb = SandboxStatusRunning"
        using issuing.issues [OF i, of config s sb s1] Inr d by simp_all
      have "sb_ID sb \<noteq> sb_ID x" if "x \<in> set rest" for x
      proof -
        from ih that obtain p n where "ts_counter s1 < n" "sb_ID x = p @ ''-'' @ decimal n" by blast
        with sb(2) id_number_unique [of prefix "ts_counter s1" p n] show ?thesis by auto
      qed
      moreover have "\<exists>p n. ts_counter s < n \<and> n \<le> ts_counter s' \<and> sb_ID x = p @ ''-'' @ decimal n" if "x \<in> set sbs" for x
        using that rest(2) ih sb by (auto dest: less_imp_le intro: Suc_lessD) (metis Suc_lessD)+
      ultimately show ?thesis using ih sb rest(2) by auto
    qed
  qed
qed simp


section \<open>Containers that do not exist\<close>

text \<open>
  What the manuals of \<open>docker\<close> and \<open>podman\<close> say of the commands that the tiers run: \<open>version\<close> and \<open>ps\<close> create no container,
  and \<open>start\<close> of one that does not exist fails. \<open>containers\<close> are the names and identifiers that the engine knows.
\<close>

definition container_cli :: "'w host \<Rightarrow> ('w \<Rightarrow> string set) \<Rightarrow> string \<Rightarrow> bool" where
  "container_cli h containers bin \<longleftrightarrow>
     (\<forall>args w. containers (snd (ho_CombinedOutput h (bin # ''version'' # args) w)) = containers w) \<and>
     (\<forall>t args w. containers (snd (ho_CombinedOutputWithin h t (bin # ''ps'' # args) w)) = containers w) \<and>
     (\<forall>i w. i \<notin> containers w \<longrightarrow> snd (fst (ho_CombinedOutput h [bin, ''start'', i] w)) \<noteq> None)"

lemma container_cliD:
  assumes "container_cli h containers bin"
  shows "containers (snd (ho_CombinedOutput h (bin # ''version'' # args) w)) = containers w"
    and "containers (snd (ho_CombinedOutputWithin h t (bin # ''ps'' # args) w)) = containers w"
    and "i \<notin> containers w \<Longrightarrow> snd (fst (ho_CombinedOutput h [bin, ''start'', i] w)) \<noteq> None"
  using assms unfolding container_cli_def by blast+

lemma container_cli_start:
  assumes "container_cli h containers bin" and "i \<notin> containers (ts_world s)"
  shows "\<exists>err s'. cli h msg i [bin, ''start'', i] s = (Some err, s')"
proof -
  obtain out e w where c: "ho_CombinedOutput h [bin, ''start'', i] (ts_world s) = ((out, e), w)" by (metis surj_pair)
  with container_cliD(3) [OF assms] obtain err where "e = Some err" by fastforce
  with c show ?thesis by (simp add: cli_def)
qed

text \<open>The probes of the three tiers keep what the engine knows.\<close>

lemma docker_Probe_keeps:
  assumes "container_cli h containers ''docker''"
  shows "containers (ts_world (snd (docker_Probe h s))) = containers (ts_world s)"
proof -
  obtain out e w where c: "ho_CombinedOutput h [''docker'', ''version'', ''--format'', ''{{.Server.Version}}''] (ts_world s) = ((out, e), w)"
    by (metis surj_pair)
  with container_cliD(1) [OF assms, of "[''--format'', ''{{.Server.Version}}'']" "ts_world s"] have "containers w = containers (ts_world s)" by simp
  with c show ?thesis
    by (cases "ho_LookPath h ''docker'' (ts_world s)"; cases e) (simp_all add: docker_Probe_def and_then_def need_path_def)
qed

lemma podman_tier_Probe_keeps:
  assumes "container_cli h containers ''podman''"
  shows "containers (ts_world (snd (podman_tier_Probe h s))) = containers (ts_world s)"
proof -
  obtain out e ended w where c: "ho_CombinedOutputWithin h 10 [''podman'', ''ps'', ''--all'', ''--noheading''] (ts_world s) = (((out, e), ended), w)"
    by (metis surj_pair)
  with container_cliD(2) [OF assms, of 10 "[''--all'', ''--noheading'']" "ts_world s"] have "containers w = containers (ts_world s)" by simp
  with c show ?thesis
    by (cases "ho_LookPath h ''podman'' (ts_world s)"; cases e) (simp_all add: podman_tier_Probe_def and_then_def need_path_def)
qed

lemma gvisordocker_Probe_keeps: "ts_world (snd (gvisordocker_Probe h s)) = ts_world s"
  by (simp add: gvisordocker_Probe_def and_then_def need_path_def split: option.split sum.split)

lemma deploy_with_world: "deploy_with h probe img tier kind flavor config s = (Inr sb, s') \<Longrightarrow> ts_world s' = ts_world (snd (probe s))"
  by (auto simp: deploy_with_def newSandbox_def GenerateID_def split: prod.splits option.splits if_splits)

lemma container_tier_ops:
  assumes "a \<in> {NewDockerAdapter h, NewPodmanAdapter h, NewGVisorDockerAdapter h}"
  obtains probe img tier msg bin where "ad_Deploy a = deploy_with h probe img tier SandboxTypeContainer []"
    and "ad_Start a = (\<lambda>i. cli h msg i [bin, ''start'', i])"
    and "(probe, bin) \<in> {(docker_Probe h, ''docker''), (podman_tier_Probe h, ''podman''), (gvisordocker_Probe h, ''docker'')}"
  using assms
proof (elim insertE)
  assume "a = NewDockerAdapter h"
  then show thesis by (intro that [of "docker_Probe h" "Some ''docker: image is required in SandboxConfig''" "''docker''" "''docker start %s: %w: %s''" "''docker''"])
      (simp_all add: NewDockerAdapter_def)
next
  assume "a = NewPodmanAdapter h"
  then show thesis by (intro that [of "podman_tier_Probe h" "Some ''podman: image is required in SandboxConfig''" "''podman''" "''podman start %s: %w: %s''" "''podman''"])
      (simp_all add: NewPodmanAdapter_def)
next
  assume "a = NewGVisorDockerAdapter h"
  then show thesis by (intro that [of "gvisordocker_Probe h" "Some ''gvisordocker: image is required in SandboxConfig''" "''gvisordocker''" "''gvisordocker start %s: %w: %s''" "''docker''"])
      (simp_all add: NewGVisorDockerAdapter_def)
qed simp


text \<open>An engine that knows one container, \<open>web\<close>.\<close>

definition web_host :: "string list host" where
  "web_host = \<lparr>ho_GOOS = ''linux'', ho_LookupEnv = (\<lambda>_. None), ho_Now = (\<lambda>_. 0), ho_LookPath = (\<lambda>p _. Inr p), ho_Stat = (\<lambda>_ _. None),
     ho_OpenRW = (\<lambda>_ _. None), ho_Open = (\<lambda>_ _. None), ho_FileSize = (\<lambda>_ _. Inr 0), ho_ReadFile = (\<lambda>_ _. Inr []), ho_Output = (\<lambda>_ w. (([], None), w)),
     ho_CombinedOutput = (\<lambda>argv w. (case argv of
         [_, op, i] \<Rightarrow> if op = ''start'' \<and> i \<notin> set w then ((''no such container'', Some (Errorf ''exit status 1'' [])), w) else (([], None), w)
       | _ \<Rightarrow> (([], None), w))),
     ho_CombinedOutputWithin = (\<lambda>_ _ w. ((([], None), False), w)), ho_Run = (\<lambda>_ w. (None, w)), ho_Start = (\<lambda>_ w. (Inr 1, w)),
     ho_StdoutPipe = (\<lambda>_ _. None), ho_Stream = (\<lambda>_ w. (Inr [], w))\<rparr>"

definition web_state :: "string list tier_state" where
  "web_state = \<lparr>ts_world = [''web''], ts_counter = 6, ts_once = None, ts_fcPath = []\<rparr>"


section \<open>Tiers that never work\<close>

text \<open>Files below \<open>/proc\<close> have the size 0, so the tier of user namespaces is never available.\<close>

lemma userns_never_available:
  assumes "ho_FileSize h ''/proc/self/uid_map'' (ts_world s) = Inr 0"
  shows "fst (ad_Probe (NewUserNSAdapter h) s) \<noteq> None"
  using assms by (simp add: NewUserNSAdapter_def userns_Probe_def split: option.split)

text \<open>The Landlock tier never starts a sandbox either.\<close>

lemma landlock_tier_never_starts:
  assumes "null_attr_rejected k"
  shows "\<exists>err. ad_Start (NewLandlockAdapter h k) i s = (Some err, s)"
proof -
  obtain err where "BuildLandlockRulesetDefault k (ts_world s) = (Inl err, ts_world s)"
    using build_fails [OF assms, of "[''/'']" "[''/tmp'']" "ts_world s"] by (cases "k_linux k") (auto simp: BuildLandlockRulesetDefault_def)
  then show ?thesis by (simp add: NewLandlockAdapter_def landlock_tier_Start_def)
qed

text \<open>The override that disables the probes of Wasm and gVisor does not disable their deployments.\<close>

lemma override_not_honoured:
  assumes "ho_LookupEnv h ''NVMS_REQUIRE_GVISOR'' = Some ''1''" and "ho_LookPath h ''runsc'' (ts_world s) = Inr p"
  shows "fst (ad_Probe (NewGVisorAdapter h) s) \<noteq> None \<and> (\<exists>sb s'. ad_Deploy (NewGVisorAdapter h) config s = (Inr sb, s'))"
  using assms by (simp add: NewGVisorAdapter_def gvisor_Probe_def reject_if_def probeOverride_def gvisor_Deploy_def need_path_def
      bare_sandbox_def GenerateID_def)

text \<open>The sandbox-exec tier passes the identifier of the sandbox to a shell as its command.\<close>

lemma sandboxexec_runs_identifier:
  "ts_world (snd (ad_Start (NewSandboxExecAdapter (logging_host goos out)) i s)) = ts_world s @
     [[''/usr/bin/sandbox-exec'', ''-p'', ''(version 1)(deny default)(allow process-exec)(allow stdio)'', ''/bin/sh'', ''-c'', i]]"
  by (simp add: NewSandboxExecAdapter_def cli_def logging_host_def)

end
