(* ===== verification/Vm_Adapters.thy ===== *)
theory Vm_Adapters
  imports Sandbox_Ports
begin

text \<open>
  The Firecracker and gVisor adapters, \<open>internal/adapters/firecracker/firecracker.go\<close> and
  \<open>internal/adapters/gvisor/gvisor.go\<close>: a table of sandboxes and one of started commands, with
  identifiers from the process-wide counter. \<open>os_env\<close> answers \<open>exec.LookPath\<close>, a command run to its end
  and a command started in the background (its PID). The streaming operations (logs, exec, metrics, port
  forwarding) change nothing of this state; they are in the theory of the daemon's ports.
\<close>

record os_env =
  os_LookPath :: "string \<Rightarrow> string result"
  os_Run :: "string list \<Rightarrow> go_error option"
  os_Spawn :: "string list \<Rightarrow> int result"

record vm_state =
  vm_idCounter :: nat
  vm_sandboxes :: "(string, Sandbox) gomap"
  vm_cmds :: "(string, int) gomap"

text \<open>\<open>NewAdapter\<close> of both packages; the counter is the process's.\<close>

definition new_vm_state :: "nat \<Rightarrow> vm_state" where
  "new_vm_state counter = \<lparr>vm_idCounter = counter, vm_sandboxes = [], vm_cmds = []\<rparr>"

definition set_status :: "string \<Rightarrow> string \<Rightarrow> vm_state \<Rightarrow> vm_state" where
  "set_status i status s =
     (case map_of (vm_sandboxes s) i of
        None \<Rightarrow> s
      | Some sb \<Rightarrow> s\<lparr>vm_sandboxes := AList.update i (sb\<lparr>sb_Status := status\<rparr>) (vm_sandboxes s)\<rparr>)"

definition forget :: "string \<Rightarrow> vm_state \<Rightarrow> vm_state" where
  "forget i s = s\<lparr>vm_sandboxes := AList.delete i (vm_sandboxes s), vm_cmds := AList.delete i (vm_cmds s)\<rparr>"

definition vm_Get :: "string \<Rightarrow> string \<Rightarrow> vm_state \<Rightarrow> Sandbox option result" where
  "vm_Get what i s =
     (case map_of (vm_sandboxes s) i of
        None \<Rightarrow> Inl (Errorf (what @ '' not found: %s'') [AStr i])
      | Some sb \<Rightarrow> Inr (Some sb))"

section \<open>Firecracker\<close>

definition fc_Create :: "os_env \<Rightarrow> SandboxConfig \<Rightarrow> vm_state \<Rightarrow> Sandbox option result \<times> vm_state" where
  "fc_Create env cfg s =
     (let (i, counter) = GenerateID (vm_idCounter s);
          sb = zero_Sandbox\<lparr>sb_ID := ''fc-'' @ i, sb_Name := sc_Name cfg, sb_Status := SandboxStatusPending,
                 sb_Type := ''vm'', sb_VMFlavor := ''microvm'', sb_Config := Some cfg\<rparr> in
      (Inr (Some sb), s\<lparr>vm_idCounter := counter, vm_sandboxes := AList.update (sb_ID sb) sb (vm_sandboxes s)\<rparr>))"

definition fc_Start :: "os_env \<Rightarrow> string \<Rightarrow> vm_state \<Rightarrow> go_error option \<times> vm_state" where
  "fc_Start env i s =
     (if map_of (vm_sandboxes s) i = None then (Some (Errorf ''vm not found: %s'' [AStr i]), s)
      else case os_LookPath env ''firecracker'' of
        Inl err \<Rightarrow> (Some (Errorf ''firecracker not found: %w'' [AWrap err]), s)
      | Inr bin \<Rightarrow>
          (case os_Spawn env [bin, ''--api-sock'', ''/tmp/fc-'' @ i @ ''.sock'', ''--id'', i] of
             Inl err \<Rightarrow> (Some (Errorf ''firecracker: %w'' [AWrap err]), s)
           | Inr pid \<Rightarrow> (None, set_status i SandboxStatusRunning (s\<lparr>vm_cmds := AList.update i pid (vm_cmds s)\<rparr>))))"

text \<open>The signal to the process and the removal of its socket have no say in the outcome.\<close>

definition fc_Stop :: "os_env \<Rightarrow> string \<Rightarrow> bool \<Rightarrow> vm_state \<Rightarrow> go_error option \<times> vm_state" where
  "fc_Stop env i force s =
     (if map_of (vm_sandboxes s) i = None then (Some (Errorf ''vm not found: %s'' [AStr i]), s)
      else (None, set_status i SandboxStatusStopped s))"

definition fc_Delete :: "os_env \<Rightarrow> string \<Rightarrow> vm_state \<Rightarrow> go_error option \<times> vm_state" where
  "fc_Delete env i s = (None, forget i (snd (fc_Stop env i True s)))"

definition fc_Get :: "os_env \<Rightarrow> string \<Rightarrow> vm_state \<Rightarrow> Sandbox option result" where
  "fc_Get env i s = vm_Get ''vm'' i s"

definition fc_List :: "vm_state \<Rightarrow> Sandbox list" where
  "fc_List s = map snd (vm_sandboxes s)"

section \<open>gVisor\<close>

definition gv_Create :: "os_env \<Rightarrow> SandboxConfig \<Rightarrow> vm_state \<Rightarrow> Sandbox option result \<times> vm_state" where
  "gv_Create env cfg s =
     (let (i, counter) = GenerateID (vm_idCounter s);
          sb = zero_Sandbox\<lparr>sb_ID := ''gv-'' @ i, sb_Name := sc_Name cfg, sb_Status := SandboxStatusPending,
                 sb_Type := ''gvisor'', sb_Config := Some cfg\<rparr> in
      (Inr (Some sb), s\<lparr>vm_idCounter := counter, vm_sandboxes := AList.update (sb_ID sb) sb (vm_sandboxes s)\<rparr>))"

text \<open>The \<open>wait\<close> command is started for its handle only; 0 stands for the handle of one that did not start.\<close>

definition gv_Start :: "os_env \<Rightarrow> string \<Rightarrow> vm_state \<Rightarrow> go_error option \<times> vm_state" where
  "gv_Start env i s =
     (if map_of (vm_sandboxes s) i = None then (Some (Errorf ''sandbox not found: %s'' [AStr i]), s)
      else case os_LookPath env ''runsc'' of
        Inl err \<Rightarrow> (Some (Errorf ''runsc not found: %w'' [AWrap err]), s)
      | Inr bin \<Rightarrow>
          (case os_Run env [bin, ''run'', ''-detach'', i] of
             Some err \<Rightarrow> (Some (Errorf ''runsc run: %w'' [AWrap err]), s)
           | None \<Rightarrow>
               (None, set_status i SandboxStatusRunning (s\<lparr>vm_cmds := AList.update i
                  (case os_Spawn env [bin, ''wait'', i] of Inl _ \<Rightarrow> 0 | Inr pid \<Rightarrow> pid) (vm_cmds s)\<rparr>))))"

definition gv_Stop :: "os_env \<Rightarrow> string \<Rightarrow> bool \<Rightarrow> vm_state \<Rightarrow> go_error option \<times> vm_state" where
  "gv_Stop env i force s =
     (if map_of (vm_sandboxes s) i = None then (Some (Errorf ''sandbox not found: %s'' [AStr i]), s)
      else let bin = (case os_LookPath env ''runsc'' of Inl _ \<Rightarrow> [] | Inr bin \<Rightarrow> bin) in
        (os_Run env [bin, ''kill'', (if force then ''-SIGKILL'' else ''-SIGTERM''), i], s))"

definition gv_Delete :: "os_env \<Rightarrow> string \<Rightarrow> vm_state \<Rightarrow> go_error option \<times> vm_state" where
  "gv_Delete env i s = (None, forget i (snd (gv_Stop env i True s)))"

definition gv_Get :: "os_env \<Rightarrow> string \<Rightarrow> vm_state \<Rightarrow> Sandbox option result" where
  "gv_Get env i s = vm_Get ''sandbox'' i s"

definition gv_List :: "vm_state \<Rightarrow> Sandbox list" where
  "gv_List s = map snd (vm_sandboxes s)"

section \<open>Both are lifecycle ports\<close>

definition vm_known :: "vm_state \<Rightarrow> string set" where
  "vm_known s = fst ` set (vm_sandboxes s)"

text \<open>Every sandbox is filed under its own identifier, which the counter has handed out.\<close>

definition vm_ok :: "string \<Rightarrow> vm_state \<Rightarrow> bool" where
  "vm_ok prefix s \<longleftrightarrow> go_map (vm_sandboxes s) \<and>
     (\<forall>(i, sb) \<in> set (vm_sandboxes s). sb_ID sb = i \<and> (\<exists>n \<le> vm_idCounter s. i = prefix @ decimal n))"

lemma vm_known_map: "vm_known s = {i. map_of (vm_sandboxes s) i \<noteq> None}"
  by (auto simp: vm_known_def map_of_eq_None_iff)

lemma vm_okI:
  "go_map (vm_sandboxes s) \<Longrightarrow> (\<And>i sb. map_of (vm_sandboxes s) i = Some sb \<Longrightarrow> sb_ID sb = i \<and> (\<exists>n \<le> vm_idCounter s. i = prefix @ decimal n)) \<Longrightarrow>
     vm_ok prefix s"
  by (auto simp: vm_ok_def go_map_mem_iff)

lemma vm_okD:
  "vm_ok prefix s \<Longrightarrow> map_of (vm_sandboxes s) i = Some sb \<Longrightarrow> sb_ID sb = i \<and> (\<exists>n \<le> vm_idCounter s. i = prefix @ decimal n)"
  "vm_ok prefix s \<Longrightarrow> go_map (vm_sandboxes s)"
  by (auto simp: vm_ok_def go_map_mem_iff dest: map_of_SomeD)

lemma vm_ok_new [simp]: "vm_ok prefix (new_vm_state counter)" "vm_known (new_vm_state counter) = {}"
  by (simp_all add: vm_ok_def vm_known_def new_vm_state_def go_map_def)

text \<open>A sandbox filed under the next identifier is new.\<close>

lemma vm_add:
  assumes "vm_ok prefix s" and "i = prefix @ decimal (Suc (vm_idCounter s))" and "sb_ID sb = i"
    and "s' = s\<lparr>vm_idCounter := Suc (vm_idCounter s), vm_sandboxes := AList.update i sb (vm_sandboxes s)\<rparr>"
  shows "vm_ok prefix s' \<and> i \<notin> vm_known s \<and> vm_known s' = insert i (vm_known s)"
proof -
  have "i \<noteq> prefix @ decimal n" if "n \<le> vm_idCounter s" for n
    using that assms(2) by (simp add: decimal_inject)
  then have "map_of (vm_sandboxes s) i = None" using vm_okD(1) [OF assms(1), of i] by (metis not_None_eq)
  moreover have "vm_ok prefix s'"
  proof (rule vm_okI)
    show "go_map (vm_sandboxes s')" using vm_okD(2) [OF assms(1)] assms(4) by auto
    fix j tb assume "map_of (vm_sandboxes s') j = Some tb"
    then show "sb_ID tb = j \<and> (\<exists>n \<le> vm_idCounter s'. j = prefix @ decimal n)"
      using assms vm_okD(1) [OF assms(1), of j tb] by (auto split: if_splits intro: le_SucI)
  qed
  ultimately show ?thesis using assms(4) by (auto simp: vm_known_map)
qed

lemma set_status_keeps [simp]:
  "vm_known (set_status i status s) = vm_known s" "vm_ok prefix s \<Longrightarrow> vm_ok prefix (set_status i status s)"
  "vm_idCounter (set_status i status s) = vm_idCounter s"
proof -
  show "vm_known (set_status i status s) = vm_known s" "vm_idCounter (set_status i status s) = vm_idCounter s"
    by (auto simp: set_status_def vm_known_map split: option.splits)
  assume ok: "vm_ok prefix s"
  show "vm_ok prefix (set_status i status s)"
  proof (rule vm_okI)
    show "go_map (vm_sandboxes (set_status i status s))"
      using vm_okD(2) [OF ok] by (auto simp: set_status_def split: option.splits)
    fix j sb assume "map_of (vm_sandboxes (set_status i status s)) j = Some sb"
    then show "sb_ID sb = j \<and> (\<exists>n \<le> vm_idCounter (set_status i status s). j = prefix @ decimal n)"
      using vm_okD(1) [OF ok] by (auto simp: set_status_def split: option.splits if_splits)
  qed
qed

lemma cmds_keep [simp]:
  "vm_known (s\<lparr>vm_cmds := c\<rparr>) = vm_known s" "vm_ok prefix (s\<lparr>vm_cmds := c\<rparr>) = vm_ok prefix s"
  by (simp_all add: vm_known_def vm_ok_def)

lemma forget_known [simp]: "vm_known (forget i s) = vm_known s - {i}"
  by (auto simp: forget_def vm_known_map)

lemma vm_Get_known: "vm_ok prefix s \<Longrightarrow> vm_Get what i s = Inr (Some sb) \<Longrightarrow> sb_ID sb = i \<and> i \<in> vm_known s"
  by (auto simp: vm_Get_def vm_known_map dest: vm_okD split: option.splits)

lemma gv_Stop_unchanged [simp]: "snd (gv_Stop env i force s) = s"
  by (simp add: gv_Stop_def Let_def)

lemma fc_Stop_known [simp]: "vm_known (snd (fc_Stop env i force s)) = vm_known s"
  by (simp add: fc_Stop_def)

lemma fc_Create_adds:
  "fc_Create env cfg s = (r, s') \<Longrightarrow> \<exists>sb. r = Inr (Some sb) \<and> sb_ID sb = ''fc-'' @ decimal (Suc (vm_idCounter s)) \<and>
     s' = s\<lparr>vm_idCounter := Suc (vm_idCounter s), vm_sandboxes := AList.update (sb_ID sb) sb (vm_sandboxes s)\<rparr>"
  by (auto simp: fc_Create_def GenerateID_def Let_def)

lemma gv_Create_adds:
  "gv_Create env cfg s = (r, s') \<Longrightarrow> \<exists>sb. r = Inr (Some sb) \<and> sb_ID sb = ''gv-'' @ decimal (Suc (vm_idCounter s)) \<and>
     s' = s\<lparr>vm_idCounter := Suc (vm_idCounter s), vm_sandboxes := AList.update (sb_ID sb) sb (vm_sandboxes s)\<rparr>"
  by (auto simp: gv_Create_def GenerateID_def Let_def)

interpretation fc: sandbox_port fc_Create fc_Start fc_Delete fc_Get vm_known "vm_ok ''fc-''"
proof unfold_locales
  fix env cfg s r s' assume ok: "vm_ok ''fc-'' s" and "fc_Create env cfg s = (Inr r, s')"
  then show "vm_ok ''fc-'' s' \<and> (\<exists>sb. r = Some sb \<and> sb_ID sb \<noteq> [] \<and> sb_ID sb \<notin> vm_known s \<and> vm_known s' = insert (sb_ID sb) (vm_known s))"
    using fc_Create_adds [of env cfg s "Inr r" s'] vm_add [OF ok refl] by fastforce
next
  fix s :: vm_state and env i e s' assume "vm_ok ''fc-'' s" and "fc_Start env i s = (e, s')"
  then show "vm_ok ''fc-'' s' \<and> vm_known s' = vm_known s"
    by (auto simp: fc_Start_def split: if_splits sum.splits)
next
  fix env i s s' assume "fc_Delete env i s = (None, s')"
  then show "vm_known s' = vm_known s - {i}" by (auto simp: fc_Delete_def)
qed (auto simp: fc_Create_def fc_Get_def GenerateID_def Let_def dest: vm_Get_known)

interpretation gv: sandbox_port gv_Create gv_Start gv_Delete gv_Get vm_known "vm_ok ''gv-''"
proof unfold_locales
  fix env cfg s r s' assume ok: "vm_ok ''gv-'' s" and "gv_Create env cfg s = (Inr r, s')"
  then show "vm_ok ''gv-'' s' \<and> (\<exists>sb. r = Some sb \<and> sb_ID sb \<noteq> [] \<and> sb_ID sb \<notin> vm_known s \<and> vm_known s' = insert (sb_ID sb) (vm_known s))"
    using gv_Create_adds [of env cfg s "Inr r" s'] vm_add [OF ok refl] by fastforce
next
  fix s :: vm_state and env i e s' assume "vm_ok ''gv-'' s" and "gv_Start env i s = (e, s')"
  then show "vm_ok ''gv-'' s' \<and> vm_known s' = vm_known s"
    by (auto simp: gv_Start_def split: if_splits sum.splits option.splits)
next
  fix env i s s' assume "gv_Delete env i s = (None, s')"
  then show "vm_known s' = vm_known s - {i}" by (auto simp: gv_Delete_def)
qed (auto simp: gv_Create_def gv_Get_def GenerateID_def Let_def dest: vm_Get_known)


definition no_firecracker :: os_env where
  "no_firecracker = \<lparr>os_LookPath = (\<lambda>_. Inl ErrNotExist), os_Run = (\<lambda>_. None), os_Spawn = (\<lambda>_. Inr 7)\<rparr>"

definition sample_config :: SandboxConfig where
  "sample_config = zero_SandboxConfig\<lparr>sc_Name := ''web'', sc_Image := ''nginx''\<rparr>"


text \<open>
  Unlike the other adapters, gVisor's \<open>Stop\<close> does not touch the table: a sandbox that was running is still
  reported as running after it was killed.
\<close>

lemma gv_Stop_still_running:
  "gv_Stop env i force s = (None, s') \<Longrightarrow> gv_Get env i s = Inr (Some sb) \<Longrightarrow> IsRunning sb \<Longrightarrow>
     gv_Get env i s' = Inr (Some sb) \<and> IsRunning sb"
  by (metis gv_Stop_unchanged snd_conv)

end
