(* ===== verification/Listener.thy ===== *)
theory Listener
  imports Go_Path
begin

text \<open>
  The listener of the daemon (\<open>internal/listen/listen.go\<close>): setting up a Unix or TCP socket, and the life of a listener as two threads, \<open>Serve\<close> and
  the goroutine that calls \<open>Close\<close> when the context ends, which share two channels. A step is one statement of a thread; a send on a closed channel and closing a
  channel twice panic, which ends the process. \<open>net.Listen\<close>, the file operations and when \<open>http.Server.Serve\<close> returns are left open.
\<close>

section \<open>Setting up\<close>

datatype sock_op = MkdirAll string | Remove string | Listen string string | Chmod string | CloseLn

record sock_os =
  so_MkdirAll :: "string \<Rightarrow> go_error option"
  so_Listen :: "string \<Rightarrow> string \<Rightarrow> go_error option"
  so_Chmod :: "string \<Rightarrow> go_error option"

definition resolveSocket :: "string \<Rightarrow> string \<Rightarrow> string" where
  "resolveSocket socketPath runBase =
     (let sp = (if socketPath = [] then ''routed.sock'' else socketPath); rb = (if runBase = [] then ''/tmp'' else runBase)
      in if \<not> isAbs sp then path_join [rb, sp] else sp)"

text \<open>The path of the socket or the error, and the operations performed in order.\<close>

definition NewUDS :: "sock_os \<Rightarrow> string \<Rightarrow> string \<Rightarrow> string result \<times> sock_op list" where
  "NewUDS os socketPath runBase =
     (let p = resolveSocket socketPath runBase in
      case so_MkdirAll os (dir p) of
        Some err \<Rightarrow> (Inl (Errorf ''listen: mkdir failed: %w'' [AWrap err]), [MkdirAll (dir p)])
      | None \<Rightarrow> (case so_Listen os ''unix'' p of
          Some err \<Rightarrow> (Inl (Errorf ''listen: bind failed: %w'' [AWrap err]), [MkdirAll (dir p), Remove p, Listen ''unix'' p])
        | None \<Rightarrow> (case so_Chmod os p of
            Some err \<Rightarrow> (Inl (Errorf ''listen: chmod failed: %w'' [AWrap err]), [MkdirAll (dir p), Remove p, Listen ''unix'' p, Chmod p, CloseLn, Remove p])
          | None \<Rightarrow> (Inr p, [MkdirAll (dir p), Remove p, Listen ''unix'' p, Chmod p]))))"

definition NewTCP :: "sock_os \<Rightarrow> string \<Rightarrow> string result \<times> sock_op list" where
  "NewTCP os addr =
     (let a = (if addr = [] then '':8443'' else addr) in
      case so_Listen os ''tcp'' a of
        Some err \<Rightarrow> (Inl (Errorf ''listen: tcp bind %q failed: %w'' [AStr a, AWrap err]), [Listen ''tcp'' a])
      | None \<Rightarrow> (Inr a, [Listen ''tcp'' a]))"

section \<open>Serving and closing\<close>

text \<open>The statement that each thread executes next.\<close>

datatype serve_pc = Serving | Sending | ClosingServe | Returned
datatype close_pc = Waiting | Cleaning | ClosingErr | ClosingClosed | Done

record listener =
  ls_serve :: serve_pc
  ls_close :: close_pc
  ls_lnClosed :: bool
  ls_cleaned :: bool
  ls_errCh :: "go_error list" \<comment> \<open>the buffer, of capacity 1\<close>
  ls_errClosed :: bool
  ls_closedClosed :: bool
  ls_crashed :: bool

definition new_listener :: listener where
  "new_listener = \<lparr>ls_serve = Serving, ls_close = Waiting, ls_lnClosed = False, ls_cleaned = False, ls_errCh = [], ls_errClosed = False,
     ls_closedClosed = False, ls_crashed = False\<rparr>"

text \<open>\<open>Serve\<close>: the server returns, the error is sent unless the buffer is full, and \<open>closedCh\<close> is closed.\<close>

inductive serve_step :: "listener \<Rightarrow> listener \<Rightarrow> bool" where
  returns: "\<not> ls_crashed l \<Longrightarrow> ls_serve l = Serving \<Longrightarrow> serve_step l (l\<lparr>ls_serve := Sending\<rparr>)"
| send: "\<not> ls_crashed l \<Longrightarrow> ls_serve l = Sending \<Longrightarrow> \<not> ls_errClosed l \<Longrightarrow>
    serve_step l (l\<lparr>ls_serve := ClosingServe, ls_errCh := (if ls_errCh l = [] then [err] else ls_errCh l)\<rparr>)"
| send_panic: "\<not> ls_crashed l \<Longrightarrow> ls_serve l = Sending \<Longrightarrow> ls_errClosed l \<Longrightarrow> serve_step l (l\<lparr>ls_crashed := True\<rparr>)"
| close: "\<not> ls_crashed l \<Longrightarrow> ls_serve l = ClosingServe \<Longrightarrow> \<not> ls_closedClosed l \<Longrightarrow> serve_step l (l\<lparr>ls_serve := Returned, ls_closedClosed := True\<rparr>)"
| close_panic: "\<not> ls_crashed l \<Longrightarrow> ls_serve l = ClosingServe \<Longrightarrow> ls_closedClosed l \<Longrightarrow> serve_step l (l\<lparr>ls_crashed := True\<rparr>)"

text \<open>\<open>Close\<close>, whose body runs once.\<close>

inductive close_step :: "listener \<Rightarrow> listener \<Rightarrow> bool" where
  ln: "\<not> ls_crashed l \<Longrightarrow> ls_close l = Waiting \<Longrightarrow> close_step l (l\<lparr>ls_close := Cleaning, ls_lnClosed := True\<rparr>)"
| cleanup: "\<not> ls_crashed l \<Longrightarrow> ls_close l = Cleaning \<Longrightarrow> close_step l (l\<lparr>ls_close := ClosingErr, ls_cleaned := True\<rparr>)"
| errCh: "\<not> ls_crashed l \<Longrightarrow> ls_close l = ClosingErr \<Longrightarrow> \<not> ls_errClosed l \<Longrightarrow> close_step l (l\<lparr>ls_close := ClosingClosed, ls_errClosed := True\<rparr>)"
| errCh_panic: "\<not> ls_crashed l \<Longrightarrow> ls_close l = ClosingErr \<Longrightarrow> ls_errClosed l \<Longrightarrow> close_step l (l\<lparr>ls_crashed := True\<rparr>)"
| closedCh: "\<not> ls_crashed l \<Longrightarrow> ls_close l = ClosingClosed \<Longrightarrow> \<not> ls_closedClosed l \<Longrightarrow> close_step l (l\<lparr>ls_close := Done, ls_closedClosed := True\<rparr>)"
| closedCh_panic: "\<not> ls_crashed l \<Longrightarrow> ls_close l = ClosingClosed \<Longrightarrow> ls_closedClosed l \<Longrightarrow> close_step l (l\<lparr>ls_crashed := True\<rparr>)"

inductive lstep :: "listener \<Rightarrow> listener \<Rightarrow> bool" where
  serve: "serve_step l l' \<Longrightarrow> lstep l l'"
| close: "close_step l l' \<Longrightarrow> lstep l l'"

inductive_cases serve_stepE: "serve_step l l'"
inductive_cases close_stepE: "close_step l l'"
inductive_cases lstepE: "lstep l l'"

definition ErrCh :: "listener \<Rightarrow> go_error list \<times> bool" where "ErrCh l = (ls_errCh l, ls_errClosed l)"
definition ClosedCh :: "listener \<Rightarrow> bool" where "ClosedCh l = ls_closedClosed l"

subsection \<open>Shutdown\<close>

text \<open>
  \<open>closedCh\<close> has been closed by exactly one of the two threads, and \<open>errCh\<close> by the closing one.
\<close>

definition listener_ok :: "listener \<Rightarrow> bool" where
  "listener_ok l \<longleftrightarrow>
     (if ls_crashed l then True
      else ls_closedClosed l = (ls_serve l = Returned \<or> ls_close l = Done) \<and> (ls_serve l \<noteq> Returned \<or> ls_close l \<noteq> Done) \<and>
        ls_errClosed l = (ls_close l = ClosingClosed \<or> ls_close l = Done))"

fun serve_left :: "serve_pc \<Rightarrow> nat" where
  "serve_left Serving = 3" | "serve_left Sending = 2" | "serve_left ClosingServe = 1" | "serve_left Returned = 0"

fun close_left :: "close_pc \<Rightarrow> nat" where
  "close_left Waiting = 4" | "close_left Cleaning = 3" | "close_left ClosingErr = 2" | "close_left ClosingClosed = 1" | "close_left Done = 0"

definition steps_left :: "listener \<Rightarrow> nat" where
  "steps_left l = (if ls_crashed l then 0 else serve_left (ls_serve l) + close_left (ls_close l))"

lemma listener_ok_step: "lstep l l' \<Longrightarrow> listener_ok l \<Longrightarrow> listener_ok l'"
  by (elim lstepE serve_stepE close_stepE) (auto simp: listener_ok_def)

lemma steps_left_step: "lstep l l' \<Longrightarrow> steps_left l' < steps_left l"
  by (elim lstepE serve_stepE close_stepE) (auto simp: steps_left_def)

lemma run_ok: "(lstep ^^ n) new_listener l \<Longrightarrow> listener_ok l \<and> n + steps_left l \<le> 7"
proof (induction n arbitrary: l)
  case 0
  then have "l = new_listener" by simp
  then show ?case by (simp add: new_listener_def listener_ok_def steps_left_def)
next
  case (Suc n)
  then obtain k where "(lstep ^^ n) new_listener k" "lstep k l" by auto
  with Suc.IH [of k] listener_ok_step [of k l] steps_left_step [of k l] show ?case by auto
qed

lemma serve_progress: "\<not> ls_crashed l \<Longrightarrow> ls_serve l \<noteq> Returned \<Longrightarrow> \<exists>l'. serve_step l l'"
  by (cases "ls_serve l"; cases "ls_errClosed l"; cases "ls_closedClosed l") (blast intro: serve_step.intros)+

lemma close_progress: "\<not> ls_crashed l \<Longrightarrow> ls_close l \<noteq> Done \<Longrightarrow> \<exists>l'. close_step l l'"
  by (cases "ls_close l"; cases "ls_errClosed l"; cases "ls_closedClosed l") (blast intro: close_step.intros)+

lemma stuck_iff_crashed: "listener_ok l \<Longrightarrow> (\<nexists>l'. lstep l l') \<longleftrightarrow> ls_crashed l"
proof
  assume "listener_ok l" "\<nexists>l'. lstep l l'"
  then have "\<nexists>l'. serve_step l l'" "\<nexists>l'. close_step l l'" by (auto intro: lstep.intros)
  then have "ls_serve l = Returned \<and> ls_close l = Done" if "\<not> ls_crashed l" using that serve_progress close_progress by blast
  with \<open>listener_ok l\<close> show "ls_crashed l" by (auto simp: listener_ok_def split: if_splits)
next
  assume "ls_crashed l"
  then show "\<nexists>l'. lstep l l'" by (auto elim!: lstepE serve_stepE close_stepE)
qed



end
