(* ===== verification/Toml_Config.thy ===== *)
theory Toml_Config
  imports Go_Path
begin

text \<open>
  The configuration file of the commands (\<open>internal/config/config.go\<close>): the line-oriented parser for the supported subset of TOML, its
  comment stripper and the validation of what was read. Reading the file and \<open>strconv.Unquote\<close> are parameters; \<open>bufio.Scanner\<close> is modelled with
  its limit on the length of a line.
\<close>

section \<open>The parser\<close>

record Config =
  cf_Name :: string
  cf_Image :: string
  cf_Tier :: int
  cf_CPU :: int
  cf_Memory :: int

definition zero_Config :: Config where
  "zero_Config = \<lparr>cf_Name = [], cf_Image = [], cf_Tier = 0, cf_CPU = 0, cf_Memory = 0\<rparr>"

definition Config_Validate :: "Config \<Rightarrow> go_error option" where
  "Config_Validate c =
     (if trimSpace (cf_Name c) = [] then Some (Errorf ''name is required'' [])
      else if trimSpace (cf_Image c) = [] then Some (Errorf ''image is required'' [])
      else if cf_Tier c < 1 \<or> cf_Tier c > 30 then Some (Errorf ''tier must be between 1 and 30'' [])
      else if cf_CPU c < 1 then Some (Errorf ''cpu must be at least 1'' [])
      else if cf_Memory c < 64 then Some (Errorf ''memory must be at least 64'' [])
      else None)"

definition pathFromArgs :: "string list \<Rightarrow> string result" where
  "pathFromArgs args =
     (if length args < 2 \<or> trimSpace (args ! 1) = [] then Inl (Errorf ''usage: <command> <config.toml>'' []) else Inr (args ! 1))"

text \<open>
  \<open>bufio.ScanLines\<close>: no line after a final line feed, a carriage return before a line feed or at the end is dropped. A line of 65536 bytes or more does not fit the
  buffer and ends the scan with \<open>ErrTooLong\<close>.
\<close>

definition dropCR :: "string \<Rightarrow> string" where
  "dropCR l = (if l \<noteq> [] \<and> last l = CHR 0x0D then butlast l else l)"

definition scan_lines :: "string \<Rightarrow> string list \<times> bool" where
  "scan_lines s =
     (let ls = split_on s (CHR 0x0A); ls1 = (if last ls = [] then butlast ls else ls);
          short = takeWhile (\<lambda>l. length l < 65536) ls1
      in (map dropCR short, length short < length ls1))"

fun strip_from :: "bool \<Rightarrow> char option \<Rightarrow> string \<Rightarrow> string" where
  "strip_from inQuotes prev [] = []"
| "strip_from inQuotes prev (c # cs) =
     (if c = CHR 0x22 then c # strip_from (if prev = None \<or> prev \<noteq> Some (CHR 0x5C) then \<not> inQuotes else inQuotes) (Some c) cs
      else if c = CHR ''#'' \<and> \<not> inQuotes then []
      else c # strip_from inQuotes (Some c) cs)"

definition stripComment :: "string \<Rightarrow> string" where
  "stripComment raw = strip_from False None raw"

definition parseString :: "(string \<Rightarrow> string result) \<Rightarrow> string \<Rightarrow> string result" where
  "parseString Unquote raw =
     (if length raw < 2 \<or> hd raw \<noteq> CHR 0x22 \<or> last raw \<noteq> CHR 0x22 then Inl (Errorf ''expected quoted string'' [])
      else case Unquote raw of Inl err \<Rightarrow> Inl err | Inr v \<Rightarrow> Inr v)"

text \<open>The errors of \<open>strconv.Atoi\<close> are not told apart.\<close>

definition parse_int :: "string \<Rightarrow> int result" where
  "parse_int raw = (case atoi raw of None \<Rightarrow> Inl (Sentinel ''strconv.Atoi'') | Some v \<Rightarrow> Inr v)"

definition line_error :: "string \<Rightarrow> nat \<Rightarrow> go_error \<Rightarrow> go_error" where
  "line_error key lineNo err = Errorf (''line %d: parse '' @ key @ '': %w'') [AInt (int lineNo), AWrap err]"

definition parse_line :: "(string \<Rightarrow> string result) \<Rightarrow> nat \<Rightarrow> string \<Rightarrow> Config \<Rightarrow> Config result" where
  "parse_line Unquote lineNo text cfg =
     (let line = trimSpace text in
      if line = [] \<or> hasPrefix line ''#'' then Inr cfg
      else if hasPrefix line ''['' then Inl (Errorf ''line %d: tables are not supported'' [AInt (int lineNo)])
      else (case cut line (CHR ''='') of
         None \<Rightarrow> Inl (Errorf ''line %d: expected key = value'' [AInt (int lineNo)])
       | Some (k, r) \<Rightarrow>
           let key = trimSpace k; raw = trimSpace (stripComment r) in
           if key = ''name'' then (case parseString Unquote raw of Inl err \<Rightarrow> Inl (line_error key lineNo err) | Inr v \<Rightarrow> Inr (cfg\<lparr>cf_Name := v\<rparr>))
           else if key = ''image'' then (case parseString Unquote raw of Inl err \<Rightarrow> Inl (line_error key lineNo err) | Inr v \<Rightarrow> Inr (cfg\<lparr>cf_Image := v\<rparr>))
           else if key = ''tier'' then (case parse_int raw of Inl err \<Rightarrow> Inl (line_error key lineNo err) | Inr v \<Rightarrow> Inr (cfg\<lparr>cf_Tier := v\<rparr>))
           else if key = ''cpu'' then (case parse_int raw of Inl err \<Rightarrow> Inl (line_error key lineNo err) | Inr v \<Rightarrow> Inr (cfg\<lparr>cf_CPU := v\<rparr>))
           else if key = ''memory'' then (case parse_int raw of Inl err \<Rightarrow> Inl (line_error key lineNo err) | Inr v \<Rightarrow> Inr (cfg\<lparr>cf_Memory := v\<rparr>))
           else Inl (Errorf ''line %d: unknown key %q'' [AInt (int lineNo), AStr key])))"

definition toml_parse :: "(string \<Rightarrow> string result) \<Rightarrow> string \<Rightarrow> Config result" where
  "toml_parse Unquote contents =
     (case scan_lines contents of (ls, tooLong) \<Rightarrow>
        (case foldE (\<lambda>(lineNo, l) cfg. parse_line Unquote lineNo l cfg) (enumerate 1 ls) zero_Config of
           Inl err \<Rightarrow> Inl err
         | Inr cfg \<Rightarrow> if tooLong then Inl (Sentinel ''bufio.ErrTooLong'') else Inr cfg))"

definition config_Load :: "(string \<Rightarrow> string result) \<Rightarrow> (string \<Rightarrow> string result) \<Rightarrow> string \<Rightarrow> Config result" where
  "config_Load ReadFile Unquote path =
     (if trimSpace path = [] then Inl (Errorf ''config path is required'' [])
      else (case ReadFile path of
         Inl err \<Rightarrow> Inl (Errorf ''read config %q: %w'' [AStr path, AWrap err])
       | Inr contents \<Rightarrow> (case toml_parse Unquote contents of
           Inl err \<Rightarrow> Inl (Errorf ''decode config %q: %w'' [AStr path, AWrap err])
         | Inr cfg \<Rightarrow> (case Config_Validate cfg of
             Some err \<Rightarrow> Inl (Errorf ''validate config %q: %w'' [AStr path, AWrap err])
           | None \<Rightarrow> Inr cfg))))"

definition LoadFromArgs :: "(string \<Rightarrow> string result) \<Rightarrow> (string \<Rightarrow> string result) \<Rightarrow> string list \<Rightarrow> Config result" where
  "LoadFromArgs ReadFile Unquote args = (case pathFromArgs args of Inl err \<Rightarrow> Inl err | Inr path \<Rightarrow> config_Load ReadFile Unquote path)"

section \<open>Writing and reading a configuration\<close>

text \<open>Strings that a double-quoted literal holds without an escape.\<close>

definition literal_char :: "char \<Rightarrow> bool" where
  "literal_char c \<longleftrightarrow> 32 \<le> byte c \<and> byte c \<le> 126 \<and> c \<noteq> CHR 0x22 \<and> c \<noteq> CHR 0x5C"

definition quoted :: "string \<Rightarrow> string" where
  "quoted s = [CHR 0x22] @ s @ [CHR 0x22]"

definition entry :: "string \<Rightarrow> string \<Rightarrow> string" where
  "entry key v = key @ '' = '' @ v"

definition render :: "Config \<Rightarrow> string" where
  "render c = join [entry ''name'' (quoted (cf_Name c)), entry ''image'' (quoted (cf_Image c)), entry ''tier'' (decimal (nat (cf_Tier c))),
     entry ''cpu'' (decimal (nat (cf_CPU c))), entry ''memory'' (decimal (nat (cf_Memory c)))] [CHR 0x0A]"

lemma trim_graphic:
  assumes "s \<noteq> []"
  shows "graphic (hd s) \<Longrightarrow> trimLeft s = s" and "graphic (last s) \<Longrightarrow> trimRight s = s"
    and "graphic (hd s) \<Longrightarrow> trimLeft (CHR '' '' # s) = s" and "graphic (last s) \<Longrightarrow> trimRight (s @ '' '') = s"
proof -
  have sp: "ascii_space (CHR '' '')" by code_simp
  have low: "\<not> wide_space (map byte t)" if "t \<noteq> []" "byte (hd t) < 0xC2" for t
    using wide_space_high [of "map byte t"] that by (cases t) auto
  have high: "0x80 \<le> last bs" if "wide_space bs" for bs
    using that by (auto simp: wide_space_def length_Suc_conv numeral_3_eq_3 numeral_2_eq_2)
  have end_low: "\<not> wide_space (map byte t)" if "t \<noteq> []" "byte (last t) < 0x80" for t
    using high [of "map byte t"] that by (auto simp: last_map)
  show left: "trimLeft s = s" if "graphic (hd s)"
  proof -
    have "space_len s = 0" using low [of "take 2 s"] low [of "take 3 s"] assms that by (auto simp: space_len_def graphic_def ascii_space_def)
    then show ?thesis by (simp add: trimLeft.simps)
  qed
  show right: "trimRight s = s" if "graphic (last s)"
  proof -
    have d: "drop (length s - k) s \<noteq> [] \<and> last (drop (length s - k) s) = last s" if "0 < k" for k using assms that by (cases s) auto
    have "byte (last s) < 0x80" "\<not> ascii_space (last s)" using that by (auto simp: graphic_def ascii_space_def)
    then have "space_len_end s = 0"
      using end_low [of "drop (length s - 2) s"] end_low [of "drop (length s - 3) s"] d [of 2] d [of 3] by (simp add: space_len_end_def)
    then show ?thesis by (simp add: trimRight.simps)
  qed
  have "space_len (CHR '' '' # s) = 1" using sp by (simp add: space_len_def)
  then show "trimLeft (CHR '' '' # s) = s" if "graphic (hd s)" using left [OF that] by (subst trimLeft.simps) simp
  have "space_len_end (s @ '' '') = 1" using sp by (simp add: space_len_end_def)
  then show "trimRight (s @ '' '') = s" if "graphic (last s)" using right [OF that] by (subst trimRight.simps) simp
qed

text \<open>The part after the equals sign survives the comment stripper.\<close>

lemma strip_literal: "list_all literal_char s \<Longrightarrow> p \<noteq> Some (CHR 0x5C) \<Longrightarrow> strip_from True p (s @ [CHR 0x22]) = s @ [CHR 0x22]"
  by (induction s arbitrary: p) (auto simp: literal_char_def)

lemma strip_plain: "CHR 0x22 \<notin> set s \<Longrightarrow> CHR ''#'' \<notin> set s \<Longrightarrow> strip_from q p s = s"
  by (induction s arbitrary: p) auto

lemma graphic_quote: "graphic (CHR 0x22)"
  by code_simp

definition plain_key :: "string \<Rightarrow> bool" where
  "plain_key key \<longleftrightarrow> key \<noteq> [] \<and> list_all graphic key \<and> CHR ''='' \<notin> set key \<and> hd key \<noteq> CHR ''#'' \<and> hd key \<noteq> CHR ''[''"

lemma plain_keys: "plain_key ''name''" "plain_key ''image''" "plain_key ''tier''" "plain_key ''cpu''" "plain_key ''memory''"
  by code_simp+

lemma space_not_eq: "CHR '' '' \<noteq> CHR ''=''"
  by simp

text \<open>A line \<open>key = value\<close> is split into the key and the value.\<close>

lemma entry_split:
  assumes "plain_key key" and "v \<noteq> []" and "graphic (hd v)" "graphic (last v)" and "stripComment ('' '' @ v) = '' '' @ v"
  shows "trimSpace (entry key v) = entry key v" "entry key v \<noteq> []" "\<not> hasPrefix (entry key v) ''#''" "\<not> hasPrefix (entry key v) ''[''"
    "cut (entry key v) (CHR ''='') = Some (key @ '' '', '' '' @ v)" "trimSpace (key @ '' '') = key" "trimSpace (stripComment ('' '' @ v)) = v"
proof -
  have k: "key \<noteq> []" "list_all graphic key" "CHR ''='' \<notin> set key" "hd key \<noteq> CHR ''#''" "hd key \<noteq> CHR ''[''" using assms(1) by (auto simp: plain_key_def)
  have g: "graphic (hd key)" "graphic (last key)" using k(1,2) by (auto simp: list_all_iff)
  show "entry key v \<noteq> []" by (simp add: entry_def)
  show "trimSpace (entry key v) = entry key v"
    using k g assms by (simp add: trimSpace_def entry_def trim_graphic)
  show "\<not> hasPrefix (entry key v) ''#''" "\<not> hasPrefix (entry key v) ''[''" using k by (cases key; simp add: entry_def hasPrefix_def)+
  show "cut (entry key v) (CHR ''='') = Some (key @ '' '', '' '' @ v)"
    using cut_append [of "CHR ''=''" "key @ '' ''" "'' '' @ v"] k(3) by (simp add: entry_def)
  show "trimSpace (key @ '' '') = key" using trim_graphic(1) [of "key @ '' ''"] trim_graphic(4) [OF k(1) g(2)] k(1) g(1) by (simp add: trimSpace_def)
  show "trimSpace (stripComment ('' '' @ v)) = v" using trim_graphic(2,3) [OF assms(2)] assms by (simp add: trimSpace_def)
qed

lemma length_decimal: "0 < k \<Longrightarrow> n < 10 ^ k \<Longrightarrow> length (decimal n) \<le> k"
proof (induction k arbitrary: n)
  case (Suc k)
  show ?case
  proof (cases "n < 10")
    case True
    then show ?thesis by (subst decimal.simps) simp
  next
    case False
    have "n div 10 < 10 ^ k" using Suc.prems by (simp add: less_mult_imp_div_less mult.commute)
    moreover have "0 < k" using False Suc.prems by (cases k) auto
    ultimately show ?thesis using Suc.IH [of "n div 10"] False by (subst decimal.simps) simp
  qed
qed simp

lemma strip_values:
  shows "list_all literal_char s \<Longrightarrow> stripComment ('' '' @ quoted s) = '' '' @ quoted s" and "stripComment ('' '' @ decimal n) = '' '' @ decimal n"
    and "graphic (hd (decimal n)) \<and> graphic (last (decimal n)) \<and> decimal n \<noteq> []"
proof -
  note d = decimal_digits [of n] decimal_nonempty [of n]
  have no: "\<not> is_digit (CHR 0x22)" "\<not> is_digit (CHR ''#'')" "CHR 0x22 \<noteq> CHR '' ''" "CHR ''#'' \<noteq> CHR '' ''" by code_simp+
  show "stripComment ('' '' @ quoted s) = '' '' @ quoted s" if "list_all literal_char s"
    using strip_literal [OF that, of "Some (CHR 0x22)"] by (simp add: stripComment_def quoted_def)
  have "CHR 0x22 \<notin> set (decimal n)" "CHR ''#'' \<notin> set (decimal n)" using d(1) no by (auto simp: list_all_iff)
  then show "stripComment ('' '' @ decimal n) = '' '' @ decimal n" unfolding stripComment_def by (intro strip_plain) (simp_all add: no)
  have "graphic c" if "is_digit c" for c using that by (auto simp: graphic_def is_digit_def)
  then show "graphic (hd (decimal n)) \<and> graphic (last (decimal n)) \<and> decimal n \<noteq> []" using d by (auto simp: list_all_iff)
qed

lemma parseString_quoted:
  assumes "Unquote (quoted s) = Inr s"
  shows "parseString Unquote (quoted s) = Inr s" "graphic (hd (quoted s)) \<and> graphic (last (quoted s)) \<and> quoted s \<noteq> []"
  using assms graphic_quote by (simp_all add: parseString_def quoted_def)

lemma atoi_decimal: "int n < 2 ^ 63 \<Longrightarrow> atoi (decimal n) = Some (int n)"
proof -
  assume n: "int n < 2 ^ 63"
  have "decimal n \<noteq> []" "is_digit (hd (decimal n))" using decimal_digits [of n] by (simp_all add: list_all_iff)
  moreover have "\<not> is_digit (CHR ''-'')" "\<not> is_digit (CHR ''+'')" by code_simp+
  ultimately have "hd (decimal n) \<noteq> CHR ''-''" "hd (decimal n) \<noteq> CHR ''+''" by metis+
  then show "atoi (decimal n) = Some (int n)" using n \<open>decimal n \<noteq> []\<close> by (simp add: atoi_def)
qed

text \<open>One line of each kind.\<close>

lemma parse_string_lines:
  assumes "list_all literal_char s" and "Unquote (quoted s) = Inr s"
  shows "parse_line Unquote n (entry ''name'' (quoted s)) cfg = Inr (cfg\<lparr>cf_Name := s\<rparr>)"
    and "parse_line Unquote n (entry ''image'' (quoted s)) cfg = Inr (cfg\<lparr>cf_Image := s\<rparr>)"
proof -
  note q = parseString_quoted [of Unquote s, OF assms(2)] strip_values(1) [OF assms(1)]
  note e = entry_split [OF plain_keys(1), of "quoted s"] entry_split [OF plain_keys(2), of "quoted s"]
  show "parse_line Unquote n (entry ''name'' (quoted s)) cfg = Inr (cfg\<lparr>cf_Name := s\<rparr>)"
    unfolding parse_line_def Let_def using e(1-7) q by simp
  show "parse_line Unquote n (entry ''image'' (quoted s)) cfg = Inr (cfg\<lparr>cf_Image := s\<rparr>)"
    unfolding parse_line_def Let_def using e(8-14) q by simp
qed

lemma parse_int_lines:
  assumes "0 \<le> v" and "v < 2 ^ 63"
  shows "parse_line Unquote n (entry ''tier'' (decimal (nat v))) cfg = Inr (cfg\<lparr>cf_Tier := v\<rparr>)"
    and "parse_line Unquote n (entry ''cpu'' (decimal (nat v))) cfg = Inr (cfg\<lparr>cf_CPU := v\<rparr>)"
    and "parse_line Unquote n (entry ''memory'' (decimal (nat v))) cfg = Inr (cfg\<lparr>cf_Memory := v\<rparr>)"
proof -
  have p: "parse_int (decimal (nat v)) = Inr v" using assms atoi_decimal [of "nat v"] by (simp add: parse_int_def)
  note q = p strip_values(2,3) [of "nat v"]
  note e = entry_split [OF plain_keys(3), of "decimal (nat v)"] entry_split [OF plain_keys(4), of "decimal (nat v)"] entry_split [OF plain_keys(5), of "decimal (nat v)"]
  show "parse_line Unquote n (entry ''tier'' (decimal (nat v))) cfg = Inr (cfg\<lparr>cf_Tier := v\<rparr>)"
    unfolding parse_line_def Let_def using e(1-7) q by simp
  show "parse_line Unquote n (entry ''cpu'' (decimal (nat v))) cfg = Inr (cfg\<lparr>cf_CPU := v\<rparr>)"
    unfolding parse_line_def Let_def using e(8-14) q by simp
  show "parse_line Unquote n (entry ''memory'' (decimal (nat v))) cfg = Inr (cfg\<lparr>cf_Memory := v\<rparr>)"
    unfolding parse_line_def Let_def using e(15-21) q by simp
qed

text \<open>Lines that the scanner hands over unchanged.\<close>

definition whole_line :: "string \<Rightarrow> bool" where
  "whole_line l \<longleftrightarrow> l \<noteq> [] \<and> CHR 0x0A \<notin> set l \<and> last l \<noteq> CHR 0x0D \<and> length l < 65536"

lemma scan_join: "ls \<noteq> [] \<Longrightarrow> list_all whole_line ls \<Longrightarrow> scan_lines (join ls [CHR 0x0A]) = (ls, False)"
proof -
  assume ls: "ls \<noteq> []" "list_all whole_line ls"
  then have s: "split_on (join ls [CHR 0x0A]) (CHR 0x0A) = ls" using split_join [of ls "CHR 0x0A"] by (simp add: list_all_iff whole_line_def)
  have l: "last ls \<noteq> []" using ls by (simp add: list_all_iff whole_line_def)
  have w: "takeWhile (\<lambda>l. length l < 65536) ls = ls" using ls(2) by (simp add: list_all_iff whole_line_def takeWhile_eq_all_conv)
  have "map dropCR ls = ls" using ls(2) by (intro map_idI) (simp add: list_all_iff whole_line_def dropCR_def)
  with l show ?thesis unfolding scan_lines_def Let_def s if_not_P [OF l] w by simp
qed

lemma whole_entry:
  assumes "list_all graphic key" and "v \<noteq> []" "list_all (\<lambda>c. 32 \<le> byte c) v" and "length key + length v < 65000"
  shows "whole_line (entry key v)"
proof -
  have c: "\<not> 32 \<le> byte (CHR 0x0A)" "\<not> 32 \<le> byte (CHR 0x0D)" "\<not> graphic (CHR 0x0A)" "CHR 0x0A \<noteq> CHR '' ''" "CHR 0x0A \<noteq> CHR ''=''" by code_simp+
  have "CHR 0x0A \<notin> set v" "last v \<noteq> CHR 0x0D" using assms(2,3) c(1,2) last_in_set [OF assms(2)] by (metis list_all_iff)+
  moreover have "CHR 0x0A \<notin> set key" using assms(1) c(3) by (metis list_all_iff)
  ultimately show ?thesis using assms(2,4) c(4,5) by (simp add: whole_line_def entry_def)
qed

text \<open>
  C24. A configuration survives writing and reading: for every valid one whose name and image need no escapes and fit on a line, and whose numbers fit 64 bits, the file with
  one \<open>key = value\<close> line per field is loaded as that very configuration, comment characters inside the quotes included.
\<close>

theorem config_roundtrip:
  assumes "Config_Validate c = None" and "list_all literal_char (cf_Name c)" "list_all literal_char (cf_Image c)"
    and "length (cf_Name c) < 64000" "length (cf_Image c) < 64000" and "cf_CPU c < 2 ^ 63" "cf_Memory c < 2 ^ 63"
    and "\<And>s. list_all literal_char s \<Longrightarrow> Unquote (quoted s) = Inr s" and "trimSpace path \<noteq> []" and "ReadFile path = Inr (render c)"
  shows "config_Load ReadFile Unquote path = Inr c"
proof -
  let ?ls = "[entry ''name'' (quoted (cf_Name c)), entry ''image'' (quoted (cf_Image c)), entry ''tier'' (decimal (nat (cf_Tier c))),
     entry ''cpu'' (decimal (nat (cf_CPU c))), entry ''memory'' (decimal (nat (cf_Memory c)))]"
  have v: "0 \<le> cf_Tier c" "cf_Tier c < 2 ^ 63" "0 \<le> cf_CPU c" "0 \<le> cf_Memory c" using assms(1) by (auto simp: Config_Validate_def split: if_splits)
  have keys: "list_all graphic ''name''" "list_all graphic ''image''" "list_all graphic ''tier''" "list_all graphic ''cpu''" "list_all graphic ''memory''" by code_simp+
  have str: "quoted s \<noteq> [] \<and> list_all (\<lambda>c. 32 \<le> byte c) (quoted s)" if "list_all literal_char s" for s
    using that by (auto simp: quoted_def list_all_iff literal_char_def byte_def)
  have num: "decimal n \<noteq> [] \<and> list_all (\<lambda>c. 32 \<le> byte c) (decimal n) \<and> length (decimal n) \<le> 19" if "int n < 2 ^ 63" for n
    using decimal_digits [of n] length_decimal [of 19 n] that by (auto simp: list_all_iff is_digit_def)
  have "list_all whole_line ?ls"
    using keys str [OF assms(2)] str [OF assms(3)] num [of "nat (cf_Tier c)"] num [of "nat (cf_CPU c)"] num [of "nat (cf_Memory c)"] v assms(4-7)
    by (auto intro!: whole_entry simp: quoted_def)
  then have "scan_lines (render c) = (?ls, False)" unfolding render_def by (intro scan_join) simp_all
  then have "toml_parse Unquote (render c) = Inr c"
    using parse_string_lines(1) [of "cf_Name c" Unquote] parse_string_lines(2) [of "cf_Image c" Unquote] assms v
      parse_int_lines(1) [of "cf_Tier c" Unquote] parse_int_lines(2) [of "cf_CPU c" Unquote] parse_int_lines(3) [of "cf_Memory c" Unquote]
    by (simp add: toml_parse_def enumerate_eq_zip zero_Config_def)
  with assms(1,9,10) show ?thesis by (simp add: config_Load_def)
qed

text \<open>A decoder of literals without escapes.\<close>

definition unquote_literal :: "string \<Rightarrow> string result" where
  "unquote_literal raw = Inr (butlast (tl raw))"

theorem config_roundtrip_witness:
  "config_Load (\<lambda>_. Inr (render \<lparr>cf_Name = ''web #1'', cf_Image = ''nginx:1.27'', cf_Tier = 2, cf_CPU = 4, cf_Memory = 512\<rparr>)) unquote_literal ''nvms.toml'' =
     Inr \<lparr>cf_Name = ''web #1'', cf_Image = ''nginx:1.27'', cf_Tier = 2, cf_CPU = 4, cf_Memory = 512\<rparr>"
proof (rule config_roundtrip)
  let ?c = "\<lparr>cf_Name = ''web #1'', cf_Image = ''nginx:1.27'', cf_Tier = 2, cf_CPU = 4, cf_Memory = 512\<rparr>"
  show "Config_Validate ?c = None" "list_all literal_char (cf_Name ?c)" "list_all literal_char (cf_Image ?c)" "trimSpace ''nvms.toml'' \<noteq> []" by code_simp+
  show "unquote_literal (quoted s) = Inr s" for s by (simp add: unquote_literal_def quoted_def)
qed simp_all

text \<open>
  The stripper takes the second of two backslashes for an escape of the quote after them: the comment after such a value stays and the line is refused
  although the value is well formed.
\<close>

lemma stripper_misses_comment:
  "stripComment (CHR 0x22 # ''a'' @ [CHR 0x5C, CHR 0x5C, CHR 0x22] @ '' # c'') = CHR 0x22 # ''a'' @ [CHR 0x5C, CHR 0x5C, CHR 0x22] @ '' # c''"
  by code_simp

end
