(* ===== verification/Command_Line.thy ===== *)
theory Command_Line
  imports Daemon_Client Tier_Fleet Engine Vm_Adapters Listener Toml_Config
begin

text \<open>
  The three programs \<open>cmd/nvms\<close>, \<open>cmd/nanovms\<close> and \<open>cmd/agentctl\<close>, and the deployment helper \<open>pkg/deploy/deploy.go\<close>. A command maps the
  state of what it talks to to its output, its exit code and the next state; a line of output is the format and the arguments of the
  \<open>Printf\<close> that writes it, without its final line breaks. The usage texts are one constructor, and reading a response stream is taken not to fail.
\<close>

section \<open>Output, exit and flags\<close>

datatype out_line = Out string "go_arg list" | OutBody resp_body | Entry TierInfo | Usage | ErrLine string "go_arg list"

type_synonym outcome = "out_line list \<times> int"
type_synonym 'd command = "'d \<Rightarrow> outcome \<times> 'd"

text \<open>\<open>log.Fatal\<close> and \<open>os.Exit(1)\<close> after a message.\<close>

definition fatal :: "string \<Rightarrow> go_arg list \<Rightarrow> outcome" where "fatal msg args = ([ErrLine msg args], 1)"
definition fatal_error :: "go_error \<Rightarrow> outcome" where "fatal_error err = fatal ''%v'' [AErr err]"
definition finished :: "out_line list \<Rightarrow> outcome" where "finished ls = (ls, 0)"

text \<open>
  \<open>FlagSet.Parse\<close> with \<open>flag.ExitOnError\<close>: the values that were set and the remaining arguments, or the exit code. \<open>ParseInt\<close> with
  base 0 is a parameter.
\<close>

datatype flag_kind = StringFlag | IntFlag | BoolFlag

type_synonym flag_values = "(string, string) gomap"

definition bool_text :: "string \<Rightarrow> bool" where
  "bool_text s \<longleftrightarrow> s \<in> {''1'', ''t'', ''T'', ''TRUE'', ''true'', ''True'', ''0'', ''f'', ''F'', ''FALSE'', ''false'', ''False''}"

definition truthy :: "string \<Rightarrow> bool" where
  "truthy s \<longleftrightarrow> s \<in> {''1'', ''t'', ''T'', ''TRUE'', ''true'', ''True''}"

definition acceptable :: "(string \<Rightarrow> int option) \<Rightarrow> flag_kind \<Rightarrow> string \<Rightarrow> bool" where
  "acceptable pint kind v = (case kind of StringFlag \<Rightarrow> True | IntFlag \<Rightarrow> pint v \<noteq> None | BoolFlag \<Rightarrow> bool_text v)"

definition flag_name :: "string \<Rightarrow> string" where
  "flag_name s = (if take 2 s = ''--'' then drop 2 s else drop 1 s)"

fun parse_flags :: "(string \<Rightarrow> int option) \<Rightarrow> (string \<times> flag_kind) list \<Rightarrow> string list \<Rightarrow> flag_values \<Rightarrow> int + (flag_values \<times> string list)" where
  "parse_flags pint defs [] vals = Inr (vals, [])"
| "parse_flags pint defs (s # args) vals =
     (if length s < 2 \<or> hd s \<noteq> CHR ''-'' then Inr (vals, s # args)
      else if s = ''--'' then Inr (vals, args)
      else let n = flag_name s in
        if n = [] \<or> hd n = CHR ''-'' \<or> hd n = CHR ''='' then Inl 2
        else let (name, given) = (case cut n (CHR ''='') of None \<Rightarrow> (n, None) | Some (k, v) \<Rightarrow> (k, Some v)) in
          (case map_of defs name of
             None \<Rightarrow> Inl (if name = ''help'' \<or> name = ''h'' then 0 else 2)
           | Some kind \<Rightarrow>
               (case (given, kind, args) of
                  (Some v, _, _) \<Rightarrow> if acceptable pint kind v then parse_flags pint defs args (AList.update name v vals) else Inl 2
                | (None, BoolFlag, _) \<Rightarrow> parse_flags pint defs args (AList.update name ''true'' vals)
                | (None, _, v # rest) \<Rightarrow> if acceptable pint kind v then parse_flags pint defs rest (AList.update name v vals) else Inl 2
                | (None, _, []) \<Rightarrow> Inl 2)))"

definition string_flag :: "flag_values \<Rightarrow> string \<Rightarrow> string \<Rightarrow> string" where
  "string_flag vals name dflt = (case map_of vals name of None \<Rightarrow> dflt | Some v \<Rightarrow> v)"

definition int_flag :: "(string \<Rightarrow> int option) \<Rightarrow> flag_values \<Rightarrow> string \<Rightarrow> int \<Rightarrow> int" where
  "int_flag pint vals name dflt = (case map_of vals name of None \<Rightarrow> dflt | Some v \<Rightarrow> the (pint v))"

definition with_flags :: "(string \<Rightarrow> int option) \<Rightarrow> (string \<times> flag_kind) list \<Rightarrow> string list \<Rightarrow> (flag_values \<Rightarrow> string list \<Rightarrow> 'd command) \<Rightarrow> 'd command" where
  "with_flags pint defs args f d = (case parse_flags pint defs args [] of Inl code \<Rightarrow> (([], code), d) | Inr (vals, rest) \<Rightarrow> f vals rest d)"

section \<open>\<open>nvms vm\<close>\<close>

definition vm_port_forward :: "client_lib \<Rightarrow> 'd round_trip \<Rightarrow> Client \<Rightarrow> string \<Rightarrow> string \<Rightarrow> 'd command" where
  "vm_port_forward lib do cl i spec d =
     (case cut spec (CHR '':'') of
        None \<Rightarrow> (fatal ''invalid port spec, use <local>:<remote>'' [], d)
      | Some (l, r) \<Rightarrow> (case (atoi l, atoi r) of
          (None, _) \<Rightarrow> (fatal ''invalid local port: %v'' [AStr l], d)
        | (Some _, None) \<Rightarrow> (fatal ''invalid remote port: %v'' [AStr r], d)
        | (Some lp, Some rp) \<Rightarrow> (case client_PortForward lib do cl i lp rp d of
            (Inl err, d1) \<Rightarrow> (fatal_error err, d1) | (Inr addr, d1) \<Rightarrow> (finished [Out ''Port-forward active: %s'' [AStr addr]], d1))))"

definition vm_subcommand :: "client_lib \<Rightarrow> 'd round_trip \<Rightarrow> Client \<Rightarrow> string list \<Rightarrow> 'd command" where
  "vm_subcommand lib do cl args d =
     (let sub = args ! 0 in
      if sub = ''list'' then
        (case client_ListSandboxes lib do cl d of
           (Inl err, d1) \<Rightarrow> (fatal_error err, d1)
         | (Inr sbs, d1) \<Rightarrow> (finished (map (\<lambda>sb. Out (''%s'' @ [CHR 0x09] @ ''%s'' @ [CHR 0x09] @ ''%s'') [AStr (si_ID sb), AStr (si_Name sb), AStr (si_Status sb)]) sbs), d1))
      else if sub = ''exec'' then
        (if length args < 3 then (fatal ''usage: nvms vm exec <id> <cmd...>'' [], d)
         else (case client_Exec lib do cl (args ! 1) (drop 2 args) d of
             (Inl err, d1) \<Rightarrow> (fatal_error err, d1) | (Inr out, d1) \<Rightarrow> (finished [OutBody out], d1)))
      else if sub = ''logs'' then
        (if length args < 2 then (fatal ''usage: nvms vm logs <id>'' [], d)
         else (case client_Logs lib do cl (args ! 1) False d of
             (Inl err, d1) \<Rightarrow> (fatal_error err, d1) | (Inr out, d1) \<Rightarrow> (finished [OutBody out], d1)))
      else if sub = ''port-forward'' then
        (if length args \<noteq> 3 then (fatal ''usage: nvms vm port-forward <id> <local-port>:<remote-port>'' [], d)
         else vm_port_forward lib do cl (args ! 1) (args ! 2) d)
      else (fatal ''nvms vm: unknown subcommand %q'' [AStr sub], d))"

definition vmCmd :: "client_lib \<Rightarrow> (Client \<Rightarrow> 'd round_trip) \<Rightarrow> (string \<Rightarrow> string) \<Rightarrow> (string \<Rightarrow> int option) \<Rightarrow> string list \<Rightarrow> 'd command" where
  "vmCmd lib do getenv pint args =
     with_flags pint [(''socket'', StringFlag)] args (\<lambda>vals rest d.
       if rest = [] \<or> rest ! 0 = ''help'' then (finished [Usage], d)
       else let cl = NewClient getenv (string_flag vals ''socket'' []) in vm_subcommand lib (do cl) cl rest d)"

section \<open>\<open>nvms tier\<close>\<close>

text \<open>The flags of \<open>list\<close>: whether JSON is asked for, and the security level.\<close>

fun tier_list_flags :: "string list \<Rightarrow> bool \<Rightarrow> string \<Rightarrow> outcome + (bool \<times> string)" where
  "tier_list_flags [] asJSON security = Inr (asJSON, security)"
| "tier_list_flags (a # args) asJSON security =
     (if a = ''--json'' \<or> a = ''-j'' then tier_list_flags args True security
      else if a = ''--security'' \<or> a = ''-s'' then
        (case args of
           [] \<Rightarrow> Inl (fatal ''--security requires an argument (low|medium|high|untrusted)'' [])
         | s # rest \<Rightarrow> tier_list_flags rest asJSON s)
      else Inl (fatal ''nvms tier list: unknown flag %q'' [AStr a]))"

fun join_from :: "nat \<Rightarrow> string list \<Rightarrow> string \<Rightarrow> string" where
  "join_from i [] out = out"
| "join_from i (s # p) out = join_from (Suc i) p ((if i > 0 then out @ '','' else out) @ s)"

definition joinShort :: "string list \<Rightarrow> string" where
  "joinShort p = (if length p = 0 then ''(any)'' else join_from 0 p [])"

definition listed_names :: "'a Registry \<Rightarrow> string \<Rightarrow> string list" where
  "listed_names r security = sort (map fst (filter (\<lambda>(n, info). \<not> (security \<noteq> [] \<and> ti_Security info \<noteq> security)) (reg_infoByName r)))"

definition tierListCmd :: "'a Registry \<Rightarrow> string list \<Rightarrow> outcome" where
  "tierListCmd r args =
     (case tier_list_flags args False [] of
        Inl ended \<Rightarrow> ended
      | Inr (asJSON, security) \<Rightarrow>
          let names = listed_names r security; info = (\<lambda>n. the (registry_Info r n)) in
          if asJSON then finished (map (\<lambda>n. Entry (info n)) names)
          else finished ([Out ''Registered tiers: %d'' [AInt (int (length names))],
              Out ''%-18s %-9s %-10s %-10s %-30s'' (map AStr [''NAME'', ''STARTUP'', ''MEMORY'', ''SECURITY'', ''PLATFORMS'']),
              Out ''%-18s %-9s %-10s %-10s %-30s'' (map AStr [''----'', ''-------'', ''------'', ''--------'', ''---------''])] @
            map (\<lambda>n. let i = info n in Out ''%-18s %-9d %-10d %-10s %-30s''
              [AStr (ti_Name i), AInt (ti_StartupMS i), AInt (ti_MemoryMB i), AStr (ti_Security i), AStr (joinShort (ti_Platforms i))]) names))"

definition tierInfoCmd :: "'a Registry \<Rightarrow> string list \<Rightarrow> outcome" where
  "tierInfoCmd r args =
     (case args of
        [] \<Rightarrow> fatal ''usage: nvms tier info <name>'' []
      | name # _ \<Rightarrow> (case registry_Info r name of
          None \<Rightarrow> fatal ''nvms tier info: %q not registered (have: %v)'' (AStr name # map AStr (registry_Names r))
        | Some i \<Rightarrow> finished ([Out ''Name:        %s'' [AStr (ti_Name i)]] @
            (if ti_DisplayName i \<noteq> [] then [Out ''Display:     %s'' [AStr (ti_DisplayName i)]] else []) @
            (if ti_Description i \<noteq> [] then [Out ''Description: %s'' [AStr (ti_Description i)]] else []) @
            [Out ''Startup:     %dms'' [AInt (ti_StartupMS i)], Out ''Memory:      %dMB'' [AInt (ti_MemoryMB i)],
             Out ''Security:    %s'' [AStr (ti_Security i)]] @
            (if ti_Platforms i \<noteq> [] then [Out ''Platforms:   %v'' (map AStr (ti_Platforms i))] else []) @
            (if ti_Workloads i \<noteq> [] then [Out ''Workloads:   %v'' (map AStr (ti_Workloads i))] else []))))"

definition tierProbeCmd :: "'w Adapter Registry \<Rightarrow> string list \<Rightarrow> 'w tier_state command" where
  "tierProbeCmd r args s =
     (case args of
        [] \<Rightarrow> (fatal ''usage: nvms tier probe <name>'' [], s)
      | name # _ \<Rightarrow> (case registry_Get r name of
          Inl err \<Rightarrow> (fatal ''nvms tier probe: %v'' [AErr err], s)
        | Inr a \<Rightarrow> (case ad_Probe a s of
            (Some err, s1) \<Rightarrow> (([Out ''probe %s: FAIL: %v'' [AStr name, AErr err]], 1), s1)
          | (None, s1) \<Rightarrow> (finished [Out ''probe %s: OK'' [AStr name]], s1))))"

definition tierCmd :: "'w Adapter Registry \<Rightarrow> string list \<Rightarrow> 'w tier_state command" where
  "tierCmd r args s =
     (case args of
        [] \<Rightarrow> (finished [Usage], s)
      | sub # rest \<Rightarrow>
          if sub = ''help'' \<or> sub = ''--help'' \<or> sub = ''-h'' then (finished [Usage], s)
          else if sub = ''list'' then (tierListCmd r rest, s)
          else if sub = ''info'' then (tierInfoCmd r rest, s)
          else if sub = ''probe'' then tierProbeCmd r rest s
          else (fatal ''nvms tier: unknown subcommand %q'' [AStr sub], s))"

section \<open>\<open>nvms deploy\<close>\<close>

definition deployTier1 :: "'w host \<Rightarrow> 'w tier_op" where
  "deployTier1 h s = (case ad_Deploy (NewWASMAdapter h) (zero_SandboxConfig\<lparr>sc_Name := ''wasm-workload''\<rparr>) s of
     (Inl err, s1) \<Rightarrow> (Some err, s1) | (Inr _, s1) \<Rightarrow> (None, s1))"

definition deployTier2 :: "'w host \<Rightarrow> 'w tier_op" where
  "deployTier2 h s = (case ad_Deploy (NewGVisorAdapter h) (zero_SandboxConfig\<lparr>sc_Name := ''gvisor-workload''\<rparr>) s of
     (Inl err, s1) \<Rightarrow> (Some err, s1) | (Inr _, s1) \<Rightarrow> (None, s1))"

text \<open>\<open>firecracker.NewAdapter\<close> has a table of its own; the counter is the process's.\<close>

definition deployTier3 :: "os_env \<Rightarrow> string \<Rightarrow> 'w tier_state \<Rightarrow> (go_error option \<times> out_line list) \<times> 'w tier_state" where
  "deployTier3 os configPath s =
     (case fc_Create os (zero_SandboxConfig\<lparr>sc_Name := ''fc-workload'', sc_Image := configPath\<rparr>) (new_vm_state (ts_counter s)) of
        (Inl err, v) \<Rightarrow> ((Some (Errorf ''firecracker create: %w'' [AWrap err]), []), s\<lparr>ts_counter := vm_idCounter v\<rparr>)
      | (Inr sb, v) \<Rightarrow> (case fc_Start os (sb_ID (the sb)) v of
          (Some err, v1) \<Rightarrow> ((Some (Errorf ''firecracker start: %w'' [AWrap err]), []), s\<lparr>ts_counter := vm_idCounter v1\<rparr>)
        | (None, v1) \<Rightarrow> ((None, [Out ''Firecracker microVM deployed: %s'' [AStr (sb_ID (the sb))]]), s\<lparr>ts_counter := vm_idCounter v1\<rparr>)))"

definition silent :: "'w tier_op \<Rightarrow> 'w tier_state \<Rightarrow> (go_error option \<times> out_line list) \<times> 'w tier_state" where
  "silent f s = (case f s of (r, s1) \<Rightarrow> ((r, []), s1))"

definition Deploy :: "'w host \<Rightarrow> os_env \<Rightarrow> int \<Rightarrow> string \<Rightarrow> 'w tier_state \<Rightarrow> (go_error option \<times> out_line list) \<times> 'w tier_state" where
  "Deploy h os tierLevel configPath s =
     (case ho_Stat h configPath (ts_world s) of
        Some err \<Rightarrow> ((Some (Errorf ''config file not found: %w'' [AWrap err]), []), s)
      | None \<Rightarrow>
          if tierLevel = 1 then silent (deployTier1 h) s else if tierLevel = 2 then silent (deployTier2 h) s
          else if tierLevel = 3 then deployTier3 os configPath s
          else ((Some (Errorf ''unsupported tier: %d'' [AInt tierLevel]), []), s))"

definition deployCmd :: "'w host \<Rightarrow> os_env \<Rightarrow> (string \<Rightarrow> int option) \<Rightarrow> string list \<Rightarrow> 'w tier_state command" where
  "deployCmd h os pint args =
     with_flags pint [(''tier'', IntFlag), (''config'', StringFlag)] args (\<lambda>vals rest s.
       let tier = int_flag pint vals ''tier'' 1; config = string_flag vals ''config'' ''nvms.yaml'' in
       (case Deploy h os tier config s of
          ((Some err, _), s1) \<Rightarrow> (fatal_error err, s1)
        | ((None, ls), s1) \<Rightarrow> (finished (ls @ [Out ''Deployment completed successfully (tier=%d, config=%s)'' [AInt tier, AStr config]]), s1)))"

section \<open>\<open>nvms serve\<close>\<close>

text \<open>The flags after their defaults were filled in.\<close>

record serve_flags =
  sf_socketPath :: string
  sf_tokenFile :: string
  sf_runBase :: string
  sf_tier :: int
  sf_provider :: string
  sf_listenAddr :: string
  sf_tlsCert :: string
  sf_tlsKey :: string
  sf_oidcIssuer :: string
  sf_oidcAudience :: string
  sf_oidcJWKS :: string

definition serve_flag_kinds :: "(string \<times> flag_kind) list" where
  "serve_flag_kinds = (''tier'', IntFlag) # map (\<lambda>n. (n, StringFlag))
     [''socket'', ''token-file'', ''run-base'', ''provider'', ''listen'', ''tls-cert'', ''tls-key'', ''oidc-issuer'', ''oidc-audience'', ''oidc-jwks'']"

definition or_default :: "string \<Rightarrow> string \<Rightarrow> string" where
  "or_default s dflt = (if s = [] then dflt else s)"

definition serve_defaults :: "(string \<Rightarrow> string) \<Rightarrow> serve_flags \<Rightarrow> serve_flags" where
  "serve_defaults getenv f = f\<lparr>
     sf_socketPath := (if sf_socketPath f = [] \<and> sf_listenAddr f = [] then or_default (getenv ''XDG_RUNTIME_DIR'') ''/tmp'' @ ''/nanovms/routed.sock'' else sf_socketPath f),
     sf_tokenFile := (if sf_tokenFile f = [] then or_default (getenv ''XDG_CONFIG_DIR'') ''/etc/nanovms'' @ ''/tokens'' else sf_tokenFile f),
     sf_runBase := (if sf_runBase f = [] then or_default (getenv ''XDG_RUNTIME_DIR'') ''/tmp'' else sf_runBase f)\<rparr>"

definition read_serve_flags :: "(string \<Rightarrow> int option) \<Rightarrow> (string \<Rightarrow> string) \<Rightarrow> flag_values \<Rightarrow> serve_flags" where
  "read_serve_flags pint getenv vals = (let s = (\<lambda>name. string_flag vals name []) in
     serve_defaults getenv \<lparr>sf_socketPath = s ''socket'', sf_tokenFile = s ''token-file'', sf_runBase = s ''run-base'',
       sf_tier = int_flag pint vals ''tier'' 3, sf_provider = string_flag vals ''provider'' ''tier'', sf_listenAddr = s ''listen'', sf_tlsCert = s ''tls-cert'',
       sf_tlsKey = s ''tls-key'', sf_oidcIssuer = s ''oidc-issuer'', sf_oidcAudience = s ''oidc-audience'', sf_oidcJWKS = s ''oidc-jwks''\<rparr>)"

record ('r, 'e) serve_env =
  se_Getenv :: "string \<Rightarrow> string"
  se_TempDir :: string
  se_ReadFile :: "string \<Rightarrow> string result"
  se_jwt :: "('r, 'e) jwt_lib"
  se_LoadX509KeyPair :: "string \<Rightarrow> string \<Rightarrow> go_error option"
  se_sock :: sock_os

text \<open>What is served: the listener with its address, whether TLS is on, and the fields of \<open>api.Handlers\<close>.\<close>

record ('a, 'r, 'e) served_daemon =
  sd_network :: string
  sd_address :: string
  sd_TLS :: bool
  sd_Port :: "'a port"
  sd_Token :: Manager
  sd_JWTVerifier :: "('r, 'e) JWTVerifier option"
  sd_AuditDir :: string
  sd_Metrics :: "string option"

definition serve_verifier :: "('r, 'e) serve_env \<Rightarrow> serve_flags \<Rightarrow> ('r, 'e) JWTVerifier option result" where
  "serve_verifier env f =
     (if sf_oidcIssuer f \<noteq> [] \<and> sf_oidcJWKS f \<noteq> [] then
        (case se_ReadFile env (sf_oidcJWKS f) of
           Inl err \<Rightarrow> Inl (Errorf ''oidc jwks: %v'' [AErr err])
         | Inr pem \<Rightarrow> (case NewJWTVerifier (se_jwt env) (sf_oidcIssuer f) (sf_oidcAudience f) pem of
             Inl err \<Rightarrow> Inl (Errorf ''oidc verifier: %v'' [AErr err]) | Inr jv \<Rightarrow> Inr (Some jv)))
      else Inr None)"

definition serve_listener :: "('r, 'e) serve_env \<Rightarrow> serve_flags \<Rightarrow> (string \<times> string \<times> bool) result" where
  "serve_listener env f =
     (if sf_listenAddr f \<noteq> [] then
        (case (if sf_tlsCert f \<noteq> [] \<and> sf_tlsKey f \<noteq> [] then
                 (case se_LoadX509KeyPair env (sf_tlsCert f) (sf_tlsKey f) of
                    Some err \<Rightarrow> Inl (Errorf ''failed to load TLS cert/key: %v'' [AErr err]) | None \<Rightarrow> Inr True)
               else Inr False) of
           Inl err \<Rightarrow> Inl err
         | Inr tls \<Rightarrow> (case fst (NewTCP (se_sock env) (sf_listenAddr f)) of
             Inl err \<Rightarrow> Inl (Errorf ''tcp listener: %v'' [AErr err]) | Inr addr \<Rightarrow> Inr (''tcp'', addr, tls)))
      else (case fst (NewUDS (se_sock env) (sf_socketPath f) (sf_runBase f)) of
         Inl err \<Rightarrow> Inl (Errorf ''uds listener: %v'' [AErr err]) | Inr p \<Rightarrow> Inr (''unix'', p, False)))"

definition serve_setup :: "'a Registry \<Rightarrow> ('r, 'e) serve_env \<Rightarrow> serve_flags \<Rightarrow> ('a, 'r, 'e) served_daemon result" where
  "serve_setup reg env f =
     (case NewManager (se_ReadFile env) (sf_tokenFile f) of
        Inl err \<Rightarrow> Inl (Errorf ''token manager: %v'' [AErr err])
      | Inr tm \<Rightarrow> (case serve_verifier env f of
          Inl err \<Rightarrow> Inl err
        | Inr jv \<Rightarrow> (case serve_listener env f of
            Inl err \<Rightarrow> Inl err
          | Inr (network, addr, tls) \<Rightarrow> (case NewProvider reg (toLower (trimSpace (sf_provider f))) (sf_tier f) of
              Inl err \<Rightarrow> Inl (Errorf ''adapter (provider %s, tier %d): %v'' [AStr (sf_provider f), AInt (sf_tier f), AErr err])
            | Inr adapter \<Rightarrow> Inr \<lparr>sd_network = network, sd_address = addr, sd_TLS = tls, sd_Port = adapter, sd_Token = tm, sd_JWTVerifier = jv,
                sd_AuditDir = or_default (se_Getenv env ''NVMS_AUDIT_PATH'') (se_TempDir env), sd_Metrics = None\<rparr>))))"

text \<open>The exit code, or the daemon that is served.\<close>

definition serveCmd :: "'a Registry \<Rightarrow> ('r, 'e) serve_env \<Rightarrow> (string \<Rightarrow> int option) \<Rightarrow> string list \<Rightarrow> outcome + ('a, 'r, 'e) served_daemon" where
  "serveCmd reg env pint args =
     (case parse_flags pint serve_flag_kinds args [] of
        Inl code \<Rightarrow> Inl ([], code)
      | Inr (vals, _) \<Rightarrow> (case serve_setup reg env (read_serve_flags pint (se_Getenv env) vals) of Inl err \<Rightarrow> Inl (fatal_error err) | Inr d \<Rightarrow> Inr d))"

section \<open>\<open>nvms token\<close> and the dispatch\<close>

definition tokenCmd :: "(nat \<Rightarrow> nat list result) \<Rightarrow> string list \<Rightarrow> 'd command" where
  "tokenCmd rand args =
     with_flags (\<lambda>_. None) [] args (\<lambda>vals rest d.
       (if rest = [] \<or> rest ! 0 = ''help'' then finished [Usage]
        else if rest ! 0 = ''mint'' then (case MintToken rand of Inl err \<Rightarrow> fatal ''mint: %v'' [AErr err] | Inr tok \<Rightarrow> finished [Out ''%s'' [AStr tok]])
        else if rest ! 0 = ''list'' then finished [Out ''token list: not yet implemented (manager does not expose enumeration)'' []]
        else fatal ''nvms token: unknown subcommand %q'' [AStr (rest ! 0)], d))"

datatype nvms_action = ShowUsage int | UnknownCommand string | DeployAction "string list" | ServeAction "string list" | TokenAction "string list"
  | VmAction "string list" | TierAction "string list"

text \<open>\<open>main\<close> on \<open>os.Args\<close>, whose first element is the program.\<close>

definition nvms_main :: "string list \<Rightarrow> nvms_action" where
  "nvms_main argv =
     (if length argv < 2 then ShowUsage 1
      else let c = argv ! 1; args = drop 2 argv in
        if c = ''deploy'' then DeployAction args else if c = ''serve'' then ServeAction args else if c = ''token'' then TokenAction args
        else if c = ''vm'' then VmAction args else if c = ''tier'' then TierAction args
        else if c = ''help'' \<or> c = ''--help'' \<or> c = ''-h'' then ShowUsage 0 else UnknownCommand c)"

section \<open>\<open>nanovms\<close>\<close>

text \<open>The operations of the ports that \<open>NewProvider\<close> returns, on what a new process finds.\<close>

record ('a, 's) port_ops =
  po_Create :: "'a port \<Rightarrow> SandboxConfig \<Rightarrow> 's \<Rightarrow> Sandbox result \<times> 's"
  po_Start :: "'a port \<Rightarrow> string \<Rightarrow> 's \<Rightarrow> go_error option \<times> 's"
  po_Stop :: "'a port \<Rightarrow> string \<Rightarrow> bool \<Rightarrow> 's \<Rightarrow> go_error option \<times> 's"
  po_Delete :: "'a port \<Rightarrow> string \<Rightarrow> 's \<Rightarrow> go_error option \<times> 's"

definition detectPlatform :: "string \<Rightarrow> string" where
  "detectPlatform goos = (if goos = ''darwin'' then ''mac'' else if goos = ''windows'' then ''windows'' else ''linux'')"

definition run_config :: "Config \<Rightarrow> int \<Rightarrow> SandboxConfig" where
  "run_config cfg tier = zero_SandboxConfig\<lparr>sc_VMType := ''tier-'' @ itoa tier, sc_SandboxType := SandboxTypeContainer,
     sc_Labels := [(''nanovms.name'', cf_Name cfg), (''nanovms.image'', cf_Image cfg), (''nanovms.tier'', itoa tier)]\<rparr>"

definition nanovms_runCmd :: "'a Registry \<Rightarrow> ('a, 's) port_ops \<Rightarrow> (string \<Rightarrow> string result) \<Rightarrow> (string \<Rightarrow> string result) \<Rightarrow> string \<Rightarrow>
    (string \<Rightarrow> int option) \<Rightarrow> string list \<Rightarrow> 's command" where
  "nanovms_runCmd reg ops ReadFile Unquote goos pint args =
     with_flags pint [(''platform'', StringFlag), (''tier'', IntFlag)] args (\<lambda>vals rest s.
       if length rest < 1 then (fatal ''usage: nanovms run [--platform <p>] [--tier <n>] <config.toml>'' [], s)
       else case config_Load ReadFile Unquote (rest ! 0) of
         Inl err \<Rightarrow> (fatal ''error loading config: %v'' [AErr err], s)
       | Inr cfg \<Rightarrow>
           let override = int_flag pint vals ''tier'' 0;
               tier = (if override > 0 then override else cf_Tier cfg);
               plat = (if string_flag vals ''platform'' [] = [] then detectPlatform goos else string_flag vals ''platform'' []);
               first = Out ''Deploying %q on tier %d (platform=%s)'' [AStr (cf_Name cfg), AInt tier, AStr plat] in
           (case NewProvider reg ''tier'' tier of
              Inl err \<Rightarrow> (([first, ErrLine ''error creating adapter: %v'' [AErr err]], 1), s)
            | Inr port \<Rightarrow> (case po_Create ops port (run_config cfg tier) s of
                (Inl err, s1) \<Rightarrow> (([first, ErrLine ''error creating sandbox: %v'' [AErr err]], 1), s1)
              | (Inr sb, s1) \<Rightarrow>
                  let made = [Out ''Sandbox created: %s (name=%s, tier=%d)'' [AStr (sb_ID sb), AStr (sb_Name sb), AInt tier], Out ''Status: %s'' [AStr (sb_Status sb)]] in
                  (case po_Start ops port (sb_ID sb) s1 of
                     (r, s2) \<Rightarrow> (finished (first # made @ (case r of Some err \<Rightarrow> [ErrLine ''warning: could not start sandbox: %v'' [AErr err]] | None \<Rightarrow> []) @
                       [Out ''Done.'' []]), s2)))))"

definition nanovms_stopCmd :: "'a Registry \<Rightarrow> ('a, 's) port_ops \<Rightarrow> string list \<Rightarrow> 's command" where
  "nanovms_stopCmd reg ops args =
     with_flags (\<lambda>_. None) [(''force'', BoolFlag)] args (\<lambda>vals rest s.
       if length rest < 1 then (fatal ''usage: nanovms stop [--force] <sandbox-id>'' [], s)
       else let i = rest ! 0 in
         (case NewProvider reg ''tier'' 2 of
            Inl err \<Rightarrow> (fatal ''error creating adapter: %v'' [AErr err], s)
          | Inr port \<Rightarrow> (case po_Stop ops port i (truthy (string_flag vals ''force'' ''false'')) s of
              (Some err, s1) \<Rightarrow> (fatal ''error stopping sandbox %s: %v'' [AStr i, AErr err], s1)
            | (None, s1) \<Rightarrow> (case po_Delete ops port i s1 of
                (Some err, s2) \<Rightarrow> (fatal ''error removing sandbox %s: %v'' [AStr i, AErr err], s2)
              | (None, s2) \<Rightarrow> (finished [Out ''Sandbox %s stopped.'' [AStr i]], s2)))))"

definition known_tiers :: "(int \<times> string \<times> string) list" where
  "known_tiers =
     [(1, ''WASM'', ''WebAssembly sandbox (<1ms startup)''), (2, ''gVisor'', ''User-space kernel sandbox (~100ms)''),
      (3, ''Firecracker'', ''MicroVM (~125ms startup)''), (4, ''QEMU'', ''Full virtual machine (~2s)''), (5, ''Podman'', ''OCI container runtime''),
      (6, ''Landlock'', ''Linux kernel sandboxing''), (7, ''Seccomp'', ''System call filtering''), (8, ''Native'', ''bwrap/firejail sandboxing''),
      (9, ''LXC'', ''Linux Containers''), (10, ''Docker'', ''Docker runtime'')]"

definition nanovms_tierListCmd :: outcome where
  "nanovms_tierListCmd = finished (Out (''TIER'' @ [CHR 0x09] @ ''NAME'' @ [CHR 0x09, CHR 0x09] @ ''DESCRIPTION'') [] #
     Out (''----'' @ [CHR 0x09] @ ''----'' @ [CHR 0x09, CHR 0x09] @ ''-----------'') [] #
     map (\<lambda>(num, name, desc). Out (''%d'' @ [CHR 0x09] @ ''%s'' @ [CHR 0x09] @ ''%s'')
       [AInt num, AStr (if length name < 8 then name @ [CHR 0x09] else name), AStr desc]) known_tiers)"

text \<open>\<open>fmt.Sscanf\<close> of the argument is the parameter \<open>scan\<close>.\<close>

definition nanovms_tierProbeCmd :: "'a Registry \<Rightarrow> (string \<Rightarrow> int option) \<Rightarrow> string \<Rightarrow> outcome" where
  "nanovms_tierProbeCmd reg scan tierStr =
     (case scan tierStr of
        None \<Rightarrow> fatal ''invalid tier number: %s (must be 1-30)'' [AStr tierStr]
      | Some tier \<Rightarrow>
          if tier < 1 \<or> tier > 30 then fatal ''invalid tier number: %s (must be 1-30)'' [AStr tierStr]
          else (case NewProvider reg ''tier'' tier of
              Inl err \<Rightarrow> finished [Out ''Tier %d: NOT AVAILABLE (%v)'' [AInt tier, AErr err]]
            | Inr _ \<Rightarrow> finished [Out ''Tier %d: AVAILABLE'' [AInt tier]]))"

definition nanovms_tierCmd :: "'a Registry \<Rightarrow> (string \<Rightarrow> int option) \<Rightarrow> string list \<Rightarrow> outcome" where
  "nanovms_tierCmd reg scan args =
     (if length args = 0 \<or> args ! 0 = ''help'' then finished [Usage]
      else if args ! 0 = ''list'' then nanovms_tierListCmd
      else if args ! 0 = ''probe'' then
        (if length args < 2 then fatal ''usage: nanovms tier probe <tier-number>'' [] else nanovms_tierProbeCmd reg scan (args ! 1))
      else fatal ''nanovms tier: unknown subcommand %q'' [AStr (args ! 0)])"

definition nanovms_listCmd :: outcome where
  "nanovms_listCmd = finished [Out (''ID'' @ [CHR 0x09, CHR 0x09] @ ''NAME'' @ [CHR 0x09] @ ''STATUS'' @ [CHR 0x09] @ ''TIER'') [],
     Out (''--'' @ [CHR 0x09, CHR 0x09] @ ''----'' @ [CHR 0x09] @ ''------'' @ [CHR 0x09] @ ''----'') [], Out ''(connect to nvms daemon with: nvms vm list)'' []]"

datatype nanovms_action = NanoUsage int | NanoUnknown string | RunAction "string list" | StopAction "string list" | ListAction | NanoTierAction "string list"
  | VersionAction

definition nanovms_main :: "string list \<Rightarrow> nanovms_action" where
  "nanovms_main argv =
     (if length argv < 2 then NanoUsage 1
      else let c = argv ! 1; args = drop 2 argv in
        if c = ''run'' then RunAction args else if c = ''stop'' then StopAction args else if c = ''list'' then ListAction
        else if c = ''tier'' then NanoTierAction args else if c = ''version'' then VersionAction
        else if c = ''help'' \<or> c = ''--help'' \<or> c = ''-h'' then NanoUsage 0 else NanoUnknown c)"

section \<open>\<open>agentctl\<close>\<close>

text \<open>A parameter that is not a string reads as the empty one.\<close>

record agent_request =
  ar_Method :: string
  ar_String :: "string \<Rightarrow> string"

datatype agent_result = Created string string time | Listing | Status string string

record agent_response =
  as_OK :: bool
  as_Result :: "agent_result option"
  as_Err :: string

definition agent_ok :: "agent_result \<Rightarrow> agent_response" where "agent_ok r = \<lparr>as_OK = True, as_Result = Some r, as_Err = []\<rparr>"
definition agent_err :: "string \<Rightarrow> agent_response" where "agent_err e = \<lparr>as_OK = False, as_Result = None, as_Err = e\<rparr>"

definition agent_dispatch :: "time \<Rightarrow> agent_request \<Rightarrow> agent_response" where
  "agent_dispatch now r =
     (if ar_Method r = ''sandbox.create'' then
        (let name = ar_String r ''name'' in
         if name = [] then agent_err (''sandbox.create: missing '' @ [CHR 0x27] @ ''name'' @ [CHR 0x27] @ '' param'') else agent_ok (Created (''sb-'' @ itoa now) name now))
      else if ar_Method r = ''sandbox.list'' then agent_ok Listing
      else if ar_Method r = ''sandbox.get'' then
        (let i = ar_String r ''id'' in
         if i = [] then agent_err (''sandbox.get: missing '' @ [CHR 0x27] @ ''id'' @ [CHR 0x27] @ '' param'') else agent_ok (Status i ''running''))
      else agent_err (''unknown method: '' @ ar_Method r))"

text \<open>A line with what the clock says when it is handled; \<open>Unmarshal\<close> gives the request or the text of its error.\<close>

definition agent_line :: "(string \<Rightarrow> string + agent_request) \<Rightarrow> string \<times> time \<Rightarrow> agent_response" where
  "agent_line Unmarshal l = (case Unmarshal (fst l) of Inl err \<Rightarrow> agent_err (''invalid json: '' @ err) | Inr r \<Rightarrow> agent_dispatch (snd l) r)"

text \<open>The lines up to the first one that does not fit into the buffer, which ends the program with an error.\<close>

fun agent_main :: "(string \<Rightarrow> string + agent_request) \<Rightarrow> (string \<times> time) list \<Rightarrow> agent_response list \<times> int" where
  "agent_main Unmarshal [] = ([], 0)"
| "agent_main Unmarshal (l # ls) =
     (if length (fst l) \<ge> 1024 * 1024 then ([], 1) else map_prod ((#) (agent_line Unmarshal l)) (\<lambda>c. c) (agent_main Unmarshal ls))"

section \<open>What the commands do\<close>

text \<open>The call that a command line of \<open>nvms vm\<close> makes.\<close>

definition vm_call :: "string list \<Rightarrow> client_call option" where
  "vm_call rest =
     (if rest = [] then None
      else if rest ! 0 = ''list'' then Some ListCall
      else if rest ! 0 = ''exec'' \<and> length rest \<ge> 3 then Some (ExecCall (rest ! 1) (drop 2 rest))
      else if rest ! 0 = ''logs'' \<and> length rest \<ge> 2 then Some (LogsCall (rest ! 1) False)
      else None)"

lemma call_failed: "map_prod (\<lambda>r. \<not> isl r) (\<lambda>s. s) x = (False, d') \<Longrightarrow> \<exists>err. x = (Inl err, d')"
  by (cases x; cases "fst x") auto

lemma vm_subcommand_performs:
  assumes "vm_call rest = Some call" and "perform lib do cl call d = (False, d')"
  shows "\<exists>out. vm_subcommand lib do cl rest d = ((out, 1), d')"
proof (cases call)
  case ListCall
  then have "rest ! 0 = ''list''" using assms(1) by (simp add: vm_call_def split: if_splits)
  moreover obtain err where "client_ListSandboxes lib do cl d = (Inl err, d')" using call_failed [OF assms(2) [unfolded ListCall perform.simps]] by blast
  ultimately show ?thesis by (simp add: vm_subcommand_def fatal_error_def fatal_def)
next
  case (ExecCall i cmd)
  then have "rest ! 0 = ''exec''" "length rest \<ge> 3" "i = rest ! 1" "cmd = drop 2 rest" using assms(1) by (simp_all add: vm_call_def split: if_splits)
  moreover obtain err where "client_Exec lib do cl i cmd d = (Inl err, d')" using call_failed [OF assms(2) [unfolded ExecCall perform.simps]] by blast
  ultimately show ?thesis by (simp add: vm_subcommand_def fatal_error_def fatal_def)
next
  case (LogsCall i follow)
  then have "rest ! 0 = ''logs''" "length rest \<ge> 2" "i = rest ! 1" "follow = False" using assms(1) by (simp_all add: vm_call_def split: if_splits)
  moreover obtain err where "client_Logs lib do cl i follow d = (Inl err, d')" using call_failed [OF assms(2) [unfolded LogsCall perform.simps]] by blast
  ultimately show ?thesis by (simp add: vm_subcommand_def fatal_error_def fatal_def)
qed

text \<open>
  C38. \<open>nvms vm\<close> never gets past authentication: its client has no token and no flag or variable to set one, so against every daemon,
  whatever its tokens or verifier, \<open>list\<close>, \<open>exec\<close> and \<open>logs\<close> (on identifiers without slashes and escapes) exit with code 1 and leave the sandboxes alone.
\<close>

theorem vm_commands_refused:
  assumes "parse_flags pint [(''socket'', StringFlag)] args [] = Inr (vals, rest)" and "vm_call rest = Some call" and "call_plain call"
    and "splits_url url (call_target call) (call_path call)"
  shows "\<exists>out d'. vmCmd lib (\<lambda>_. deliver h env url) getenv pint args d = ((out, 1), d') \<and> dm_port d' = dm_port d"
proof -
  let ?cl = "NewClient getenv (string_flag vals ''socket'' [])"
  have "cl_token ?cl = []" by (simp add: NewClient_def newClient_def Let_def)
  from tokenless_call_refused [OF this assms(3,4), of lib h env d] obtain d' where
    d': "perform lib (deliver h env url) ?cl call d = (False, d')" "dm_port d' = dm_port d" by blast
  have "rest \<noteq> []" "rest ! 0 \<noteq> ''help''" using assms(2) by (auto simp: vm_call_def split: if_splits)
  then have "vmCmd lib (\<lambda>_. deliver h env url) getenv pint args d = vm_subcommand lib (deliver h env url) ?cl rest d"
    unfolding vmCmd_def with_flags_def assms(1) sum.case prod.case by simp
  then show ?thesis using vm_subcommand_performs [OF assms(2) d'(1)] d'(2) by auto
qed

theorem vm_commands_refused_witness:
  "\<exists>out d'. vmCmd demo_client_lib (\<lambda>_. deliver demo_handlers demo_env plain_url) (\<lambda>_. []) (\<lambda>_. None) [''exec'', ''7'', ''ls'']
     (new_daemon \<lparr>fl_round = id, fl_fused = False\<rparr> 0 None 3) = ((out, 1), d') \<and> dm_port d' = 3"
proof -
  have "splits_url plain_url (call_target (ExecCall ''7'' [''ls''])) (call_path (ExecCall ''7'' [''ls'']))" by code_simp
  then show ?thesis
    using vm_commands_refused [of "\<lambda>_. None" "[''exec'', ''7'', ''ls'']" "[]" "[''exec'', ''7'', ''ls'']" "ExecCall ''7'' [''ls'']" plain_url
        demo_client_lib demo_handlers demo_env "\<lambda>_. []" "new_daemon \<lparr>fl_round = id, fl_fused = False\<rparr> 0 None 3"]
    by (simp add: vm_call_def plain_id_def new_daemon_def)
qed

text \<open>The daemon and its client agree on where the socket is when neither is told.\<close>

lemma default_sockets_agree:
  assumes "f = serve_defaults getenv g" and "sf_socketPath g = []" and "sf_listenAddr g = []"
    and "getenv ''XDG_RUNTIME_DIR'' = [] \<or> isAbs (getenv ''XDG_RUNTIME_DIR'')"
  shows "resolveSocket (sf_socketPath f) (sf_runBase f) = cl_socketPath (NewClient getenv [])"
  using assms by (auto simp: serve_defaults_def or_default_def resolveSocket_def NewClient_def newClient_def isAbs_def Let_def)

text \<open>\<open>--listen\<close> without a certificate or without a key serves plain TCP.\<close>

lemma listen_without_certificate:
  assumes "serve_setup reg env f = Inr d" and "sf_listenAddr f \<noteq> []"
  shows "sd_network d = ''tcp''" and "sd_TLS d \<longleftrightarrow> sf_tlsCert f \<noteq> [] \<and> sf_tlsKey f \<noteq> []"
  using assms by (auto simp: serve_setup_def serve_listener_def split: sum.splits if_splits option.splits)

text \<open>The metrics endpoint of a served daemon has no collector behind it.\<close>

lemma served_without_metrics: "serve_setup reg env f = Inr d \<Longrightarrow> sd_Metrics d = None"
  by (auto simp: serve_setup_def split: sum.splits)

text \<open>No daemon is served without a token file that lists a token, with OIDC neither; an issuer without a key file is ignored.\<close>

lemma served_has_tokens:
  assumes "serve_setup reg env f = Inr d"
  shows "mg_tokens (sd_Token d) \<noteq> []"
  using assms by (auto simp: serve_setup_def NewManager_def FromString_def split: sum.splits if_splits)

lemma issuer_without_keys: "serve_setup reg env f = Inr d \<Longrightarrow> sf_oidcJWKS f = [] \<Longrightarrow> sd_JWTVerifier d = None"
  by (auto simp: serve_setup_def serve_verifier_def split: sum.splits)

lemma join_from_join: "join_from (Suc i) p out = (if p = [] then out else out @ '','' @ join p '','')"
  by (induction p arbitrary: i out) (auto simp: neq_Nil_conv)

lemma joinShort_join: "joinShort p = (if p = [] then ''(any)'' else join p '','')"
proof (cases p)
  case (Cons s q)
  then show ?thesis by (simp add: joinShort_def join_from_join join_Cons)
qed (simp add: joinShort_def)

text \<open>\<open>nanovms tier probe\<close> looks at nothing on the host: every tier but the first is available.\<close>

lemma probe_reports_available:
  assumes "scan t = Some n" and "2 \<le> n" and "n \<le> 30"
  shows "nanovms_tierProbeCmd reg scan t = finished [Out ''Tier %d: AVAILABLE'' [AInt n]]"
proof -
  have "n = 2 \<or> n = 3 \<or> n \<in> set (map fst tierName)" using assms(2,3) by (simp add: tierName_def) presburger
  then have "n = 2 \<or> n = 3 \<or> (\<exists>name. map_of tierName n = Some name)" by (auto simp: map_of_eq_Some_iff tierName_def)
  then have "\<exists>port. NewProvider reg ''tier'' n = Inr port"
    using assms(2,3) by (auto simp: NewProvider_def NewSandboxPort_def split: option.split)
  then obtain port where "NewProvider reg ''tier'' n = Inr port" by blast
  then show ?thesis using assms by (simp add: nanovms_tierProbeCmd_def)
qed

text \<open>\<open>nanovms stop\<close> is a new process with an empty table of sandboxes: it stops none.\<close>

definition gvisor_ops :: "os_env \<Rightarrow> ('a, vm_state) port_ops \<Rightarrow> ('a, vm_state) port_ops" where
  "gvisor_ops os other = other\<lparr>
     po_Stop := (\<lambda>p. if p = GVisorPort then gv_Stop os else po_Stop other p),
     po_Delete := (\<lambda>p. if p = GVisorPort then gv_Delete os else po_Delete other p)\<rparr>"

lemma stop_finds_nothing:
  assumes "parse_flags (\<lambda>_. None) [(''force'', BoolFlag)] args [] = Inr (vals, i # rest)"
  shows "nanovms_stopCmd reg (gvisor_ops os other) args (new_vm_state n) =
    (fatal ''error stopping sandbox %s: %v'' [AStr i, AErr (Errorf ''sandbox not found: %s'' [AStr i])], new_vm_state n)"
  unfolding nanovms_stopCmd_def with_flags_def assms
  by (simp add: NewProvider_def NewSandboxPort_def gvisor_ops_def gv_Stop_def new_vm_state_def)

text \<open>The configuration that \<open>nanovms run\<close> creates has neither the name nor the image of the file, which are labels only.\<close>

lemma run_config_unnamed: "sc_Name (run_config cfg tier) = []" "sc_Image (run_config cfg tier) = []"
  by (simp_all add: run_config_def zero_SandboxConfig_def)

text \<open>\<open>agentctl\<close> answers each line once and in order, as long as every line fits.\<close>

lemma agent_answers_each: "list_all (\<lambda>l. length (fst l) < 1024 * 1024) ls \<Longrightarrow> agent_main Unmarshal ls = (map (agent_line Unmarshal) ls, 0)"
  by (induction ls) auto

end
