(* ===== verification/Daemon_Ports.thy ===== *)
theory Daemon_Ports
  imports Vm_Adapters Process_Adapter Engine Tier_Adapters
begin

text \<open>
  The ports that the daemon can serve, completed to the whole interface \<open>ports.SandboxPort\<close>: logs, commands, metrics and port forwarding
  of the Firecracker, gVisor and process adapters (\<open>internal/adapters\<close>), and the wrapper around a tier and the stub of
  \<open>internal/adapters/sandbox.go\<close>. A stream runs in the world of the host; the tables of an adapter do not change.
\<close>

section \<open>Streams\<close>

text \<open>\<open>StdoutPipe\<close>, and then the pipe with the error of \<open>Start\<close>; a reader that comes with an error is not used.\<close>

definition open_stream :: "'w host \<Rightarrow> string list \<Rightarrow> 'w \<Rightarrow> string result \<times> 'w" where
  "open_stream h argv w = (case ho_StdoutPipe h argv w of Some err \<Rightarrow> (Inl err, w) | None \<Rightarrow> ho_Stream h argv w)"

text \<open>\<open>socat\<close> in the background, the same in both adapters of machines.\<close>

definition forward_port :: "'w host \<Rightarrow> int \<Rightarrow> int \<Rightarrow> 'w \<Rightarrow> string result \<times> 'w" where
  "forward_port h localPort remotePort w =
     (case ho_Start h [''socat'', ''TCP-LISTEN:'' @ itoa localPort @ '',fork,reuseaddr'', ''TCP:172.16.0.2:'' @ itoa remotePort] w of
        (Inl err, w1) \<Rightarrow> (Inl err, w1) | (Inr _, w1) \<Rightarrow> (Inr (''127.0.0.1:'' @ itoa localPort), w1))"

definition sample_of :: "string \<Rightarrow> 'f \<Rightarrow> int \<Rightarrow> 'f SandboxMetrics" where
  "sample_of i cpu mem = \<lparr>sm_SandboxID = i, sm_CPUUsage = cpu, sm_MemoryUsage = mem, sm_DiskUsage = 0, sm_NetworkRx = 0, sm_NetworkTx = 0\<rparr>"

section \<open>Firecracker\<close>

definition fc_Logs :: "'w host \<Rightarrow> vm_state \<Rightarrow> string \<Rightarrow> bool \<Rightarrow> 'w \<Rightarrow> string result \<times> 'w" where
  "fc_Logs h v i follow w =
     (case map_of (vm_cmds v) i of
        None \<Rightarrow> (Inl (Errorf ''vm not running: %s'' [AStr i]), w)
      | Some pid \<Rightarrow> open_stream h ([''journalctl'', ''--no-pager'', ''-p'', ''info'', ''_PID='' @ itoa pid] @ (if follow then [''-f''] else [])) w)"

definition fc_Exec :: "'w host \<Rightarrow> vm_state \<Rightarrow> string \<Rightarrow> string list \<Rightarrow> 'w \<Rightarrow> string result \<times> 'w" where
  "fc_Exec h v i cmdArgs w =
     (if map_of (vm_sandboxes v) i = None then (Inl (Errorf ''vm not found: %s'' [AStr i]), w)
      else case map_of (vm_cmds v) i of
        None \<Rightarrow> (Inl (Errorf ''vm %s not running'' [AStr i]), w)
      | Some pid \<Rightarrow>
          if pid \<le> 0 then (Inl (Errorf ''vm %s not running'' [AStr i]), w)
          else (case ho_LookPath h ''jailer'' w of
              Inl _ \<Rightarrow> (Inl (Errorf ''exec requires jailer; use firecracker vsock for VM-exec'' []), w)
            | Inr _ \<Rightarrow> open_stream h ([''nsenter'', ''-t'', itoa pid, ''-m'', ''-u'', ''-i'', ''-p'', ''--''] @ cmdArgs) w))"

text \<open>\<open>scan\<close> is \<open>fmt.Sscanf\<close> of a text with a format; 0 when nothing matches.\<close>

definition fc_Metrics :: "'w host \<Rightarrow> (string \<Rightarrow> string \<Rightarrow> int) \<Rightarrow> 'f \<Rightarrow> vm_state \<Rightarrow> string \<Rightarrow> 'w \<Rightarrow> 'f SandboxMetrics result" where
  "fc_Metrics h scan zero v i w =
     (if map_of (vm_sandboxes v) i = None then Inl (Errorf ''vm not found: %s'' [AStr i])
      else Inr (sample_of i zero (case map_of (vm_cmds v) i of
          None \<Rightarrow> 0
        | Some pid \<Rightarrow> if pid > 0 then (case ho_ReadFile h (''/proc/'' @ itoa pid @ ''/status'') w of
              Inl _ \<Rightarrow> 0 | Inr b \<Rightarrow> scan b ''VmRSS: %d kB'' * 1024) else 0)))"

definition fc_PortForward :: "'w host \<Rightarrow> vm_state \<Rightarrow> string \<Rightarrow> int \<Rightarrow> int \<Rightarrow> 'w \<Rightarrow> string result \<times> 'w" where
  "fc_PortForward h v i localPort remotePort w =
     (if map_of (vm_sandboxes v) i = None then (Inl (Errorf ''vm not found: %s'' [AStr i]), w) else forward_port h localPort remotePort w)"

text \<open>An operation on the tables and one on the world, on the pair of both.\<close>

definition on_table :: "('v \<Rightarrow> 'r \<times> 'v) \<Rightarrow> 'w \<times> 'v \<Rightarrow> 'r \<times> 'w \<times> 'v" where
  "on_table f st = (case st of (w, v) \<Rightarrow> (case f v of (r, v1) \<Rightarrow> (r, w, v1)))"

definition on_host :: "('v \<Rightarrow> 'w \<Rightarrow> 'r \<times> 'w) \<Rightarrow> 'w \<times> 'v \<Rightarrow> 'r \<times> 'w \<times> 'v" where
  "on_host f st = (case st of (w, v) \<Rightarrow> (case f v w of (r, w1) \<Rightarrow> (r, w1, v)))"

definition fc_port :: "os_env \<Rightarrow> 'w host \<Rightarrow> ('w \<times> vm_state) SandboxPort" where
  "fc_port env h = \<lparr>sp_Create = (\<lambda>cfg. on_table (fc_Create env cfg)), sp_Start = (\<lambda>i. on_table (fc_Start env i)),
     sp_Stop = (\<lambda>i force. on_table (fc_Stop env i force)), sp_Delete = (\<lambda>i. on_table (fc_Delete env i)),
     sp_List = on_table (\<lambda>v. (Inr (fc_List v), v)), sp_Get = (\<lambda>i. on_table (\<lambda>v. (fc_Get env i v, v))),
     sp_Logs = (\<lambda>i follow. on_host (\<lambda>v. fc_Logs h v i follow)), sp_Exec = (\<lambda>i cmd. on_host (\<lambda>v. fc_Exec h v i cmd)),
     sp_PortForward = Some (\<lambda>i l r. on_host (\<lambda>v. fc_PortForward h v i l r))\<rparr>"

section \<open>gVisor\<close>

definition runsc_path :: "'w host \<Rightarrow> 'w \<Rightarrow> string" where
  "runsc_path h w = (case ho_LookPath h ''runsc'' w of Inl _ \<Rightarrow> [] | Inr bin \<Rightarrow> bin)"

definition gv_Logs :: "'w host \<Rightarrow> vm_state \<Rightarrow> string \<Rightarrow> bool \<Rightarrow> 'w \<Rightarrow> string result \<times> 'w" where
  "gv_Logs h v i follow w =
     (if map_of (vm_sandboxes v) i = None then (Inl (Errorf ''sandbox not found: %s'' [AStr i]), w)
      else open_stream h ([runsc_path h w, ''logs''] @ (if follow then [''-f''] else []) @ [i]) w)"

definition gv_Exec :: "'w host \<Rightarrow> vm_state \<Rightarrow> string \<Rightarrow> string list \<Rightarrow> 'w \<Rightarrow> string result \<times> 'w" where
  "gv_Exec h v i cmdArgs w =
     (if map_of (vm_sandboxes v) i = None then (Inl (Errorf ''sandbox not found: %s'' [AStr i]), w)
      else open_stream h ([runsc_path h w, ''exec'', i, ''--''] @ cmdArgs) w)"

definition gv_Metrics :: "'w host \<Rightarrow> (string \<Rightarrow> 'f option) \<Rightarrow> 'f \<Rightarrow> vm_state \<Rightarrow> string \<Rightarrow> 'w \<Rightarrow> 'f SandboxMetrics result \<times> 'w" where
  "gv_Metrics h scan_f zero v i w =
     (if map_of (vm_sandboxes v) i = None then (Inl (Errorf ''sandbox not found: %s'' [AStr i]), w)
      else (case ho_Output h [runsc_path h w, ''events'', ''--stats'', i] w of
          ((out, None), w1) \<Rightarrow> (Inr (sample_of i (case scan_f out of Some x \<Rightarrow> x | None \<Rightarrow> zero) 0), w1)
        | ((_, Some _), w1) \<Rightarrow> (Inr (sample_of i zero 0), w1)))"

definition gv_PortForward :: "'w host \<Rightarrow> vm_state \<Rightarrow> string \<Rightarrow> int \<Rightarrow> int \<Rightarrow> 'w \<Rightarrow> string result \<times> 'w" where
  "gv_PortForward h v i localPort remotePort w =
     (if map_of (vm_sandboxes v) i = None then (Inl (Errorf ''sandbox not found: %s'' [AStr i]), w) else forward_port h localPort remotePort w)"

definition gv_port :: "os_env \<Rightarrow> 'w host \<Rightarrow> ('w \<times> vm_state) SandboxPort" where
  "gv_port env h = \<lparr>sp_Create = (\<lambda>cfg. on_table (gv_Create env cfg)), sp_Start = (\<lambda>i. on_table (gv_Start env i)),
     sp_Stop = (\<lambda>i force. on_table (gv_Stop env i force)), sp_Delete = (\<lambda>i. on_table (gv_Delete env i)),
     sp_List = on_table (\<lambda>v. (Inr (gv_List v), v)), sp_Get = (\<lambda>i. on_table (\<lambda>v. (gv_Get env i v, v))),
     sp_Logs = (\<lambda>i follow. on_host (\<lambda>v. gv_Logs h v i follow)), sp_Exec = (\<lambda>i cmd. on_host (\<lambda>v. gv_Exec h v i cmd)),
     sp_PortForward = Some (\<lambda>i l r. on_host (\<lambda>v. gv_PortForward h v i l r))\<rparr>"

section \<open>The process adapter\<close>

definition safeVars :: "string list" where
  "safeVars = [''HOME'', ''USER'', ''SHELL'', ''LANG'', ''LC_ALL'', ''LC_CTYPE'', ''PATH'', ''TMPDIR'', ''TMP'', ''TEMP'', ''TERM'', ''COLORTERM'', ''NO_COLOR'',
     ''USERPROFILE'', ''APPDATA'', ''LOCALAPPDATA'', ''SystemRoot'', ''windir'', ''ProgramFiles'']"

definition proc_mergeEnvironment :: "(string \<Rightarrow> string option) \<Rightarrow> (string, string) gomap \<Rightarrow> string list" where
  "proc_mergeEnvironment lookup env =
     concat (map (\<lambda>key. case lookup key of Some val \<Rightarrow> [key @ ''='' @ val] | None \<Rightarrow> []) safeVars) @ map (\<lambda>(key, val). key @ ''='' @ val) env"

definition proc_Logs :: "'w host \<Rightarrow> process_state \<Rightarrow> string \<Rightarrow> bool \<Rightarrow> 'w \<Rightarrow> string result" where
  "proc_Logs h s i follow w =
     (case map_of (pa_sandboxes s) i of
        None \<Rightarrow> Inl (Errorf ''sandbox not found: %s'' [AStr i])
      | Some entry \<Rightarrow>
          if ps_logPath entry = [] then Inl (Errorf ''sandbox logs unavailable for id=%s'' [AStr i])
          else (case ho_ReadFile h (ps_logPath entry) w of Inl err \<Rightarrow> Inl (Errorf ''failed to open sandbox log: %w'' [AWrap err]) | Inr out \<Rightarrow> Inr out))"

text \<open>A command with an environment: \<open>stream_env\<close> is the pipe and the start of one.\<close>

definition proc_Exec :: "(string list \<Rightarrow> string list \<Rightarrow> 'w \<Rightarrow> string result \<times> 'w) \<Rightarrow> 'w host \<Rightarrow> process_state \<Rightarrow> string \<Rightarrow> string list \<Rightarrow> 'w \<Rightarrow> string result \<times> 'w" where
  "proc_Exec stream_env h s i cmd w =
     (case map_of (pa_sandboxes s) i of
        None \<Rightarrow> (Inl (Errorf ''sandbox not found: %s'' [AStr i]), w)
      | Some entry \<Rightarrow>
          if sb_Status (ps_sandbox entry) \<noteq> SandboxStatusRunning then (Inl (Errorf ''sandbox not running: %s'' [AStr i]), w)
          else if cmd = [] then (Inl (Errorf ''no command provided'' []), w)
          else (case ho_StdoutPipe h cmd w of
              Some err \<Rightarrow> (Inl (Errorf ''failed to create stdout pipe: %w'' [AWrap err]), w)
            | None \<Rightarrow> (case stream_env (proc_mergeEnvironment (ho_LookupEnv h) (sb_Environment (ps_sandbox entry))) cmd w of
                (Inl err, w1) \<Rightarrow> (Inl (Errorf ''failed to start exec command: %w'' [AWrap err]), w1) | (Inr out, w1) \<Rightarrow> (Inr out, w1))))"

definition proc_Metrics :: "'f \<Rightarrow> process_state \<Rightarrow> string \<Rightarrow> 'f SandboxMetrics result" where
  "proc_Metrics zero s i =
     (case map_of (pa_sandboxes s) i of
        None \<Rightarrow> Inl (Errorf ''sandbox not found: %s'' [AStr i]) | Some entry \<Rightarrow> Inr (sample_of (sb_ID (ps_sandbox entry)) zero 0))"

section \<open>Tiers and stubs\<close>

definition tier_port :: "'w Adapter \<Rightarrow> ('w tier_state \<times> tier_adapter) SandboxPort" where
  "tier_port a = \<lparr>
     sp_Create = (\<lambda>cfg (s, t). case ad_Deploy a cfg s of (r, s1) \<Rightarrow>
       (case tier_Create (\<lambda>_. map_sum (\<lambda>e. e) Some r) cfg t of (Inl err, t1) \<Rightarrow> (Inl err, s1, t1) | (Inr sb, t1) \<Rightarrow> (Inr (Some sb), s1, t1))),
     sp_Start = (\<lambda>i (s, t). case ad_Start a i s of (r, s1) \<Rightarrow> (r, s1, t)),
     sp_Stop = (\<lambda>i force (s, t). case ad_Stop a i s of (r, s1) \<Rightarrow> (r, s1, t)),
     sp_Delete = (\<lambda>i (s, t). case ad_Delete a i s of (r, s1) \<Rightarrow> (r, s1, snd (tier_Delete (\<lambda>_. r) i t))),
     sp_List = (\<lambda>(s, t). (Inr (tier_List t), s, t)),
     sp_Get = (\<lambda>i (s, t). (case tier_Get i t of Inl err \<Rightarrow> Inl err | Inr sb \<Rightarrow> Inr (Some sb), s, t)),
     sp_Logs = (\<lambda>i follow (s, t). (Inl (Errorf ''tier %d: logs not supported via tier adapter'' [AInt (ta_tierID t)]), s, t)),
     sp_Exec = (\<lambda>i cmd (s, t). (Inl (Errorf ''tier %d: exec not supported via tier adapter'' [AInt (ta_tierID t)]), s, t)),
     sp_PortForward = None\<rparr>"

definition stub_port :: "string \<Rightarrow> 's SandboxPort" where
  "stub_port name = (let e = stub_error name in
     \<lparr>sp_Create = (\<lambda>cfg s. (Inl e, s)), sp_Start = (\<lambda>i s. (Some e, s)), sp_Stop = (\<lambda>i force s. (Some e, s)), sp_Delete = (\<lambda>i s. (Some e, s)),
      sp_List = (\<lambda>s. (Inl e, s)), sp_Get = (\<lambda>i s. (Inl e, s)), sp_Logs = (\<lambda>i follow s. (Inl e, s)), sp_Exec = (\<lambda>i cmd s. (Inl e, s)),
      sp_PortForward = None\<rparr>)"

section \<open>The daemon over these ports\<close>

interpretation fc_daemon: answering_port "fc_port env h" for env h
  by unfold_locales (auto simp: fc_port_def on_table_def fc_Create_def Let_def split: prod.split)

interpretation gv_daemon: answering_port "gv_port env h" for env h
  by unfold_locales (auto simp: gv_port_def on_table_def gv_Create_def Let_def split: prod.split)

interpretation tier_daemon: answering_port "tier_port a" for a
  by unfold_locales (auto simp: tier_port_def split: prod.split sum.split)

interpretation stub_daemon: answering_port "stub_port name" for name
  by unfold_locales (simp add: stub_port_def Let_def)

text \<open>A daemon over any of them answers every request; over a stub, no operation succeeds.\<close>

lemma served_ports_answer:
  "h_Port H = fc_port env h \<Longrightarrow> \<exists>resp d'. NewRouter H renv r d = (Some resp, d')"
  "h_Port H' = gv_port env h \<Longrightarrow> \<exists>resp d'. NewRouter H' renv r d1 = (Some resp, d')"
  "h_Port H'' = tier_port a \<Longrightarrow> \<exists>resp d'. NewRouter H'' renv r d2 = (Some resp, d')"
  "h_Port H3 = stub_port name \<Longrightarrow> \<exists>resp d'. NewRouter H3 renv r d3 = (Some resp, d')"
  by (rule fc_daemon.router_answers gv_daemon.router_answers tier_daemon.router_answers stub_daemon.router_answers, assumption)+

text \<open>Streams and port forwarding leave the tables of the adapter alone.\<close>

lemma on_host_table [simp]: "snd (snd (on_host f st)) = snd st"
  by (simp add: on_host_def split: prod.split)

text \<open>
  A command in a process sandbox sees of the variables of the host only those of the allow list; the others come from the environment of
  the sandbox itself.
\<close>

lemma exec_environment_safe:
  assumes "x \<in> set (proc_mergeEnvironment lookup env)"
  shows "(\<exists>key \<in> set safeVars. \<exists>val. lookup key = Some val \<and> x = key @ ''='' @ val) \<or> (\<exists>(key, val) \<in> set env. x = key @ ''='' @ val)"
proof -
  have "(\<exists>key \<in> set safeVars. x \<in> set (case lookup key of Some val \<Rightarrow> [key @ ''='' @ val] | None \<Rightarrow> [])) \<or> (\<exists>e \<in> set env. x = (\<lambda>(key, val). key @ ''='' @ val) e)"
    using assms unfolding proc_mergeEnvironment_def by (simp add: image_iff)
  then show ?thesis
  proof
    assume "\<exists>key \<in> set safeVars. x \<in> set (case lookup key of Some val \<Rightarrow> [key @ ''='' @ val] | None \<Rightarrow> [])"
    then obtain key where "key \<in> set safeVars" "x \<in> set (case lookup key of Some val \<Rightarrow> [key @ ''='' @ val] | None \<Rightarrow> [])" by blast
    then show ?thesis by (cases "lookup key") (simp_all, blast)
  qed (auto split: prod.splits)
qed

text \<open>
  The memory of a Firecracker machine is always 0: \<open>Sscanf\<close> matches its format from the first character on, and the status file of a
  process begins with its name.
\<close>

lemma fc_memory_zero:
  assumes scan: "\<And>s. \<not> hasPrefix s ''VmRSS:'' \<Longrightarrow> scan s ''VmRSS: %d kB'' = 0"
    and "\<And>path b. ho_ReadFile h path w = Inr b \<Longrightarrow> \<not> hasPrefix b ''VmRSS:''" and "fc_Metrics h scan zero v i w = Inr m"
  shows "sm_MemoryUsage m = 0"
  using assms by (auto simp: fc_Metrics_def sample_of_def split: if_splits option.splits sum.splits)

end
