(* ===== verification/Runtime_Tiers.thy ===== *)
theory Runtime_Tiers
  imports Tier_Adapters Snapshot
begin

text \<open>
  The runtimes of the first three tiers and their registry (\<open>pkg/runtime/runtime.go\<close>), and the request identifiers of the HTTP
  helper (\<open>pkg/pheno-integration\<close>), whose log line is left out. Random bytes are what \<open>rand.Read\<close> gives.
\<close>

section \<open>Runtimes\<close>

record 'w Runtime =
  rt_Name :: string
  rt_Tier :: int
  rt_Deploy :: "SandboxConfig \<Rightarrow> 'w tier_state \<Rightarrow> Sandbox result \<times> 'w tier_state"
  rt_StartupTime :: duration

definition NewTier1Runtime :: "'w host \<Rightarrow> 'w Runtime" where
  "NewTier1Runtime h = \<lparr>rt_Name = ''wasm'', rt_Tier = 1, rt_Deploy = ad_Deploy (NewWASMAdapter h), rt_StartupTime = millis 1\<rparr>"

definition NewTier2Runtime :: "'w host \<Rightarrow> 'w Runtime" where
  "NewTier2Runtime h = \<lparr>rt_Name = ''gvisor'', rt_Tier = 2, rt_Deploy = ad_Deploy (NewGVisorAdapter h), rt_StartupTime = millis 90\<rparr>"

definition NewTier3Runtime :: "'w host \<Rightarrow> 'w Runtime" where
  "NewTier3Runtime h = \<lparr>rt_Name = ''firecracker'', rt_Tier = 3, rt_Deploy = ad_Deploy (NewFirecrackerAdapter h), rt_StartupTime = millis 125\<rparr>"

type_synonym 'w runtimes = "(int, 'w Runtime) gomap"

definition runtime_NewRegistry :: "'w host \<Rightarrow> 'w runtimes" where
  "runtime_NewRegistry h = [(1, NewTier1Runtime h), (2, NewTier2Runtime h), (3, NewTier3Runtime h)]"

definition runtime_Get :: "'w runtimes \<Rightarrow> int \<Rightarrow> 'w Runtime result" where
  "runtime_Get r tier = (case map_of r tier of None \<Rightarrow> Inl (Errorf ''runtime not found for tier %d'' [AInt tier]) | Some rt \<Rightarrow> Inr rt)"

definition runtime_Register :: "int \<Rightarrow> 'w Runtime \<Rightarrow> 'w runtimes \<Rightarrow> 'w runtimes" where
  "runtime_Register tier rt r = AList.update tier rt r"

definition runtime_All :: "'w runtimes \<Rightarrow> 'w Runtime list" where
  "runtime_All r = map snd r"

text \<open>A runtime and the tier adapter it wraps agree on the name, the number, the start-up time and on what a deployment does.\<close>

definition wraps :: "'w Runtime \<Rightarrow> 'w Adapter \<Rightarrow> bool" where
  "wraps rt a \<longleftrightarrow> rt_Name rt = ti_Name (ad_Info a) \<and> rt_Tier rt = ti_Number (ad_Info a) \<and> rt_StartupTime rt = ad_GetStartupTime a \<and> rt_Deploy rt = ad_Deploy a"

lemma runtimes_wrap_tiers:
  "runtime_Get (runtime_NewRegistry h) n = Inr rt \<Longrightarrow> \<exists>a \<in> {NewWASMAdapter h, NewGVisorAdapter h, NewFirecrackerAdapter h}. wraps rt a \<and> rt_Tier rt = n"
  by (auto simp: runtime_Get_def runtime_NewRegistry_def wraps_def NewTier1Runtime_def NewTier2Runtime_def NewTier3Runtime_def NewWASMAdapter_def
      NewGVisorAdapter_def NewFirecrackerAdapter_def split: if_splits)

lemma runtime_Get_Register: "runtime_Get (runtime_Register m rt r) n = (if n = m then Inr rt else runtime_Get r n)"
  by (simp add: runtime_Get_def runtime_Register_def update_conv')

section \<open>Request identifiers\<close>

definition newRequestID :: "8 word list result \<Rightarrow> string" where
  "newRequestID rand =
     (case rand of
        Inl _ \<Rightarrow> ''00000000-0000-4000-8000-000000000000''
      | Inr bytes \<Rightarrow>
          let b = map unat (bytes[6 := (bytes ! 6 AND 0x0F) OR 0x40, 8 := (bytes ! 8 AND 0x3F) OR 0x80]) in
          hexEncode (take 4 b) @ ''-'' @ hexEncode (take 2 (drop 4 b)) @ ''-'' @ hexEncode (take 2 (drop 6 b)) @ ''-'' @
            hexEncode (take 2 (drop 8 b)) @ ''-'' @ hexEncode (take 6 (drop 10 b)))"

text \<open>
  A request is its header and context value here; a handler maps it and the headers of the response to the response. The context has no
  identifier before the middleware.
\<close>

record id_request =
  ir_Header :: string \<comment> \<open>\<open>X-Request-Id\<close>, empty when it is not set\<close>
  ir_Context :: "string option"
  ir_Path :: string

record id_response =
  ip_Header :: string
  ip_Status :: int

definition RequestIDFrom :: "id_request \<Rightarrow> string" where
  "RequestIDFrom r = (case ir_Context r of Some v \<Rightarrow> v | None \<Rightarrow> [])"

definition requestIDMiddleware :: "8 word list result \<Rightarrow> (id_request \<Rightarrow> id_response \<Rightarrow> id_response) \<Rightarrow> id_request \<Rightarrow> id_response \<Rightarrow> id_response" where
  "requestIDMiddleware rand hdl r w =
     (let i = (if ir_Header r = [] then newRequestID rand else ir_Header r) in hdl (r\<lparr>ir_Context := Some i\<rparr>) (w\<lparr>ip_Header := i\<rparr>))"

definition HandleHealthz :: "id_request \<Rightarrow> id_response \<Rightarrow> id_response" where
  "HandleHealthz r w = w\<lparr>ip_Status := 200\<rparr>"

definition InitServer :: "8 word list result \<Rightarrow> id_request \<Rightarrow> id_response \<Rightarrow> id_response" where
  "InitServer rand = requestIDMiddleware rand (\<lambda>r w. if ir_Path r = ''/healthz'' then HandleHealthz r w else w\<lparr>ip_Status := 404\<rparr>)"

text \<open>Every identifier, also the one for a failing source of randomness, has the form of a random UUID, and its version and variant.\<close>

lemma newRequestID_v4:
  assumes "\<And>bytes. rand = Inr bytes \<Longrightarrow> length bytes = 16"
  shows "length (newRequestID rand) = 36 \<and> newRequestID rand ! 14 = CHR ''4'' \<and> newRequestID rand ! 19 \<in> set ''89ab''"
proof (cases rand)
  case (Inr bytes)
  then have "generateUUID (Inr bytes) = Inr (newRequestID (Inr bytes))" by (simp add: newRequestID_def generateUUID_def Let_def)
  from generateUUID_v4 [OF assms [OF Inr] this] show ?thesis by (simp add: Inr)
qed (simp add: newRequestID_def)

text \<open>The handler sees the identifier that the client gets back, and the client's own one where it sent one.\<close>

lemma request_id_echoed:
  assumes "\<And>r w. ip_Header (hdl r w) = ip_Header w"
  shows "ip_Header (requestIDMiddleware rand hdl r w) = (if ir_Header r = [] then newRequestID rand else ir_Header r)"
  using assms by (simp add: requestIDMiddleware_def Let_def)

lemma request_id_in_context:
  "requestIDMiddleware rand (\<lambda>r w. w\<lparr>ip_Header := RequestIDFrom r\<rparr>) r w = requestIDMiddleware rand (\<lambda>r w. w) r w"
  by (simp add: requestIDMiddleware_def RequestIDFrom_def Let_def)

end
