(* ===== verification/Spec2Isabelle.thy ===== *)
theory Spec2Isabelle
  imports Evaluation Service_Lifecycle Process_Adapter Nvms_Config Environment Resilience Snapshot Native_Containers Validation Platform_Adapters Windows_Adapter Plugins Metrics Command_Line Daemon_Ports Runtime_Tiers
begin

text \<open>
  A verification library for NanoVMS, a Go program that runs workloads in sandboxes of many isolation tiers behind a daemon,
  evaluates GPU jobs through Podman under exclusive GPU leases, and prepares CUDA environments. This theory imports the whole
  library and holds the properties that span components.

  \<^bold>\<open>The program and its parts.\<close> A request reaches the program through one of three command lines or through the daemon, an HTTP
  service on a Unix or TCP socket. Four lines of work follow. (1) GPU evaluation: \<open>EvaluationAction.Execute\<close> validates a request,
  takes the inventory of GPUs, locks the output root, inspects the host, reserves the GPUs in a store that several processes share,
  runs one command and checks the job directory it leaves. (2) Orchestration: the engine sends a sandbox configuration to a tier or a
  backend; the tier comes from a registry and a selection policy, the backend from a registry and a probe; adapters keep the
  sandboxes. \<open>ServiceLifecycleAction\<close> starts the containers of a composition and stops them again when one of them fails.
  (3) Environments: the provider plans, applies and verifies a locked CUDA profile. (4) The daemon: the router authenticates, limits
  and audits requests and calls the methods of one \<open>ports.SandboxPort\<close>; its client is \<open>nvms vm\<close>.

  \<^bold>\<open>The theories\<close>, with the sources under \<open>src/\<close> that they translate:

  \<^item> \<open>Go_Prelude\<close>: errors as values, loops with an early return, Go maps, the string functions of the Go library, 64-bit durations; the
    collections \<open>go_simps\<close>, \<open>loop_rules\<close> and \<open>map_rules\<close> that the other theories extend. \<open>Go_Path\<close>: \<open>path.Clean\<close>, \<open>Join\<close>, \<open>Dir\<close>,
    \<open>IsAbs\<close> on Unix paths, with the normal form they compute. \<open>Host\<close>: the functions of \<open>os\<close> and \<open>os/exec\<close> that the adapters
    call, as fields of a record of parameters.
  \<^item> \<open>Gpu_Contracts\<close> (\<open>pkg/gpu/contracts.go\<close>): GPU identities, reconciliation of inventories, compatibility of artifacts, canonical
    manifests. \<open>Gpu_Inventory\<close> (\<open>pkg/gpu/command.go\<close>, \<open>inventory.go\<close>): the bounded command runner and the \<open>nvidia-smi\<close>
    adapters. \<open>Reservation\<close> (\<open>pkg/gpu/reservation.go\<close>): the shared lease store, its file lock, and histories of many clients.
  \<^item> \<open>Backend_Runtime\<close> (\<open>pkg/runtime/backend.go\<close>, \<open>probe.go\<close>): backends, probes, selection. \<open>Runtime_Tiers\<close>
    (\<open>pkg/runtime/runtime.go\<close>, \<open>pkg/pheno-integration\<close>): the runtimes of the first three tiers, request identifiers.
  \<^item> \<open>Error_Codes\<close> (\<open>pkg/orchestrate/error_codes.go\<close>), \<open>Eval_Filesystem\<close> (\<open>evaluation_filesystem.go\<close> and the locks of
    \<open>evaluation.go\<close>), \<open>Evaluation_Data\<close>, \<open>Toolkit_Inspector\<close> (\<open>evaluation_inspector.go\<close>), \<open>Evaluation_Checks\<close> and \<open>Evaluation\<close>
    (\<open>evaluation.go\<close>): the evaluation action from the request to its result. \<open>Service_Lifecycle\<close>
    (\<open>pkg/orchestrate/service_lifecycle.go\<close>).
  \<^item> \<open>Tier_Registry\<close> and \<open>Tier_Policy\<close> (\<open>pkg/tier/registry.go\<close>, \<open>defaults.go\<close>, \<open>policy.go\<close>); \<open>Tier_Adapters\<close> (the thirty adapters of
    \<open>pkg/tier\<close>, one record of methods each) and \<open>Tier_Fleet\<close> (all of them together).
  \<^item> \<open>Sandbox_Ports\<close> (\<open>internal/domain\<close>, \<open>internal/ports\<close>, \<open>sandbox_dispatcher.go\<close>): the contract of a sandbox port as the locale
    \<open>sandbox_port\<close> and its client; \<open>Vm_Adapters\<close> (\<open>internal/adapters/firecracker\<close>, \<open>gvisor\<close>) and \<open>Process_Adapter\<close>
    (\<open>internal/adapters/process\<close>) interpret it. \<open>Engine\<close> (\<open>internal/adapters/sandbox.go\<close>, \<open>pkg/orchestrate/orchestrate.go\<close>,
    \<open>composition.go\<close>): ports by tier, the engine, compositions. \<open>Nvms_Config\<close> (\<open>pkg/config/config.go\<close>), \<open>Validation\<close>
    (\<open>pkg/validate/validate.go\<close>) and \<open>Toml_Config\<close> (\<open>internal/config/config.go\<close>): configuration files, their schema, the TOML subset
    of the service.
  \<^item> \<open>Podman_Adapter\<close> and \<open>Native_Containers\<close> (\<open>internal/adapters/podman\<close>, \<open>containers\<close>), \<open>Native_Sandbox\<close>
    (\<open>internal/adapters/sandbox\<close>: Landlock, seccomp, bwrap, firejail, unshare), \<open>Wasm_Adapter\<close> (\<open>internal/adapters/wasm\<close>),
    \<open>Platform_Adapters\<close> (\<open>linux\<close>, \<open>mac\<close>) and \<open>Windows_Adapter\<close> (\<open>windows\<close>): adapters as the commands and system calls they make.
  \<^item> \<open>Env_Toolkit\<close> and \<open>Environment\<close> (\<open>pkg/environment\<close>): the environment provider over the locale \<open>applied_store\<close>.
  \<^item> \<open>Token\<close> (\<open>internal/token\<close>), \<open>Rate_Limit\<close> (\<open>internal/api/rate_limit.go\<close>, \<open>pkg/ratelimit\<close>), \<open>Audit_Log\<close> (\<open>internal/api/audit.go\<close>),
    \<open>Api_Router\<close> (\<open>internal/api/router.go\<close>), \<open>Listener\<close> (\<open>internal/listen\<close>), \<open>Daemon_Ports\<close> (the ports behind the router) and
    \<open>Daemon_Client\<close> (\<open>internal/sandbox/client.go\<close>): the daemon, from the socket to the port and back. The locale \<open>answering_port\<close> is
    what the router asks of a port; every adapter that is served interprets it.
  \<^item> \<open>Command_Line\<close> (\<open>cmd/nvms\<close>, \<open>cmd/nanovms\<close>, \<open>cmd/agentctl\<close>, \<open>pkg/deploy\<close>), \<open>Plugins\<close> (\<open>internal/plugin\<close>), \<open>Metrics\<close>
    (\<open>pkg/metrics\<close>), \<open>Resilience\<close> (\<open>pkg/resilience\<close>), \<open>Snapshot\<close> (\<open>pkg/snapshot\<close>).

  \<^bold>\<open>How state and effects are modelled.\<close> A struct is a record, an operation a function that returns its results and the new state, a
  mutex-protected section one step. Goroutines that interleave are steps of an inductive relation (\<open>process_step\<close>, the histories of
  leases, \<open>breaker_run\<close>, the two threads of a listener). The file system of the output root is an explicit tree of nodes with injected
  faults; the evaluation carries a trace of its effects. What lies outside the repository (processes, clocks, randomness, JSON, SHA-256,
  signatures, CSV and XML decoders, the kernel) is a parameter, and what is assumed of it is a premise of the theorem that needs
  it. Adapters that run commands work on a world of a type of its own, which the host passes from one command to the next; a theorem
  about their commands takes the log of the commands as the world. Deferred calls of Go are written out in the order in which they run.

  \<^bold>\<open>What the lemmas show.\<close> For leases: mutual exclusion over all histories, all-or-nothing reservation, release of one's own leases only,
  and that an evaluation leaves the store as it found it. For evaluations: the bracket of reservation, command, release and unlocking on
  every path, the evidence behind a success, the consistency of every result. For output roots: cleanup touches only what this run
  created and restores the file system. For lifecycles: completion, or a stop of exactly the started containers in reverse order; the same
  order for plugins. For tiers: the registry's cache, the fastest admissible choice, the isolation of untrusted code, that the table of the
  policy is the one of the adapters, and that no identifier is given out twice. For adapters: deployments are all or nothing, a running
  sandbox always has a live command, no name reaches PowerShell unchecked. For environments: contracts name the locked device and an
  accepted, compatible toolkit; apply and verify agree; both copies of toolkit discovery agree. For the daemon: nothing
  happens without accepted credentials, which tokens are accepted, every request is answered, what was served is what the audit endpoint
  reports, the rate of admitted requests is bounded, and a command of an authorised client is exactly one call of the port. For the breaker: it opens and admits as its history
  says. For snapshots: the in-place sort is the stable sort, and a listing is complete and ordered. For configurations: what is
  written is read back, and the default schema refines the older check. Some properties state a defect of the code as it is: a shutdown of the listener always panics,
  Landlock never confines, container tiers never start what they deployed, \<open>nvms vm\<close> is always refused, and an identifier reaches
  \<open>podman rm\<close> as an option.

  \<^bold>\<open>Bounds and termination.\<close> Recursions are structural or have a termination proof, except three loops that are partial functions into
  \<open>option\<close>: the walk up a path (\<open>walk_up\<close>), which returns on every absolute clean path, and the two lock loops, which may wait forever;
  \<open>lock_loop_returns_iff\<close> characterises when the one of the store returns. No fuel is used. Durations that the program multiplies, UUID
  bytes and token bytes are words; other Go integers are \<open>int\<close> where no operation comes near their range. Float arithmetic of the token
  buckets is a monotone rounding function on reals with a relative error bound; the floats of usage samples are a type parameter.

  \<^bold>\<open>Not modelled.\<close> The YAML, JSON, CSV, XML and PEM decoders and the flag parser's numbers, which are library functions and parameters;
  usage texts and log lines; redirects that an HTTP client follows; the Windows variants of path and lock functions; data types of the
  domain that no operation uses; vendored code (\<open>third_party\<close>) and tests. Byte-wise case mapping covers ASCII only.
  Pointers to sandboxes are copied where no statement depends on sharing.
\<close>

section \<open>Properties that span components\<close>

text \<open>
  C4. An evaluation whose result says the reservation was released leaves no trace in the shared
  reservation file: from the moment of the release on, every GPU is reserved, and by whom, exactly as
  it would have been had the evaluation never run, whatever path the evaluation took (rejected,
  refused, failed after the reservation or completed).
\<close>

theorem Execute_restores_reservations:
  assumes "Execute (Reserve store) (Release store) action env request w = Some ((result, err), w')"
    and "file_ok (ew_store w)" and "er_Released result"
    and "snd (ee_reserve env) \<le> snd (ee_release env)" and "snd (ee_release env) \<le> t"
  shows "live_view (ew_store w') t u = live_view (ew_store w) t u"
  using assms by (rule file_store.Execute_invisible)

theorem Execute_restores_reservations_witness:
  "\<exists>result w'. Execute (Reserve sample_store) (Release sample_store) sample_action sample_env sample_request sample_world =
     Some ((result, None), w') \<and> Reserved lease_0a0b \<in> set (ew_trace w') \<and> live_view (ew_store w') 60 gpu_a = None"
proof (rule sample_execution_run)
  fix result w'
  assume run: "Execute (Reserve sample_store) (Release sample_store) sample_action sample_env sample_request sample_world =
      Some ((result, None), w')"
    and t: "ew_trace w' = [Reserved lease_0a0b, Started ''/usr/bin/harbor'' [''run''], ReleaseTried True, OutputUnlocked, CoordinatorUnlocked]"
  have "er_Released result" using Execute_None [OF run] by blast
  moreover have "file_ok (ew_store sample_world)" "live_view (ew_store sample_world) 60 gpu_a = None"
    by (simp_all add: sample_world_def file_ok_def live_view_def)
  moreover have "snd (ee_reserve sample_env) \<le> snd (ee_release sample_env)" "snd (ee_release sample_env) \<le> 60"
    by (simp_all add: sample_env_def)
  ultimately have "live_view (ew_store w') 60 gpu_a = None"
    using Execute_restores_reservations [OF run] by simp
  with run t show ?thesis by auto
qed

end
